(* ===== verification/Prelude.thy ===== *)
theory Prelude imports Complex_Main "HOL-Library.Char_ord" "HOL-Library.List_Lexorder" "HOL-Library.Sublist"
  "HOL-Library.Multiset"
begin

text \<open>
  Shared vocabulary of the development: the exceptions of the program as values, error
  propagation, Python text operations, JSON-like dynamic values with Python equality, the
  canonical JSON text that fingerprints are taken of, and the outside world (files, hash and
  JSON parser) as an environment record.

  A Python \<open>str\<close> is modelled by its UTF-8 bytes (\<open>string\<close>). Comparisons, sorting,
  concatenation and substring tests agree with Python's on every text; the character classes
  (white space, digits, case) are those of ASCII, so operations that classify characters are
  exact on ASCII text, which is what the governed sources hold.
\<close>

section \<open>Exceptions as values\<close>

text \<open>One constructor for each exception class the modelled code raises or catches; the text
  is the exception's message.\<close>

datatype py_error =
    ValueError string
  | LifecycleError string
  | ConnectorError string
  | OSError string
  | IntegrityError string
  | KeyError string
  | TypeError string
  | AuthConfigError string
  | CloudflareAuthError string nat
  | AuthenticationRequired string
  | AccountDisabled string
  | RoleDenied string
  | ScopeDenied string
  | ReferenceError string
  | IndexError string
  | OverflowError string
  | AttributeError string
  | RuntimeError string

type_synonym 'a result = "py_error + 'a"

definition ebind :: "'a result \<Rightarrow> ('a \<Rightarrow> 'b result) \<Rightarrow> 'b result" where
  "ebind m f = (case m of Inl e \<Rightarrow> Inl e | Inr x \<Rightarrow> f x)"

definition guard :: "bool \<Rightarrow> py_error \<Rightarrow> unit result" where
  "guard b e = (if b then Inr () else Inl e)"

lemma ebind_simps [simp]:
  "ebind (Inl e) f = Inl e"
  "ebind (Inr x) f = f x"
  by (simp_all add: ebind_def)

lemma guard_simps [simp]:
  "guard True e = Inr ()"
  "guard False e = Inl e"
  by (simp_all add: guard_def)

lemma guard_eq_Inr [simp]: "guard b e = Inr u \<longleftrightarrow> b"
  by (simp add: guard_def)

lemma guard_eq_Inl [simp]: "guard b e = Inl e' \<longleftrightarrow> \<not> b \<and> e' = e"
  by (auto simp: guard_def)

lemma ebind_eq_Inr: "ebind m f = Inr y \<longleftrightarrow> (\<exists>x. m = Inr x \<and> f x = Inr y)"
  by (cases m) auto

lemma ebind_eq_Inl: "ebind m f = Inl e \<longleftrightarrow> m = Inl e \<or> (\<exists>x. m = Inr x \<and> f x = Inl e)"
  by (cases m) auto

lemma ebind_InrE:
  assumes "ebind m f = Inr y"
  obtains x where "m = Inr x" "f x = Inr y"
  using assms by (auto simp: ebind_eq_Inr)

lemma ebind_cong [fundef_cong]:
  "m = m' \<Longrightarrow> (\<And>x. m' = Inr x \<Longrightarrow> f x = f' x) \<Longrightarrow> ebind m f = ebind m' f'"
  by (cases m') simp_all

text \<open>A loop whose body may raise: the first error leaves it.\<close>

fun mapM_err :: "('a \<Rightarrow> 'b result) \<Rightarrow> 'a list \<Rightarrow> 'b list result" where
  "mapM_err f [] = Inr []"
| "mapM_err f (x # xs) = ebind (f x) (\<lambda>y. ebind (mapM_err f xs) (\<lambda>ys. Inr (y # ys)))"

fun foldM_err :: "('s \<Rightarrow> 'a \<Rightarrow> 's result) \<Rightarrow> 's \<Rightarrow> 'a list \<Rightarrow> 's result" where
  "foldM_err f s [] = Inr s"
| "foldM_err f s (x # xs) = ebind (f s x) (\<lambda>s'. foldM_err f s' xs)"

lemma foldM_err_append:
  "foldM_err f s (xs @ ys) = ebind (foldM_err f s xs) (\<lambda>s'. foldM_err f s' ys)"
proof (induction xs arbitrary: s)
  case (Cons x xs)
  then show ?case by (cases "f s x") simp_all
qed simp

lemma foldM_err_invariant:
  assumes "foldM_err f s xs = Inr s'" and "I s"
    and "\<And>s x s'. x \<in> set xs \<Longrightarrow> I s \<Longrightarrow> f s x = Inr s' \<Longrightarrow> I s'"
  shows "I s'"
  using assms
proof (induction xs arbitrary: s)
  case (Cons x xs)
  from Cons.prems(1) obtain t where t: "f s x = Inr t" "foldM_err f t xs = Inr s'"
    by (auto elim: ebind_InrE)
  have "I t" by (rule Cons.prems(3) [OF _ Cons.prems(2) t(1)]) simp
  from Cons.IH [OF t(2) this] show ?case
    by (meson Cons.prems(3) list.set_intros(2))
qed simp

lemma mapM_err_length: "mapM_err f xs = Inr ys \<Longrightarrow> length ys = length xs"
  by (induction xs arbitrary: ys) (auto elim!: ebind_InrE)

lemma mapM_err_set:
  "mapM_err f xs = Inr ys \<Longrightarrow> y \<in> set ys \<Longrightarrow> \<exists>x \<in> set xs. f x = Inr y"
  by (induction xs arbitrary: ys) (auto elim!: ebind_InrE)

end
