(* ===== verification/Py_Text.thy ===== *)
theory Py_Text imports Prelude
begin

text \<open>
  The text operations of Python that the program uses: splitting, stripping, joining, case
  folding, digit tests, and decimal numerals, with the lemmas about them.
\<close>

section \<open>Character classes (ASCII)\<close>

definition is_space :: "char \<Rightarrow> bool" where
  "is_space c = (let n = of_char c :: nat in (9 \<le> n \<and> n \<le> 13) \<or> (28 \<le> n \<and> n \<le> 32))"

definition is_digit :: "char \<Rightarrow> bool" where
  "is_digit c = (let n = of_char c :: nat in 48 \<le> n \<and> n \<le> 57)"

definition is_upper :: "char \<Rightarrow> bool" where
  "is_upper c = (let n = of_char c :: nat in 65 \<le> n \<and> n \<le> 90)"

definition is_lower :: "char \<Rightarrow> bool" where
  "is_lower c = (let n = of_char c :: nat in 97 \<le> n \<and> n \<le> 122)"

definition is_alpha :: "char \<Rightarrow> bool" where
  "is_alpha c = (is_upper c \<or> is_lower c)"

definition char_lower :: "char \<Rightarrow> char" where
  "char_lower c = (if is_upper c then char_of (of_char c + 32 :: nat) else c)"

definition char_upper :: "char \<Rightarrow> char" where
  "char_upper c = (if is_lower c then char_of (of_char c - 32 :: nat) else c)"

section \<open>Methods of \<open>str\<close>\<close>

definition py_casefold :: "string \<Rightarrow> string" where
  "py_casefold s = map char_lower s"

definition py_lstrip :: "string \<Rightarrow> string" where
  "py_lstrip s = dropWhile is_space s"

definition py_strip :: "string \<Rightarrow> string" where
  "py_strip s = rev (dropWhile is_space (rev (dropWhile is_space s)))"

text \<open>\<open>isdigit\<close> is false on the empty text.\<close>

definition py_isdigit :: "string \<Rightarrow> bool" where
  "py_isdigit s = (s \<noteq> [] \<and> list_all is_digit s)"

text \<open>\<open>split()\<close>: the maximal runs of non-white-space characters. The accumulator is the current
  run, reversed.\<close>

fun split_runs :: "string \<Rightarrow> string \<Rightarrow> string list" where
  "split_runs acc [] = (if acc = [] then [] else [rev acc])"
| "split_runs acc (c # cs) =
     (if is_space c then (if acc = [] then split_runs [] cs else rev acc # split_runs [] cs)
      else split_runs (c # acc) cs)"

definition py_split :: "string \<Rightarrow> string list" where
  "py_split s = split_runs [] s"

text \<open>\<open>split(c)\<close> at every occurrence of one character, empty parts kept.\<close>

fun split_on :: "char \<Rightarrow> string \<Rightarrow> string list" where
  "split_on d [] = [[]]"
| "split_on d (c # cs) =
     (if c = d then [] # split_on d cs
      else case split_on d cs of [] \<Rightarrow> [[c]] | w # ws \<Rightarrow> (c # w) # ws)"

fun py_join :: "string \<Rightarrow> string list \<Rightarrow> string" where
  "py_join sep [] = []"
| "py_join sep [x] = x"
| "py_join sep (x # y # zs) = x @ sep @ py_join sep (y # zs)"

definition py_in :: "string \<Rightarrow> string \<Rightarrow> bool" where
  "py_in needle hay = list_ex (\<lambda>s. prefix needle s) (suffixes hay)"

definition py_startswith :: "string \<Rightarrow> string \<Rightarrow> bool" where
  "py_startswith s p = prefix p s"

definition py_endswith :: "string \<Rightarrow> string \<Rightarrow> bool" where
  "py_endswith s p = suffix p s"

text \<open>\<open>replace(a, b)\<close> for single characters.\<close>

definition py_replace_char :: "char \<Rightarrow> char \<Rightarrow> string \<Rightarrow> string" where
  "py_replace_char a b s = map (\<lambda>c. if c = a then b else c) s"

text \<open>\<open>title()\<close>: the first letter of every run of letters in upper case, the others lower.\<close>

fun title_from :: "bool \<Rightarrow> string \<Rightarrow> string" where
  "title_from inside [] = []"
| "title_from inside (c # cs) =
     (if inside then char_lower c else char_upper c) # title_from (is_alpha c) cs"

definition py_title :: "string \<Rightarrow> string" where
  "py_title s = title_from False s"

text \<open>The idiom \<open>" ".join(value.split())\<close>.\<close>

definition collapse_spaces :: "string \<Rightarrow> string" where
  "collapse_spaces s = py_join '' '' (py_split s)"

section \<open>Decimal numerals\<close>

definition digit_char :: "nat \<Rightarrow> char" where
  "digit_char n = char_of (48 + n)"

definition char_digit :: "char \<Rightarrow> nat" where
  "char_digit c = of_char c - 48"

fun show_nat :: "nat \<Rightarrow> string" where
  "show_nat n = (if n < 10 then [digit_char n] else show_nat (n div 10) @ [digit_char (n mod 10)])"

declare show_nat.simps [simp del]

definition show_int :: "int \<Rightarrow> string" where
  "show_int i = (if i < 0 then CHR ''-'' # show_nat (nat (- i)) else show_nat (nat i))"

text \<open>A numeral in a field of at least \<open>w\<close> characters, filled with zeros (\<open>:02d\<close>).\<close>

definition show_padded :: "nat \<Rightarrow> nat \<Rightarrow> string" where
  "show_padded w n = (let s = show_nat n in replicate (w - length s) (CHR ''0'') @ s)"

text \<open>The value of a run of digits.\<close>

definition digits_value :: "string \<Rightarrow> nat" where
  "digits_value s = foldl (\<lambda>n c. 10 * n + char_digit c) 0 s"

section \<open>\<open>sorted(set(...))\<close> and counters\<close>

definition sorted_set :: "'a::linorder list \<Rightarrow> 'a list" where
  "sorted_set xs = sort (remdups xs)"

text \<open>\<open>Counter\<close>: keys in the order of their first occurrence.\<close>

fun counter_incr :: "('a \<times> nat) list \<Rightarrow> 'a \<Rightarrow> ('a \<times> nat) list" where
  "counter_incr [] k = [(k, 1)]"
| "counter_incr ((x, n) # c) k = (if x = k then (x, Suc n) # c else (x, n) # counter_incr c k)"

definition counter_get :: "('a \<times> nat) list \<Rightarrow> 'a \<Rightarrow> nat" where
  "counter_get c k = (case map_of c k of None \<Rightarrow> 0 | Some n \<Rightarrow> n)"

definition counter_of :: "'a list \<Rightarrow> ('a \<times> nat) list" where
  "counter_of xs = foldl counter_incr [] xs"

section \<open>Lemmas\<close>

lemma digit_char_props:
  assumes "n < 10"
  shows "is_digit (digit_char n)" "char_digit (digit_char n) = n"
proof -
  from assms have "of_char (digit_char n) = 48 + n" by (simp add: digit_char_def)
  with assms show "is_digit (digit_char n)" "char_digit (digit_char n) = n"
    by (simp_all add: is_digit_def char_digit_def)
qed

lemma digits_value_snoc: "digits_value (s @ [c]) = 10 * digits_value s + char_digit c"
  by (simp add: digits_value_def)

lemma digits_value_show_nat [simp]: "digits_value (show_nat n) = n"
proof (induction n rule: show_nat.induct)
  case (1 n)
  show ?case
  proof (cases "n < 10")
    case True
    then show ?thesis
      by (simp add: show_nat.simps [of n] digits_value_def digit_char_props)
  next
    case False
    with 1 show ?thesis
      by (simp add: show_nat.simps [of n] digits_value_snoc digit_char_props)
  qed
qed

lemma show_nat_digits: "list_all is_digit (show_nat n)"
proof (induction n rule: show_nat.induct)
  case (1 n)
  then show ?case
    by (cases "n < 10") (simp_all add: show_nat.simps [of n] digit_char_props)
qed

lemma show_nat_nonempty [simp]: "show_nat n \<noteq> []"
  by (simp add: show_nat.simps [of n])

lemma py_isdigit_show_nat [simp]: "py_isdigit (show_nat n)"
  by (simp add: py_isdigit_def show_nat_digits)

lemma show_nat_inject [simp]: "show_nat m = show_nat n \<longleftrightarrow> m = n"
  by (metis digits_value_show_nat)

lemma set_sorted_set [simp]: "set (sorted_set xs) = set xs"
  by (simp add: sorted_set_def)

lemma sorted_sorted_set [simp]: "sorted (sorted_set xs)"
  by (simp add: sorted_set_def)

lemma distinct_sorted_set [simp]: "distinct (sorted_set xs)"
  by (simp add: sorted_set_def)

lemma sorted_set_eq_Nil [simp]: "sorted_set xs = [] \<longleftrightarrow> xs = []"
  by (metis set_empty set_sorted_set)

lemma counter_get_incr:
  "counter_get (counter_incr c k) x = (if x = k then Suc (counter_get c x) else counter_get c x)"
  by (induction c k rule: counter_incr.induct) (auto simp: counter_get_def)

lemma counter_get_foldl:
  "counter_get (foldl counter_incr c xs) k = counter_get c k + count_list xs k"
  by (induction xs arbitrary: c) (simp_all add: counter_get_incr)

lemma counter_get_of [simp]: "counter_get (counter_of xs) k = count_list xs k"
  using counter_get_foldl [of "[]" xs k] by (simp add: counter_of_def counter_get_def)

lemma keys_counter_incr: "fst ` set (counter_incr c k) = insert k (fst ` set c)"
  by (induction c k rule: counter_incr.induct) auto

lemma distinct_counter_incr: "distinct (map fst c) \<Longrightarrow> distinct (map fst (counter_incr c k))"
  by (induction c k rule: counter_incr.induct) (auto simp: keys_counter_incr)

lemma keys_counter_foldl: "fst ` set (foldl counter_incr c xs) = fst ` set c \<union> set xs"
  by (induction xs arbitrary: c) (auto simp: keys_counter_incr)

lemma distinct_counter_foldl:
  "distinct (map fst c) \<Longrightarrow> distinct (map fst (foldl counter_incr c xs))"
  by (induction xs arbitrary: c) (auto simp: distinct_counter_incr)

lemma keys_counter_of [simp]: "fst ` set (counter_of xs) = set xs"
  by (simp add: counter_of_def keys_counter_foldl)

lemma distinct_counter_of [simp]: "distinct (map fst (counter_of xs))"
  by (simp add: counter_of_def distinct_counter_foldl)

lemma counter_of_entry: "(k, n) \<in> set (counter_of xs) \<longleftrightarrow> k \<in> set xs \<and> n = count_list xs k"
proof -
  have "(k, n) \<in> set (counter_of xs) \<longleftrightarrow> map_of (counter_of xs) k = Some n"
    by simp
  moreover have "map_of (counter_of xs) k = None \<longleftrightarrow> k \<notin> set xs"
    by (simp add: map_of_eq_None_iff)
  moreover have "map_of (counter_of xs) k = Some m \<Longrightarrow> m = count_list xs k" for m
    using counter_get_of [of xs k] by (simp add: counter_get_def)
  ultimately show ?thesis by (metis not_None_eq)
qed

lemma split_runs_words: "w \<in> set (split_runs acc s) \<Longrightarrow> list_all (\<lambda>c. \<not> is_space c) acc \<Longrightarrow>
    w \<noteq> [] \<and> list_all (\<lambda>c. \<not> is_space c) w"
proof (induction acc s rule: split_runs.induct)
  case (1 acc)
  then show ?case by (simp split: if_splits)
next
  case (2 acc c cs)
  show ?case
  proof (cases "is_space c")
    case True
    with 2 show ?thesis by (cases "acc = []") auto
  next
    case False
    with 2 show ?thesis by simp
  qed
qed

lemma py_split_words: "w \<in> set (py_split s) \<Longrightarrow> w \<noteq> [] \<and> list_all (\<lambda>c. \<not> is_space c) w"
  unfolding py_split_def by (erule split_runs_words) simp

lemma split_runs_id: "list_all (\<lambda>c. \<not> is_space c) s \<Longrightarrow>
    split_runs acc s = (if acc = [] \<and> s = [] then [] else [rev acc @ s])"
  by (induction acc s rule: split_runs.induct) auto

lemma split_runs_append_space: "list_all (\<lambda>c. \<not> is_space c) w \<Longrightarrow> w \<noteq> [] \<Longrightarrow> is_space d \<Longrightarrow>
    split_runs acc (w @ d # rest) = (rev acc @ w) # split_runs [] rest"
proof (induction w arbitrary: acc)
  case (Cons a w)
  then show ?case by (cases "w = []") simp_all
qed simp

lemma py_split_join:
  "(\<forall>w \<in> set ws. w \<noteq> [] \<and> list_all (\<lambda>c. \<not> is_space c) w) \<Longrightarrow> py_split (py_join '' '' ws) = ws"
proof (induction "'' ''" ws rule: py_join.induct)
  case (3 x y zs)
  have sp: "is_space CHR '' ''" by code_simp
  from 3 show ?case by (simp add: py_split_def split_runs_append_space sp)
qed (simp_all add: py_split_def split_runs_id)

lemma collapse_spaces_idem [simp]: "collapse_spaces (collapse_spaces s) = collapse_spaces s"
  by (simp add: collapse_spaces_def py_split_join py_split_words)

lemma collapse_spaces_Nil [simp]: "collapse_spaces [] = []"
  by (simp add: collapse_spaces_def py_split_def)

lemma dropWhile_hd: "dropWhile P xs = [] \<or> \<not> P (hd (dropWhile P xs))"
  using hd_dropWhile by blast

lemma dropWhile_id_hd: "xs = [] \<or> \<not> P (hd xs) \<Longrightarrow> dropWhile P xs = xs"
  by (cases xs) auto

lemma py_strip_edges:
  "py_strip s = [] \<or> (\<not> is_space (hd (py_strip s)) \<and> \<not> is_space (last (py_strip s)))"
proof (cases "py_strip s = []")
  case False
  let ?l = "dropWhile is_space s"
  from False have ne: "dropWhile is_space (rev ?l) \<noteq> []" by (simp add: py_strip_def)
  have last: "\<not> is_space (last (py_strip s))"
    using hd_dropWhile [OF ne] ne by (simp add: py_strip_def last_rev)
  from takeWhile_dropWhile_id [of is_space "rev ?l"]
  have "?l = py_strip s @ rev (takeWhile is_space (rev ?l))"
    unfolding py_strip_def by (metis rev_append rev_rev_ident)
  with False have "hd ?l = hd (py_strip s)" "?l \<noteq> []"
    by (metis hd_append2, metis append_is_Nil_conv)
  then have "\<not> is_space (hd (py_strip s))" using hd_dropWhile by metis
  with last show ?thesis by blast
qed simp

lemma py_strip_idem [simp]: "py_strip (py_strip s) = py_strip s"
proof (cases "py_strip s = []")
  case False
  then have "dropWhile is_space (py_strip s) = py_strip s"
    "dropWhile is_space (rev (py_strip s)) = rev (py_strip s)"
    using py_strip_edges [of s] by (auto intro!: dropWhile_id_hd simp: hd_rev)
  then show ?thesis unfolding py_strip_def [of "py_strip s"] by simp
qed (simp add: py_strip_def [of "[]"])

lemma split_on_join: "d \<notin> set a \<Longrightarrow> split_on d (a @ d # s) = a # split_on d s"
  by (induction a) auto

lemma split_on_none: "d \<notin> set a \<Longrightarrow> split_on d a = [a]"
  by (induction a) auto

end
