(* ===== verification/Py_Value.thy ===== *)
theory Py_Value imports Py_Text
begin

text \<open>
  The dynamically typed values the program reads from JSON, Python's equality on them
  (numbers compare by value, booleans are numbers, dictionaries ignore the order of their
  entries), their \<open>str\<close> and \<open>repr\<close>, and the canonical JSON text that fingerprints are taken
  of. Finite floats are rationals; the shortest decimal text of a float, the hash, the JSON
  parser, the file system and \<open>datetime.fromisoformat\<close> (the year, and whether a time zone is
  given) are fields of the environment \<open>pyenv\<close>.
\<close>

datatype pyval =
    PNone
  | PBool bool
  | PInt int
  | PFloat rat
  | PStr string
  | PList "pyval list"
  | PDict "(string \<times> pyval) list"

type_synonym pydict = "(string \<times> pyval) list"

record pyenv =
  json_loads :: "string \<Rightarrow> pyval option"
  sha256_hex :: "string \<Rightarrow> string"
  float_repr :: "rat \<Rightarrow> string"
  read_bytes :: "string list \<Rightarrow> string option"
  resolve_path :: "string list \<Rightarrow> string list"
  iso_datetime_year :: "string \<Rightarrow> (int \<times> bool) option"

section \<open>Access and tests\<close>

definition py_get :: "pydict \<Rightarrow> string \<Rightarrow> pyval" where
  "py_get d k = (case map_of d k of None \<Rightarrow> PNone | Some v \<Rightarrow> v)"

text \<open>\<open>dict(value)\<close> followed by assignments: an existing key keeps its place, a new one goes last.\<close>

fun py_set :: "pydict \<Rightarrow> string \<Rightarrow> pyval \<Rightarrow> pydict" where
  "py_set [] k v = [(k, v)]"
| "py_set ((x, w) # d) k v = (if x = k then (x, v) # d else (x, w) # py_set d k v)"

definition py_keys :: "pydict \<Rightarrow> string list" where
  "py_keys d = remdups (map fst d)"

fun is_mapping :: "pyval \<Rightarrow> bool" where
  "is_mapping (PDict d) = True"
| "is_mapping _ = False"

fun is_str :: "pyval \<Rightarrow> bool" where
  "is_str (PStr s) = True"
| "is_str _ = False"

fun py_truthy :: "pyval \<Rightarrow> bool" where
  "py_truthy PNone = False"
| "py_truthy (PBool b) = b"
| "py_truthy (PInt i) = (i \<noteq> 0)"
| "py_truthy (PFloat r) = (r \<noteq> 0)"
| "py_truthy (PStr s) = (s \<noteq> [])"
| "py_truthy (PList xs) = (xs \<noteq> [])"
| "py_truthy (PDict d) = (d \<noteq> [])"

fun num_of :: "pyval \<Rightarrow> rat option" where
  "num_of (PBool b) = Some (if b then 1 else 0)"
| "num_of (PInt i) = Some (of_int i)"
| "num_of (PFloat r) = Some r"
| "num_of _ = None"

fun py_eq :: "pyval \<Rightarrow> pyval \<Rightarrow> bool" where
  "py_eq (PList xs) (PList ys) = list_all2 py_eq xs ys"
| "py_eq (PDict d) (PDict e) =
     (length d = length e \<and>
      (\<forall>kv \<in> set d. case map_of e (fst kv) of None \<Rightarrow> False | Some w \<Rightarrow> py_eq (snd kv) w))"
| "py_eq a b = (case (num_of a, num_of b) of (Some x, Some y) \<Rightarrow> x = y | _ \<Rightarrow> a = b)"

section \<open>Text of a value\<close>

definition hex_digit :: "nat \<Rightarrow> char" where
  "hex_digit n = (if n < 10 then char_of (48 + n) else char_of (87 + n))"

definition hex2 :: "char \<Rightarrow> string" where
  "hex2 c = (let n = of_char c :: nat in [hex_digit (n div 16), hex_digit (n mod 16)])"

text \<open>The characters of a string literal as \<open>repr\<close> writes them with the quote \<open>q\<close>.\<close>

definition repr_char :: "char \<Rightarrow> char \<Rightarrow> string" where
  "repr_char q c =
     (if c = q \<or> c = CHR 0x5C then [CHR 0x5C, c]
      else if c = CHR 0x0A then [CHR 0x5C, CHR ''n'']
      else if c = CHR 0x0D then [CHR 0x5C, CHR ''r'']
      else if c = CHR 0x09 then [CHR 0x5C, CHR ''t'']
      else if (of_char c :: nat) < 32 \<or> (of_char c :: nat) = 127 then [CHR 0x5C, CHR ''x''] @ hex2 c
      else [c])"

definition repr_str :: "string \<Rightarrow> string" where
  "repr_str s =
     (let q = (if CHR 0x27 \<in> set s \<and> CHR 0x22 \<notin> set s then CHR 0x22 else CHR 0x27)
      in q # concat (map (repr_char q) s) @ [q])"

fun py_repr :: "('a pyenv_scheme) \<Rightarrow> pyval \<Rightarrow> string" where
  "py_repr env PNone = ''None''"
| "py_repr env (PBool b) = (if b then ''True'' else ''False'')"
| "py_repr env (PInt i) = show_int i"
| "py_repr env (PFloat r) = float_repr env r"
| "py_repr env (PStr s) = repr_str s"
| "py_repr env (PList xs) = ''['' @ py_join '', '' (map (py_repr env) xs) @ '']''"
| "py_repr env (PDict d) =
     ''{'' @ py_join '', '' (map (\<lambda>kv. repr_str (fst kv) @ '': '' @ py_repr env (snd kv)) d) @ ''}''"

definition py_str :: "('a pyenv_scheme) \<Rightarrow> pyval \<Rightarrow> string" where
  "py_str env v = (case v of PStr s \<Rightarrow> s | _ \<Rightarrow> py_repr env v)"

section \<open>Canonical JSON and fingerprints\<close>

definition json_char :: "char \<Rightarrow> string" where
  "json_char c =
     (if c = CHR 0x22 \<or> c = CHR 0x5C then [CHR 0x5C, c]
      else if c = CHR 0x0A then [CHR 0x5C, CHR ''n'']
      else if c = CHR 0x0D then [CHR 0x5C, CHR ''r'']
      else if c = CHR 0x09 then [CHR 0x5C, CHR ''t'']
      else if c = CHR 0x0C then [CHR 0x5C, CHR ''f'']
      else if c = CHR 0x08 then [CHR 0x5C, CHR ''b'']
      else if (of_char c :: nat) < 32 then [CHR 0x5C, CHR ''u'', CHR ''0'', CHR ''0''] @ hex2 c
      else [c])"

definition json_string :: "string \<Rightarrow> string" where
  "json_string s = [CHR 0x22] @ concat (map json_char s) @ [CHR 0x22]"

text \<open>\<open>canonical_json_bytes\<close>: keys sorted, no spaces, non-ASCII text kept
  (\<open>sort_keys=True, separators=(",", ":"), ensure_ascii=False\<close>).\<close>

fun canonical_json_bytes :: "('a pyenv_scheme) \<Rightarrow> pyval \<Rightarrow> string" where
  "canonical_json_bytes env PNone = ''null''"
| "canonical_json_bytes env (PBool b) = (if b then ''true'' else ''false'')"
| "canonical_json_bytes env (PInt i) = show_int i"
| "canonical_json_bytes env (PFloat r) = float_repr env r"
| "canonical_json_bytes env (PStr s) = json_string s"
| "canonical_json_bytes env (PList xs) =
     ''['' @ py_join '','' (map (canonical_json_bytes env) xs) @ '']''"
| "canonical_json_bytes env (PDict d) =
     ''{'' @ py_join '',''
       (map (\<lambda>kt. json_string (fst kt) @ '':'' @ snd kt)
         (sort_key fst (map (\<lambda>kv. (fst kv, canonical_json_bytes env (snd kv))) d))) @ ''}''"

definition sha256_bytes :: "('a pyenv_scheme) \<Rightarrow> string \<Rightarrow> string" where
  "sha256_bytes env content = sha256_hex env content"

definition canonical_fingerprint :: "('a pyenv_scheme) \<Rightarrow> pyval \<Rightarrow> string" where
  "canonical_fingerprint env v = sha256_bytes env (canonical_json_bytes env v)"

section \<open>Lemmas\<close>

lemma py_get_Nil [simp]: "py_get [] k = PNone"
  by (simp add: py_get_def)

lemma py_get_Cons [simp]: "py_get ((x, v) # d) k = (if k = x then v else py_get d k)"
  by (simp add: py_get_def)

lemma map_of_py_set: "map_of (py_set d k v) j = (if j = k then Some v else map_of d j)"
  by (induction d k v rule: py_set.induct) auto

lemma py_get_py_set [simp]: "py_get (py_set d k v) j = (if j = k then v else py_get d j)"
  by (simp add: py_get_def map_of_py_set)

lemma py_get_not_None: "py_get d k \<noteq> PNone \<Longrightarrow> k \<in> fst ` set d"
  by (induction d) (auto split: if_splits)

lemma set_py_keys [simp]: "set (py_keys d) = fst ` set d"
  by (simp add: py_keys_def)

lemma distinct_py_keys [simp]: "distinct (py_keys d)"
  by (simp add: py_keys_def)

lemma py_eq_PStr [simp]:
  "py_eq v (PStr s) \<longleftrightarrow> v = PStr s"
  "py_eq (PStr s) v \<longleftrightarrow> v = PStr s"
  by (cases v; auto)+

lemma py_eq_PNone [simp]:
  "py_eq v PNone \<longleftrightarrow> v = PNone"
  "py_eq PNone v \<longleftrightarrow> v = PNone"
  by (cases v; auto)+

lemma is_mapping_iff: "is_mapping v \<longleftrightarrow> (\<exists>d. v = PDict d)"
  by (cases v) auto

lemma is_str_iff: "is_str v \<longleftrightarrow> (\<exists>s. v = PStr s)"
  by (cases v) auto

text \<open>Values whose dictionaries have distinct keys, which is what the JSON parser returns.\<close>

fun wf_pyval :: "pyval \<Rightarrow> bool" where
  "wf_pyval (PList xs) = list_all wf_pyval xs"
| "wf_pyval (PDict d) = (distinct (map fst d) \<and> (\<forall>kv \<in> set d. wf_pyval (snd kv)))"
| "wf_pyval _ = True"

lemma py_eq_refl: "wf_pyval v \<Longrightarrow> py_eq v v"
proof (induction v)
  case (PList xs)
  then have "\<forall>x \<in> set xs. py_eq x x" by (auto simp: list_all_iff)
  then show ?case by (simp add: list_all2_same)
next
  case (PDict d)
  have "case map_of d (fst kv) of None \<Rightarrow> False | Some w \<Rightarrow> py_eq (snd kv) w" if "kv \<in> set d" for kv
  proof -
    from that PDict.prems have "map_of d (fst kv) = Some (snd kv)"
      by (simp add: map_of_eq_Some_iff)
    moreover have "py_eq (snd kv) (snd kv)"
      using PDict.IH [OF that, of "snd kv"] PDict.prems that by (simp add: snds.intros)
    ultimately show ?thesis by simp
  qed
  then show ?case by simp
qed simp_all

end
