(* ===== verification/Store_Interfaces.thy ===== *)
theory Store_Interfaces imports Py_Value
begin

text \<open>
  The two interfaces the stateful components rely on, each a locale with its client lemmas:
  a table addressed by its primary key, and a machine whose operations run one transaction
  each. The tables are lists in insertion order, searched and updated by key.
\<close>

section \<open>Tables\<close>

definition tbl_find :: "('r \<Rightarrow> 'k) \<Rightarrow> 'r list \<Rightarrow> 'k \<Rightarrow> 'r option" where
  "tbl_find key rows k = find (\<lambda>r. key r = k) rows"

definition tbl_update :: "('r \<Rightarrow> 'k) \<Rightarrow> 'k \<Rightarrow> ('r \<Rightarrow> 'r) \<Rightarrow> 'r list \<Rightarrow> 'r list" where
  "tbl_update key k f rows = map (\<lambda>r. if key r = k then f r else r) rows"

lemma tbl_find_SomeD: "tbl_find key rows k = Some r \<Longrightarrow> r \<in> set rows \<and> key r = k"
  unfolding tbl_find_def by (induction rows) (auto split: if_splits)

lemma tbl_find_None_iff: "tbl_find key rows k = None \<longleftrightarrow> k \<notin> key ` set rows"
  unfolding tbl_find_def by (induction rows) auto

lemma tbl_find_mem:
  "distinct (map key rows) \<Longrightarrow> r \<in> set rows \<Longrightarrow> tbl_find key rows (key r) = Some r"
  unfolding tbl_find_def by (induction rows) (auto simp: rev_image_eqI)

lemma tbl_find_append: "tbl_find key (rows @ [r]) k =
    (case tbl_find key rows k of None \<Rightarrow> (if key r = k then Some r else None) | Some q \<Rightarrow> Some q)"
  unfolding tbl_find_def by (induction rows) auto

lemma map_key_tbl_update:
  "(\<And>r. key (f r) = key r) \<Longrightarrow> map key (tbl_update key k f rows) = map key rows"
  by (simp add: tbl_update_def)

lemma tbl_find_update:
  assumes "\<And>r. key (f r) = key r"
  shows "tbl_find key (tbl_update key k f rows) j =
    (if j = k then map_option f (tbl_find key rows k) else tbl_find key rows j)"
  unfolding tbl_find_def tbl_update_def using assms by (induction rows) auto

lemma in_tbl_update:
  "r \<in> set (tbl_update key k f rows) \<Longrightarrow>
    \<exists>q \<in> set rows. (key q = k \<and> r = f q) \<or> (key q \<noteq> k \<and> r = q)"
  by (auto simp: tbl_update_def)

text \<open>What a client of a keyed table relies on.\<close>

locale keyed_table =
  fixes key :: "'r \<Rightarrow> 'k"
    and lookup :: "'r list \<Rightarrow> 'k \<Rightarrow> 'r option"
    and insert_row :: "'r \<Rightarrow> 'r list \<Rightarrow> 'r list"
    and update_row :: "'k \<Rightarrow> ('r \<Rightarrow> 'r) \<Rightarrow> 'r list \<Rightarrow> 'r list"
  assumes lookup_key: "lookup t k = Some r \<Longrightarrow> key r = k"
    and lookup_insert: "lookup t (key r) = None \<Longrightarrow>
      lookup (insert_row r t) k = (if k = key r then Some r else lookup t k)"
    and lookup_update: "(\<And>r. key (f r) = key r) \<Longrightarrow>
      lookup (update_row k f t) j = (if j = k then map_option f (lookup t k) else lookup t j)"
begin

lemma insert_frame: "lookup t (key r) = None \<Longrightarrow> lookup t k = Some q \<Longrightarrow>
    lookup (insert_row r t) k = Some q"
  by (auto simp: lookup_insert)

lemma update_other: "(\<And>r. key (f r) = key r) \<Longrightarrow> j \<noteq> k \<Longrightarrow>
    lookup (update_row k f t) j = lookup t j"
  by (simp add: lookup_update)

lemma update_update: "(\<And>r. key (f r) = key r) \<Longrightarrow> (\<And>r. key (g r) = key r) \<Longrightarrow>
    lookup (update_row k g (update_row k f t)) j = lookup (update_row k (g \<circ> f) t) j"
  by (cases "lookup t k") (simp_all add: lookup_update)

lemma insert_then_update: "lookup t (key r) = None \<Longrightarrow> (\<And>r. key (f r) = key r) \<Longrightarrow>
    lookup (update_row (key r) f (insert_row r t)) (key r) = Some (f r)"
  by (simp add: lookup_update lookup_insert)

end

section \<open>Transactions\<close>

text \<open>
  One operation is one transaction: when it raises, the caller's transaction is rolled back and
  the state is the one before it. A run is a sequence of attempted operations.
\<close>

definition attempt :: "('s \<Rightarrow> 'e \<Rightarrow> ('s \<times> 'r) result) \<Rightarrow> 's \<Rightarrow> 'e \<Rightarrow> 's" where
  "attempt step s e = (case step s e of Inl _ \<Rightarrow> s | Inr (s', _) \<Rightarrow> s')"

definition run_all :: "('s \<Rightarrow> 'e \<Rightarrow> ('s \<times> 'r) result) \<Rightarrow> 's \<Rightarrow> 'e list \<Rightarrow> 's" where
  "run_all step s es = foldl (attempt step) s es"

lemma run_all_Nil [simp]: "run_all step s [] = s"
  by (simp add: run_all_def)

lemma run_all_Cons [simp]: "run_all step s (e # es) = run_all step (attempt step s e) es"
  by (simp add: run_all_def)

locale transactional_machine =
  fixes step :: "'s \<Rightarrow> 'e \<Rightarrow> ('s \<times> 'r) result"
    and inv :: "'s \<Rightarrow> bool"
  assumes step_inv: "inv s \<Longrightarrow> step s e = Inr (s', r) \<Longrightarrow> inv s'"
begin

lemma attempt_inv: "inv s \<Longrightarrow> inv (attempt step s e)"
  by (auto simp: attempt_def split: sum.splits intro: step_inv)

lemma run_inv: "inv s \<Longrightarrow> inv (run_all step s es)"
  by (induction es arbitrary: s) (simp_all add: attempt_inv)

end

text \<open>A machine whose states only ever move up in a preorder.\<close>

locale monotone_machine = transactional_machine +
  fixes below :: "'s \<Rightarrow> 's \<Rightarrow> bool"
  assumes below_refl: "below s s"
    and below_trans: "below s t \<Longrightarrow> below t u \<Longrightarrow> below s u"
    and step_below: "inv s \<Longrightarrow> step s e = Inr (s', r) \<Longrightarrow> below s s'"
begin

lemma attempt_below: "inv s \<Longrightarrow> below s (attempt step s e)"
  by (auto simp: attempt_def below_refl split: sum.splits intro: step_below)

lemma run_below: "inv s \<Longrightarrow> below s (run_all step s es)"
proof (induction es arbitrary: s)
  case Nil
  show ?case by (simp add: below_refl)
next
  case (Cons e es)
  have "below s (attempt step s e)" by (rule attempt_below) (rule Cons.prems)
  moreover have "below (attempt step s e) (run_all step (attempt step s e) es)"
    by (rule Cons.IH) (rule attempt_inv, rule Cons.prems)
  ultimately show ?case by (simp add: below_trans)
qed

end

end
