(* ===== verification/Snapshot_Store.thy ===== *)
theory Snapshot_Store imports Store_Interfaces
begin

text \<open>
  The tables of \<open>hosted_app/source_snapshot_lifecycle.py\<close> and their constraints: source
  snapshots, their rows, the disappearances they record and the pointer of each source family
  to its active snapshot. An insert or update that breaks a declared key, uniqueness, check
  or foreign-key constraint raises \<open>IntegrityError\<close>.
\<close>

section \<open>Rows\<close>

datatype lifecycle = Candidate | Validated | Rejected | Accepted

fun lifecycle_text :: "lifecycle \<Rightarrow> string" where
  "lifecycle_text Candidate = ''candidate''"
| "lifecycle_text Validated = ''validated''"
| "lifecycle_text Rejected = ''rejected''"
| "lifecycle_text Accepted = ''accepted''"

definition OFFLINE_FIXTURE_SCOPE :: string where
  "OFFLINE_FIXTURE_SCOPE = ''repository_synthetic_fixture''"

definition LIVE_QUERY_SCOPE :: string where
  "LIVE_QUERY_SCOPE = ''governed_live_query''"

record snapshot =
  snapshot_id :: string
  source_family_id :: string
  fixture_scope :: string
  observation_kind :: string
  lifecycle_state :: lifecycle
  manifest_ref :: string
  manifest_sha256 :: string
  raw_payload_ref :: string
  raw_payload_sha256 :: string
  normalized_content_sha256 :: string
  schema_fingerprint :: string
  domain_fingerprint :: string
  row_count :: int
  stored_row_count :: int
  duplicate_object_id_count :: int
  duplicate_facility_number_count :: int
  omitted_field_count :: int
  invalid_field_count :: int
  warning_count :: int
  rejection_reason_count :: int
  validation_report :: pydict
  recorded_at :: string
  validated_at :: "string option"
  rejected_at :: "string option"
  accepted_at :: "string option"

record arcgis_row =
  source_object_id :: int
  facility_number :: "string option"
  raw_record :: pydict
  normalized_record :: pydict
  row_fingerprint :: string

record disappearance =
  prior_snapshot_id :: string
  dis_source_object_id :: int
  dis_facility_number :: "string option"
  prior_row_fingerprint :: string
  review_state :: string
  closure_inferred :: bool

record pointer =
  ptr_source_family_id :: string
  active_snapshot_id :: string
  prior_accepted_snapshot_id :: "string option"
  updated_at :: string

record snapshot_db =
  source_snapshots :: "snapshot list"
  source_snapshot_rows :: "(string \<times> arcgis_row) list"
  source_snapshot_disappearances :: "(string \<times> disappearance) list"
  source_snapshot_pointers :: "pointer list"

definition empty_db :: snapshot_db where
  "empty_db = \<lparr>source_snapshots = [], source_snapshot_rows = [],
     source_snapshot_disappearances = [], source_snapshot_pointers = []\<rparr>"

section \<open>Constraints and statements\<close>

definition snapshot_checks :: "snapshot \<Rightarrow> bool" where
  "snapshot_checks s \<longleftrightarrow>
     fixture_scope s \<in> {''repository_synthetic_fixture'', ''governed_live_query'', ''governed_transparencyapi''} \<and>
     observation_kind s \<in> {''synthetic_query'', ''synthetic_export'', ''live_query'', ''bulk_export_family''} \<and>
     0 \<le> row_count s \<and> 0 \<le> stored_row_count s"

definition fixture_identity :: "snapshot \<Rightarrow> string \<times> string \<times> string" where
  "fixture_identity s = (source_family_id s, manifest_sha256 s, raw_payload_sha256 s)"

definition snapshot_ids :: "'z snapshot_db_scheme \<Rightarrow> string list" where
  "snapshot_ids db = map snapshot_id (source_snapshots db)"

definition find_snapshot :: "'z snapshot_db_scheme \<Rightarrow> string \<Rightarrow> snapshot option" where
  "find_snapshot db i = tbl_find snapshot_id (source_snapshots db) i"

definition find_pointer :: "'z snapshot_db_scheme \<Rightarrow> string \<Rightarrow> pointer option" where
  "find_pointer db fam = tbl_find ptr_source_family_id (source_snapshot_pointers db) fam"

definition insert_snapshot ::
  "snapshot \<Rightarrow> 'z snapshot_db_scheme \<Rightarrow> 'z snapshot_db_scheme result" where
  "insert_snapshot s db =
     ebind (guard (snapshot_checks s) (IntegrityError ''ck_hosted_source_snapshots'')) (\<lambda>_.
     ebind (guard (snapshot_id s \<notin> set (snapshot_ids db))
             (IntegrityError ''hosted_source_snapshots_pkey'')) (\<lambda>_.
     ebind (guard (fixture_identity s \<notin> fixture_identity ` set (source_snapshots db))
             (IntegrityError ''uq_hosted_source_snapshots_fixture_identity'')) (\<lambda>_.
     Inr (db\<lparr>source_snapshots := source_snapshots db @ [s]\<rparr>))))"

definition update_snapshot ::
  "string \<Rightarrow> (snapshot \<Rightarrow> snapshot) \<Rightarrow> 'z snapshot_db_scheme \<Rightarrow> 'z snapshot_db_scheme" where
  "update_snapshot i f db =
     db\<lparr>source_snapshots := tbl_update snapshot_id i f (source_snapshots db)\<rparr>"

definition row_key :: "string \<times> arcgis_row \<Rightarrow> string \<times> int" where
  "row_key sr = (fst sr, source_object_id (snd sr))"

definition insert_snapshot_row ::
  "string \<Rightarrow> 'z snapshot_db_scheme \<Rightarrow> arcgis_row \<Rightarrow> 'z snapshot_db_scheme result" where
  "insert_snapshot_row i db r =
     ebind (guard (row_key (i, r) \<notin> row_key ` set (source_snapshot_rows db))
             (IntegrityError ''hosted_source_snapshot_rows_pkey'')) (\<lambda>_.
     ebind (guard (i \<in> set (snapshot_ids db))
             (IntegrityError ''hosted_source_snapshot_rows_snapshot_id_fkey'')) (\<lambda>_.
     Inr (db\<lparr>source_snapshot_rows := source_snapshot_rows db @ [(i, r)]\<rparr>)))"

definition disappearance_key :: "string \<times> disappearance \<Rightarrow> string \<times> int" where
  "disappearance_key sd = (fst sd, dis_source_object_id (snd sd))"

definition disappearance_checks :: "disappearance \<Rightarrow> bool" where
  "disappearance_checks d \<longleftrightarrow>
     review_state d = ''pending_reconciliation'' \<and> closure_inferred d = False"

definition insert_disappearance ::
  "string \<Rightarrow> 'z snapshot_db_scheme \<Rightarrow> disappearance \<Rightarrow> 'z snapshot_db_scheme result" where
  "insert_disappearance i db d =
     ebind (guard (disappearance_checks d)
             (IntegrityError ''ck_hosted_source_snapshot_disappearances'')) (\<lambda>_.
     ebind (guard (disappearance_key (i, d) \<notin>
                    disappearance_key ` set (source_snapshot_disappearances db))
             (IntegrityError ''hosted_source_snapshot_disappearances_pkey'')) (\<lambda>_.
     ebind (guard (i \<in> set (snapshot_ids db) \<and> prior_snapshot_id d \<in> set (snapshot_ids db))
             (IntegrityError ''hosted_source_snapshot_disappearances_fkey'')) (\<lambda>_.
     Inr (db\<lparr>source_snapshot_disappearances := source_snapshot_disappearances db @ [(i, d)]\<rparr>))))"

text \<open>What the pointer table requires of a row beside the other rows.\<close>

definition pointer_checks :: "'z snapshot_db_scheme \<Rightarrow> pointer list \<Rightarrow> pointer \<Rightarrow> bool" where
  "pointer_checks db others p \<longleftrightarrow>
     prior_accepted_snapshot_id p \<noteq> Some (active_snapshot_id p) \<and>
     active_snapshot_id p \<notin> active_snapshot_id ` set others \<and>
     active_snapshot_id p \<in> set (snapshot_ids db) \<and>
     (case prior_accepted_snapshot_id p of None \<Rightarrow> True | Some i \<Rightarrow> i \<in> set (snapshot_ids db))"

definition insert_pointer ::
  "pointer \<Rightarrow> 'z snapshot_db_scheme \<Rightarrow> 'z snapshot_db_scheme result" where
  "insert_pointer p db =
     ebind (guard (ptr_source_family_id p \<notin> ptr_source_family_id ` set (source_snapshot_pointers db))
             (IntegrityError ''hosted_source_snapshot_pointers_pkey'')) (\<lambda>_.
     ebind (guard (pointer_checks db (source_snapshot_pointers db) p)
             (IntegrityError ''hosted_source_snapshot_pointers'')) (\<lambda>_.
     Inr (db\<lparr>source_snapshot_pointers := source_snapshot_pointers db @ [p]\<rparr>)))"

definition update_pointer ::
  "string \<Rightarrow> (pointer \<Rightarrow> pointer) \<Rightarrow> 'z snapshot_db_scheme \<Rightarrow> 'z snapshot_db_scheme result" where
  "update_pointer fam f db =
     ebind (guard (\<forall>p \<in> set (source_snapshot_pointers db). ptr_source_family_id p = fam \<longrightarrow>
                     pointer_checks db
                       (filter (\<lambda>q. ptr_source_family_id q \<noteq> fam) (source_snapshot_pointers db)) (f p))
             (IntegrityError ''hosted_source_snapshot_pointers'')) (\<lambda>_.
     Inr (db\<lparr>source_snapshot_pointers :=
            tbl_update ptr_source_family_id fam f (source_snapshot_pointers db)\<rparr>))"

section \<open>The tables as keyed tables\<close>

interpretation snapshots_tbl: keyed_table snapshot_id "tbl_find snapshot_id"
    "\<lambda>r rows. rows @ [r]" "tbl_update snapshot_id"
  by unfold_locales
     (auto simp: tbl_find_append tbl_find_update dest: tbl_find_SomeD split: option.splits)

interpretation pointers_tbl: keyed_table ptr_source_family_id "tbl_find ptr_source_family_id"
    "\<lambda>r rows. rows @ [r]" "tbl_update ptr_source_family_id"
  by unfold_locales
     (auto simp: tbl_find_append tbl_find_update dest: tbl_find_SomeD split: option.splits)

lemma find_snapshot_SomeD:
  "find_snapshot db i = Some s \<Longrightarrow> s \<in> set (source_snapshots db) \<and> snapshot_id s = i"
  unfolding find_snapshot_def by (rule tbl_find_SomeD)

lemma find_pointer_SomeD: "find_pointer db fam = Some p \<Longrightarrow>
    p \<in> set (source_snapshot_pointers db) \<and> ptr_source_family_id p = fam"
  unfolding find_pointer_def by (rule tbl_find_SomeD)

lemma find_snapshot_None_iff: "find_snapshot db i = None \<longleftrightarrow> i \<notin> set (snapshot_ids db)"
  by (simp add: find_snapshot_def tbl_find_None_iff snapshot_ids_def)

lemma find_pointer_None_iff: "find_pointer db fam = None \<longleftrightarrow>
    fam \<notin> ptr_source_family_id ` set (source_snapshot_pointers db)"
  by (simp add: find_pointer_def tbl_find_None_iff)

lemma find_snapshot_update:
  assumes "\<And>s. snapshot_id (f s) = snapshot_id s"
  shows "find_snapshot (update_snapshot i f db) j =
    (if j = i then map_option f (find_snapshot db i) else find_snapshot db j)"
  using snapshots_tbl.lookup_update [OF assms]
  by (simp add: find_snapshot_def update_snapshot_def)

lemma snapshot_ids_update [simp]:
  assumes "\<And>s. snapshot_id (f s) = snapshot_id s"
  shows "snapshot_ids (update_snapshot i f db) = snapshot_ids db"
  using assms by (simp add: snapshot_ids_def update_snapshot_def map_key_tbl_update)

lemma update_snapshot_frame [simp]:
  "source_snapshot_pointers (update_snapshot i f db) = source_snapshot_pointers db"
  "source_snapshot_rows (update_snapshot i f db) = source_snapshot_rows db"
  "source_snapshot_disappearances (update_snapshot i f db) = source_snapshot_disappearances db"
  by (simp_all add: update_snapshot_def)

end
