(* ===== verification/Snapshot_Lifecycle.thy ===== *)
theory Snapshot_Lifecycle imports Snapshot_Store
begin

text \<open>
  The state machine of source snapshots (\<open>hosted_app/source_snapshot_lifecycle.py\<close>, from
  \<open>validate_source_snapshot\<close> to \<open>rollback_source_snapshot\<close>): a candidate is validated or
  rejected, a validated snapshot is accepted, an accepted one becomes the active snapshot of
  its source family, and a rollback swaps the active snapshot with the prior accepted one. Each
  operation returns the new database with its result, or the exception it raises. The ArcGIS
  and TransparencyAPI wrappers fix the source family and the scope.
\<close>

section \<open>Lookups and assertions\<close>

definition ISOLATED_NONPRODUCTION_SCOPE :: string where
  "ISOLATED_NONPRODUCTION_SCOPE = ''isolated_nonproduction''"

definition ARCGIS_SUPPLEMENT_SOURCE_FAMILY_ID :: string where
  "ARCGIS_SUPPLEMENT_SOURCE_FAMILY_ID = ''arcgis-ccl-facilities-supplement''"

definition snapshot_record :: "'z snapshot_db_scheme \<Rightarrow> string \<Rightarrow> snapshot result" where
  "snapshot_record db i =
     (case find_snapshot db i of
        None \<Rightarrow> Inl (LifecycleError (''Unknown snapshot: '' @ i))
      | Some s \<Rightarrow> Inr s)"

definition pointer_record :: "'z snapshot_db_scheme \<Rightarrow> string \<Rightarrow> pointer option" where
  "pointer_record db fam = find_pointer db fam"

text \<open>The join of the pointer of a family with the snapshot it names.\<close>

definition active_snapshot_record :: "'z snapshot_db_scheme \<Rightarrow> string \<Rightarrow> snapshot option" where
  "active_snapshot_record db fam =
     (case find_pointer db fam of
        None \<Rightarrow> None
      | Some p \<Rightarrow> find_snapshot db (active_snapshot_id p))"

definition assert_snapshot_scope :: "snapshot \<Rightarrow> string \<Rightarrow> unit result" where
  "assert_snapshot_scope s expected_scope =
     guard (fixture_scope s = expected_scope)
       (LifecycleError (''Snapshot scope is not the required '' @ expected_scope @ '' boundary.''))"

definition assert_snapshot_identity :: "snapshot \<Rightarrow> string \<Rightarrow> string \<Rightarrow> unit result" where
  "assert_snapshot_identity s expected_family expected_scope =
     ebind (guard (source_family_id s = expected_family)
             (LifecycleError ''Snapshot belongs to a different source family.'')) (\<lambda>_.
     assert_snapshot_scope s expected_scope)"

definition assert_accepted_source_snapshot ::
  "snapshot \<Rightarrow> string \<Rightarrow> string option \<Rightarrow> unit result" where
  "assert_accepted_source_snapshot s expected_family expected_scope =
     ebind (guard (source_family_id s = expected_family)
             (LifecycleError ''Snapshot belongs to a different source family.'')) (\<lambda>_.
     ebind (case expected_scope of
              Some sc \<Rightarrow> assert_snapshot_scope s sc
            | None \<Rightarrow> guard (fixture_scope s \<in> {OFFLINE_FIXTURE_SCOPE, LIVE_QUERY_SCOPE})
                (LifecycleError ''Snapshot has an unsupported source storage scope.'')) (\<lambda>_.
     guard (lifecycle_state s = Accepted)
       (LifecycleError ''Only an accepted snapshot may be promoted.'')))"

definition require_isolated_nonproduction :: "string \<Rightarrow> unit result" where
  "require_isolated_nonproduction execution_scope =
     guard (execution_scope = ISOLATED_NONPRODUCTION_SCOPE)
       (LifecycleError (''Live ArcGIS lifecycle operations require the explicit isolated_nonproduction ''
          @ ''execution scope.''))"

section \<open>Validate and accept\<close>

definition validate_source_snapshot ::
  "'z snapshot_db_scheme \<Rightarrow> string \<Rightarrow> string \<Rightarrow> string \<Rightarrow> string
     \<Rightarrow> ('z snapshot_db_scheme \<times> lifecycle) result" where
  "validate_source_snapshot db i expected_family expected_scope ts =
     ebind (snapshot_record db i) (\<lambda>s.
     ebind (assert_snapshot_identity s expected_family expected_scope) (\<lambda>_.
     ebind (guard (lifecycle_state s = Candidate)
             (LifecycleError (''Only a candidate snapshot may be validated; '' @ i @ '' is ''
                @ lifecycle_text (lifecycle_state s) @ ''.''))) (\<lambda>_.
     (let rejected = rejection_reason_count s > 0;
          next_state = (if rejected then Rejected else Validated)
      in Inr (update_snapshot i
               (\<lambda>r. if rejected then r\<lparr>lifecycle_state := next_state, rejected_at := Some ts\<rparr>
                    else r\<lparr>lifecycle_state := next_state, validated_at := Some ts\<rparr>) db,
              next_state)))))"

definition accept_source_snapshot ::
  "'z snapshot_db_scheme \<Rightarrow> string \<Rightarrow> string \<Rightarrow> string \<Rightarrow> string
     \<Rightarrow> ('z snapshot_db_scheme \<times> unit) result" where
  "accept_source_snapshot db i expected_family expected_scope ts =
     ebind (snapshot_record db i) (\<lambda>s.
     ebind (assert_snapshot_identity s expected_family expected_scope) (\<lambda>_.
     if lifecycle_state s = Accepted then Inr (db, ())
     else ebind (guard (lifecycle_state s = Validated)
             (LifecycleError (''Only a validated snapshot may be accepted; '' @ i @ '' is ''
                @ lifecycle_text (lifecycle_state s) @ ''.''))) (\<lambda>_.
     Inr (update_snapshot i (\<lambda>r. r\<lparr>lifecycle_state := Accepted, accepted_at := Some ts\<rparr>) db, ()))))"

section \<open>Promote and roll back\<close>

text \<open>The result of both is the pointer as the caller sees it: family, active, prior.\<close>

type_synonym snapshot_pointer = "string \<times> string \<times> string option"

definition promote_source_snapshot ::
  "'z snapshot_db_scheme \<Rightarrow> string \<Rightarrow> string \<Rightarrow> string \<Rightarrow> string
     \<Rightarrow> ('z snapshot_db_scheme \<times> snapshot_pointer) result" where
  "promote_source_snapshot db i expected_family expected_scope ts =
     ebind (snapshot_record db i) (\<lambda>s.
     ebind (assert_accepted_source_snapshot s expected_family (Some expected_scope)) (\<lambda>_.
     case pointer_record db expected_family of
       None \<Rightarrow>
         ebind (insert_pointer \<lparr>ptr_source_family_id = expected_family, active_snapshot_id = i,
                  prior_accepted_snapshot_id = None, updated_at = ts\<rparr> db) (\<lambda>db'.
         Inr (db', (expected_family, i, None)))
     | Some p \<Rightarrow>
         if active_snapshot_id p = i
         then Inr (db, (expected_family, active_snapshot_id p, prior_accepted_snapshot_id p))
         else ebind (update_pointer expected_family
                (\<lambda>q. q\<lparr>active_snapshot_id := i, prior_accepted_snapshot_id := Some (active_snapshot_id p),
                       updated_at := ts\<rparr>) db) (\<lambda>db'.
              Inr (db', (expected_family, i, Some (active_snapshot_id p))))))"

definition rollback_source_snapshot ::
  "'z snapshot_db_scheme \<Rightarrow> string \<Rightarrow> string \<Rightarrow> string \<Rightarrow> string option \<Rightarrow> string
     \<Rightarrow> ('z snapshot_db_scheme \<times> snapshot_pointer) result" where
  "rollback_source_snapshot db expected_family expected_active expected_active_scope
     expected_prior_scope ts =
     (case pointer_record db expected_family of
        None \<Rightarrow> Inl (LifecycleError ''No active source snapshot can be rolled back.'')
      | Some p \<Rightarrow>
          (let active = active_snapshot_id p; prior = prior_accepted_snapshot_id p in
           if active \<noteq> expected_active then
             (if prior = Some expected_active then
                ebind (snapshot_record db expected_active) (\<lambda>s.
                ebind (assert_accepted_source_snapshot s expected_family (Some expected_active_scope)) (\<lambda>_.
                Inr (db, (expected_family, active, prior))))
              else Inl (LifecycleError ''The active source snapshot changed before rollback.''))
           else
             (case prior of
                None \<Rightarrow> Inl (LifecycleError ''No prior accepted source snapshot exists.'')
              | Some pr \<Rightarrow>
                  ebind (snapshot_record db active) (\<lambda>sa.
                  ebind (assert_accepted_source_snapshot sa expected_family (Some expected_active_scope)) (\<lambda>_.
                  ebind (snapshot_record db pr) (\<lambda>sp.
                  ebind (assert_accepted_source_snapshot sp expected_family expected_prior_scope) (\<lambda>_.
                  ebind (update_pointer expected_family
                     (\<lambda>q. q\<lparr>active_snapshot_id := pr, prior_accepted_snapshot_id := Some active,
                            updated_at := ts\<rparr>) db) (\<lambda>db'.
                  Inr (db', (expected_family, pr, Some active))))))))))"

section \<open>The ArcGIS wrappers\<close>

definition validate_arcgis_snapshot ::
  "'z snapshot_db_scheme \<Rightarrow> string \<Rightarrow> string \<Rightarrow> string \<Rightarrow> ('z snapshot_db_scheme \<times> lifecycle) result" where
  "validate_arcgis_snapshot db i expected_scope ts =
     validate_source_snapshot db i ARCGIS_SUPPLEMENT_SOURCE_FAMILY_ID expected_scope ts"

definition validate_arcgis_fixture_snapshot ::
  "'z snapshot_db_scheme \<Rightarrow> string \<Rightarrow> string \<Rightarrow> ('z snapshot_db_scheme \<times> lifecycle) result" where
  "validate_arcgis_fixture_snapshot db i ts = validate_arcgis_snapshot db i OFFLINE_FIXTURE_SCOPE ts"

definition validate_arcgis_live_query_snapshot ::
  "'z snapshot_db_scheme \<Rightarrow> string \<Rightarrow> string \<Rightarrow> string \<Rightarrow> ('z snapshot_db_scheme \<times> lifecycle) result" where
  "validate_arcgis_live_query_snapshot db i ts execution_scope =
     ebind (require_isolated_nonproduction execution_scope) (\<lambda>_.
     validate_arcgis_snapshot db i LIVE_QUERY_SCOPE ts)"

definition accept_arcgis_snapshot ::
  "'z snapshot_db_scheme \<Rightarrow> string \<Rightarrow> string \<Rightarrow> string \<Rightarrow> ('z snapshot_db_scheme \<times> unit) result" where
  "accept_arcgis_snapshot db i expected_scope ts =
     accept_source_snapshot db i ARCGIS_SUPPLEMENT_SOURCE_FAMILY_ID expected_scope ts"

definition accept_arcgis_fixture_snapshot ::
  "'z snapshot_db_scheme \<Rightarrow> string \<Rightarrow> string \<Rightarrow> ('z snapshot_db_scheme \<times> unit) result" where
  "accept_arcgis_fixture_snapshot db i ts = accept_arcgis_snapshot db i OFFLINE_FIXTURE_SCOPE ts"

definition accept_arcgis_live_query_snapshot ::
  "'z snapshot_db_scheme \<Rightarrow> string \<Rightarrow> string \<Rightarrow> string \<Rightarrow> ('z snapshot_db_scheme \<times> unit) result" where
  "accept_arcgis_live_query_snapshot db i ts execution_scope =
     ebind (require_isolated_nonproduction execution_scope) (\<lambda>_.
     accept_arcgis_snapshot db i LIVE_QUERY_SCOPE ts)"

definition promote_arcgis_snapshot ::
  "'z snapshot_db_scheme \<Rightarrow> string \<Rightarrow> string \<Rightarrow> string \<Rightarrow> ('z snapshot_db_scheme \<times> snapshot_pointer) result" where
  "promote_arcgis_snapshot db i expected_scope ts =
     promote_source_snapshot db i ARCGIS_SUPPLEMENT_SOURCE_FAMILY_ID expected_scope ts"

definition promote_arcgis_fixture_snapshot ::
  "'z snapshot_db_scheme \<Rightarrow> string \<Rightarrow> string \<Rightarrow> ('z snapshot_db_scheme \<times> snapshot_pointer) result" where
  "promote_arcgis_fixture_snapshot db i ts = promote_arcgis_snapshot db i OFFLINE_FIXTURE_SCOPE ts"

definition promote_arcgis_live_query_snapshot ::
  "'z snapshot_db_scheme \<Rightarrow> string \<Rightarrow> string \<Rightarrow> string \<Rightarrow> ('z snapshot_db_scheme \<times> snapshot_pointer) result" where
  "promote_arcgis_live_query_snapshot db i ts execution_scope =
     ebind (require_isolated_nonproduction execution_scope) (\<lambda>_.
     promote_arcgis_snapshot db i LIVE_QUERY_SCOPE ts)"

definition rollback_arcgis_snapshot ::
  "'z snapshot_db_scheme \<Rightarrow> string \<Rightarrow> string \<Rightarrow> string option \<Rightarrow> string
     \<Rightarrow> ('z snapshot_db_scheme \<times> snapshot_pointer) result" where
  "rollback_arcgis_snapshot db expected_active expected_active_scope expected_prior_scope ts =
     rollback_source_snapshot db ARCGIS_SUPPLEMENT_SOURCE_FAMILY_ID expected_active
       expected_active_scope expected_prior_scope ts"

definition rollback_arcgis_fixture_snapshot ::
  "'z snapshot_db_scheme \<Rightarrow> string \<Rightarrow> string \<Rightarrow> ('z snapshot_db_scheme \<times> snapshot_pointer) result" where
  "rollback_arcgis_fixture_snapshot db expected_active ts =
     rollback_arcgis_snapshot db expected_active OFFLINE_FIXTURE_SCOPE (Some OFFLINE_FIXTURE_SCOPE) ts"

definition rollback_arcgis_live_query_snapshot ::
  "'z snapshot_db_scheme \<Rightarrow> string \<Rightarrow> string \<Rightarrow> string \<Rightarrow> ('z snapshot_db_scheme \<times> snapshot_pointer) result" where
  "rollback_arcgis_live_query_snapshot db expected_active ts execution_scope =
     ebind (require_isolated_nonproduction execution_scope) (\<lambda>_.
     rollback_arcgis_snapshot db expected_active LIVE_QUERY_SCOPE None ts)"

section \<open>The allowed moves of the state machine\<close>

inductive lifecycle_step :: "lifecycle \<Rightarrow> lifecycle \<Rightarrow> bool" where
  pass: "lifecycle_step Candidate Validated"
| fail: "lifecycle_step Candidate Rejected"
| accept: "lifecycle_step Validated Accepted"

inductive_cases lifecycle_step_CandidateE: "lifecycle_step Candidate l"
inductive_cases lifecycle_step_ValidatedE: "lifecycle_step Validated l"
inductive_simps lifecycle_step_Rejected [simp]: "lifecycle_step Rejected l"
inductive_simps lifecycle_step_Accepted [simp]: "lifecycle_step Accepted l"

lemma rejected_is_final: "lifecycle_step\<^sup>*\<^sup>* Rejected l \<longleftrightarrow> l = Rejected"
  by (auto elim: converse_rtranclpE)

lemma accepted_is_final: "lifecycle_step\<^sup>*\<^sup>* Accepted l \<longleftrightarrow> l = Accepted"
  by (auto elim: converse_rtranclpE)

section \<open>Invariants\<close>

text \<open>What the state of one snapshot says about its time stamps and its report.\<close>

fun snapshot_inv :: "snapshot \<Rightarrow> bool" where
  "snapshot_inv s =
     (case lifecycle_state s of
        Candidate \<Rightarrow> validated_at s = None \<and> rejected_at s = None \<and> accepted_at s = None
      | Validated \<Rightarrow> validated_at s \<noteq> None \<and> rejected_at s = None \<and> accepted_at s = None \<and>
                     rejection_reason_count s \<le> 0
      | Rejected \<Rightarrow> validated_at s = None \<and> rejected_at s \<noteq> None \<and> accepted_at s = None \<and>
                     rejection_reason_count s > 0
      | Accepted \<Rightarrow> validated_at s \<noteq> None \<and> rejected_at s = None \<and> accepted_at s \<noteq> None \<and>
                     rejection_reason_count s \<le> 0)"

declare snapshot_inv.simps [simp del]

definition accepted_in :: "'z snapshot_db_scheme \<Rightarrow> string \<Rightarrow> string \<Rightarrow> bool" where
  "accepted_in db fam i \<longleftrightarrow>
     (\<exists>s. find_snapshot db i = Some s \<and> lifecycle_state s = Accepted \<and> source_family_id s = fam)"

definition pointer_inv :: "'z snapshot_db_scheme \<Rightarrow> pointer \<Rightarrow> bool" where
  "pointer_inv db p \<longleftrightarrow>
     accepted_in db (ptr_source_family_id p) (active_snapshot_id p) \<and>
     (case prior_accepted_snapshot_id p of None \<Rightarrow> True
      | Some i \<Rightarrow> i \<noteq> active_snapshot_id p \<and> accepted_in db (ptr_source_family_id p) i)"

definition store_inv :: "'z snapshot_db_scheme \<Rightarrow> bool" where
  "store_inv db \<longleftrightarrow>
     distinct (snapshot_ids db) \<and>
     distinct (map fixture_identity (source_snapshots db)) \<and>
     (\<forall>s \<in> set (source_snapshots db). snapshot_checks s \<and> snapshot_inv s) \<and>
     distinct (map ptr_source_family_id (source_snapshot_pointers db)) \<and>
     (\<forall>p \<in> set (source_snapshot_pointers db). pointer_inv db p) \<and>
     distinct (map row_key (source_snapshot_rows db)) \<and>
     (\<forall>(i, r) \<in> set (source_snapshot_rows db). i \<in> set (snapshot_ids db)) \<and>
     (\<forall>(i, d) \<in> set (source_snapshot_disappearances db). i \<in> set (snapshot_ids db) \<and> disappearance_checks d)"

text \<open>The fields no lifecycle operation writes.\<close>

definition evidence_of :: "snapshot \<Rightarrow> snapshot" where
  "evidence_of s = s\<lparr>lifecycle_state := Candidate, validated_at := None, rejected_at := None,
     accepted_at := None\<rparr>"

text \<open>How a store may evolve: snapshots are never dropped, their evidence and their rows never
  change, and their states move along the machine.\<close>

definition evolves :: "'z snapshot_db_scheme \<Rightarrow> 'z snapshot_db_scheme \<Rightarrow> bool" where
  "evolves db db' \<longleftrightarrow>
     (\<forall>i s. find_snapshot db i = Some s \<longrightarrow>
        (\<exists>s'. find_snapshot db' i = Some s' \<and> evidence_of s' = evidence_of s \<and>
              lifecycle_step\<^sup>*\<^sup>* (lifecycle_state s) (lifecycle_state s') \<and>
              filter (\<lambda>r. fst r = i) (source_snapshot_rows db') =
              filter (\<lambda>r. fst r = i) (source_snapshot_rows db)))"

lemma evolves_refl: "evolves db db"
  by (simp add: evolves_def)

lemma evolves_trans: "evolves a b \<Longrightarrow> evolves b c \<Longrightarrow> evolves a c"
  unfolding evolves_def by (metis rtranclp_trans)

lemma evolves_pointers [simp]: "evolves db (db\<lparr>source_snapshot_pointers := ps\<rparr>)"
  by (simp add: evolves_def find_snapshot_def)

lemma store_inv_empty: "store_inv empty_db"
  by (simp add: store_inv_def empty_db_def snapshot_ids_def)

lemma accepted_in_pointers [simp]:
  "accepted_in (db\<lparr>source_snapshot_pointers := ps\<rparr>) = accepted_in db"
  by (simp add: accepted_in_def find_snapshot_def fun_eq_iff)

lemma pointer_inv_pointers [simp]:
  "pointer_inv (db\<lparr>source_snapshot_pointers := ps\<rparr>) p = pointer_inv db p"
  by (simp add: pointer_inv_def cong: option.case_cong)

lemma snapshot_ids_pointers [simp]:
  "snapshot_ids (db\<lparr>source_snapshot_pointers := ps\<rparr>) = snapshot_ids db"
  by (simp add: snapshot_ids_def)

lemma accepted_in_id: "accepted_in db fam i \<Longrightarrow> i \<in> set (snapshot_ids db)"
  unfolding accepted_in_def by (metis find_snapshot_None_iff option.distinct(1))

lemma accepted_in_family: "accepted_in db fam i \<Longrightarrow> accepted_in db fam' i \<Longrightarrow> fam = fam'"
  by (auto simp: accepted_in_def)

lemma find_snapshot_inv: "store_inv db \<Longrightarrow> find_snapshot db i = Some s \<Longrightarrow> snapshot_inv s"
  by (auto simp: store_inv_def dest!: find_snapshot_SomeD)

lemma evidence_of_select [simp]:
  "snapshot_id (evidence_of s) = snapshot_id s"
  "source_family_id (evidence_of s) = source_family_id s"
  "fixture_scope (evidence_of s) = fixture_scope s"
  "observation_kind (evidence_of s) = observation_kind s"
  "manifest_sha256 (evidence_of s) = manifest_sha256 s"
  "raw_payload_sha256 (evidence_of s) = raw_payload_sha256 s"
  "row_count (evidence_of s) = row_count s"
  "stored_row_count (evidence_of s) = stored_row_count s"
  "rejection_reason_count (evidence_of s) = rejection_reason_count s"
  by (simp_all add: evidence_of_def)

lemma evidence_of_eqD:
  assumes "evidence_of s = evidence_of t"
  shows "snapshot_id s = snapshot_id t" "source_family_id s = source_family_id t"
    "fixture_scope s = fixture_scope t" "fixture_identity s = fixture_identity t"
    "rejection_reason_count s = rejection_reason_count t" "snapshot_checks s = snapshot_checks t"
  using arg_cong [OF assms, of snapshot_id] arg_cong [OF assms, of source_family_id]
    arg_cong [OF assms, of fixture_scope] arg_cong [OF assms, of observation_kind]
    arg_cong [OF assms, of manifest_sha256] arg_cong [OF assms, of raw_payload_sha256]
    arg_cong [OF assms, of row_count] arg_cong [OF assms, of stored_row_count]
    arg_cong [OF assms, of rejection_reason_count]
  by (simp_all add: fixture_identity_def snapshot_checks_def)

text \<open>Changing the state and the time stamps of a snapshot within the rules keeps the store.\<close>

lemma accepted_in_update_snapshot:
  assumes f: "\<And>s. evidence_of (f s) = evidence_of s"
    and ok: "\<And>s. find_snapshot db i = Some s \<Longrightarrow> lifecycle_state s = Accepted \<Longrightarrow>
      lifecycle_state (f s) = Accepted"
    and "accepted_in db fam j"
  shows "accepted_in (update_snapshot i f db) fam j"
proof -
  note keep = evidence_of_eqD [OF f]
  from assms(3) obtain s where "find_snapshot db j = Some s" "lifecycle_state s = Accepted"
    "source_family_id s = fam" by (auto simp: accepted_in_def)
  with ok [of s] show ?thesis
    by (cases "j = i") (simp_all add: accepted_in_def find_snapshot_update keep)
qed

lemma store_inv_update_snapshot:
  assumes inv: "store_inv db"
    and f: "\<And>s. evidence_of (f s) = evidence_of s"
    and ok: "\<And>s. find_snapshot db i = Some s \<Longrightarrow>
      snapshot_inv (f s) \<and> (lifecycle_state s = Accepted \<longrightarrow> lifecycle_state (f s) = Accepted)"
  shows "store_inv (update_snapshot i f db)"
proof -
  note keep = evidence_of_eqD [OF f]
  have ids: "snapshot_ids (update_snapshot i f db) = snapshot_ids db" by (simp add: keep)
  have fid: "map fixture_identity (source_snapshots (update_snapshot i f db)) =
      map fixture_identity (source_snapshots db)"
    by (simp add: update_snapshot_def tbl_update_def keep)
  have fnd: "find_snapshot db (snapshot_id s) = Some s" if "s \<in> set (source_snapshots db)" for s
    using inv that by (simp add: store_inv_def snapshot_ids_def find_snapshot_def tbl_find_mem)
  have rows: "\<forall>s \<in> set (source_snapshots (update_snapshot i f db)). snapshot_checks s \<and> snapshot_inv s"
    using inv ok fnd by (fastforce simp: update_snapshot_def tbl_update_def store_inv_def keep)
  have acc: "accepted_in db fam j \<Longrightarrow> accepted_in (update_snapshot i f db) fam j" for fam j
    using f ok by (blast intro: accepted_in_update_snapshot)
  have "\<forall>p \<in> set (source_snapshot_pointers db). pointer_inv (update_snapshot i f db) p"
    using inv acc by (auto simp: store_inv_def pointer_inv_def split: option.splits)
  with inv ids fid rows show ?thesis by (simp add: store_inv_def)
qed

lemma evolves_update_snapshot:
  assumes f: "\<And>s. evidence_of (f s) = evidence_of s"
    and ok: "\<And>s. find_snapshot db i = Some s \<Longrightarrow> lifecycle_step (lifecycle_state s) (lifecycle_state (f s))"
  shows "evolves db (update_snapshot i f db)"
  using ok f by (auto simp: evolves_def find_snapshot_update evidence_of_eqD [OF f])

text \<open>Pointer statements under the invariant.\<close>

lemma pointer_update_ok:
  assumes inv: "store_inv db" and p: "p \<in> set (source_snapshot_pointers db)"
    and new: "pointer_inv db q" "ptr_source_family_id q = ptr_source_family_id p"
  shows "pointer_checks db
    (filter (\<lambda>r. ptr_source_family_id r \<noteq> ptr_source_family_id p) (source_snapshot_pointers db)) q"
proof -
  have "active_snapshot_id q \<noteq> active_snapshot_id r"
    if "r \<in> set (source_snapshot_pointers db)" "ptr_source_family_id r \<noteq> ptr_source_family_id p" for r
  proof -
    from inv that have "accepted_in db (ptr_source_family_id r) (active_snapshot_id r)"
      by (auto simp: store_inv_def pointer_inv_def)
    with new that show ?thesis by (metis accepted_in_family pointer_inv_def)
  qed
  with new show ?thesis
    by (auto simp: pointer_checks_def pointer_inv_def accepted_in_id split: option.splits)
qed

lemma update_pointer_ok:
  assumes inv: "store_inv db"
    and new: "\<And>p. p \<in> set (source_snapshot_pointers db) \<Longrightarrow> ptr_source_family_id p = fam \<Longrightarrow>
      pointer_inv db (f p)"
    and f: "\<And>p. ptr_source_family_id (f p) = ptr_source_family_id p"
  shows "update_pointer fam f db = Inr (db\<lparr>source_snapshot_pointers :=
      tbl_update ptr_source_family_id fam f (source_snapshot_pointers db)\<rparr>)" 
    and "store_inv (db\<lparr>source_snapshot_pointers :=
      tbl_update ptr_source_family_id fam f (source_snapshot_pointers db)\<rparr>)"
proof -
  let ?db' = "db\<lparr>source_snapshot_pointers :=
      tbl_update ptr_source_family_id fam f (source_snapshot_pointers db)\<rparr>"
  have "\<forall>p \<in> set (source_snapshot_pointers db). ptr_source_family_id p = fam \<longrightarrow>
      pointer_checks db
        (filter (\<lambda>q. ptr_source_family_id q \<noteq> fam) (source_snapshot_pointers db)) (f p)"
    using pointer_update_ok [OF inv] new f by blast
  then show "update_pointer fam f db = Inr ?db'" by (simp add: update_pointer_def)
  have "map ptr_source_family_id (tbl_update ptr_source_family_id fam f (source_snapshot_pointers db)) =
      map ptr_source_family_id (source_snapshot_pointers db)"
    by (rule map_key_tbl_update) (rule f)
  moreover have "\<forall>p \<in> set (tbl_update ptr_source_family_id fam f (source_snapshot_pointers db)).
      pointer_inv db p"
    using inv new by (auto simp: store_inv_def dest!: in_tbl_update)
  ultimately show "store_inv ?db'" using inv by (simp add: store_inv_def)
qed

lemma insert_pointer_ok:
  assumes inv: "store_inv db" and none: "find_pointer db (ptr_source_family_id p) = None"
    and new: "pointer_inv db p"
  shows "insert_pointer p db =
      Inr (db\<lparr>source_snapshot_pointers := source_snapshot_pointers db @ [p]\<rparr>)" 
    and "store_inv (db\<lparr>source_snapshot_pointers := source_snapshot_pointers db @ [p]\<rparr>)"
proof -
  let ?db' = "db\<lparr>source_snapshot_pointers := source_snapshot_pointers db @ [p]\<rparr>"
  have fam: "ptr_source_family_id p \<notin> ptr_source_family_id ` set (source_snapshot_pointers db)"
    using none by (simp add: find_pointer_None_iff)
  have "active_snapshot_id p \<noteq> active_snapshot_id r" if "r \<in> set (source_snapshot_pointers db)" for r
  proof -
    from inv that have "accepted_in db (ptr_source_family_id r) (active_snapshot_id r)"
      by (auto simp: store_inv_def pointer_inv_def)
    moreover from fam that have "ptr_source_family_id p \<noteq> ptr_source_family_id r" by auto
    ultimately show ?thesis using new by (metis accepted_in_family pointer_inv_def)
  qed
  then have "pointer_checks db (source_snapshot_pointers db) p"
    using new by (auto simp: pointer_checks_def pointer_inv_def accepted_in_id split: option.splits)
  with fam show "insert_pointer p db = Inr ?db'" by (simp add: insert_pointer_def)
  from inv new fam show "store_inv ?db'" by (auto simp: store_inv_def)
qed


section \<open>What the operations do\<close>

lemma snapshot_record_Inr [simp]:
  "snapshot_record db i = Inr s \<longleftrightarrow> find_snapshot db i = Some s"
  by (simp add: snapshot_record_def split: option.split)

lemma assert_snapshot_identity_Inr [simp]:
  "assert_snapshot_identity s fam sc = Inr u \<longleftrightarrow> source_family_id s = fam \<and> fixture_scope s = sc"
  by (auto simp: assert_snapshot_identity_def assert_snapshot_scope_def ebind_eq_Inr)

lemma assert_accepted_Inr [simp]:
  "assert_accepted_source_snapshot s fam (Some sc) = Inr u \<longleftrightarrow>
     source_family_id s = fam \<and> fixture_scope s = sc \<and> lifecycle_state s = Accepted"
  "assert_accepted_source_snapshot s fam None = Inr u \<longleftrightarrow>
     source_family_id s = fam \<and> fixture_scope s \<in> {OFFLINE_FIXTURE_SCOPE, LIVE_QUERY_SCOPE} \<and>
     lifecycle_state s = Accepted"
  by (auto simp: assert_accepted_source_snapshot_def assert_snapshot_scope_def ebind_eq_Inr)

lemma assert_accepted_InrD:
  "assert_accepted_source_snapshot s fam sc = Inr u \<Longrightarrow> source_family_id s = fam \<and> lifecycle_state s = Accepted"
  by (cases sc) auto

lemmas record_errors = snapshot_record_def assert_snapshot_identity_def assert_snapshot_scope_def
  assert_accepted_source_snapshot_def

lemma validate_cases:
  assumes "validate_source_snapshot db i fam sc ts = Inr (db', l)"
  obtains s f where "find_snapshot db i = Some s" "lifecycle_state s = Candidate"
    "source_family_id s = fam" "fixture_scope s = sc"
    "l = (if rejection_reason_count s > 0 then Rejected else Validated)"
    "f = (\<lambda>r::snapshot. if rejection_reason_count s > 0
            then r\<lparr>lifecycle_state := Rejected, rejected_at := Some ts\<rparr>
            else r\<lparr>lifecycle_state := Validated, validated_at := Some ts\<rparr>)"
    "db' = update_snapshot i f db"
  using assms that
  by (fastforce simp: validate_source_snapshot_def ebind_eq_Inr Let_def split: if_splits)

lemma accept_cases:
  assumes "accept_source_snapshot db i fam sc ts = Inr (db', u)"
  obtains (already) s where "find_snapshot db i = Some s" "lifecycle_state s = Accepted" "db' = db"
  | (accept) s where "find_snapshot db i = Some s" "lifecycle_state s = Validated"
      "source_family_id s = fam" "fixture_scope s = sc"
      "db' = update_snapshot i (\<lambda>r. r\<lparr>lifecycle_state := Accepted, accepted_at := Some ts\<rparr>) db"
  using assms that
  by (auto simp: accept_source_snapshot_def ebind_eq_Inr split: if_splits)

lemma validate_inv:
  assumes inv: "store_inv db" and run: "validate_source_snapshot db i fam sc ts = Inr (db', l)"
  shows "store_inv db' \<and> evolves db db'"
  using run
proof (cases rule: validate_cases)
  case (1 s f)
  have f: "evidence_of (f r) = evidence_of r" for r
    by (simp add: 1 evidence_of_def)
  have "snapshot_inv s" using inv 1 by (blast intro: find_snapshot_inv)
  with 1 have "snapshot_inv (f s)" by (simp add: snapshot_inv.simps)
  moreover have "lifecycle_step (lifecycle_state s) (lifecycle_state (f s))"
    using 1 by (simp add: lifecycle_step.intros)
  ultimately show ?thesis using 1 f inv
    by (auto intro!: store_inv_update_snapshot evolves_update_snapshot)
qed

lemma accept_inv:
  assumes inv: "store_inv db" and run: "accept_source_snapshot db i fam sc ts = Inr (db', u)"
  shows "store_inv db' \<and> evolves db db'"
  using run
proof (cases rule: accept_cases)
  case (already s)
  with inv show ?thesis by (simp add: evolves_refl)
next
  case (accept s)
  let ?f = "\<lambda>r. r\<lparr>lifecycle_state := Accepted, accepted_at := Some ts\<rparr>"
  have f: "evidence_of (?f r) = evidence_of r" for r :: snapshot
    by (simp add: evidence_of_def)
  have "snapshot_inv s" using inv accept by (blast intro: find_snapshot_inv)
  with accept have "snapshot_inv (?f s)" by (simp add: snapshot_inv.simps)
  moreover have "lifecycle_step (lifecycle_state s) (lifecycle_state (?f s))"
    using accept by (simp add: lifecycle_step.intros)
  ultimately show ?thesis using accept f inv
    by (auto intro!: store_inv_update_snapshot evolves_update_snapshot)
qed

section \<open>An abstract view of the pointers\<close>

text \<open>What the pointer table promises: for each family, the active snapshot and the prior
  accepted one. Promotion and rollback are two small functions on this view.\<close>

definition pointer_view :: "'z snapshot_db_scheme \<Rightarrow> string \<Rightarrow> (string \<times> string option) option" where
  "pointer_view db fam =
     map_option (\<lambda>p. (active_snapshot_id p, prior_accepted_snapshot_id p)) (find_pointer db fam)"

fun abs_promote :: "string \<Rightarrow> (string \<times> string option) option \<Rightarrow> (string \<times> string option) option" where
  "abs_promote i None = Some (i, None)"
| "abs_promote i (Some (a, pr)) = (if a = i then Some (a, pr) else Some (i, Some a))"

fun abs_rollback :: "(string \<times> string option) option \<Rightarrow> (string \<times> string option) option" where
  "abs_rollback (Some (a, Some pr)) = Some (pr, Some a)"
| "abs_rollback v = v"

lemma find_pointer_update:
  assumes "\<And>p. ptr_source_family_id (f p) = ptr_source_family_id p"
  shows "find_pointer (db\<lparr>source_snapshot_pointers :=
      tbl_update ptr_source_family_id fam f (source_snapshot_pointers db)\<rparr>) g =
    (if g = fam then map_option f (find_pointer db fam) else find_pointer db g)"
  using pointers_tbl.lookup_update [OF assms] by (simp add: find_pointer_def)

lemma find_pointer_insert:
  assumes "find_pointer db (ptr_source_family_id p) = None"
  shows "find_pointer (db\<lparr>source_snapshot_pointers := source_snapshot_pointers db @ [p]\<rparr>) g =
    (if g = ptr_source_family_id p then Some p else find_pointer db g)"
  using pointers_tbl.lookup_insert [of "source_snapshot_pointers db" p g] assms
  by (simp add: find_pointer_def)

lemma find_pointer_inv:
  "store_inv db \<Longrightarrow> find_pointer db fam = Some p \<Longrightarrow> pointer_inv db p \<and> ptr_source_family_id p = fam"
  by (auto simp: store_inv_def dest!: find_pointer_SomeD)

lemma promote_ok:
  assumes inv: "store_inv db" and s: "find_snapshot db i = Some s" "lifecycle_state s = Accepted"
    "source_family_id s = fam" "fixture_scope s = sc"
  shows "\<exists>ps. promote_source_snapshot db i fam sc ts =
      Inr (db\<lparr>source_snapshot_pointers := ps\<rparr>, fam, the (abs_promote i (pointer_view db fam)))
    \<and> store_inv (db\<lparr>source_snapshot_pointers := ps\<rparr>)
    \<and> pointer_view (db\<lparr>source_snapshot_pointers := ps\<rparr>) fam = abs_promote i (pointer_view db fam)
    \<and> (\<forall>g. g \<noteq> fam \<longrightarrow> find_pointer (db\<lparr>source_snapshot_pointers := ps\<rparr>) g = find_pointer db g)"
proof -
  have acc: "accepted_in db fam i" using s by (simp add: accepted_in_def)
  have self: "db\<lparr>source_snapshot_pointers := source_snapshot_pointers db\<rparr> = db" by simp
  show ?thesis
  proof (cases "find_pointer db fam")
    case None
    let ?p = "\<lparr>ptr_source_family_id = fam, active_snapshot_id = i,
      prior_accepted_snapshot_id = None, updated_at = ts\<rparr>"
    have new: "pointer_inv db ?p" using acc by (simp add: pointer_inv_def)
    have none: "find_pointer db (ptr_source_family_id ?p) = None" using None by simp
    show ?thesis
      using s None insert_pointer_ok [OF inv none new] find_pointer_insert [OF none]
      by (auto simp: promote_source_snapshot_def pointer_record_def pointer_view_def
          snapshot_record_def assert_accepted_source_snapshot_def assert_snapshot_scope_def)
  next
    case (Some p)
    with inv have p: "pointer_inv db p" "ptr_source_family_id p = fam"
      by (auto dest: find_pointer_inv)
    show ?thesis
    proof (cases "active_snapshot_id p = i")
      case True
      then show ?thesis using s Some inv
        by (auto intro!: exI [of _ "source_snapshot_pointers db"]
            simp: self promote_source_snapshot_def pointer_record_def pointer_view_def
              snapshot_record_def assert_accepted_source_snapshot_def assert_snapshot_scope_def)
    next
      case False
      let ?f = "\<lambda>q. q\<lparr>active_snapshot_id := i, prior_accepted_snapshot_id := Some (active_snapshot_id p),
        updated_at := ts\<rparr>"
      have new: "pointer_inv db (?f q)" if "ptr_source_family_id q = fam" for q
        using that acc p False by (auto simp: pointer_inv_def)
      have f: "ptr_source_family_id (?f q) = ptr_source_family_id q" for q :: pointer by simp
      show ?thesis
        using s Some False update_pointer_ok [OF inv new f, where fam = fam] find_pointer_update [OF f, where db = db and fam = fam]
        by (auto simp: promote_source_snapshot_def pointer_record_def pointer_view_def
            snapshot_record_def assert_accepted_source_snapshot_def assert_snapshot_scope_def)
    qed
  qed
qed

lemma promote_InrD:
  assumes "promote_source_snapshot db i fam sc ts = Inr (db', r)"
  obtains s where "find_snapshot db i = Some s" "lifecycle_state s = Accepted"
    "source_family_id s = fam" "fixture_scope s = sc"
  using assms by (auto simp: promote_source_snapshot_def ebind_eq_Inr)

lemma promote_inv:
  assumes inv: "store_inv db" and run: "promote_source_snapshot db i fam sc ts = Inr (db', r)"
  shows "store_inv db' \<and> evolves db db'"
proof -
  from run obtain s where "find_snapshot db i = Some s" "lifecycle_state s = Accepted"
    "source_family_id s = fam" "fixture_scope s = sc" by (rule promote_InrD)
  from promote_ok [OF inv this, of ts] run show ?thesis by auto
qed

lemma rollback_ok:
  assumes inv: "store_inv db" and p: "find_pointer db fam = Some p"
    and act: "active_snapshot_id p = a" "find_snapshot db a = Some sa" "fixture_scope sa = sc"
    and prior: "prior_accepted_snapshot_id p = Some pr" "find_snapshot db pr = Some sp"
      "case psc of Some c \<Rightarrow> fixture_scope sp = c
       | None \<Rightarrow> fixture_scope sp \<in> {OFFLINE_FIXTURE_SCOPE, LIVE_QUERY_SCOPE}"
  shows "\<exists>ps. rollback_source_snapshot db fam a sc psc ts =
      Inr (db\<lparr>source_snapshot_pointers := ps\<rparr>, fam, pr, Some a)
    \<and> store_inv (db\<lparr>source_snapshot_pointers := ps\<rparr>)
    \<and> pointer_view (db\<lparr>source_snapshot_pointers := ps\<rparr>) fam = abs_rollback (pointer_view db fam)
    \<and> (\<forall>g. g \<noteq> fam \<longrightarrow> find_pointer (db\<lparr>source_snapshot_pointers := ps\<rparr>) g = find_pointer db g)"
proof -
  have pinv: "pointer_inv db p" "ptr_source_family_id p = fam"
    using find_pointer_inv [OF inv p] by auto
  have acc: "accepted_in db fam a" "accepted_in db fam pr" "pr \<noteq> a"
    using pinv act prior by (auto simp: pointer_inv_def)
  then have sts: "lifecycle_state sa = Accepted" "lifecycle_state sp = Accepted"
    "source_family_id sa = fam" "source_family_id sp = fam"
    using act prior by (auto simp: accepted_in_def)
  have chk: "assert_accepted_source_snapshot sa fam (Some sc) = Inr ()"
    "assert_accepted_source_snapshot sp fam psc = Inr ()"
    using sts act prior by (cases psc; simp)+
  let ?f = "\<lambda>q. q\<lparr>active_snapshot_id := pr, prior_accepted_snapshot_id := Some a, updated_at := ts\<rparr>"
  have new: "pointer_inv db (?f q)" if "ptr_source_family_id q = fam" for q
    using that acc by (auto simp: pointer_inv_def)
  have f: "ptr_source_family_id (?f q) = ptr_source_family_id q" for q :: pointer by simp
  note upd = update_pointer_ok [OF inv new f, where fam = fam]
  have "rollback_source_snapshot db fam a sc psc ts =
      Inr (db\<lparr>source_snapshot_pointers :=
        tbl_update ptr_source_family_id fam ?f (source_snapshot_pointers db)\<rparr>, fam, pr, Some a)"
    using p act prior chk upd(1)
    by (simp add: rollback_source_snapshot_def pointer_record_def snapshot_record_def
        del: assert_accepted_Inr)
  then show ?thesis
    using p act prior upd(2) find_pointer_update [OF f, where db = db and fam = fam]
    by (auto simp: pointer_view_def)
qed

lemma rollback_cases:
  assumes "rollback_source_snapshot db fam a sc psc ts = Inr (db', r)"
  obtains (retry) p where "find_pointer db fam = Some p" "active_snapshot_id p \<noteq> a"
      "prior_accepted_snapshot_id p = Some a" "db' = db" "r = (fam, active_snapshot_id p, Some a)"
  | (swap) p sa pr sp where "find_pointer db fam = Some p" "active_snapshot_id p = a"
      "find_snapshot db a = Some sa" "fixture_scope sa = sc" "prior_accepted_snapshot_id p = Some pr"
      "find_snapshot db pr = Some sp"
      "case psc of Some c \<Rightarrow> fixture_scope sp = c
       | None \<Rightarrow> fixture_scope sp \<in> {OFFLINE_FIXTURE_SCOPE, LIVE_QUERY_SCOPE}"
proof (cases "find_pointer db fam")
  case None
  with assms show ?thesis by (simp add: rollback_source_snapshot_def pointer_record_def)
next
  case (Some p)
  show ?thesis
  proof (cases "active_snapshot_id p = a")
    case False
    with Some assms show ?thesis
      by (intro retry [of p])
         (auto simp: rollback_source_snapshot_def pointer_record_def ebind_eq_Inr Let_def split: if_splits)
  next
    case True
    with Some assms obtain pr where pr: "prior_accepted_snapshot_id p = Some pr"
      by (auto simp: rollback_source_snapshot_def pointer_record_def Let_def split: option.splits)
    with True Some assms obtain sa sp where "find_snapshot db a = Some sa"
      "assert_accepted_source_snapshot sa fam (Some sc) = Inr ()" "find_snapshot db pr = Some sp"
      "assert_accepted_source_snapshot sp fam psc = Inr ()"
      by (auto simp: rollback_source_snapshot_def pointer_record_def Let_def ebind_eq_Inr)
    with True Some pr show ?thesis
      by (intro swap [of p sa pr sp]) (cases psc; simp)+
  qed
qed

lemma rollback_inv:
  assumes inv: "store_inv db" and run: "rollback_source_snapshot db fam a sc psc ts = Inr (db', r)"
  shows "store_inv db' \<and> evolves db db'"
  using run
proof (cases rule: rollback_cases)
  case (retry p)
  with inv show ?thesis by (simp add: evolves_refl)
next
  case (swap p sa pr sp)
  from rollback_ok [OF inv swap, of ts] run show ?thesis by auto
qed

end
