(* ===== verification/Arcgis_Contract.thy ===== *)
theory Arcgis_Contract imports Snapshot_Lifecycle
begin

text \<open>
  The ArcGIS facility-reference contract (\<open>connectors/arcgis_ccl_facilities/contract.py\<close>): the
  approved identity of the source, its nineteen fields, the classification of a source value
  into a semantic state, and the check of the published schema.
\<close>

section \<open>Identity of the source\<close>

definition LIVE_QUERY_OBSERVATION_KIND :: string where
  "LIVE_QUERY_OBSERVATION_KIND = ''live_query''"

definition SNAPSHOT_CONTRACT_VERSION :: string where
  "SNAPSHOT_CONTRACT_VERSION = ''1.0.0''"

definition CATALOG_URL :: string where
  "CATALOG_URL = ''https://lab.data.ca.gov/dataset/community-care-licensing-facilities''"

definition LICENSES_URL :: string where
  "LICENSES_URL = ''https://lab.data.ca.gov/licenses''"

definition ARCGIS_ITEM_ID :: string where
  "ARCGIS_ITEM_ID = ''db31b0884a074cff9260facb3f2ade45''"

definition ARCGIS_ITEM_URL :: string where
  "ARCGIS_ITEM_URL = ''https://www.arcgis.com/sharing/rest/content/items/''
     @ ''db31b0884a074cff9260facb3f2ade45''"

definition ARCGIS_SERVICE_NAME :: string where
  "ARCGIS_SERVICE_NAME = ''CDSS_CCL_Facilities''"

definition ARCGIS_SERVICE_URL :: string where
  "ARCGIS_SERVICE_URL = ''https://services.arcgis.com/XLPEppdz2H9dOiqp/arcgis/rest/services/''
     @ ''CDSS_CCL_Facilities/FeatureServer''"

definition ARCGIS_LAYER_ID :: int where
  "ARCGIS_LAYER_ID = 0"

definition ARCGIS_LAYER_NAME :: string where
  "ARCGIS_LAYER_NAME = ''Master_CCL_County_Intersect_2023''"

definition ARCGIS_LAYER_URL :: string where
  "ARCGIS_LAYER_URL = ARCGIS_SERVICE_URL @ ''/'' @ show_int ARCGIS_LAYER_ID"

definition ARCGIS_QUERY_URL :: string where
  "ARCGIS_QUERY_URL = ARCGIS_LAYER_URL @ ''/query''"

definition ARCGIS_PUBLISHER :: string where
  "ARCGIS_PUBLISHER = ''California Department of Social Services''"

definition ARCGIS_DATASET_TITLE :: string where
  "ARCGIS_DATASET_TITLE = ''Community Care Licensing Facilities''"

definition ARCGIS_LICENSE_DESIGNATION :: string where
  "ARCGIS_LICENSE_DESIGNATION = ''Creative Commons Attribution''"

section \<open>Fields\<close>

definition ARCGIS_RAW_FIELDS :: "string list" where
  "ARCGIS_RAW_FIELDS =
     [''FAC_LATITUDE'', ''FAC_LONGITUDE'', ''FAC_NBR'', ''TYPE'', ''PROGRAM_TYPE'', ''STATUS'',
      ''CLIENT_SERVED'', ''CAPACITY'', ''NAME'', ''RES_STREET_ADDR'', ''RES_CITY'', ''RES_STATE'',
      ''RES_ZIP_CODE'', ''FAC_PHONE_NBR'', ''FAC_CO_NBR'', ''COUNTY'', ''FAC_DO_DESC'',
      ''FAC_TYPE_DESC'', ''ObjectId'']"

definition ARCGIS_NORMALIZED_FIELD_SOURCES :: "(string \<times> string) list" where
  "ARCGIS_NORMALIZED_FIELD_SOURCES =
     [(''object_id'', ''ObjectId''),
      (''facility_number'', ''FAC_NBR''),
      (''source_latitude_raw'', ''FAC_LATITUDE''),
      (''source_longitude_raw'', ''FAC_LONGITUDE''),
      (''raw_type_code'', ''TYPE''),
      (''program_type_source'', ''PROGRAM_TYPE''),
      (''raw_status_code'', ''STATUS''),
      (''capacity_source'', ''CAPACITY''),
      (''facility_name_source'', ''NAME''),
      (''street_address_source'', ''RES_STREET_ADDR''),
      (''city_source'', ''RES_CITY''),
      (''state_source'', ''RES_STATE''),
      (''postal_code_source'', ''RES_ZIP_CODE''),
      (''telephone_source'', ''FAC_PHONE_NBR''),
      (''county_source'', ''COUNTY''),
      (''regional_office_source'', ''FAC_DO_DESC''),
      (''facility_type_description_source'', ''FAC_TYPE_DESC'')]"

definition ARCGIS_EXPECTED_FIELD_TYPES :: "(string \<times> string \<times> bool) list" where
  "ARCGIS_EXPECTED_FIELD_TYPES =
     [(''FAC_LATITUDE'', ''esriFieldTypeString'', True),
      (''FAC_LONGITUDE'', ''esriFieldTypeString'', True),
      (''FAC_NBR'', ''esriFieldTypeInteger'', True),
      (''TYPE'', ''esriFieldTypeInteger'', True),
      (''PROGRAM_TYPE'', ''esriFieldTypeString'', True),
      (''STATUS'', ''esriFieldTypeInteger'', True),
      (''CLIENT_SERVED'', ''esriFieldTypeInteger'', True),
      (''CAPACITY'', ''esriFieldTypeInteger'', True),
      (''NAME'', ''esriFieldTypeString'', True),
      (''RES_STREET_ADDR'', ''esriFieldTypeString'', True),
      (''RES_CITY'', ''esriFieldTypeString'', True),
      (''RES_STATE'', ''esriFieldTypeString'', True),
      (''RES_ZIP_CODE'', ''esriFieldTypeString'', True),
      (''FAC_PHONE_NBR'', ''esriFieldTypeDouble'', True),
      (''FAC_CO_NBR'', ''esriFieldTypeInteger'', True),
      (''COUNTY'', ''esriFieldTypeString'', True),
      (''FAC_DO_DESC'', ''esriFieldTypeString'', True),
      (''FAC_TYPE_DESC'', ''esriFieldTypeString'', True),
      (''ObjectId'', ''esriFieldTypeOID'', False)]"

definition UNAVAILABLE_VALUES :: "string list" where
  "UNAVAILABLE_VALUES = [''n/a'', ''na'', ''not available'', ''unavailable'', ''unknown'']"

definition INTEGER_FIELDS :: "string list" where
  "INTEGER_FIELDS =
     [''ObjectId'', ''FAC_NBR'', ''TYPE'', ''STATUS'', ''CLIENT_SERVED'', ''CAPACITY'', ''FAC_CO_NBR'']"

definition NUMBER_FIELDS :: "string list" where
  "NUMBER_FIELDS = [''FAC_PHONE_NBR'']"

section \<open>Attribution and live snapshot identity\<close>

text \<open>The curly quotation marks are written by their UTF-8 bytes.\<close>

definition provisional_attribution :: "string \<Rightarrow> string \<Rightarrow> string" where
  "provisional_attribution snapshot accessed_date =
     ''Source: California Department of Social Services, ''
     @ [CHR 0xE2, CHR 0x80, CHR 0x9C] @ ''Community Care Licensing ''
     @ ''Facilities,'' @ [CHR 0xE2, CHR 0x80, CHR 0x9D] @ '' California Open Data and ArcGIS item ''
     @ ARCGIS_ITEM_ID @ '', service '' @ ARCGIS_SERVICE_NAME @ '', layer 0 ''
     @ ''('' @ ARCGIS_LAYER_NAME @ ''), snapshot '' @ snapshot @ '', accessed '' @ accessed_date @ ''. ''
     @ ''RecordsTracker preserves and normalizes this material as a supplementary ''
     @ ''current-reference observation. Program-specific facility-reference sources remain ''
     @ ''primary. California Open Data identifies the dataset license as Creative Commons ''
     @ ''Attribution; the publisher does not currently specify an exact version. RecordsTracker ''
     @ ''transformations and reconciliation are not endorsed by CDSS.''"

definition live_snapshot_id ::
  "pyenv \<Rightarrow> string \<Rightarrow> string \<Rightarrow> string \<Rightarrow> string \<Rightarrow> string \<Rightarrow> string \<Rightarrow> string \<Rightarrow> string" where
  "live_snapshot_id env recorded raw_sha normalized_sha schema_fp domain_fp object_id_set_sha
     raw_response_set_sha =
     ''arcgis-live-'' @ take 48 (canonical_fingerprint env (PDict
       [(''source_family_id'', PStr ARCGIS_SUPPLEMENT_SOURCE_FAMILY_ID),
        (''observation_kind'', PStr LIVE_QUERY_OBSERVATION_KIND),
        (''recorded_at'', PStr recorded),
        (''raw_payload_sha256'', PStr raw_sha),
        (''normalized_content_sha256'', PStr normalized_sha),
        (''schema_fingerprint'', PStr schema_fp),
        (''domain_fingerprint'', PStr domain_fp),
        (''object_id_set_sha256'', PStr object_id_set_sha),
        (''raw_response_set_sha256'', PStr raw_response_set_sha)]))"

section \<open>Normalising one source row\<close>

datatype semantic_state = Populated | Null | Blank | Absent | Unavailable | Invalid

fun semantic_text :: "semantic_state \<Rightarrow> string" where
  "semantic_text Populated = ''populated''"
| "semantic_text Null = ''null''"
| "semantic_text Blank = ''blank''"
| "semantic_text Absent = ''absent''"
| "semantic_text Unavailable = ''unavailable''"
| "semantic_text Invalid = ''invalid''"

fun is_int_value :: "pyval \<Rightarrow> bool" where
  "is_int_value (PInt i) = True"
| "is_int_value _ = False"

fun is_number_value :: "pyval \<Rightarrow> bool" where
  "is_number_value (PInt i) = True"
| "is_number_value (PFloat r) = True"
| "is_number_value _ = False"

definition normalize_source_value :: "string \<Rightarrow> pyval \<Rightarrow> semantic_state \<times> pyval" where
  "normalize_source_value source_name value =
     (case value of
        PNone \<Rightarrow> (Null, PNone)
      | PStr s \<Rightarrow>
          (let normalized = collapse_spaces s in
           if normalized = [] then (Blank, PStr [])
           else if py_casefold normalized \<in> set UNAVAILABLE_VALUES then (Unavailable, PStr normalized)
           else if source_name \<in> set INTEGER_FIELDS \<or> source_name \<in> set NUMBER_FIELDS
             then (Invalid, value)
           else (Populated, PStr normalized))
      | _ \<Rightarrow>
          if source_name \<in> set INTEGER_FIELDS then
            (if \<not> is_int_value value then (Invalid, value) else (Populated, value))
          else if source_name \<in> set NUMBER_FIELDS then
            (if \<not> is_number_value value then (Invalid, value) else (Populated, value))
          else (Invalid, value))"

definition observation :: "string \<Rightarrow> semantic_state \<Rightarrow> pyval \<Rightarrow> pyval" where
  "observation source_name state value =
     PDict [(''source_field'', PStr source_name), (''state'', PStr (semantic_text state)), (''value'', value)]"

definition semantic_value :: "string \<Rightarrow> pydict \<Rightarrow> pyval" where
  "semantic_value source_name raw =
     (case map_of raw source_name of
        None \<Rightarrow> observation source_name Absent PNone
      | Some value \<Rightarrow>
          (let (state, normalized) = normalize_source_value source_name value
           in observation source_name state normalized))"

definition normalize_arcgis_source_row :: "pydict \<Rightarrow> pydict" where
  "normalize_arcgis_source_row raw =
     map (\<lambda>(normalized_name, source_name). (normalized_name, semantic_value source_name raw))
       ARCGIS_NORMALIZED_FIELD_SOURCES"

section \<open>The published schema\<close>

text \<open>\<open>field.get("name", "")\<close>: the default applies to a missing key only.\<close>

definition schema_field_name :: "pyenv \<Rightarrow> pyval \<Rightarrow> string" where
  "schema_field_name env fld =
     (case fld of
        PDict d \<Rightarrow> (case map_of d ''name'' of None \<Rightarrow> '''' | Some v \<Rightarrow> py_str env v)
      | _ \<Rightarrow> '''')"

definition schema_field_rejections :: "pyenv \<Rightarrow> nat \<Rightarrow> pyval \<Rightarrow> string list" where
  "schema_field_rejections env index fld =
     (case fld of
        PDict d \<Rightarrow>
          (let field_name = py_get d ''name'' in
           (if set (py_keys d) \<noteq> {''name'', ''type'', ''nullable'', ''domain''}
            then [''schema field '' @ show_nat index @ '' has an unauthorized metadata shape''] else []) @
           (case map_of ARCGIS_EXPECTED_FIELD_TYPES (py_str env field_name) of
              None \<Rightarrow> []
            | Some (ty, nullable) \<Rightarrow>
                if py_eq (py_get d ''type'') (PStr ty) \<and> py_eq (py_get d ''nullable'') (PBool nullable)
                then []
                else [''schema field '' @ py_str env field_name
                        @ '' type or nullability differs from approved metadata'']) @
           (if py_get d ''domain'' \<noteq> PNone
            then [''schema field ''
                    @ (if py_truthy field_name then py_str env field_name else show_nat index)
                    @ '' adds an unapproved domain''] else []))
      | _ \<Rightarrow> [''schema field '' @ show_nat index @ '' is not an object''])"

fun schema_rejections_from :: "pyenv \<Rightarrow> nat \<Rightarrow> pyval list \<Rightarrow> string list" where
  "schema_rejections_from env index [] = []"
| "schema_rejections_from env index (f # fs) =
     schema_field_rejections env index f @ schema_rejections_from env (Suc index) fs"

definition validate_arcgis_schema_fields :: "pyenv \<Rightarrow> pyval list \<Rightarrow> string list" where
  "validate_arcgis_schema_fields env schema_fields =
     (if map (schema_field_name env) schema_fields \<noteq> ARCGIS_RAW_FIELDS
      then [''schema field order or allowlist differs from the approved 19 fields''] else []) @
     schema_rejections_from env 1 schema_fields"

end
