(* ===== verification/Arcgis_Inspection.thy ===== *)
theory Arcgis_Inspection imports Arcgis_Contract
begin

text \<open>
  The inspection of an ArcGIS snapshot package (\<open>_inspect_arcgis_package\<close> and the manifest
  validation of \<open>hosted_app/source_snapshot_lifecycle.py\<close>): a manifest and a raw payload are
  read from the package, the rows are normalised and fingerprinted, and every deviation from
  the contract becomes a rejection reason of the report. Nothing is written here.
\<close>

record inspection =
  insp_snapshot_id :: string
  insp_source_family_id :: string
  insp_storage_scope :: string
  insp_observation_kind :: string
  insp_manifest_ref :: string
  insp_manifest_sha256 :: string
  insp_raw_payload_ref :: string
  insp_raw_payload_sha256 :: string
  insp_normalized_content_sha256 :: string
  insp_schema_fingerprint :: string
  insp_domain_fingerprint :: string
  insp_recorded_at :: string
  insp_rows :: "arcgis_row list"
  insp_disappearances :: "disappearance list"
  insp_validation_report :: pydict

text \<open>\<open>SnapshotInspection.rejection_reasons\<close>.\<close>

definition rejection_reasons :: "pyenv \<Rightarrow> inspection \<Rightarrow> string list" where
  "rejection_reasons env insp =
     (case map_of (insp_validation_report insp) ''rejection_reasons'' of
        Some (PList vs) \<Rightarrow> map (py_str env) vs
      | _ \<Rightarrow> [])"

section \<open>Small readers\<close>

definition json_object :: "pyenv \<Rightarrow> string \<Rightarrow> string \<Rightarrow> pydict result" where
  "json_object env label content =
     (case json_loads env content of
        None \<Rightarrow> Inl (LifecycleError (py_title label @ '' is not valid UTF-8 JSON.''))
      | Some (PDict d) \<Rightarrow> Inr d
      | Some _ \<Rightarrow> Inl (LifecycleError (py_title label @ '' must be a JSON object.'')))"

definition required_text :: "pydict \<Rightarrow> string \<Rightarrow> string result" where
  "required_text d fld =
     (case py_get d fld of
        PStr s \<Rightarrow> if py_strip s = [] then Inl (LifecycleError (fld @ '' must be a nonblank string.''))
                   else Inr (py_strip s)
      | _ \<Rightarrow> Inl (LifecycleError (fld @ '' must be a nonblank string.'')))"

definition populated_int :: "pyval \<Rightarrow> int option" where
  "populated_int v =
     (case v of
        PDict d \<Rightarrow>
          if py_get d ''state'' = PStr ''populated''
          then (case py_get d ''value'' of PInt i \<Rightarrow> Some i | _ \<Rightarrow> None)
          else None
      | _ \<Rightarrow> None)"

definition populated_text :: "pyval \<Rightarrow> string option" where
  "populated_text v =
     (case v of
        PDict d \<Rightarrow>
          if py_get d ''state'' = PStr ''populated''
          then (case py_get d ''value'' of PStr s \<Rightarrow> Some s | PInt i \<Rightarrow> Some (show_int i) | _ \<Rightarrow> None)
          else None
      | _ \<Rightarrow> None)"

definition deduplicate_sorted :: "string list \<Rightarrow> string list" where
  "deduplicate_sorted values = sorted_set values"

text \<open>\<open>PurePosixPath(reference).parts\<close> of a relative reference.\<close>

definition posix_parts :: "string \<Rightarrow> string list" where
  "posix_parts s = filter (\<lambda>p. p \<noteq> [] \<and> p \<noteq> ''.'') (split_on (CHR ''/'') s)"

definition resolve_fixture_reference ::
  "pyenv \<Rightarrow> string list \<Rightarrow> string \<Rightarrow> string list result" where
  "resolve_fixture_reference env manifest_path reference =
     (if py_startswith reference ''/'' \<or> ''..'' \<in> set (posix_parts reference) \<or> CHR '':'' \<in> set reference
      then Inl (LifecycleError ''Fixture raw reference must be a safe relative path.'')
      else
        (let target = resolve_path env (butlast manifest_path @ posix_parts reference);
             parent = resolve_path env (butlast manifest_path) in
         if prefix parent target then Inr target
         else Inl (LifecycleError ''Fixture raw reference escapes its manifest directory.'')))"

definition read_file :: "pyenv \<Rightarrow> string list \<Rightarrow> string result" where
  "read_file env path =
     (case read_bytes env path of
        None \<Rightarrow> Inl (OSError (''No such file: '' @ py_join ''/'' path))
      | Some b \<Rightarrow> Inr b)"

section \<open>The manifest\<close>

definition OFFLINE_FIXTURE_NOTICE :: string where
  "OFFLINE_FIXTURE_NOTICE = ''SYNTHETIC TEST DATA - NO REAL FACILITIES''"

definition MANIFEST_FIELDS :: "string list" where
  "MANIFEST_FIELDS =
     [''contract_version'', ''fixture_kind'', ''source_family_id'', ''observation_kind'',
      ''recorded_at'', ''raw_payload_ref'', ''raw_payload_sha256'', ''schema_fields'']"

definition LIVE_MANIFEST_FIELDS :: "string list" where
  "LIVE_MANIFEST_FIELDS =
     [''contract_version'', ''evidence_kind'', ''source_family_id'', ''observation_kind'',
      ''snapshot_id'', ''recorded_at'', ''accessed_date'', ''catalog_identity'', ''source_identity'',
      ''provisional_attribution'', ''raw_payload_ref'', ''raw_payload_sha256'',
      ''normalized_content_sha256'', ''schema_fingerprint'', ''domain_fingerprint'', ''schema_fields'',
      ''retrieval_artifacts'', ''raw_response_set_sha256'', ''id_evidence'', ''page_evidence'',
      ''validation'']"

definition OBSERVATION_KINDS :: "string list" where
  "OBSERVATION_KINDS = [''synthetic_query'', ''synthetic_export'']"

definition missing_fields :: "string list \<Rightarrow> pydict \<Rightarrow> string list" where
  "missing_fields required d = sorted_set (filter (\<lambda>f. f \<notin> set (py_keys d)) required)"

definition extra_fields :: "string list \<Rightarrow> pydict \<Rightarrow> string list" where
  "extra_fields allowed d = sorted_set (filter (\<lambda>f. f \<notin> set allowed) (py_keys d))"

text \<open>One reason when the condition holds.\<close>

definition reason :: "bool \<Rightarrow> string \<Rightarrow> string list" where
  "reason b message = (if b then [message] else [])"

definition EXPECTED_CATALOG_IDENTITY :: pydict where
  "EXPECTED_CATALOG_IDENTITY =
     [(''catalog_url'', PStr CATALOG_URL), (''licenses_url'', PStr LICENSES_URL),
      (''publisher'', PStr ARCGIS_PUBLISHER), (''dataset_title'', PStr ARCGIS_DATASET_TITLE),
      (''license_designation'', PStr ARCGIS_LICENSE_DESIGNATION), (''license_version'', PNone)]"

definition EXPECTED_SOURCE_IDENTITY :: pydict where
  "EXPECTED_SOURCE_IDENTITY =
     [(''item_id'', PStr ARCGIS_ITEM_ID), (''service_name'', PStr ARCGIS_SERVICE_NAME),
      (''layer_id'', PInt ARCGIS_LAYER_ID), (''layer_name'', PStr ARCGIS_LAYER_NAME),
      (''item_url'', PStr ARCGIS_ITEM_URL), (''service_url'', PStr ARCGIS_SERVICE_URL),
      (''layer_url'', PStr ARCGIS_LAYER_URL), (''query_url'', PStr ARCGIS_QUERY_URL)]"

definition FINGERPRINT_FIELDS :: "string list" where
  "FINGERPRINT_FIELDS =
     [''raw_payload_sha256'', ''normalized_content_sha256'', ''schema_fingerprint'',
      ''domain_fingerprint'', ''raw_response_set_sha256'']"

fun nonblank_str :: "pyval \<Rightarrow> bool" where
  "nonblank_str (PStr s) = (s \<noteq> [])"
| "nonblank_str _ = False"

fun is_sha256_text :: "pyval \<Rightarrow> bool" where
  "is_sha256_text (PStr s) = (length s = 64)"
| "is_sha256_text _ = False"

fun str_or_empty :: "pyval \<Rightarrow> string" where
  "str_or_empty (PStr s) = s"
| "str_or_empty _ = []"

definition object_id_set_value :: "pydict \<Rightarrow> pyval" where
  "object_id_set_value manifest =
     (case py_get manifest ''id_evidence'' of PDict d \<Rightarrow> py_get d ''object_id_set_sha256'' | _ \<Rightarrow> PNone)"

definition manifest_status :: "pydict \<Rightarrow> pyval" where
  "manifest_status manifest =
     (case py_get manifest ''validation'' of PDict d \<Rightarrow> py_get d ''status'' | _ \<Rightarrow> PNone)"

definition validate_live_manifest :: "pyenv \<Rightarrow> pydict \<Rightarrow> string list" where
  "validate_live_manifest env manifest =
     (let missing = missing_fields LIVE_MANIFEST_FIELDS manifest;
          extra = extra_fields LIVE_MANIFEST_FIELDS manifest;
          accessed_date = py_get manifest ''accessed_date'';
          recorded = py_get manifest ''recorded_at'';
          snapshot = py_get manifest ''snapshot_id'';
          object_id_set = object_id_set_value manifest;
          fp = (\<lambda>f. str_or_empty (py_get manifest f))
      in reason (missing \<noteq> []) (''manifest omits fields: '' @ py_join '', '' missing)
       @ reason (extra \<noteq> []) (''manifest adds fields: '' @ py_join '', '' extra)
       @ reason (py_get manifest ''contract_version'' \<noteq> PStr SNAPSHOT_CONTRACT_VERSION)
           ''manifest contract_version is not 1.0.0''
       @ reason (py_get manifest ''evidence_kind'' \<noteq> PStr LIVE_QUERY_SCOPE)
           ''manifest is not a governed live query package''
       @ reason (py_get manifest ''source_family_id'' \<noteq> PStr ARCGIS_SUPPLEMENT_SOURCE_FAMILY_ID)
           ''manifest source family is not the inactive ArcGIS supplement''
       @ reason (py_get manifest ''observation_kind'' \<noteq> PStr LIVE_QUERY_OBSERVATION_KIND)
           ''manifest observation_kind is not live_query''
       @ reason (\<not> nonblank_str accessed_date) ''manifest accessed_date is not a nonblank string''
       @ reason (\<not> nonblank_str snapshot) ''manifest snapshot_id is not a nonblank string''
       @ reason (\<not> nonblank_str recorded) ''manifest recorded_at is not a nonblank string''
       @ reason (is_str accessed_date \<and> is_str recorded \<and>
                 str_or_empty accessed_date \<noteq> take 10 (str_or_empty recorded))
           ''manifest accessed_date does not match recorded_at''
       @ reason (is_str accessed_date \<and> is_str snapshot \<and>
                 py_get manifest ''provisional_attribution'' \<noteq>
                   PStr (provisional_attribution (str_or_empty snapshot) (str_or_empty accessed_date)))
           ''manifest provisional attribution differs from approval''
       @ reason (\<not> py_eq (py_get manifest ''catalog_identity'') (PDict EXPECTED_CATALOG_IDENTITY))
           ''manifest catalog identity differs from the approved source''
       @ reason (\<not> py_eq (py_get manifest ''source_identity'') (PDict EXPECTED_SOURCE_IDENTITY))
           ''manifest source identity differs from the approved ArcGIS layer''
       @ reason (manifest_status manifest \<noteq> PStr ''validated'')
           ''manifest retrieval validation is not complete''
       @ reason (\<not> is_str object_id_set) ''manifest ID evidence omits object_id_set_sha256''
       @ concat (map (\<lambda>f. reason (\<not> is_sha256_text (py_get manifest f))
                            (''manifest '' @ f @ '' is not a SHA-256 value'')) FINGERPRINT_FIELDS)
       @ reason (is_str snapshot \<and> is_str recorded \<and> is_str object_id_set \<and>
                 list_all (\<lambda>f. is_str (py_get manifest f)) FINGERPRINT_FIELDS \<and>
                 str_or_empty snapshot \<noteq>
                   live_snapshot_id env (str_or_empty recorded) (fp ''raw_payload_sha256'')
                     (fp ''normalized_content_sha256'') (fp ''schema_fingerprint'')
                     (fp ''domain_fingerprint'') (str_or_empty object_id_set)
                     (fp ''raw_response_set_sha256''))
           ''manifest snapshot_id does not match governed fingerprints'')"

definition validate_manifest :: "pyenv \<Rightarrow> pydict \<Rightarrow> string \<Rightarrow> string list" where
  "validate_manifest env manifest storage_scope =
     (if storage_scope = LIVE_QUERY_SCOPE then validate_live_manifest env manifest
      else
        (let missing = missing_fields MANIFEST_FIELDS manifest;
             extra = extra_fields MANIFEST_FIELDS manifest
         in reason (missing \<noteq> []) (''manifest omits fields: '' @ py_join '', '' missing)
          @ reason (extra \<noteq> []) (''manifest adds unauthorized fields: '' @ py_join '', '' extra)
          @ reason (py_get manifest ''contract_version'' \<noteq> PStr SNAPSHOT_CONTRACT_VERSION)
              ''manifest contract_version is not 1.0.0''
          @ reason (py_get manifest ''fixture_kind'' \<noteq> PStr OFFLINE_FIXTURE_SCOPE)
              ''manifest is not a repository synthetic fixture''
          @ reason (py_get manifest ''source_family_id'' \<noteq> PStr ARCGIS_SUPPLEMENT_SOURCE_FAMILY_ID)
              ''manifest source family is not the inactive ArcGIS supplement''
          @ reason (\<not> list_ex (\<lambda>k. py_get manifest ''observation_kind'' = PStr k) OBSERVATION_KINDS)
              ''manifest observation_kind is not an allowed synthetic observation''))"

section \<open>The rows\<close>

record row_scan =
  scan_rows :: "arcgis_row list"
  scan_rejections :: "string list"
  scan_warnings :: "string list"
  scan_object_ids :: "(int \<times> nat) list"
  scan_facility_numbers :: "(string \<times> nat) list"
  scan_omitted :: nat
  scan_invalid :: nat

definition empty_scan :: row_scan where
  "empty_scan = \<lparr>scan_rows = [], scan_rejections = [], scan_warnings = [], scan_object_ids = [],
     scan_facility_numbers = [], scan_omitted = 0, scan_invalid = 0\<rparr>"

definition invalid_field_names :: "pydict \<Rightarrow> string list" where
  "invalid_field_names normalized =
     sort (map fst (filter (\<lambda>kv. case snd kv of PDict d \<Rightarrow> py_get d ''state'' = PStr ''invalid''
                                          | _ \<Rightarrow> False) normalized))"

text \<open>The rejection reasons one object row contributes before its identity is looked at.\<close>

definition row_reasons :: "nat \<Rightarrow> pydict \<Rightarrow> pydict \<Rightarrow> string list" where
  "row_reasons row_index raw normalized =
     (let missing = missing_fields ARCGIS_RAW_FIELDS raw;
          extra = extra_fields ARCGIS_RAW_FIELDS raw;
          invalid = invalid_field_names normalized
      in reason (missing \<noteq> []) (''row '' @ show_nat row_index @ '' omits fields: '' @ py_join '', '' missing)
       @ reason (extra \<noteq> []) (''row '' @ show_nat row_index @ '' adds fields: '' @ py_join '', '' extra)
       @ reason (invalid \<noteq> [])
           (''row '' @ show_nat row_index @ '' has invalid fields: '' @ py_join '', '' invalid))"

definition raw_type_is_733 :: "pydict \<Rightarrow> bool" where
  "raw_type_is_733 normalized =
     (case py_get normalized ''raw_type_code'' of
        PDict d \<Rightarrow> py_eq (py_get d ''value'') (PInt 733)
      | _ \<Rightarrow> False)"

definition scan_row :: "pyenv \<Rightarrow> row_scan \<Rightarrow> nat \<times> pyval \<Rightarrow> row_scan" where
  "scan_row env acc ir =
     (let row_index = fst ir in
      case snd ir of
        PDict raw \<Rightarrow>
          (let normalized = normalize_arcgis_source_row raw;
               acc1 = acc\<lparr>scan_omitted := scan_omitted acc + length (missing_fields ARCGIS_RAW_FIELDS raw),
                 scan_invalid := scan_invalid acc + length (invalid_field_names normalized),
                 scan_rejections := scan_rejections acc @ row_reasons row_index raw normalized\<rparr>
           in case populated_int (py_get normalized ''object_id'') of
                None \<Rightarrow> acc1\<lparr>scan_rejections := scan_rejections acc1
                          @ [''row '' @ show_nat row_index @ '' has no valid ObjectId identity'']\<rparr>
              | Some object_id \<Rightarrow>
                  (let number = populated_text (py_get normalized ''facility_number'')
                   in acc1\<lparr>scan_object_ids := counter_incr (scan_object_ids acc1) object_id,
                           scan_facility_numbers :=
                             (case number of None \<Rightarrow> scan_facility_numbers acc1
                              | Some n \<Rightarrow> counter_incr (scan_facility_numbers acc1) n),
                           scan_warnings := scan_warnings acc1
                             @ reason (raw_type_is_733 normalized)
                                 (''row '' @ show_nat row_index @ '' retains unresolved raw TYPE value 733''),
                           scan_rows := scan_rows acc1
                             @ [\<lparr>source_object_id = object_id, facility_number = number,
                                 raw_record = raw, normalized_record = normalized,
                                 row_fingerprint = canonical_fingerprint env (PDict normalized)\<rparr>]\<rparr>))
      | _ \<Rightarrow> acc\<lparr>scan_rejections := scan_rejections acc
                @ [''row '' @ show_nat row_index @ '' is not a JSON object'']\<rparr>)"

definition scan_all :: "pyenv \<Rightarrow> pyval list \<Rightarrow> row_scan" where
  "scan_all env raw_records = foldl (scan_row env) empty_scan (enumerate 1 raw_records)"

definition duplicated :: "('a::linorder \<times> nat) list \<Rightarrow> 'a list" where
  "duplicated counts = sort (map fst (filter (\<lambda>kc. snd kc > 1) counts))"

definition surplus :: "('a \<times> nat) list \<Rightarrow> nat" where
  "surplus counts = sum_list (map (\<lambda>kc. snd kc - 1) (filter (\<lambda>kc. snd kc > 1) counts))"

section \<open>Disappearances\<close>

definition find_disappearances ::
  "arcgis_row list \<Rightarrow> arcgis_row list \<Rightarrow> string option \<Rightarrow> disappearance list" where
  "find_disappearances rows prior_rows prior_id =
     (case prior_id of
        None \<Rightarrow> []
      | Some pid \<Rightarrow>
          map (\<lambda>prior. \<lparr>prior_snapshot_id = pid, dis_source_object_id = source_object_id prior,
                        dis_facility_number = facility_number prior,
                        prior_row_fingerprint = row_fingerprint prior,
                        review_state = ''pending_reconciliation'', closure_inferred = False\<rparr>)
            (filter (\<lambda>prior. source_object_id prior \<notin> source_object_id ` set rows)
              (sort_key source_object_id prior_rows)))"

section \<open>The inspection\<close>

text \<open>What the active snapshot contributes: its rows and identity, and its fingerprints as the
  baseline (an empty fingerprint is no baseline).\<close>

record baseline =
  base_rows :: "arcgis_row list"
  base_snapshot_id :: "string option"
  base_schema :: "string option"
  base_domain :: "string option"

definition no_baseline :: baseline where
  "no_baseline = \<lparr>base_rows = [], base_snapshot_id = None, base_schema = None, base_domain = None\<rparr>"

definition differs_from :: "string option \<Rightarrow> string \<Rightarrow> bool" where
  "differs_from base fp = (case base of None \<Rightarrow> False | Some b \<Rightarrow> b \<noteq> [] \<and> fp \<noteq> b)"

fun list_or_empty :: "pyval \<Rightarrow> pyval list" where
  "list_or_empty (PList xs) = xs"
| "list_or_empty _ = []"

definition schema_domains :: "pyval list \<Rightarrow> pyval" where
  "schema_domains schema_fields =
     PList (concat (map (\<lambda>f. case f of
         PDict d \<Rightarrow> [PDict [(''name'', py_get d ''name''), (''domain'', py_get d ''domain'')]]
       | _ \<Rightarrow> []) schema_fields))"

definition rows_fingerprint :: "pyenv \<Rightarrow> arcgis_row list \<Rightarrow> string" where
  "rows_fingerprint env rows = canonical_fingerprint env (PList
     (map (\<lambda>r. PDict [(''source_object_id'', PInt (source_object_id r)),
                      (''row_fingerprint'', PStr (row_fingerprint r))]) rows))"

text \<open>The rows kept: all of them in the order of their identity, none when an identity repeats.\<close>

definition kept_rows :: "row_scan \<Rightarrow> arcgis_row list" where
  "kept_rows scan = sort_key source_object_id
     (if duplicated (scan_object_ids scan) \<noteq> [] then [] else scan_rows scan)"

definition row_rejections :: "row_scan \<Rightarrow> string list" where
  "row_rejections scan =
     (let dups = duplicated (scan_object_ids scan) in
      scan_rejections scan @
      reason (dups \<noteq> []) (''duplicate ObjectId identities: '' @ py_join '', '' (map show_int dups)))"

definition facility_number_warnings :: "row_scan \<Rightarrow> string list" where
  "facility_number_warnings scan =
     map (\<lambda>v. ''FAC_NBR '' @ v @ '' groups '' @ show_nat (counter_get (scan_facility_numbers scan) v)
              @ '' distinct source rows; none is collapsed'')
       (duplicated (scan_facility_numbers scan))"

definition payload_rejections :: "string \<Rightarrow> pydict \<Rightarrow> string list" where
  "payload_rejections storage_scope payload =
     (if storage_scope = OFFLINE_FIXTURE_SCOPE
      then reason (py_get payload ''fixture_notice'' \<noteq> PStr OFFLINE_FIXTURE_NOTICE)
             ''raw payload is not marked as fictional synthetic data''
      else reason (py_get payload ''source_kind'' \<noteq> PStr LIVE_QUERY_SCOPE)
             ''raw payload is not marked as a governed live query'')"

definition live_fingerprint_rejections ::
  "string \<Rightarrow> pydict \<Rightarrow> string \<Rightarrow> string \<Rightarrow> string \<Rightarrow> string list" where
  "live_fingerprint_rejections storage_scope manifest normalized_sha schema_fp domain_fp =
     (if storage_scope = LIVE_QUERY_SCOPE
      then reason (py_get manifest ''normalized_content_sha256'' \<noteq> PStr normalized_sha)
             ''normalized_content_sha256 does not match the lifecycle normalization''
         @ reason (py_get manifest ''schema_fingerprint'' \<noteq> PStr schema_fp)
             ''schema_fingerprint does not match schema_fields''
         @ reason (py_get manifest ''domain_fingerprint'' \<noteq> PStr domain_fp)
             ''domain_fingerprint does not match schema_fields''
      else [])"

definition inspection_report ::
  "pyval list \<Rightarrow> row_scan \<Rightarrow> disappearance list \<Rightarrow> string list \<Rightarrow> string list \<Rightarrow> pydict" where
  "inspection_report raw_records scan disappearances warnings rejections =
     [(''row_count'', PInt (int (length raw_records))),
      (''stored_row_count'', PInt (int (length (kept_rows scan)))),
      (''duplicate_object_id_count'', PInt (int (surplus (scan_object_ids scan)))),
      (''duplicate_facility_number_count'', PInt (int (surplus (scan_facility_numbers scan)))),
      (''omitted_field_count'', PInt (int (scan_omitted scan))),
      (''invalid_field_count'', PInt (int (scan_invalid scan))),
      (''disappearance_count'', PInt (int (length disappearances))),
      (''warnings'', PList (map PStr warnings)),
      (''rejection_reasons'', PList (map PStr rejections)),
      (''closure_inferred'', PBool False),
      (''canonical_or_reviewer_fields_written'', PBool False)]"

text \<open>Every deviation found, before duplicates are removed: in the manifest and the payload, in the
  schema (against the contract and the baseline), and in the rows.\<close>

definition package_rejections ::
  "pyenv \<Rightarrow> string \<Rightarrow> baseline \<Rightarrow> pydict \<Rightarrow> string \<Rightarrow> string \<Rightarrow> pydict \<Rightarrow> row_scan \<Rightarrow> string list" where
  "package_rejections env storage_scope base manifest raw_sha expected_raw_sha payload scan =
     (let schema_fields = list_or_empty (py_get manifest ''schema_fields'');
          schema_fp = canonical_fingerprint env (PList schema_fields);
          domain_fp = canonical_fingerprint env (schema_domains schema_fields);
          manifest_rejections = validate_manifest env manifest storage_scope
            @ reason (raw_sha \<noteq> expected_raw_sha) ''raw_payload_sha256 does not match the fixture bytes''
            @ payload_rejections storage_scope payload
            @ live_fingerprint_rejections storage_scope manifest
                (rows_fingerprint env (kept_rows scan)) schema_fp domain_fp;
          schema_rejections = validate_arcgis_schema_fields env schema_fields
            @ reason (differs_from (base_schema base) schema_fp)
                ''schema fingerprint differs from the active accepted snapshot''
            @ reason (differs_from (base_domain base) domain_fp)
                ''domain fingerprint differs from the active accepted snapshot''
      in manifest_rejections @ schema_rejections @ row_rejections scan)"

definition package_warnings :: "row_scan \<Rightarrow> disappearance list \<Rightarrow> string list" where
  "package_warnings scan disappearances =
     scan_warnings scan @ facility_number_warnings scan
       @ reason (disappearances \<noteq> [])
           (show_nat (length disappearances)
              @ '' prior source row(s) disappeared; closure is not inferred'')"

definition inspect_arcgis_package ::
  "pyenv \<Rightarrow> string list \<Rightarrow> string \<Rightarrow> baseline \<Rightarrow> inspection result" where
  "inspect_arcgis_package env manifest_path storage_scope base =
     ebind (read_file env manifest_path) (\<lambda>manifest_bytes.
     ebind (json_object env ''snapshot manifest'' manifest_bytes) (\<lambda>manifest.
     ebind (required_text manifest ''raw_payload_ref'') (\<lambda>raw_ref.
     ebind (resolve_fixture_reference env manifest_path raw_ref) (\<lambda>raw_path.
     ebind (read_file env raw_path) (\<lambda>raw_bytes.
     ebind (required_text manifest ''raw_payload_sha256'') (\<lambda>expected_raw_sha.
     ebind (json_object env ''snapshot raw payload'' raw_bytes) (\<lambda>payload.
     ebind (case py_get payload ''records'' of
              PList rs \<Rightarrow> Inr rs
            | _ \<Rightarrow> Inl (LifecycleError ''Fixture raw payload records must be a JSON array.'')) (\<lambda>raw_records.
     (let manifest_sha = sha256_bytes env manifest_bytes;
          raw_sha = sha256_bytes env raw_bytes;
          schema_fields = list_or_empty (py_get manifest ''schema_fields'');
          schema_fp = canonical_fingerprint env (PList schema_fields);
          domain_fp = canonical_fingerprint env (schema_domains schema_fields);
          scan = scan_all env raw_records;
          rows = kept_rows scan;
          normalized_sha = rows_fingerprint env rows;
          disappearances = find_disappearances rows (base_rows base) (base_snapshot_id base);
          warnings = deduplicate_sorted (package_warnings scan disappearances);
          rejections = deduplicate_sorted
            (package_rejections env storage_scope base manifest raw_sha expected_raw_sha payload scan)
      in ebind (if storage_scope = OFFLINE_FIXTURE_SCOPE
                then Inr (''arcgis-fixture-'' @ take 48 (canonical_fingerprint env (PDict
                       [(''source_family_id'', PStr ARCGIS_SUPPLEMENT_SOURCE_FAMILY_ID),
                        (''manifest_sha256'', PStr manifest_sha),
                        (''raw_payload_sha256'', PStr raw_sha)])))
                else required_text manifest ''snapshot_id'') (\<lambda>sid.
         ebind (required_text manifest ''observation_kind'') (\<lambda>kind.
         ebind (required_text manifest ''recorded_at'') (\<lambda>recorded.
         Inr \<lparr>insp_snapshot_id = sid,
              insp_source_family_id = ARCGIS_SUPPLEMENT_SOURCE_FAMILY_ID,
              insp_storage_scope = storage_scope,
              insp_observation_kind = kind,
              insp_manifest_ref = last manifest_path,
              insp_manifest_sha256 = manifest_sha,
              insp_raw_payload_ref = raw_ref,
              insp_raw_payload_sha256 = raw_sha,
              insp_normalized_content_sha256 = normalized_sha,
              insp_schema_fingerprint = schema_fp,
              insp_domain_fingerprint = domain_fp,
              insp_recorded_at = recorded,
              insp_rows = rows,
              insp_disappearances = disappearances,
              insp_validation_report =
                inspection_report raw_records scan disappearances warnings rejections\<rparr>))))))))))))"

definition inspect_arcgis_fixture_package ::
  "pyenv \<Rightarrow> string list \<Rightarrow> baseline \<Rightarrow> inspection result" where
  "inspect_arcgis_fixture_package env manifest_path base =
     inspect_arcgis_package env manifest_path OFFLINE_FIXTURE_SCOPE base"

definition inspect_arcgis_live_query_package ::
  "pyenv \<Rightarrow> string list \<Rightarrow> string \<Rightarrow> baseline \<Rightarrow> inspection result" where
  "inspect_arcgis_live_query_package env manifest_path execution_scope base =
     ebind (require_isolated_nonproduction execution_scope) (\<lambda>_.
     inspect_arcgis_package env manifest_path LIVE_QUERY_SCOPE base)"

section \<open>The scan, row by row\<close>

definition row_of :: "pyenv \<Rightarrow> pyval \<Rightarrow> arcgis_row list" where
  "row_of env v =
     (case v of
        PDict raw \<Rightarrow>
          (case populated_int (py_get (normalize_arcgis_source_row raw) ''object_id'') of
             None \<Rightarrow> []
           | Some oid \<Rightarrow>
               [\<lparr>source_object_id = oid,
                 facility_number = populated_text (py_get (normalize_arcgis_source_row raw) ''facility_number''),
                 raw_record = raw, normalized_record = normalize_arcgis_source_row raw,
                 row_fingerprint = canonical_fingerprint env (PDict (normalize_arcgis_source_row raw))\<rparr>])
      | _ \<Rightarrow> [])"

definition reasons_of :: "nat \<times> pyval \<Rightarrow> string list" where
  "reasons_of iv =
     (case snd iv of
        PDict raw \<Rightarrow>
          row_reasons (fst iv) raw (normalize_arcgis_source_row raw) @
          reason (populated_int (py_get (normalize_arcgis_source_row raw) ''object_id'') = None)
            (''row '' @ show_nat (fst iv) @ '' has no valid ObjectId identity'')
      | _ \<Rightarrow> [''row '' @ show_nat (fst iv) @ '' is not a JSON object''])"

lemma reason_simps [simp]: "reason True m = [m]" "reason False m = []"
  by (simp_all add: reason_def)

lemma reason_Nil [simp]: "reason b m = [] \<longleftrightarrow> \<not> b"
  by (simp add: reason_def)

lemma scan_row_step:
  "scan_rows (scan_row env acc iv) = scan_rows acc @ row_of env (snd iv)"
  "scan_rejections (scan_row env acc iv) = scan_rejections acc @ reasons_of iv"
  "scan_object_ids (scan_row env acc iv) =
     foldl counter_incr (scan_object_ids acc) (map source_object_id (row_of env (snd iv)))"
  "scan_facility_numbers (scan_row env acc iv) =
     foldl counter_incr (scan_facility_numbers acc)
       (List.map_filter facility_number (row_of env (snd iv)))"
  by (simp_all add: scan_row_def row_of_def reasons_of_def Let_def List.map_filter_def
      split: pyval.split option.split)

lemma scan_fold:
  "scan_rows (foldl (scan_row env) acc ivs) = scan_rows acc @ concat (map (row_of env \<circ> snd) ivs)"
  "scan_rejections (foldl (scan_row env) acc ivs) = scan_rejections acc @ concat (map reasons_of ivs)"
  "scan_object_ids (foldl (scan_row env) acc ivs) =
     foldl counter_incr (scan_object_ids acc)
       (map source_object_id (concat (map (row_of env \<circ> snd) ivs)))"
  by (induction ivs arbitrary: acc) (simp_all add: scan_row_step)

lemma scan_all_rows: "scan_rows (scan_all env rs) = concat (map (row_of env) rs)"
proof -
  have "map (row_of env \<circ> snd) (enumerate 1 rs) = map (row_of env) rs"
    by (metis map_map map_snd_enumerate)
  then show ?thesis by (simp add: scan_all_def scan_fold empty_scan_def)
qed

lemma scan_all_ids: "scan_object_ids (scan_all env rs) =
    counter_of (map source_object_id (scan_rows (scan_all env rs)))"
  by (simp add: scan_all_def scan_fold empty_scan_def counter_of_def)

lemma scan_all_rejections: "scan_rejections (scan_all env rs) = concat (map reasons_of (enumerate 1 rs))"
  by (simp add: scan_all_def scan_fold empty_scan_def)

lemma set_duplicated: "set (duplicated (counter_of xs)) = {k \<in> set xs. count_list xs k > 1}"
proof -
  have "set (duplicated (counter_of xs)) = {k. \<exists>n. (k, n) \<in> set (counter_of xs) \<and> n > 1}"
    by (force simp: duplicated_def)
  then show ?thesis by (auto simp: counter_of_entry)
qed

lemma distinct_count: "(\<forall>k \<in> set xs. \<not> count_list xs k > 1) \<longleftrightarrow> distinct xs"
proof (induction xs)
  case (Cons x xs)
  have "count_list xs x = 0 \<longleftrightarrow> x \<notin> set xs" by (simp add: count_list_0_iff)
  with Cons show ?case by (auto simp: count_list_0_iff)
qed simp

lemma duplicated_counter: "duplicated (counter_of xs) = [] \<longleftrightarrow> distinct xs"
  unfolding set_empty [symmetric] set_duplicated distinct_count [symmetric] by blast

lemma kept_rows_scan: "kept_rows (scan_all env rs) =
    (let rows = concat (map (row_of env) rs)
     in if distinct (map source_object_id rows) then sort_key source_object_id rows else [])"
  by (simp add: kept_rows_def scan_all_ids scan_all_rows duplicated_counter Let_def)

lemma distinct_map_sort_key [simp]: "distinct (map f (sort_key f xs)) \<longleftrightarrow> distinct (map f xs)"
  by (simp add: distinct_map)

lemma kept_rows_sorted:
  "sorted_wrt (<) (map source_object_id (kept_rows (scan_all env rs)))"
proof -
  have "distinct (map source_object_id (kept_rows (scan_all env rs)))"
    by (simp add: kept_rows_scan Let_def)
  moreover have "sorted (map source_object_id (kept_rows (scan_all env rs)))"
    by (simp add: kept_rows_scan Let_def)
  ultimately show ?thesis by (simp add: strict_sorted_iff)
qed

text \<open>A scan with no rejection keeps every record, each with exactly the approved fields.\<close>

lemma missing_fields_Nil: "missing_fields req d = [] \<longleftrightarrow> set req \<subseteq> set (py_keys d)"
  by (auto simp: missing_fields_def filter_empty_conv)

lemma extra_fields_Nil: "extra_fields req d = [] \<longleftrightarrow> set (py_keys d) \<subseteq> set req"
  by (auto simp: extra_fields_def filter_empty_conv)

lemma reasons_of_Nil:
  assumes "reasons_of (i, v) = []"
  obtains raw r where "v = PDict raw" "row_of env v = [r]" "raw_record r = raw"
    "normalized_record r = normalize_arcgis_source_row raw"
    "row_fingerprint r = canonical_fingerprint env (PDict (normalized_record r))"
    "set (py_keys raw) = set ARCGIS_RAW_FIELDS"
    "invalid_field_names (normalized_record r) = []"
proof -
  from assms obtain raw where v: "v = PDict raw"
    by (auto simp: reasons_of_def split: pyval.splits)
  with assms obtain oid where oid: "populated_int (py_get (normalize_arcgis_source_row raw) ''object_id'') = Some oid"
    by (auto simp: reasons_of_def)
  from v assms have "missing_fields ARCGIS_RAW_FIELDS raw = []" "extra_fields ARCGIS_RAW_FIELDS raw = []"
    "invalid_field_names (normalize_arcgis_source_row raw) = []"
    by (auto simp: reasons_of_def row_reasons_def Let_def)
  with v oid that show ?thesis
    by (simp add: row_of_def missing_fields_Nil extra_fields_Nil)
qed

lemma clean_scan_rows:
  assumes "concat (map reasons_of (enumerate n rs)) = []"
  shows "map (PDict \<circ> raw_record) (concat (map (row_of env) rs)) = rs"
    and "r \<in> set (concat (map (row_of env) rs)) \<Longrightarrow>
      set (py_keys (raw_record r)) = set ARCGIS_RAW_FIELDS \<and>
      normalized_record r = normalize_arcgis_source_row (raw_record r) \<and>
      row_fingerprint r = canonical_fingerprint env (PDict (normalized_record r)) \<and>
      invalid_field_names (normalized_record r) = []"
  using assms
proof (induction rs arbitrary: n)
  case (Cons v rs)
  {
    case 1
    then have "reasons_of (n, v) = []" by simp
    then show ?case using 1 Cons.IH(1) [of "Suc n"] by (auto elim!: reasons_of_Nil [where env = env])
  next
    case 2
    then have "reasons_of (n, v) = []" by simp
    then show ?case using 2 Cons.IH(2) [of "Suc n"]
      by (auto elim!: reasons_of_Nil [where env = env] simp del: set_py_keys)
  }
qed simp_all


section \<open>What an inspection guarantees\<close>

lemma inspect_cases:
  assumes "inspect_arcgis_package env path scope base = Inr insp"
  obtains manifest raw_ref raw_path raw_bytes expected payload rs where
    "required_text manifest ''raw_payload_ref'' = Inr raw_ref"
    "resolve_fixture_reference env path raw_ref = Inr raw_path"
    "read_bytes env raw_path = Some raw_bytes"
    "json_loads env raw_bytes = Some (PDict payload)"
    "py_get payload ''records'' = PList rs"
    "insp_raw_payload_sha256 insp = sha256_bytes env raw_bytes"
    "insp_rows insp = kept_rows (scan_all env rs)"
    "insp_disappearances insp =
       find_disappearances (insp_rows insp) (base_rows base) (base_snapshot_id base)"
    "insp_source_family_id insp = ARCGIS_SUPPLEMENT_SOURCE_FAMILY_ID"
    "insp_storage_scope insp = scope"
    "required_text manifest ''raw_payload_sha256'' = Inr expected"
    "insp_validation_report insp = inspection_report rs (scan_all env rs) (insp_disappearances insp)
       (deduplicate_sorted (package_warnings (scan_all env rs) (insp_disappearances insp)))
       (deduplicate_sorted (package_rejections env scope base manifest (sha256_bytes env raw_bytes)
          expected payload (scan_all env rs)))"
proof -
  from assms obtain mb manifest raw_ref raw_path raw_bytes expected payload rs where
    1: "read_file env path = Inr mb" "json_object env ''snapshot manifest'' mb = Inr manifest"
      "required_text manifest ''raw_payload_ref'' = Inr raw_ref"
      "resolve_fixture_reference env path raw_ref = Inr raw_path"
      "read_file env raw_path = Inr raw_bytes"
      "required_text manifest ''raw_payload_sha256'' = Inr expected"
      "json_object env ''snapshot raw payload'' raw_bytes = Inr payload"
      "(case py_get payload ''records'' of PList rs \<Rightarrow> Inr rs
        | _ \<Rightarrow> Inl (LifecycleError ''Fixture raw payload records must be a JSON array.'')) = Inr rs"
    unfolding inspect_arcgis_package_def by (elim ebind_InrE)
  have rs: "py_get payload ''records'' = PList rs"
    using 1(8) by (cases "py_get payload ''records''") simp_all
  have rb: "read_bytes env raw_path = Some raw_bytes"
    using 1(5) by (simp add: read_file_def split: option.splits)
  have jl: "json_loads env raw_bytes = Some (PDict payload)"
    using 1(7) by (simp add: json_object_def split: option.splits pyval.splits)
  note eq = assms [unfolded inspect_arcgis_package_def 1 rs ebind_simps Let_def pyval.case]
  then show ?thesis
    by (elim ebind_InrE) (rule that [OF 1(3,4) rb jl rs _ _ _ _ _ 1(6)]; auto)
qed

lemma rejection_reasons_report:
  "insp_validation_report insp = inspection_report rs scan ds ws rejs \<Longrightarrow> rejection_reasons env insp = rejs"
  by (simp add: rejection_reasons_def inspection_report_def py_str_def comp_def)

lemma package_rejections_Nil:
  assumes "package_rejections env scope base manifest raw_sha expected payload (scan_all env rs) = []"
  shows "raw_sha = expected" "validate_manifest env manifest scope = []"
    "payload_rejections scope payload = []"
    "validate_arcgis_schema_fields env (list_or_empty (py_get manifest ''schema_fields'')) = []"
    "concat (map reasons_of (enumerate 1 rs)) = []"
    "distinct (map source_object_id (concat (map (row_of env) rs)))"
  using assms
  by (simp_all add: package_rejections_def row_rejections_def scan_all_rejections scan_all_ids
      scan_all_rows duplicated_counter Let_def del: concat_eq_Nil_conv)

end
