(* ===== verification/Arcgis_Staging.thy ===== *)
theory Arcgis_Staging imports Arcgis_Inspection
begin

text \<open>
  Staging an ArcGIS package (\<open>_stage_arcgis_snapshot\<close> of
  \<open>hosted_app/source_snapshot_lifecycle.py\<close>): the package is inspected against the active
  snapshot, then either found to be stored already, in which case the stored evidence is
  returned, or inserted as a candidate with its rows and disappearances.
\<close>

section \<open>Reading a report\<close>

definition py_index :: "pydict \<Rightarrow> string \<Rightarrow> pyval result" where
  "py_index d k = (case map_of d k of None \<Rightarrow> Inl (KeyError k) | Some v \<Rightarrow> Inr v)"

text \<open>\<open>int(report[k])\<close> for the counts a report holds; other values would raise.\<close>

definition report_int :: "pydict \<Rightarrow> string \<Rightarrow> int result" where
  "report_int d k = ebind (py_index d k) (\<lambda>v. case v of
      PInt i \<Rightarrow> Inr i
    | PBool b \<Rightarrow> Inr (if b then 1 else 0)
    | _ \<Rightarrow> Inl (TypeError k))"

text \<open>\<open>len(report[k])\<close>.\<close>

definition report_len :: "pydict \<Rightarrow> string \<Rightarrow> int result" where
  "report_len d k = ebind (py_index d k) (\<lambda>v. case v of
      PList xs \<Rightarrow> Inr (int (length xs))
    | PStr s \<Rightarrow> Inr (int (length s))
    | PDict e \<Rightarrow> Inr (int (length e))
    | _ \<Rightarrow> Inl (TypeError k))"

section \<open>Stored evidence\<close>

definition stored_rows :: "'z snapshot_db_scheme \<Rightarrow> string \<Rightarrow> arcgis_row list" where
  "stored_rows db i = map snd (filter (\<lambda>r. fst r = i) (source_snapshot_rows db))"

definition stored_disappearances :: "'z snapshot_db_scheme \<Rightarrow> string \<Rightarrow> disappearance list" where
  "stored_disappearances db i =
     map snd (filter (\<lambda>r. fst r = i) (source_snapshot_disappearances db))"

definition stored_inspection :: "'z snapshot_db_scheme \<Rightarrow> snapshot \<Rightarrow> inspection" where
  "stored_inspection db s =
     \<lparr>insp_snapshot_id = snapshot_id s,
      insp_source_family_id = source_family_id s,
      insp_storage_scope = fixture_scope s,
      insp_observation_kind = observation_kind s,
      insp_manifest_ref = manifest_ref s,
      insp_manifest_sha256 = manifest_sha256 s,
      insp_raw_payload_ref = raw_payload_ref s,
      insp_raw_payload_sha256 = raw_payload_sha256 s,
      insp_normalized_content_sha256 = normalized_content_sha256 s,
      insp_schema_fingerprint = schema_fingerprint s,
      insp_domain_fingerprint = domain_fingerprint s,
      insp_recorded_at = recorded_at s,
      insp_rows = stored_rows db (snapshot_id s),
      insp_disappearances = stored_disappearances db (snapshot_id s),
      insp_validation_report = validation_report s\<rparr>"

definition assert_same_immutable_snapshot :: "snapshot \<Rightarrow> inspection \<Rightarrow> unit result" where
  "assert_same_immutable_snapshot s insp =
     guard (source_family_id s = insp_source_family_id insp \<and>
            fixture_scope s = insp_storage_scope insp \<and>
            manifest_sha256 s = insp_manifest_sha256 insp \<and>
            raw_payload_sha256 s = insp_raw_payload_sha256 insp \<and>
            normalized_content_sha256 s = insp_normalized_content_sha256 insp \<and>
            schema_fingerprint s = insp_schema_fingerprint insp \<and>
            domain_fingerprint s = insp_domain_fingerprint insp)
       (LifecycleError (''Immutable snapshot identity collision for '' @ insp_snapshot_id insp @ ''.''))"

section \<open>Staging\<close>

text \<open>The part of staging before the package is inspected: the active snapshot of the family is
  the baseline.\<close>

definition staging_baseline :: "'z snapshot_db_scheme \<Rightarrow> baseline" where
  "staging_baseline db =
     (case active_snapshot_record db ARCGIS_SUPPLEMENT_SOURCE_FAMILY_ID of
        None \<Rightarrow> no_baseline
      | Some s \<Rightarrow> \<lparr>base_rows = stored_rows db (snapshot_id s), base_snapshot_id = Some (snapshot_id s),
                  base_schema = Some (schema_fingerprint s), base_domain = Some (domain_fingerprint s)\<rparr>)"

definition candidate_row :: "inspection \<Rightarrow> snapshot result" where
  "candidate_row insp =
     (let report = insp_validation_report insp in
      ebind (report_int report ''row_count'') (\<lambda>rc.
      ebind (report_int report ''stored_row_count'') (\<lambda>sc.
      ebind (report_int report ''duplicate_object_id_count'') (\<lambda>dc.
      ebind (report_int report ''duplicate_facility_number_count'') (\<lambda>fc.
      ebind (report_int report ''omitted_field_count'') (\<lambda>oc.
      ebind (report_int report ''invalid_field_count'') (\<lambda>ic.
      ebind (report_len report ''warnings'') (\<lambda>wc.
      ebind (report_len report ''rejection_reasons'') (\<lambda>rrc.
      Inr \<lparr>snapshot_id = insp_snapshot_id insp,
           source_family_id = insp_source_family_id insp,
           fixture_scope = insp_storage_scope insp,
           observation_kind = insp_observation_kind insp,
           lifecycle_state = Candidate,
           manifest_ref = insp_manifest_ref insp,
           manifest_sha256 = insp_manifest_sha256 insp,
           raw_payload_ref = insp_raw_payload_ref insp,
           raw_payload_sha256 = insp_raw_payload_sha256 insp,
           normalized_content_sha256 = insp_normalized_content_sha256 insp,
           schema_fingerprint = insp_schema_fingerprint insp,
           domain_fingerprint = insp_domain_fingerprint insp,
           row_count = rc, stored_row_count = sc,
           duplicate_object_id_count = dc, duplicate_facility_number_count = fc,
           omitted_field_count = oc, invalid_field_count = ic,
           warning_count = wc, rejection_reason_count = rrc,
           validation_report = report,
           recorded_at = insp_recorded_at insp,
           validated_at = None, rejected_at = None, accepted_at = None\<rparr>)))))))))"

definition insert_candidate ::
  "'z snapshot_db_scheme \<Rightarrow> inspection \<Rightarrow> 'z snapshot_db_scheme result" where
  "insert_candidate db insp =
     ebind (candidate_row insp) (\<lambda>s.
     ebind (insert_snapshot s db) (\<lambda>db1.
     ebind (foldM_err (insert_snapshot_row (insp_snapshot_id insp)) db1 (insp_rows insp)) (\<lambda>db2.
     foldM_err (insert_disappearance (insp_snapshot_id insp)) db2 (insp_disappearances insp))))"

definition stage_arcgis_snapshot ::
  "pyenv \<Rightarrow> 'z snapshot_db_scheme \<Rightarrow> string list \<Rightarrow> string \<Rightarrow> string option
     \<Rightarrow> ('z snapshot_db_scheme \<times> inspection) result" where
  "stage_arcgis_snapshot env db manifest_path storage_scope execution_scope =
     (let base = staging_baseline db in
      ebind (if storage_scope = OFFLINE_FIXTURE_SCOPE
             then inspect_arcgis_fixture_package env manifest_path base
             else inspect_arcgis_live_query_package env manifest_path
                    (case execution_scope of None \<Rightarrow> '''' | Some e \<Rightarrow> e) base) (\<lambda>insp.
      case find_snapshot db (insp_snapshot_id insp) of
        Some s \<Rightarrow>
          ebind (assert_same_immutable_snapshot s insp) (\<lambda>_.
          Inr (db, stored_inspection db s))
      | None \<Rightarrow>
          ebind (insert_candidate db insp) (\<lambda>db'. Inr (db', insp))))"

definition stage_arcgis_fixture_snapshot ::
  "pyenv \<Rightarrow> 'z snapshot_db_scheme \<Rightarrow> string list \<Rightarrow> ('z snapshot_db_scheme \<times> inspection) result" where
  "stage_arcgis_fixture_snapshot env db manifest_path =
     stage_arcgis_snapshot env db manifest_path OFFLINE_FIXTURE_SCOPE None"

definition stage_arcgis_live_query_snapshot ::
  "pyenv \<Rightarrow> 'z snapshot_db_scheme \<Rightarrow> string list \<Rightarrow> string \<Rightarrow> ('z snapshot_db_scheme \<times> inspection) result" where
  "stage_arcgis_live_query_snapshot env db manifest_path execution_scope =
     ebind (require_isolated_nonproduction execution_scope) (\<lambda>_.
     stage_arcgis_snapshot env db manifest_path LIVE_QUERY_SCOPE (Some execution_scope))"

section \<open>Inserting many rows\<close>

lemma insert_rows_ok:
  assumes "i \<in> set (snapshot_ids db)" and "distinct (map source_object_id rows)"
    and "\<forall>r \<in> set (source_snapshot_rows db). fst r = i \<longrightarrow> source_object_id (snd r) \<notin> source_object_id ` set rows"
  shows "foldM_err (insert_snapshot_row i) db rows =
    Inr (db\<lparr>source_snapshot_rows := source_snapshot_rows db @ map (Pair i) rows\<rparr>)"
  using assms
proof (induction rows arbitrary: db)
  case (Cons r rows)
  let ?db = "db\<lparr>source_snapshot_rows := source_snapshot_rows db @ [(i, r)]\<rparr>"
  have "row_key (i, r) \<notin> row_key ` set (source_snapshot_rows db)"
    using Cons.prems(3) by (auto simp: row_key_def)
  then have "insert_snapshot_row i db r = Inr ?db"
    using Cons.prems(1) by (simp add: insert_snapshot_row_def)
  moreover have "foldM_err (insert_snapshot_row i) ?db rows =
      Inr (?db\<lparr>source_snapshot_rows := source_snapshot_rows ?db @ map (Pair i) rows\<rparr>)"
    using Cons.prems by (intro Cons.IH) (auto simp: snapshot_ids_def)
  ultimately show ?case by simp
qed simp

lemma insert_disappearances_ok:
  assumes "i \<in> set (snapshot_ids db)" and "distinct (map dis_source_object_id ds)"
    and "\<forall>d \<in> set ds. disappearance_checks d \<and> prior_snapshot_id d \<in> set (snapshot_ids db)"
    and "\<forall>d \<in> set (source_snapshot_disappearances db). fst d = i \<longrightarrow>
           dis_source_object_id (snd d) \<notin> dis_source_object_id ` set ds"
  shows "foldM_err (insert_disappearance i) db ds =
    Inr (db\<lparr>source_snapshot_disappearances := source_snapshot_disappearances db @ map (Pair i) ds\<rparr>)"
  using assms
proof (induction ds arbitrary: db)
  case (Cons d ds)
  let ?db = "db\<lparr>source_snapshot_disappearances := source_snapshot_disappearances db @ [(i, d)]\<rparr>"
  have "disappearance_key (i, d) \<notin> disappearance_key ` set (source_snapshot_disappearances db)"
    using Cons.prems(4) by (auto simp: disappearance_key_def)
  then have "insert_disappearance i db d = Inr ?db"
    using Cons.prems(1,3) by (simp add: insert_disappearance_def)
  moreover have "foldM_err (insert_disappearance i) ?db ds =
      Inr (?db\<lparr>source_snapshot_disappearances := source_snapshot_disappearances ?db @ map (Pair i) ds\<rparr>)"
    using Cons.prems by (intro Cons.IH) (auto simp: snapshot_ids_def)
  ultimately show ?case by simp
qed simp

section \<open>The candidate\<close>

lemma report_readings:
  assumes "report = inspection_report rs scan ds ws rejs"
  shows "report_int report ''row_count'' = Inr (int (length rs))"
    "report_int report ''stored_row_count'' = Inr (int (length (kept_rows scan)))"
    "report_int report ''duplicate_object_id_count'' = Inr (int (surplus (scan_object_ids scan)))"
    "report_int report ''duplicate_facility_number_count'' = Inr (int (surplus (scan_facility_numbers scan)))"
    "report_int report ''omitted_field_count'' = Inr (int (scan_omitted scan))"
    "report_int report ''invalid_field_count'' = Inr (int (scan_invalid scan))"
    "report_len report ''warnings'' = Inr (int (length ws))"
    "report_len report ''rejection_reasons'' = Inr (int (length rejs))"
  by (simp_all add: assms report_int_def report_len_def py_index_def inspection_report_def)

lemma candidate_row_report:
  assumes "insp_validation_report insp = inspection_report rs scan ds ws rejs"
  obtains s where "candidate_row insp = Inr s" "snapshot_id s = insp_snapshot_id insp"
    "lifecycle_state s = Candidate" "validated_at s = None" "rejected_at s = None"
    "accepted_at s = None" "rejection_reason_count s = int (length rejs)"
    "row_count s = int (length rs)" "stored_row_count s = int (length (kept_rows scan))"
    "\<And>db :: 'z snapshot_db_scheme. stored_rows db (insp_snapshot_id insp) = insp_rows insp \<Longrightarrow>
       stored_disappearances db (insp_snapshot_id insp) = insp_disappearances insp \<Longrightarrow>
       stored_inspection db s = insp"
    "assert_same_immutable_snapshot s insp = Inr ()"
  using report_readings [OF assms] by (simp add: candidate_row_def stored_inspection_def
      assert_same_immutable_snapshot_def)

lemma find_disappearances_props:
  assumes "distinct (map source_object_id prior)"
  shows "distinct (map dis_source_object_id (find_disappearances rows prior pid))"
    and "d \<in> set (find_disappearances rows prior pid) \<Longrightarrow>
      disappearance_checks d \<and> pid = Some (prior_snapshot_id d)"
proof -
  have "distinct (map source_object_id (filter P (sort_key source_object_id prior)))" for P
    using assms by (metis distinct_map_filter distinct_map_sort_key)
  then show "distinct (map dis_source_object_id (find_disappearances rows prior pid))"
    by (simp add: find_disappearances_def comp_def split: option.split)
  show "d \<in> set (find_disappearances rows prior pid) \<Longrightarrow>
      disappearance_checks d \<and> pid = Some (prior_snapshot_id d)"
    by (auto simp: find_disappearances_def disappearance_checks_def split: option.splits)
qed

lemma stored_rows_distinct:
  assumes "store_inv db"
  shows "distinct (map source_object_id (stored_rows db i))"
proof -
  have "distinct (map row_key (filter (\<lambda>r. fst r = i) (source_snapshot_rows db)))"
    using assms by (simp add: store_inv_def distinct_map_filter)
  then have "inj_on row_key (set (filter (\<lambda>r. fst r = i) (source_snapshot_rows db)))"
    "distinct (filter (\<lambda>r. fst r = i) (source_snapshot_rows db))"
    by (simp_all add: distinct_map)
  then show ?thesis
    by (auto simp: stored_rows_def distinct_map comp_def inj_on_def row_key_def)
qed

lemma staging_baseline_props:
  assumes "store_inv db"
  shows "distinct (map source_object_id (base_rows (staging_baseline db)))"
    and "base_snapshot_id (staging_baseline db) = Some i \<Longrightarrow> i \<in> set (snapshot_ids db)"
proof -
  show "distinct (map source_object_id (base_rows (staging_baseline db)))"
    using stored_rows_distinct [OF assms]
    by (simp add: staging_baseline_def no_baseline_def split: option.split)
  show "base_snapshot_id (staging_baseline db) = Some i \<Longrightarrow> i \<in> set (snapshot_ids db)"
    by (auto simp: staging_baseline_def no_baseline_def active_snapshot_record_def snapshot_ids_def
        split: option.splits dest!: find_snapshot_SomeD)
qed

section \<open>Staging keeps the store\<close>

lemma stage_cases:
  assumes "stage_arcgis_snapshot env db path scope ex = Inr (db', insp)"
  obtains (stored) scope' insp0 s where
      "inspect_arcgis_package env path scope' (staging_baseline db) = Inr insp0"
      "scope' = (if scope = OFFLINE_FIXTURE_SCOPE then scope else LIVE_QUERY_SCOPE)"
      "find_snapshot db (insp_snapshot_id insp0) = Some s"
      "assert_same_immutable_snapshot s insp0 = Inr ()" "db' = db" "insp = stored_inspection db s"
  | (fresh) scope' where
      "inspect_arcgis_package env path scope' (staging_baseline db) = Inr insp"
      "scope' = (if scope = OFFLINE_FIXTURE_SCOPE then scope else LIVE_QUERY_SCOPE)"
      "find_snapshot db (insp_snapshot_id insp) = None" "insert_candidate db insp = Inr db'"
proof -
  let ?scope = "if scope = OFFLINE_FIXTURE_SCOPE then scope else LIVE_QUERY_SCOPE"
  from assms obtain insp0 where insp0: "inspect_arcgis_package env path ?scope (staging_baseline db) = Inr insp0"
    and rest: "(case find_snapshot db (insp_snapshot_id insp0) of
        Some s \<Rightarrow> ebind (assert_same_immutable_snapshot s insp0) (\<lambda>_. Inr (db, stored_inspection db s))
      | None \<Rightarrow> ebind (insert_candidate db insp0) (\<lambda>db'. Inr (db', insp0))) = Inr (db', insp)"
    by (auto simp: stage_arcgis_snapshot_def Let_def inspect_arcgis_fixture_package_def
        inspect_arcgis_live_query_package_def ebind_eq_Inr split: if_splits)
  show ?thesis
  proof (cases "find_snapshot db (insp_snapshot_id insp0)")
    case None
    with rest insp0 show ?thesis by (intro fresh [of ?scope]) (auto simp: ebind_eq_Inr)
  next
    case (Some s)
    with rest have "assert_same_immutable_snapshot s insp0 = Inr ()" "db' = db"
      "insp = stored_inspection db s" by (auto simp: ebind_eq_Inr)
    with Some insp0 show ?thesis by (intro stored [of ?scope insp0 s]) auto
  qed
qed

text \<open>Under the invariant only the insert of the snapshot itself can fail.\<close>

lemma insert_candidate_eq:
  assumes inv: "store_inv db"
    and insp: "inspect_arcgis_package env path scope (staging_baseline db) = Inr insp"
    and none: "find_snapshot db (insp_snapshot_id insp) = None"
  shows "insert_candidate db insp = ebind (candidate_row insp) (\<lambda>s. ebind (insert_snapshot s db) (\<lambda>db1.
    Inr (db1\<lparr>source_snapshot_rows := source_snapshot_rows db @ map (Pair (insp_snapshot_id insp)) (insp_rows insp),
       source_snapshot_disappearances := source_snapshot_disappearances db
         @ map (Pair (insp_snapshot_id insp)) (insp_disappearances insp)\<rparr>)))"
  unfolding insert_candidate_def
proof (intro ebind_cong refl)
  fix s db1 assume s: "candidate_row insp = Inr s" and ins: "insert_snapshot s db = Inr db1"
  have sid: "snapshot_id s = insp_snapshot_id insp"
    using s by (auto simp: candidate_row_def ebind_eq_Inr Let_def)
  have db1: "db1 = db\<lparr>source_snapshots := source_snapshots db @ [s]\<rparr>"
    using ins by (auto simp: insert_snapshot_def ebind_eq_Inr)
  have rows: "distinct (map source_object_id (insp_rows insp))"
    using insp kept_rows_sorted by (elim inspect_cases) (metis strict_sorted_iff)
  have nin: "insp_snapshot_id insp \<notin> set (snapshot_ids db)"
    using none by (simp add: find_snapshot_None_iff)
  let ?db2 = "db1\<lparr>source_snapshot_rows :=
      source_snapshot_rows db1 @ map (Pair (insp_snapshot_id insp)) (insp_rows insp)\<rparr>"
  have fold1: "foldM_err (insert_snapshot_row (insp_snapshot_id insp)) db1 (insp_rows insp) = Inr ?db2"
    using inv nin rows by (intro insert_rows_ok) (auto simp: db1 snapshot_ids_def sid store_inv_def)
  have ds: "insp_disappearances insp = find_disappearances (insp_rows insp)
      (base_rows (staging_baseline db)) (base_snapshot_id (staging_baseline db))"
    using insp by (elim inspect_cases) simp
  have "foldM_err (insert_disappearance (insp_snapshot_id insp)) ?db2 (insp_disappearances insp) =
      Inr (?db2\<lparr>source_snapshot_disappearances := source_snapshot_disappearances ?db2
         @ map (Pair (insp_snapshot_id insp)) (insp_disappearances insp)\<rparr>)"
  proof (rule insert_disappearances_ok)
    show "insp_snapshot_id insp \<in> set (snapshot_ids ?db2)"
      by (simp add: db1 snapshot_ids_def sid)
    show "distinct (map dis_source_object_id (insp_disappearances insp))"
      unfolding ds by (intro find_disappearances_props staging_baseline_props inv)
    show "\<forall>d \<in> set (insp_disappearances insp). disappearance_checks d \<and>
        prior_snapshot_id d \<in> set (snapshot_ids ?db2)"
      using find_disappearances_props(2) [OF staging_baseline_props(1) [OF inv]]
        staging_baseline_props(2) [OF inv]
      by (fastforce simp: ds db1 snapshot_ids_def)
    show "\<forall>d \<in> set (source_snapshot_disappearances ?db2). fst d = insp_snapshot_id insp \<longrightarrow>
        dis_source_object_id (snd d) \<notin> dis_source_object_id ` set (insp_disappearances insp)"
      using inv nin by (auto simp: db1 store_inv_def)
  qed
  with fold1 show "ebind (foldM_err (insert_snapshot_row (insp_snapshot_id insp)) db1 (insp_rows insp))
      (\<lambda>db2. foldM_err (insert_disappearance (insp_snapshot_id insp)) db2 (insp_disappearances insp)) =
    Inr (db1\<lparr>source_snapshot_rows := source_snapshot_rows db @ map (Pair (insp_snapshot_id insp)) (insp_rows insp),
       source_snapshot_disappearances := source_snapshot_disappearances db
         @ map (Pair (insp_snapshot_id insp)) (insp_disappearances insp)\<rparr>)"
    by (simp add: db1)
qed

lemma insert_candidate_fresh:
  assumes "store_inv db"
    and "inspect_arcgis_package env path scope (staging_baseline db) = Inr insp"
    and "find_snapshot db (insp_snapshot_id insp) = None"
    and "insert_candidate db insp = Inr db'"
  obtains s where "candidate_row insp = Inr s" "snapshot_checks s"
    "fixture_identity s \<notin> fixture_identity ` set (source_snapshots db)"
    "db' = db\<lparr>source_snapshots := source_snapshots db @ [s],
       source_snapshot_rows := source_snapshot_rows db @ map (Pair (insp_snapshot_id insp)) (insp_rows insp),
       source_snapshot_disappearances := source_snapshot_disappearances db
         @ map (Pair (insp_snapshot_id insp)) (insp_disappearances insp)\<rparr>"
  using assms(4) [unfolded insert_candidate_eq [OF assms(1-3)]] that
  by (auto simp: insert_snapshot_def ebind_eq_Inr)

lemma candidate_row_ok:
  assumes "inspect_arcgis_package env path scope base = Inr insp"
    and "scope \<in> {OFFLINE_FIXTURE_SCOPE, LIVE_QUERY_SCOPE}"
    and "insp_observation_kind insp \<in> {''synthetic_query'', ''synthetic_export'', ''live_query''}"
  obtains s where "candidate_row insp = Inr s" "snapshot_checks s" "snapshot_id s = insp_snapshot_id insp"
    "fixture_identity s = (ARCGIS_SUPPLEMENT_SOURCE_FAMILY_ID, insp_manifest_sha256 insp, insp_raw_payload_sha256 insp)"
proof -
  from assms(1) obtain rs ds ws rejs where rep: "insp_validation_report insp =
      inspection_report rs (scan_all env rs) ds ws rejs" "insp_storage_scope insp = scope"
      "insp_source_family_id insp = ARCGIS_SUPPLEMENT_SOURCE_FAMILY_ID" by (elim inspect_cases)
  from assms(2,3) report_readings [OF rep(1)] that show ?thesis
    by (auto simp: candidate_row_def Let_def snapshot_checks_def fixture_identity_def rep(2,3)
        OFFLINE_FIXTURE_SCOPE_def LIVE_QUERY_SCOPE_def)
qed

lemma staged_store:
  assumes inv: "store_inv db" and nin: "snapshot_id s \<notin> set (snapshot_ids db)"
    and s: "snapshot_checks s" "fixture_identity s \<notin> fixture_identity ` set (source_snapshots db)"
      "snapshot_inv s"
    and rows: "distinct (map source_object_id rows)"
    and ds: "\<forall>d \<in> set ds. disappearance_checks d"
    and db': "db' = db\<lparr>source_snapshots := source_snapshots db @ [s],
       source_snapshot_rows := source_snapshot_rows db @ map (Pair (snapshot_id s)) rows,
       source_snapshot_disappearances := source_snapshot_disappearances db @ map (Pair (snapshot_id s)) ds\<rparr>"
  shows "store_inv db'" and "evolves db db'"
    and "find_snapshot db' i = (if i = snapshot_id s then Some s else find_snapshot db i)"
    and "stored_rows db' (snapshot_id s) = rows"
    and "stored_disappearances db' (snapshot_id s) = ds"
    and "i \<noteq> snapshot_id s \<Longrightarrow> stored_rows db' i = stored_rows db i"
proof -
  have nofind: "tbl_find snapshot_id (source_snapshots db) (snapshot_id s) = None"
    using nin by (simp add: tbl_find_None_iff snapshot_ids_def)
  show fnd: "find_snapshot db' i = (if i = snapshot_id s then Some s else find_snapshot db i)" for i
    using snapshots_tbl.lookup_insert [OF nofind] by (simp add: find_snapshot_def db')
  have ids: "snapshot_ids db' = snapshot_ids db @ [snapshot_id s]"
    by (simp add: db' snapshot_ids_def)
  have noold: "(i, r) \<in> set (source_snapshot_rows db) \<Longrightarrow> i \<noteq> snapshot_id s"
    "(i, d) \<in> set (source_snapshot_disappearances db) \<Longrightarrow> i \<noteq> snapshot_id s" for i r d
    using inv nin by (auto simp: store_inv_def)
  have acc: "accepted_in db fam i \<Longrightarrow> accepted_in db' fam i" for fam i
    using accepted_in_id [of db fam i] nin by (auto simp: accepted_in_def fnd)
  have ptr: "\<forall>p \<in> set (source_snapshot_pointers db'). pointer_inv db' p"
    using inv acc by (auto simp: db' store_inv_def pointer_inv_def split: option.splits)
  have key: "distinct (map row_key (source_snapshot_rows db'))"
  proof -
    have old: "distinct (map row_key (source_snapshot_rows db))" using inv by (simp add: store_inv_def)
    have new: "distinct (map row_key (map (Pair (snapshot_id s)) rows))"
      using rows by (simp add: comp_def row_key_def distinct_map inj_on_def)
    have "row_key ` set (source_snapshot_rows db) \<inter> row_key ` set (map (Pair (snapshot_id s)) rows) = {}"
      using noold(1) by (auto simp: row_key_def)
    with old new show ?thesis by (simp add: db' image_image comp_def)
  qed
  show "store_inv db'"
    unfolding store_inv_def
  proof (intro conjI)
    from inv nin show "distinct (snapshot_ids db')" by (simp add: ids store_inv_def)
    from inv s(2) show "distinct (map fixture_identity (source_snapshots db'))"
      by (simp add: db' store_inv_def)
    from inv s(1,3) show "\<forall>s \<in> set (source_snapshots db'). snapshot_checks s \<and> snapshot_inv s"
      by (simp add: db' store_inv_def)
    from inv show "distinct (map ptr_source_family_id (source_snapshot_pointers db'))"
      by (simp add: db' store_inv_def)
    from inv show "\<forall>(i, r) \<in> set (source_snapshot_rows db'). i \<in> set (snapshot_ids db')"
      unfolding ids by (auto simp: db' store_inv_def)
    from inv ds show "\<forall>(i, d) \<in> set (source_snapshot_disappearances db').
        i \<in> set (snapshot_ids db') \<and> disappearance_checks d"
      unfolding ids by (auto simp: db' store_inv_def)
  qed (rule ptr key)+
  show "evolves db db'"
  proof -
    have "filter (\<lambda>r. fst r = i) (source_snapshot_rows db') = filter (\<lambda>r. fst r = i) (source_snapshot_rows db)"
      if "i \<noteq> snapshot_id s" for i using that by (auto simp: db' filter_empty_conv)
    moreover have "i \<noteq> snapshot_id s" if "find_snapshot db i = Some t" for i t
      using that nofind by (auto simp: find_snapshot_def)
    ultimately show ?thesis by (auto simp: evolves_def fnd)
  qed
  show "stored_rows db' (snapshot_id s) = rows"
    using noold by (auto simp: stored_rows_def db' filter_empty_conv comp_def)
  show "stored_disappearances db' (snapshot_id s) = ds"
    using noold by (auto simp: stored_disappearances_def db' filter_empty_conv comp_def)
  show "i \<noteq> snapshot_id s \<Longrightarrow> stored_rows db' i = stored_rows db i"
    by (auto simp: stored_rows_def db' filter_empty_conv)
qed


lemma staged_candidate:
  assumes inv: "store_inv db" and run: "stage_arcgis_snapshot env db path scope ex = Inr (db', insp)"
    and new: "find_snapshot db (insp_snapshot_id insp) = None"
  obtains s where "candidate_row insp = Inr s" "find_snapshot db' (insp_snapshot_id insp) = Some s"
    "lifecycle_state s = Candidate" "source_family_id s = ARCGIS_SUPPLEMENT_SOURCE_FAMILY_ID"
    "rejection_reason_count s = int (length (rejection_reasons env insp))"
    "store_inv db'" "evolves db db'" "source_snapshot_pointers db' = source_snapshot_pointers db"
    "stored_rows db' (insp_snapshot_id insp) = insp_rows insp"
    "stored_disappearances db' (insp_snapshot_id insp) = insp_disappearances insp"
    "\<And>i. i \<noteq> insp_snapshot_id insp \<Longrightarrow> find_snapshot db' i = find_snapshot db i"
    "\<And>i. i \<noteq> insp_snapshot_id insp \<Longrightarrow> stored_rows db' i = stored_rows db i"
    "stored_inspection db' s = insp" "assert_same_immutable_snapshot s insp = Inr ()"
  using run
proof (cases rule: stage_cases)
  case (stored scope' insp0 s)
  then have "insp_snapshot_id insp = snapshot_id s" "snapshot_id s = insp_snapshot_id insp0"
    by (auto simp: stored_inspection_def dest: find_snapshot_SomeD)
  with stored new show ?thesis by simp
next
  case (fresh scope')
  note insp = fresh(1)
  from insp obtain rs ds ws rejs where rep: "insp_validation_report insp =
      inspection_report rs (scan_all env rs) ds ws rejs" and fam: "insp_source_family_id insp =
      ARCGIS_SUPPLEMENT_SOURCE_FAMILY_ID" and rows: "insp_rows insp = kept_rows (scan_all env rs)"
    and dis: "insp_disappearances insp = find_disappearances (insp_rows insp)
      (base_rows (staging_baseline db)) (base_snapshot_id (staging_baseline db))"
    by (elim inspect_cases)
  from insert_candidate_fresh [OF inv insp fresh(3,4)] obtain s where s: "candidate_row insp = Inr s"
    "snapshot_checks s" "fixture_identity s \<notin> fixture_identity ` set (source_snapshots db)" and
    db': "db' = db\<lparr>source_snapshots := source_snapshots db @ [s],
       source_snapshot_rows := source_snapshot_rows db @ map (Pair (insp_snapshot_id insp)) (insp_rows insp),
       source_snapshot_disappearances := source_snapshot_disappearances db
         @ map (Pair (insp_snapshot_id insp)) (insp_disappearances insp)\<rparr>" by metis
  from candidate_row_report [OF rep] s(1) have c: "snapshot_id s = insp_snapshot_id insp"
    "lifecycle_state s = Candidate" "validated_at s = None" "rejected_at s = None" "accepted_at s = None"
    "rejection_reason_count s = int (length rejs)"
    "stored_rows db' (insp_snapshot_id insp) = insp_rows insp \<Longrightarrow>
       stored_disappearances db' (insp_snapshot_id insp) = insp_disappearances insp \<Longrightarrow>
       stored_inspection db' s = insp"
    "assert_same_immutable_snapshot s insp = Inr ()"
    by (metis sum.inject(2))+
  have same: "source_family_id s = ARCGIS_SUPPLEMENT_SOURCE_FAMILY_ID"
    using c(8) fam by (simp add: assert_same_immutable_snapshot_def)
  have nin: "snapshot_id s \<notin> set (snapshot_ids db)"
    using fresh(3) by (simp add: c find_snapshot_None_iff)
  have drows: "distinct (map source_object_id (insp_rows insp))"
    using kept_rows_sorted [of env rs] by (simp add: rows strict_sorted_iff)
  have dchk: "\<forall>d \<in> set (insp_disappearances insp). disappearance_checks d"
    using find_disappearances_props(2) [OF staging_baseline_props(1) [OF inv]] by (auto simp: dis)
  have sinv: "snapshot_inv s" using c by (simp add: snapshot_inv.simps)
  note st = staged_store [OF inv nin s(2,3) sinv drows dchk, unfolded c(1), OF db']
  show ?thesis
    using st c same s(1)
    by (intro that [of s]) (simp_all add: rejection_reasons_report [OF rep] db')
qed

lemma stage_inv:
  assumes inv: "store_inv db" and run: "stage_arcgis_snapshot env db path scope ex = Inr (db', insp)"
  shows "store_inv db' \<and> evolves db db'"
  using run
proof (cases rule: stage_cases)
  case (stored scope' insp0 s)
  with inv show ?thesis by (simp add: evolves_refl)
next
  case (fresh scope')
  from staged_candidate [OF inv run fresh(3)] show ?thesis by blast
qed

end
