(* ===== verification/Snapshot_Machine.thy ===== *)
theory Snapshot_Machine imports Arcgis_Staging
begin

text \<open>
  The source-snapshot component as one machine: every public operation of
  \<open>hosted_app/source_snapshot_lifecycle.py\<close> is an event, each run in its own transaction. The
  interpretation of the machine interfaces gives the invariant and the monotonicity of every
  run; the properties of single operations follow.
\<close>

section \<open>Events\<close>

datatype snapshot_event =
    StageFixture "string list"
  | StageLive "string list" string
  | ValidateFixture string string
  | ValidateLive string string string
  | AcceptFixture string string
  | AcceptLive string string string
  | PromoteFixture string string
  | PromoteLive string string string
  | RollbackFixture string string
  | RollbackLive string string string
  | ValidateSource string string string string
  | AcceptSource string string string string
  | PromoteSource string string string string
  | RollbackSource string string string "string option" string

datatype snapshot_outcome =
    Staged inspection
  | Verdict lifecycle
  | Done
  | Pointed snapshot_pointer

fun tagged :: "('a \<Rightarrow> 'b) \<Rightarrow> ('s \<times> 'a) result \<Rightarrow> ('s \<times> 'b) result" where
  "tagged f (Inl e) = Inl e"
| "tagged f (Inr (s, r)) = Inr (s, f r)"

lemma tagged_Inr: "tagged f m = Inr (s, r) \<longleftrightarrow> (\<exists>x. m = Inr (s, x) \<and> r = f x)"
  by (cases "(f, m)" rule: tagged.cases) auto

fun snapshot_step ::
  "pyenv \<Rightarrow> 'z snapshot_db_scheme \<Rightarrow> snapshot_event \<Rightarrow> ('z snapshot_db_scheme \<times> snapshot_outcome) result" where
  "snapshot_step env db (StageFixture path) = tagged Staged (stage_arcgis_fixture_snapshot env db path)"
| "snapshot_step env db (StageLive path ex) = tagged Staged (stage_arcgis_live_query_snapshot env db path ex)"
| "snapshot_step env db (ValidateFixture i ts) = tagged Verdict (validate_arcgis_fixture_snapshot db i ts)"
| "snapshot_step env db (ValidateLive i ts ex) = tagged Verdict (validate_arcgis_live_query_snapshot db i ts ex)"
| "snapshot_step env db (AcceptFixture i ts) = tagged (\<lambda>_. Done) (accept_arcgis_fixture_snapshot db i ts)"
| "snapshot_step env db (AcceptLive i ts ex) = tagged (\<lambda>_. Done) (accept_arcgis_live_query_snapshot db i ts ex)"
| "snapshot_step env db (PromoteFixture i ts) = tagged Pointed (promote_arcgis_fixture_snapshot db i ts)"
| "snapshot_step env db (PromoteLive i ts ex) = tagged Pointed (promote_arcgis_live_query_snapshot db i ts ex)"
| "snapshot_step env db (RollbackFixture a ts) = tagged Pointed (rollback_arcgis_fixture_snapshot db a ts)"
| "snapshot_step env db (RollbackLive a ts ex) = tagged Pointed (rollback_arcgis_live_query_snapshot db a ts ex)"
| "snapshot_step env db (ValidateSource i fam sc ts) = tagged Verdict (validate_source_snapshot db i fam sc ts)"
| "snapshot_step env db (AcceptSource i fam sc ts) = tagged (\<lambda>_. Done) (accept_source_snapshot db i fam sc ts)"
| "snapshot_step env db (PromoteSource i fam sc ts) = tagged Pointed (promote_source_snapshot db i fam sc ts)"
| "snapshot_step env db (RollbackSource fam a sc psc ts) =
     tagged Pointed (rollback_source_snapshot db fam a sc psc ts)"

lemmas arcgis_wrappers =
  stage_arcgis_fixture_snapshot_def stage_arcgis_live_query_snapshot_def
  validate_arcgis_fixture_snapshot_def validate_arcgis_live_query_snapshot_def validate_arcgis_snapshot_def
  accept_arcgis_fixture_snapshot_def accept_arcgis_live_query_snapshot_def accept_arcgis_snapshot_def
  promote_arcgis_fixture_snapshot_def promote_arcgis_live_query_snapshot_def promote_arcgis_snapshot_def
  rollback_arcgis_fixture_snapshot_def rollback_arcgis_live_query_snapshot_def rollback_arcgis_snapshot_def

lemma snapshot_step_ok:
  assumes inv: "store_inv db" and run: "snapshot_step env db e = Inr (db', r)"
  shows "store_inv db' \<and> evolves db db'"
  using run
  by (cases e)
     (auto simp: tagged_Inr arcgis_wrappers ebind_eq_Inr
       dest: stage_inv [OF inv] validate_inv [OF inv] accept_inv [OF inv] promote_inv [OF inv]
         rollback_inv [OF inv])

interpretation snapshots: monotone_machine "snapshot_step env" store_inv evolves for env
  by unfold_locales
     (auto intro: evolves_refl evolves_trans dest: snapshot_step_ok)

text \<open>What the invariant says of the active snapshot of a family.\<close>

lemma pointer_points_to_accepted:
  assumes inv: "store_inv db" and p: "find_pointer db fam = Some p"
  obtains s where "find_snapshot db (active_snapshot_id p) = Some s"
    "active_snapshot_record db fam = Some s" "lifecycle_state s = Accepted"
    "source_family_id s = fam" "rejection_reason_count s \<le> 0" "accepted_at s \<noteq> None"
proof -
  from find_pointer_inv [OF inv p] obtain s where s: "find_snapshot db (active_snapshot_id p) = Some s"
    "lifecycle_state s = Accepted" "source_family_id s = fam"
    by (auto simp: pointer_inv_def accepted_in_def)
  have "snapshot_inv s" using inv s(1) by (rule find_snapshot_inv)
  with s have "rejection_reason_count s \<le> 0 \<and> accepted_at s \<noteq> None" by (simp add: snapshot_inv.simps)
  with s p that show ?thesis by (auto simp: active_snapshot_record_def)
qed

lemma evolves_find: "evolves db db' \<Longrightarrow> find_snapshot db i = Some s \<Longrightarrow>
    \<exists>s'. find_snapshot db' i = Some s' \<and> evidence_of s' = evidence_of s \<and>
      lifecycle_step\<^sup>*\<^sup>* (lifecycle_state s) (lifecycle_state s') \<and>
      stored_rows db' i = stored_rows db i"
  by (fastforce simp: evolves_def stored_rows_def)

end
