(* ===== verification/Snapshot_Properties.thy ===== *)
theory Snapshot_Properties imports Snapshot_Machine
begin

text \<open>
  The properties of the source-snapshot component: what every run of its operations keeps, what
  promotion and rollback do to the pointers, what an inspection with no rejection guarantees,
  and what staging stores.
\<close>

section \<open>A sample store\<close>

text \<open>The stores the witnesses run on: three candidates of the ArcGIS family, the third with a
  rejection reason.\<close>

definition sample_candidate :: "string \<Rightarrow> int \<Rightarrow> snapshot" where
  "sample_candidate i reasons =
     \<lparr>snapshot_id = i, source_family_id = ARCGIS_SUPPLEMENT_SOURCE_FAMILY_ID,
      fixture_scope = OFFLINE_FIXTURE_SCOPE, observation_kind = ''synthetic_query'',
      lifecycle_state = Candidate, manifest_ref = ''m.json'', manifest_sha256 = i,
      raw_payload_ref = ''r.json'', raw_payload_sha256 = i, normalized_content_sha256 = i,
      schema_fingerprint = ''s'', domain_fingerprint = ''d'', row_count = 1, stored_row_count = 1,
      duplicate_object_id_count = 0, duplicate_facility_number_count = 0, omitted_field_count = 0,
      invalid_field_count = 0, warning_count = 0, rejection_reason_count = reasons,
      validation_report = [], recorded_at = ''2026-01-01'', validated_at = None, rejected_at = None,
      accepted_at = None\<rparr>"

definition sample_row :: "int \<Rightarrow> arcgis_row" where
  "sample_row oid = \<lparr>source_object_id = oid, facility_number = None, raw_record = [],
     normalized_record = [], row_fingerprint = ''f''\<rparr>"

definition sample_db :: snapshot_db where
  "sample_db = empty_db\<lparr>source_snapshots :=
     [sample_candidate ''a'' 0, sample_candidate ''b'' 0, sample_candidate ''c'' 2],
     source_snapshot_rows := [(''a'', sample_row 7), (''b'', sample_row 7), (''b'', sample_row 9)]\<rparr>"

definition sample_run :: "snapshot_event list" where
  "sample_run =
     [ValidateFixture ''a'' ''t1'', ValidateFixture ''b'' ''t1'', ValidateFixture ''c'' ''t1'',
      AcceptFixture ''a'' ''t2'', AcceptFixture ''b'' ''t2'', AcceptFixture ''c'' ''t2'',
      PromoteFixture ''a'' ''t3'', PromoteFixture ''b'' ''t4'', PromoteFixture ''c'' ''t5'']"

text \<open>No file, no JSON: an environment for runs that read nothing.\<close>

definition no_env :: pyenv where
  "no_env = \<lparr>json_loads = (\<lambda>_. None), sha256_hex = (\<lambda>_. []), float_repr = (\<lambda>_. []),
     read_bytes = (\<lambda>_. None), resolve_path = id, iso_datetime_year = (\<lambda>_. None)\<rparr>"

definition sample_store :: snapshot_db where
  "sample_store = run_all (snapshot_step no_env) sample_db sample_run"

lemma sample_db_inv: "store_inv sample_db"
  by (simp add: store_inv_def sample_db_def empty_db_def sample_candidate_def snapshot_ids_def
      snapshot_checks_def fixture_identity_def snapshot_inv.simps OFFLINE_FIXTURE_SCOPE_def
      row_key_def sample_row_def)

lemma sample_store_inv: "store_inv sample_store"
  unfolding sample_store_def by (rule snapshots.run_inv) (rule sample_db_inv)

lemma sample_store_pointers: "source_snapshot_pointers sample_store =
    [\<lparr>ptr_source_family_id = ARCGIS_SUPPLEMENT_SOURCE_FAMILY_ID, active_snapshot_id = ''b'',
      prior_accepted_snapshot_id = Some ''a'', updated_at = ''t4''\<rparr>]"
  by code_simp

lemma sample_store_states: "map (\<lambda>s. (snapshot_id s, lifecycle_state s)) (source_snapshots sample_store) =
    [(''a'', Accepted), (''b'', Accepted), (''c'', Rejected)]"
  by code_simp

lemma sample_store_found:
  assumes "i \<in> {''a'', ''b''}"
  obtains s where "find_snapshot sample_store i = Some s" "lifecycle_state s = Accepted"
    "source_family_id s = ARCGIS_SUPPLEMENT_SOURCE_FAMILY_ID" "fixture_scope s = OFFLINE_FIXTURE_SCOPE"
proof -
  have "map_option (\<lambda>s. (lifecycle_state s, source_family_id s, fixture_scope s))
      (find_snapshot sample_store i) =
    Some (Accepted, ARCGIS_SUPPLEMENT_SOURCE_FAMILY_ID, OFFLINE_FIXTURE_SCOPE)"
    if "i = ''a'' \<or> i = ''b''" for i
    using that by (elim disjE; hypsubst) code_simp+
  from this [of i] assms that show ?thesis by (cases "find_snapshot sample_store i") auto
qed

lemma sample_store_view:
  "pointer_view sample_store ARCGIS_SUPPLEMENT_SOURCE_FAMILY_ID = Some (''b'', Some ''a'')"
  by (simp add: pointer_view_def find_pointer_def tbl_find_def sample_store_pointers)

section \<open>Every run\<close>

text \<open>C1: after any sequence of staging, validation, acceptance, promotion and rollback attempts, in
  any order and with any arguments, the active snapshot of every source family exists, belongs to
  that family, is accepted, has an acceptance time and no rejection reason; the prior snapshot of
  the pointer, when there is one, is a different accepted snapshot of the family.\<close>

theorem active_snapshot_is_accepted:
  assumes "store_inv db" and "find_pointer (run_all (snapshot_step env) db events) fam = Some p"
  shows "(\<exists>s. active_snapshot_record (run_all (snapshot_step env) db events) fam = Some s \<and>
      snapshot_id s = active_snapshot_id p \<and> source_family_id s = fam \<and>
      lifecycle_state s = Accepted \<and> accepted_at s \<noteq> None \<and> rejection_reason_count s \<le> 0) \<and>
    (\<forall>i. prior_accepted_snapshot_id p = Some i \<longrightarrow> i \<noteq> active_snapshot_id p \<and>
      (\<exists>s. find_snapshot (run_all (snapshot_step env) db events) i = Some s \<and>
           source_family_id s = fam \<and> lifecycle_state s = Accepted))"
proof -
  let ?db = "run_all (snapshot_step env) db events"
  have inv: "store_inv ?db" using assms(1) by (rule snapshots.run_inv)
  obtain s where s: "find_snapshot ?db (active_snapshot_id p) = Some s"
    "active_snapshot_record ?db fam = Some s" "lifecycle_state s = Accepted"
    "source_family_id s = fam" "rejection_reason_count s \<le> 0" "accepted_at s \<noteq> None"
    using inv assms(2) by (rule pointer_points_to_accepted)
  from s(1) have "snapshot_id s = active_snapshot_id p" by (simp add: find_snapshot_SomeD)
  with s have "\<exists>s. active_snapshot_record ?db fam = Some s \<and>
      snapshot_id s = active_snapshot_id p \<and> source_family_id s = fam \<and>
      lifecycle_state s = Accepted \<and> accepted_at s \<noteq> None \<and> rejection_reason_count s \<le> 0" by blast
  moreover from find_pointer_inv [OF inv assms(2)]
  have "\<forall>i. prior_accepted_snapshot_id p = Some i \<longrightarrow> i \<noteq> active_snapshot_id p \<and>
      (\<exists>s. find_snapshot ?db i = Some s \<and> source_family_id s = fam \<and> lifecycle_state s = Accepted)"
    by (simp add: pointer_inv_def accepted_in_def split: option.splits) blast
  ultimately show ?thesis ..
qed

lemma active_snapshot_is_accepted_witness:
  "\<exists>s. active_snapshot_record sample_store ARCGIS_SUPPLEMENT_SOURCE_FAMILY_ID = Some s \<and>
     snapshot_id s = ''b'' \<and> lifecycle_state s = Accepted"
proof -
  let ?p = "\<lparr>ptr_source_family_id = ARCGIS_SUPPLEMENT_SOURCE_FAMILY_ID, active_snapshot_id = ''b'',
      prior_accepted_snapshot_id = Some ''a'', updated_at = ''t4''\<rparr>"
  have "find_pointer sample_store ARCGIS_SUPPLEMENT_SOURCE_FAMILY_ID = Some ?p"
    by (simp add: find_pointer_def tbl_find_def sample_store_pointers)
  from active_snapshot_is_accepted [OF sample_db_inv this [unfolded sample_store_def]]
  show ?thesis by (auto simp: sample_store_def)
qed

text \<open>C2: evidence is immutable. Whatever operations are attempted from a store that keeps its
  invariant, a snapshot once stored is never dropped, none of its fields but the lifecycle state and
  its time stamps ever changes, its stored rows stay the same, and its state only moves from
  candidate to validated or rejected and from validated to accepted.\<close>

theorem stored_evidence_is_immutable:
  assumes "store_inv db" and "find_snapshot db i = Some s"
  shows "\<exists>s'. find_snapshot (run_all (snapshot_step env) db events) i = Some s' \<and>
      evidence_of s' = evidence_of s \<and>
      lifecycle_step\<^sup>*\<^sup>* (lifecycle_state s) (lifecycle_state s') \<and>
      stored_rows (run_all (snapshot_step env) db events) i = stored_rows db i"
  using snapshots.run_below [OF assms(1)] assms(2) by (rule evolves_find)

lemma stored_evidence_is_immutable_witness:
  "\<exists>s'. find_snapshot sample_store ''c'' = Some s' \<and>
      evidence_of s' = evidence_of (sample_candidate ''c'' 2) \<and>
      lifecycle_step\<^sup>*\<^sup>* Candidate (lifecycle_state s')"
proof -
  have "find_snapshot sample_db ''c'' = Some (sample_candidate ''c'' 2)" by code_simp
  from stored_evidence_is_immutable [OF sample_db_inv this, of no_env sample_run] show ?thesis
    by (auto simp: sample_store_def sample_candidate_def)
qed

text \<open>a rejected snapshot is final: no later sequence of operations makes it the active snapshot
  of any family, nor the prior one a rollback returns to.\<close>

theorem rejected_snapshot_is_never_active:
  assumes "store_inv db" and "find_snapshot db i = Some s" and "lifecycle_state s = Rejected"
    and "p \<in> set (source_snapshot_pointers (run_all (snapshot_step env) db events))"
  shows "active_snapshot_id p \<noteq> i \<and> prior_accepted_snapshot_id p \<noteq> Some i"
proof -
  let ?db = "run_all (snapshot_step env) db events"
  have "store_inv ?db" using assms(1) by (rule snapshots.run_inv)
  with assms(4) have p: "pointer_inv ?db p" by (auto simp: store_inv_def)
  have "evolves db ?db" using assms(1) by (rule snapshots.run_below)
  from evolves_find [OF this assms(2)] assms(3) obtain s' where
    "find_snapshot ?db i = Some s'" "lifecycle_state s' = Rejected"
    by (auto simp: rejected_is_final)
  with p show ?thesis by (auto simp: pointer_inv_def accepted_in_def)
qed

lemma rejected_snapshot_is_never_active_witness:
  "\<exists>p. source_snapshot_pointers (run_all (snapshot_step no_env) sample_store [PromoteFixture ''c'' ''t6'']) = [p]
     \<and> active_snapshot_id p \<noteq> ''c'' \<and> prior_accepted_snapshot_id p \<noteq> Some ''c''"
proof -
  have c: "map_option lifecycle_state (find_snapshot sample_store ''c'') = Some Rejected"
    by code_simp
  have "length (source_snapshot_pointers (run_all (snapshot_step no_env) sample_store [PromoteFixture ''c'' ''t6''])) = 1"
    by code_simp
  then have "\<exists>p. source_snapshot_pointers (run_all (snapshot_step no_env) sample_store [PromoteFixture ''c'' ''t6'']) = [p]"
    by (simp add: length_Suc_conv)
  then show ?thesis
    using c rejected_snapshot_is_never_active [OF sample_store_inv, of "''c''" _ _ no_env "[PromoteFixture ''c'' ''t6'']"]
    by fastforce
qed

section \<open>Promotion and rollback\<close>



text \<open>C4: rolling back from the active snapshot the caller expects, when there is a prior accepted
  snapshot in the required scope, never fails; it swaps the two on the view of the pointers and
  leaves everything else as it was, so that a second rollback returns to where the first started.\<close>

theorem rollback_refines_abstract:
  assumes "store_inv db" and "pointer_view db fam = Some (a, Some pr)"
    and "find_snapshot db a = Some sa" and "fixture_scope sa = sc"
    and "find_snapshot db pr = Some sp" and "fixture_scope sp = psc"
  shows "\<exists>db'. rollback_source_snapshot db fam a sc (Some psc) ts = Inr (db', fam, pr, Some a) \<and>
      pointer_view db' fam = abs_rollback (pointer_view db fam) \<and>
      abs_rollback (pointer_view db' fam) = pointer_view db fam \<and>
      (\<forall>g. g \<noteq> fam \<longrightarrow> pointer_view db' g = pointer_view db g) \<and>
      source_snapshots db' = source_snapshots db \<and>
      source_snapshot_rows db' = source_snapshot_rows db \<and> store_inv db'"
proof -
  from assms(2) obtain p where p: "find_pointer db fam = Some p" "active_snapshot_id p = a"
    "prior_accepted_snapshot_id p = Some pr" by (auto simp: pointer_view_def)
  have psc: "case Some psc of Some c \<Rightarrow> fixture_scope sp = c
      | None \<Rightarrow> fixture_scope sp \<in> {OFFLINE_FIXTURE_SCOPE, LIVE_QUERY_SCOPE}" using assms(6) by simp
  from rollback_ok [OF assms(1) p(1,2) assms(3,4) p(3) assms(5) psc, of ts] assms(2)
  show ?thesis by (force simp: pointer_view_def)
qed

lemma rollback_refines_abstract_witness:
  "\<exists>db'. rollback_source_snapshot sample_store ARCGIS_SUPPLEMENT_SOURCE_FAMILY_ID ''b''
       OFFLINE_FIXTURE_SCOPE (Some OFFLINE_FIXTURE_SCOPE) ''t6'' =
     Inr (db', ARCGIS_SUPPLEMENT_SOURCE_FAMILY_ID, ''a'', Some ''b'')"
proof -
  obtain sa where sa: "find_snapshot sample_store ''b'' = Some sa" "fixture_scope sa = OFFLINE_FIXTURE_SCOPE"
    by (rule sample_store_found [of "''b''"]) simp
  obtain sp where sp: "find_snapshot sample_store ''a'' = Some sp" "fixture_scope sp = OFFLINE_FIXTURE_SCOPE"
    by (rule sample_store_found [of "''a''"]) simp
  show ?thesis
    using rollback_refines_abstract [OF sample_store_inv sample_store_view sa sp, of "''t6''"] by blast
qed

section \<open>A sample package\<close>

text \<open>A fixture package of one record that the inspection accepts; its bytes are named \<open>M\<close> and
  \<open>R\<close>, and the environment reads, parses and hashes them.\<close>

definition sample_schema :: "pyval list" where
  "sample_schema = map (\<lambda>(n, ty, nullable). PDict [(''name'', PStr n), (''type'', PStr ty),
     (''nullable'', PBool nullable), (''domain'', PNone)]) ARCGIS_EXPECTED_FIELD_TYPES"

definition sample_manifest :: pydict where
  "sample_manifest =
     [(''contract_version'', PStr ''1.0.0''), (''fixture_kind'', PStr OFFLINE_FIXTURE_SCOPE),
      (''source_family_id'', PStr ARCGIS_SUPPLEMENT_SOURCE_FAMILY_ID),
      (''observation_kind'', PStr ''synthetic_query''), (''recorded_at'', PStr ''2026-01-01''),
      (''raw_payload_ref'', PStr ''r''), (''raw_payload_sha256'', PStr ''d''),
      (''schema_fields'', PList sample_schema)]"

definition sample_record :: pydict where
  "sample_record = map (\<lambda>(n, ty, nullable). (n, if n \<in> set INTEGER_FIELDS then PInt 7
     else if n \<in> set NUMBER_FIELDS then PInt 5 else PStr ''A  b'')) ARCGIS_EXPECTED_FIELD_TYPES"

definition sample_payload :: pydict where
  "sample_payload = [(''fixture_notice'', PStr OFFLINE_FIXTURE_NOTICE),
     (''records'', PList [PDict sample_record])]"

definition sample_env :: pyenv where
  "sample_env = \<lparr>json_loads = (\<lambda>s. if s = ''M'' then Some (PDict sample_manifest)
       else if s = ''R'' then Some (PDict sample_payload) else None),
     sha256_hex = (\<lambda>s. ''d''), float_repr = (\<lambda>r. ''0.0''),
     read_bytes = (\<lambda>p. if p = [''m''] then Some ''M'' else if p = [''r''] then Some ''R'' else None),
     resolve_path = id, iso_datetime_year = (\<lambda>_. None)\<rparr>"

lemma sample_reads:
  "read_file sample_env [''m''] = Inr ''M''" "read_file sample_env [''r''] = Inr ''R''"
  "json_object sample_env l ''M'' = Inr sample_manifest" "json_object sample_env l ''R'' = Inr sample_payload"
  "sha256_bytes sample_env b = ''d''" "canonical_fingerprint sample_env v = ''d''"
  by (simp_all add: read_file_def json_object_def sha256_bytes_def canonical_fingerprint_def sample_env_def)

lemma sample_texts:
  "required_text sample_manifest ''raw_payload_ref'' = Inr ''r''"
  "required_text sample_manifest ''raw_payload_sha256'' = Inr ''d''"
  "required_text sample_manifest ''observation_kind'' = Inr ''synthetic_query''"
  "required_text sample_manifest ''recorded_at'' = Inr ''2026-01-01''"
  "resolve_fixture_reference sample_env [''m''] ''r'' = Inr [''r'']"
  by code_simp+

lemma sample_records: "py_get sample_payload ''records'' = PList [PDict sample_record]"
  "list_or_empty (py_get sample_manifest ''schema_fields'') = sample_schema"
  by (simp_all add: sample_payload_def sample_manifest_def)

lemma sample_ids:
  "populated_int (py_get (normalize_arcgis_source_row sample_record) ''object_id'') = Some 7"
  "populated_text (py_get (normalize_arcgis_source_row sample_record) ''facility_number'') = Some ''7''"
  "reasons_of (1, PDict sample_record) = []"
  by code_simp+

lemma sample_rows: "row_of sample_env (PDict sample_record) =
    [\<lparr>source_object_id = 7, facility_number = Some ''7'', raw_record = sample_record,
      normalized_record = normalize_arcgis_source_row sample_record, row_fingerprint = ''d''\<rparr>]"
  by (simp add: row_of_def sample_ids sample_reads)

lemma sample_rejections:
  "validate_manifest sample_env sample_manifest OFFLINE_FIXTURE_SCOPE = []"
  "validate_arcgis_schema_fields sample_env sample_schema = []"
  "payload_rejections OFFLINE_FIXTURE_SCOPE sample_payload = []"
  "live_fingerprint_rejections OFFLINE_FIXTURE_SCOPE sample_manifest a b c = []"
  by code_simp+

lemma sample_inspection:
  obtains insp where
    "inspect_arcgis_package sample_env [''m''] OFFLINE_FIXTURE_SCOPE base = Inr insp"
    "insp_snapshot_id insp = ''arcgis-fixture-d''" "insp_observation_kind insp = ''synthetic_query''" "insp_manifest_sha256 insp = ''d''"
    "map source_object_id (insp_rows insp) = [7]"
    "base = no_baseline \<Longrightarrow> rejection_reasons sample_env insp = []"
proof -
  obtain insp where insp: "inspect_arcgis_package sample_env [''m''] OFFLINE_FIXTURE_SCOPE base = Inr insp"
    "insp_snapshot_id insp = ''arcgis-fixture-d''"
    "insp_rows insp = kept_rows (scan_all sample_env [PDict sample_record])"
    "\<exists>ds ws. insp_validation_report insp = inspection_report [PDict sample_record]
       (scan_all sample_env [PDict sample_record]) ds ws
       (deduplicate_sorted (package_rejections sample_env OFFLINE_FIXTURE_SCOPE base sample_manifest
          ''d'' ''d'' sample_payload (scan_all sample_env [PDict sample_record])))"
    "insp_observation_kind insp = ''synthetic_query''" "insp_manifest_sha256 insp = ''d''"
    by (auto simp: inspect_arcgis_package_def sample_reads sample_texts sample_records Let_def)
  have rows: "map source_object_id (insp_rows insp) = [7]"
    by (simp add: insp(3) kept_rows_scan sample_rows)
  have "row_rejections (scan_all sample_env [PDict sample_record]) = []"
    by (simp add: row_rejections_def scan_all_rejections scan_all_ids scan_all_rows duplicated_counter
        sample_rows sample_ids [unfolded One_nat_def])
  then have "base = no_baseline \<Longrightarrow> package_rejections sample_env OFFLINE_FIXTURE_SCOPE base
      sample_manifest ''d'' ''d'' sample_payload (scan_all sample_env [PDict sample_record]) = []"
    by (simp add: package_rejections_def sample_records sample_rejections no_baseline_def differs_from_def)
  with insp(4) have "base = no_baseline \<Longrightarrow> rejection_reasons sample_env insp = []"
    by (auto simp: rejection_reasons_report deduplicate_sorted_def)
  with insp(1,2,5,6) rows show ?thesis by (rule that)
qed

text \<open>C5: promotion and rollback can be retried. When either has succeeded, calling it again with
  the same arguments, at any later time stamp, succeeds with the same pointer and changes nothing.\<close>

theorem promote_and_rollback_retry:
  assumes "store_inv db"
  shows "(\<forall>db' r. promote_source_snapshot db i fam sc ts = Inr (db', r) \<longrightarrow>
      promote_source_snapshot db' i fam sc ts' = Inr (db', r)) \<and>
    (\<forall>db' r. rollback_source_snapshot db fam i sc psc ts = Inr (db', r) \<longrightarrow>
      rollback_source_snapshot db' fam i sc psc ts' = Inr (db', r))"
proof (intro conjI allI impI)
  fix db' r assume run: "promote_source_snapshot db i fam sc ts = Inr (db', r)"
  then obtain s where s: "find_snapshot db i = Some s" "lifecycle_state s = Accepted"
    "source_family_id s = fam" "fixture_scope s = sc" by (rule promote_InrD)
  from promote_ok [OF assms s, of ts] run obtain ps where ps: "db' = db\<lparr>source_snapshot_pointers := ps\<rparr>"
    "r = (fam, the (abs_promote i (pointer_view db fam)))"
    "pointer_view db' fam = abs_promote i (pointer_view db fam)" by auto
  have "\<exists>pr. abs_promote i v = Some (i, pr)" for v by (cases "(i, v)" rule: abs_promote.cases) auto
  then obtain pr where v: "pointer_view db' fam = Some (i, pr)" unfolding ps(3) by blast
  have the: "the (abs_promote i (pointer_view db fam)) = (i, pr)" using v ps(3) by (metis option.sel)
  have "find_snapshot db' i = Some s" using s(1) by (simp add: ps(1) find_snapshot_def)
  with s v ps(2) [unfolded the] show "promote_source_snapshot db' i fam sc ts' = Inr (db', r)"
    by (auto simp: promote_source_snapshot_def pointer_record_def pointer_view_def record_errors)
next
  fix db' r assume run: "rollback_source_snapshot db fam i sc psc ts = Inr (db', r)"
  then show "rollback_source_snapshot db' fam i sc psc ts' = Inr (db', r)"
  proof (cases rule: rollback_cases)
    case (retry p)
    with run show ?thesis
      by (auto simp: rollback_source_snapshot_def pointer_record_def ebind_eq_Inr)
  next
    case (swap p sa pr sp)
    from rollback_ok [OF assms swap, of ts] run obtain ps where
      ps: "db' = db\<lparr>source_snapshot_pointers := ps\<rparr>" "r = (fam, pr, Some i)"
      "pointer_view db' fam = abs_rollback (pointer_view db fam)" by auto
    with swap have v: "pointer_view db' fam = Some (pr, Some i)" by (simp add: pointer_view_def)
    have acc: "pr \<noteq> i" "accepted_in db fam i"
      using find_pointer_inv [OF assms swap(1)] swap by (auto simp: pointer_inv_def)
    moreover have "find_snapshot db' i = Some sa" using swap by (simp add: ps(1) find_snapshot_def)
    ultimately show ?thesis using v ps(2) swap
      by (auto simp: rollback_source_snapshot_def pointer_record_def pointer_view_def record_errors
          accepted_in_def)
  qed
qed

lemma promote_and_rollback_retry_witness:
  "\<exists>db' r. rollback_source_snapshot sample_store ARCGIS_SUPPLEMENT_SOURCE_FAMILY_ID ''b''
       OFFLINE_FIXTURE_SCOPE None ''t6'' = Inr (db', r) \<and>
     rollback_source_snapshot db' ARCGIS_SUPPLEMENT_SOURCE_FAMILY_ID ''b''
       OFFLINE_FIXTURE_SCOPE None ''t7'' = Inr (db', r)"
proof -
  have "\<not> isl (rollback_source_snapshot sample_store ARCGIS_SUPPLEMENT_SOURCE_FAMILY_ID ''b''
       OFFLINE_FIXTURE_SCOPE None ''t6'')" by code_simp
  then show ?thesis using promote_and_rollback_retry [OF sample_store_inv]
    by (metis isl_def sum.exhaust surj_pair)
qed

section \<open>Inspection\<close>





section \<open>Staging\<close>

text \<open>C8: staging a package that is not stored yet inserts one candidate of the ArcGIS family whose
  stored evidence reads back as the inspection itself; the pointers and every other snapshot keep
  their rows and fields, the recorded number of rejection reasons is the report's, and staging the
  same package again changes nothing and returns the same inspection.\<close>

theorem staging_stores_the_inspection:
  assumes "store_inv db" and "stage_arcgis_snapshot env db path scope ex = Inr (db', insp)"
    and "find_snapshot db (insp_snapshot_id insp) = None"
  shows "\<exists>s. find_snapshot db' (insp_snapshot_id insp) = Some s \<and> lifecycle_state s = Candidate \<and>
      source_family_id s = ARCGIS_SUPPLEMENT_SOURCE_FAMILY_ID \<and>
      rejection_reason_count s = int (length (rejection_reasons env insp)) \<and>
      stored_inspection db' s = insp \<and>
      source_snapshot_pointers db' = source_snapshot_pointers db \<and>
      (\<forall>i. i \<noteq> insp_snapshot_id insp \<longrightarrow>
         find_snapshot db' i = find_snapshot db i \<and> stored_rows db' i = stored_rows db i) \<and>
      stage_arcgis_snapshot env db' path scope ex = Inr (db', insp)"
proof (rule staged_candidate [OF assms], goal_cases)
  case (1 s)
  have same: "staging_baseline db' = staging_baseline db"
  proof (cases "find_pointer db ARCGIS_SUPPLEMENT_SOURCE_FAMILY_ID")
    case None
    with 1(8) show ?thesis by (simp add: staging_baseline_def active_snapshot_record_def find_pointer_def)
  next
    case (Some p)
    then obtain t where t: "find_snapshot db (active_snapshot_id p) = Some t"
      by (rule pointer_points_to_accepted [OF assms(1)])
    with assms(3) have ne: "active_snapshot_id p \<noteq> insp_snapshot_id insp" by auto
    from t have "snapshot_id t = active_snapshot_id p" by (simp add: find_snapshot_SomeD)
    with Some 1(8,11,12) t ne show ?thesis
      by (simp add: staging_baseline_def active_snapshot_record_def find_pointer_def)
  qed
  have "stage_arcgis_snapshot env db' path scope ex = Inr (db', insp)"
    using assms(2)
  proof (cases rule: stage_cases)
    case (stored scope' insp0 t)
    then have "insp_snapshot_id insp = insp_snapshot_id insp0"
      by (simp add: stored_inspection_def find_snapshot_SomeD)
    with stored assms(3) show ?thesis by simp
  next
    case (fresh scope')
    with assms(2) 1(2,13,14) same show ?thesis
      by (auto simp: stage_arcgis_snapshot_def Let_def ebind_eq_Inr inspect_arcgis_fixture_package_def
          inspect_arcgis_live_query_package_def split: if_splits)
  qed
  with 1 show ?thesis by blast
qed

lemma staging_stores_the_inspection_witness:
  "\<exists>db' insp. stage_arcgis_snapshot sample_env sample_store [''m''] OFFLINE_FIXTURE_SCOPE None =
       Inr (db', insp) \<and> insp_snapshot_id insp = ''arcgis-fixture-d'' \<and>
     (\<exists>s. find_snapshot db' ''arcgis-fixture-d'' = Some s \<and> stored_inspection db' s = insp)"
proof -
  obtain insp where insp: "inspect_arcgis_package sample_env [''m''] OFFLINE_FIXTURE_SCOPE
      (staging_baseline sample_store) = Inr insp" "insp_snapshot_id insp = ''arcgis-fixture-d''"
    "insp_observation_kind insp = ''synthetic_query''" "insp_manifest_sha256 insp = ''d''"
    by (rule sample_inspection [of "staging_baseline sample_store"]) simp
  have none: "find_snapshot sample_store (insp_snapshot_id insp) = None"
    unfolding insp(2) by code_simp
  obtain s where s: "candidate_row insp = Inr s" "snapshot_checks s" "snapshot_id s = insp_snapshot_id insp"
    "fixture_identity s = (ARCGIS_SUPPLEMENT_SOURCE_FAMILY_ID, ''d'', insp_raw_payload_sha256 insp)"
    by (rule candidate_row_ok [OF insp(1)]) (simp_all add: insp(3,4))
  have "map (fst \<circ> snd \<circ> fixture_identity) (source_snapshots sample_store) = [''a'', ''b'', ''c'']"
    by code_simp
  then have "''d'' \<notin> (fst \<circ> snd \<circ> fixture_identity) ` set (source_snapshots sample_store)"
    unfolding set_map [symmetric] by simp
  then have "(fst \<circ> snd) (fixture_identity s) \<notin> (fst \<circ> snd) ` fixture_identity ` set (source_snapshots sample_store)"
    by (simp only: s(4) image_comp comp_assoc comp_apply fst_conv snd_conv not_False_eq_True)
  then have "fixture_identity s \<notin> fixture_identity ` set (source_snapshots sample_store)"
    by (rule contrapos_nn) (rule imageI)
  with s none have "insert_snapshot s sample_store =
      Inr (sample_store\<lparr>source_snapshots := source_snapshots sample_store @ [s]\<rparr>)"
    by (simp add: insert_snapshot_def find_snapshot_None_iff)
  with s(1) obtain db' where ins: "insert_candidate sample_store insp = Inr db'"
    unfolding insert_candidate_eq [OF sample_store_inv insp(1) none] by simp
  from ins have run: "stage_arcgis_snapshot sample_env sample_store [''m''] OFFLINE_FIXTURE_SCOPE None =
      Inr (db', insp)"
    using insp none by (simp add: stage_arcgis_snapshot_def inspect_arcgis_fixture_package_def)
  from staging_stores_the_inspection [OF sample_store_inv run none] run insp(2) show ?thesis by auto
qed

section \<open>Normalisation\<close>

text \<open>normalising a source value settles in one step: applied to its own result it keeps the
  value and the semantic state, for every field and every JSON value.\<close>

theorem normalize_source_value_settles:
  "normalize_source_value f (snd (normalize_source_value f v)) = normalize_source_value f v"
  by (cases v) (auto simp: normalize_source_value_def Let_def)

end
