(* ===== verification/Py_Formats.thy ===== *)
theory Py_Formats imports Py_Value
begin

text \<open>
  The text formats the program reads with Python's standard library: \<open>int\<close> of a text, the UTF-8
  and Windows-1252 decoders, \<open>csv.reader\<close> with the default dialect, \<open>urllib.parse.urlsplit\<close> and
  \<open>parse_qsl\<close>. A decoded text is represented by its UTF-8 bytes, as everywhere.
\<close>

section \<open>Integers\<close>

text \<open>The digits of a numeral; single underscores may stand between two digits.\<close>

fun strip_underscores :: "string \<Rightarrow> string option" where
  "strip_underscores [] = None"
| "strip_underscores [c] = (if is_digit c then Some [c] else None)"
| "strip_underscores (c # d # cs) =
     (if \<not> is_digit c then None
      else if d = CHR ''_'' then map_option ((#) c) (strip_underscores cs)
      else map_option ((#) c) (strip_underscores (d # cs)))"

definition py_int :: "string \<Rightarrow> int option" where
  "py_int s =
     (case py_strip s of
        [] \<Rightarrow> None
      | c # cs \<Rightarrow>
          (if c = CHR ''-'' then map_option (\<lambda>ds. - int (digits_value ds)) (strip_underscores cs)
           else if c = CHR ''+'' then map_option (\<lambda>ds. int (digits_value ds)) (strip_underscores cs)
           else map_option (\<lambda>ds. int (digits_value ds)) (strip_underscores (c # cs))))"

section \<open>Decoding\<close>

abbreviation ord :: "char \<Rightarrow> nat" where
  "ord c \<equiv> of_char c"

definition is_cont :: "char \<Rightarrow> bool" where
  "is_cont c = (0x80 \<le> ord c \<and> ord c \<le> 0xBF)"

text \<open>Well-formed UTF-8: no overlong form, no surrogate, nothing above U+10FFFF.\<close>

fun utf8_valid :: "string \<Rightarrow> bool" where
  "utf8_valid [] = True"
| "utf8_valid (a # s) =
     (if ord a < 0x80 then utf8_valid s
      else if 0xC2 \<le> ord a \<and> ord a \<le> 0xDF then
        (case s of b # s1 \<Rightarrow> is_cont b \<and> utf8_valid s1 | _ \<Rightarrow> False)
      else if 0xE0 \<le> ord a \<and> ord a \<le> 0xEF then
        (case s of b # c # s2 \<Rightarrow>
           is_cont b \<and> is_cont c \<and> (ord a = 0xE0 \<longrightarrow> 0xA0 \<le> ord b) \<and> (ord a = 0xED \<longrightarrow> ord b \<le> 0x9F) \<and>
           utf8_valid s2 | _ \<Rightarrow> False)
      else if 0xF0 \<le> ord a \<and> ord a \<le> 0xF4 then
        (case s of b # c # d # s3 \<Rightarrow>
           is_cont b \<and> is_cont c \<and> is_cont d \<and> (ord a = 0xF0 \<longrightarrow> 0x90 \<le> ord b) \<and>
           (ord a = 0xF4 \<longrightarrow> ord b \<le> 0x8F) \<and> utf8_valid s3 | _ \<Rightarrow> False)
      else False)"

text \<open>\<open>decode("utf-8-sig")\<close> drops one leading byte order mark.\<close>

definition decode_utf8_sig :: "string \<Rightarrow> string option" where
  "decode_utf8_sig b =
     (if utf8_valid b
      then Some (if prefix [CHR 0xEF, CHR 0xBB, CHR 0xBF] b then drop 3 b else b)
      else None)"

text \<open>The code points of the Windows-1252 bytes 0x80 to 0x9F; five of them are undefined.\<close>

definition WINDOWS_1252_HIGH :: "nat option list" where
  "WINDOWS_1252_HIGH =
     [Some 0x20AC, None, Some 0x201A, Some 0x0192, Some 0x201E, Some 0x2026, Some 0x2020, Some 0x2021,
      Some 0x02C6, Some 0x2030, Some 0x0160, Some 0x2039, Some 0x0152, None, Some 0x017D, None,
      None, Some 0x2018, Some 0x2019, Some 0x201C, Some 0x201D, Some 0x2022, Some 0x2013, Some 0x2014,
      Some 0x02DC, Some 0x2122, Some 0x0161, Some 0x203A, Some 0x0153, None, Some 0x017E, Some 0x0178]"

text \<open>The UTF-8 bytes of a code point below U+10000.\<close>

definition utf8_encode :: "nat \<Rightarrow> string" where
  "utf8_encode n =
     (if n < 0x80 then [char_of n]
      else if n < 0x800 then [char_of (0xC0 + n div 64), char_of (0x80 + n mod 64)]
      else [char_of (0xE0 + n div 4096), char_of (0x80 + (n div 64) mod 64), char_of (0x80 + n mod 64)])"

definition windows_1252_char :: "char \<Rightarrow> string option" where
  "windows_1252_char c =
     (if ord c < 0x80 then Some [c]
      else if ord c < 0xA0 then map_option utf8_encode (WINDOWS_1252_HIGH ! (ord c - 0x80))
      else Some (utf8_encode (ord c)))"

fun decode_windows_1252 :: "string \<Rightarrow> string option" where
  "decode_windows_1252 [] = Some []"
| "decode_windows_1252 (c # cs) =
     (case (windows_1252_char c, decode_windows_1252 cs) of
        (Some u, Some r) \<Rightarrow> Some (u @ r) | _ \<Rightarrow> None)"

section \<open>\<open>csv.reader\<close>\<close>

text \<open>The reader of the default dialect: comma, double quote, doubled quotes, not strict. Lines end
  at a line feed, a carriage return or the pair of them; a state is one of the reader's own, with
  \<open>AfterCR\<close> for the line feed that may follow a carriage return.\<close>

datatype csv_state = StartRecord | StartField | InField | InQuoted | QuoteInQuoted | AfterCR

record csv_acc =
  csv_at :: csv_state
  csv_field :: string
  csv_fields :: "string list"
  csv_rows :: "string list list"

definition csv_start :: csv_acc where
  "csv_start = \<lparr>csv_at = StartRecord, csv_field = [], csv_fields = [], csv_rows = []\<rparr>"

definition csv_save_field :: "csv_acc \<Rightarrow> csv_acc" where
  "csv_save_field a = a\<lparr>csv_fields := csv_fields a @ [csv_field a], csv_field := []\<rparr>"

definition csv_end_record :: "csv_state \<Rightarrow> csv_acc \<Rightarrow> csv_acc" where
  "csv_end_record st a = a\<lparr>csv_at := st, csv_rows := csv_rows a @ [csv_fields a], csv_fields := []\<rparr>"

definition csv_add :: "csv_state \<Rightarrow> char \<Rightarrow> csv_acc \<Rightarrow> csv_acc" where
  "csv_add st c a = a\<lparr>csv_at := st, csv_field := csv_field a @ [c]\<rparr>"

text \<open>The state after a line terminator.\<close>

definition csv_after :: "char \<Rightarrow> csv_state" where
  "csv_after c = (if c = CHR 0x0D then AfterCR else StartRecord)"

definition is_eol :: "char \<Rightarrow> bool" where
  "is_eol c = (c = CHR 0x0A \<or> c = CHR 0x0D)"

definition csv_open_char :: "csv_acc \<Rightarrow> char \<Rightarrow> csv_acc" where
  "csv_open_char a c =
     (if is_eol c then csv_end_record (csv_after c) (csv_save_field a)
      else if c = CHR 0x22 then a\<lparr>csv_at := InQuoted\<rparr>
      else if c = CHR '','' then (csv_save_field a)\<lparr>csv_at := StartField\<rparr>
      else csv_add InField c a)"

definition csv_record_char :: "csv_acc \<Rightarrow> char \<Rightarrow> csv_acc" where
  "csv_record_char a c =
     (if is_eol c then csv_end_record (csv_after c) a else csv_open_char a c)"

definition csv_step :: "csv_acc \<Rightarrow> char \<Rightarrow> csv_acc" where
  "csv_step a c =
     (case csv_at a of
        StartRecord \<Rightarrow> csv_record_char a c
      | AfterCR \<Rightarrow> if c = CHR 0x0A then a\<lparr>csv_at := StartRecord\<rparr> else csv_record_char a c
      | StartField \<Rightarrow> csv_open_char a c
      | InField \<Rightarrow>
          if is_eol c then csv_end_record (csv_after c) (csv_save_field a)
          else if c = CHR '','' then (csv_save_field a)\<lparr>csv_at := StartField\<rparr>
          else csv_add InField c a
      | InQuoted \<Rightarrow> if c = CHR 0x22 then a\<lparr>csv_at := QuoteInQuoted\<rparr> else csv_add InQuoted c a
      | QuoteInQuoted \<Rightarrow>
          if c = CHR 0x22 then csv_add InQuoted c a
          else if c = CHR '','' then (csv_save_field a)\<lparr>csv_at := StartField\<rparr>
          else if is_eol c then csv_end_record (csv_after c) (csv_save_field a)
          else csv_add InField c a)"

text \<open>At the end of the text an unfinished record is returned as it stands.\<close>

definition csv_finish :: "csv_acc \<Rightarrow> string list list" where
  "csv_finish a =
     (if csv_at a \<in> {StartRecord, AfterCR} then csv_rows a
      else csv_rows a @ [csv_fields a @ [csv_field a]])"

definition csv_reader :: "string \<Rightarrow> string list list" where
  "csv_reader text = csv_finish (foldl csv_step csv_start text)"

section \<open>URLs\<close>

record url_parts =
  url_scheme :: string
  url_netloc :: string
  url_path :: string
  url_query :: string
  url_fragment :: string

definition is_scheme_char :: "char \<Rightarrow> bool" where
  "is_scheme_char c = (is_alpha c \<or> is_digit c \<or> c \<in> {CHR ''+'', CHR ''-'', CHR ''.''})"

text \<open>The part before the first occurrence of a character and the part after it.\<close>

definition split_first :: "char \<Rightarrow> string \<Rightarrow> string \<times> string" where
  "split_first d s = (takeWhile (\<lambda>c. c \<noteq> d) s, drop 1 (dropWhile (\<lambda>c. c \<noteq> d) s))"

definition split_scheme :: "string \<Rightarrow> string \<times> string" where
  "split_scheme url =
     (let (s, rest) = split_first (CHR '':'') url in
      if CHR '':'' \<in> set url \<and> s \<noteq> [] \<and> is_alpha (hd s) \<and> list_all is_scheme_char s
      then (py_casefold s, rest) else ('''', url))"

text \<open>\<open>urlsplit\<close>: leading control characters and spaces are dropped, tabs and line ends removed; a
  network location with unbalanced brackets raises.\<close>

definition urlsplit :: "string \<Rightarrow> url_parts result" where
  "urlsplit raw =
     (let cleaned = filter (\<lambda>c. c \<notin> {CHR 0x09, CHR 0x0A, CHR 0x0D}) (dropWhile (\<lambda>c. ord c \<le> 32) raw);
          (scheme, url1) = split_scheme cleaned;
          (netloc, url2) = (if prefix ''//'' url1
             then (takeWhile (\<lambda>c. c \<notin> {CHR ''/'', CHR ''?'', CHR ''#''}) (drop 2 url1),
                   dropWhile (\<lambda>c. c \<notin> {CHR ''/'', CHR ''?'', CHR ''#''}) (drop 2 url1))
             else ('''', url1));
          (url3, fragment) = split_first (CHR ''#'') url2;
          (path, query) = split_first (CHR ''?'') url3
      in ebind (guard (CHR ''['' \<in> set netloc \<longleftrightarrow> CHR '']'' \<in> set netloc) (ValueError ''Invalid IPv6 URL'')) (\<lambda>_.
         Inr \<lparr>url_scheme = scheme, url_netloc = netloc, url_path = path, url_query = query,
              url_fragment = fragment\<rparr>))"

definition hex_value :: "char \<Rightarrow> nat option" where
  "hex_value c =
     (if is_digit c then Some (ord c - 48)
      else if 97 \<le> ord c \<and> ord c \<le> 102 then Some (ord c - 87)
      else if 65 \<le> ord c \<and> ord c \<le> 70 then Some (ord c - 55)
      else None)"

text \<open>\<open>unquote\<close> after \<open>replace("+", " ")\<close>: well-formed escapes are replaced by their byte.\<close>

fun unquote_plus :: "string \<Rightarrow> string" where
  "unquote_plus [] = []"
| "unquote_plus (c # cs) =
     (if c = CHR ''+'' then CHR '' '' # unquote_plus cs
      else if c = CHR ''%'' then
        (case cs of
           h # l # r \<Rightarrow>
             (case (hex_value h, hex_value l) of
                (Some x, Some y) \<Rightarrow> char_of (16 * x + y) # unquote_plus r
              | _ \<Rightarrow> c # unquote_plus cs)
         | _ \<Rightarrow> c # unquote_plus cs)
      else c # unquote_plus cs)"

text \<open>\<open>parse_qsl(query, keep_blank_values=True)\<close>.\<close>

definition parse_qsl :: "string \<Rightarrow> (string \<times> string) list" where
  "parse_qsl query =
     map (\<lambda>nv. (unquote_plus (fst (split_first (CHR ''='') nv)), unquote_plus (snd (split_first (CHR ''='') nv))))
       (filter (\<lambda>nv. nv \<noteq> []) (split_on (CHR ''&'') query))"

end
