(* ===== verification/Transparency_Contract.thy ===== *)
theory Transparency_Contract imports Py_Formats
begin

text \<open>
  The contract of the TransparencyAPI bulk exports
  (\<open>connectors/ccld_transparency_api/contract.py\<close>): the seven exports and their fixed headers,
  the observation a source cell becomes, the normalised row, and the rule that keeps a populated
  prior value where the current one is blank or a placeholder.
\<close>

section \<open>Constants\<close>

definition SOURCE_FAMILY_ID :: string where
  "SOURCE_FAMILY_ID = ''ccld-transparencyapi-facility-reference''"

definition CONNECTOR_VERSION :: string where
  "CONNECTOR_VERSION = ''1.0.0''"

definition SNAPSHOT_SCOPE :: string where
  "SNAPSHOT_SCOPE = ''governed_transparencyapi''"

definition OBSERVATION_KIND :: string where
  "OBSERVATION_KIND = ''bulk_export_family''"

definition BASE_URL :: string where
  "BASE_URL = ''https://www.ccld.dss.ca.gov/transparencyapi/api''"

definition EXPORT_IDS :: "string list" where
  "EXPORT_IDS =
     [''FosterFamilyAgencies'', ''24HourResidentialCareforChildren'',
      ''ResidentialElderCareFacility'', ''ChildCareCenters'', ''CHILDCAREHOMEmorethan8'',
      ''AdultResidentialFacilities'', ''HomeCare'']"

definition RCFE_EXPORT_ID :: string where
  "RCFE_EXPORT_ID = ''ResidentialElderCareFacility''"

definition STANDARD_HEADERS :: "string list" where
  "STANDARD_HEADERS =
     [''Facility Type'', ''Facility Number'', ''Facility Name'', ''Licensee'',
      ''Facility Administrator'', ''Facility Telephone Number'', ''Facility Address'',
      ''Facility City'', ''Facility State'', ''Facility Zip'', ''County Name'',
      ''Regional Office'', ''Facility Capacity'', ''Facility Status'', ''License First Date'',
      ''Closed Date'', ''Last Visit Date'', ''Inspection Visits'', ''Complaint Visits'',
      ''Other Visits'', ''Total Visits'', ''Citation Numbers'', ''POC Dates'',
      ''All Visit Dates'', ''Inspection Visit Dates'', ''Inspect TypeA'', ''Inspect TypeB'',
      ''Other Visit Dates'', ''Other TypeA'', ''Other TypeB'',
      ''Complaint Info- Date, #Sub Aleg, # Inc Aleg, # Uns Aleg, # TypeA, # TypeB ...'']"

definition RCFE_HEADERS :: "string list" where
  "RCFE_HEADERS = take 30 STANDARD_HEADERS @
     [''Complaint Type A'', ''Complaint Type B'', ''Total Allegations'',
      ''Inconclusive Allegations'', ''Substantiated Allegations'',
      ''Unsubstantiated Allegations'', ''Unfounded Allegations'',
      ''Complaint Info- Date, #Sub A, # Inc A, # Uns A, # Unf A, # TypeA, # TypeB ...'']"

definition STANDARD_COMPLAINT_FIELDS :: "string list" where
  "STANDARD_COMPLAINT_FIELDS =
     [''date'', ''substantiated_allegations'', ''inconclusive_allegations'',
      ''unsubstantiated_allegations'', ''type_a_citations'', ''type_b_citations'']"

definition RCFE_COMPLAINT_FIELDS :: "string list" where
  "RCFE_COMPLAINT_FIELDS =
     [''date'', ''substantiated_allegations'', ''inconclusive_allegations'',
      ''unsubstantiated_allegations'', ''unfounded_allegations'', ''type_a_citations'',
      ''type_b_citations'']"

definition PLACEHOLDER_LITERALS :: "string list" where
  "PLACEHOLDER_LITERALS =
     [''unavailable'', ''see faqs'', ''n/a'', ''na'', ''not available'', ''not provided'']"

definition PRESERVE_POPULATED_FIELDS :: "string list" where
  "PRESERVE_POPULATED_FIELDS =
     [''facility_address'', ''facility_telephone_number'']"

section \<open>Headers\<close>

definition expected_headers :: "string \<Rightarrow> string list result" where
  "expected_headers export_id =
     ebind (guard (export_id \<in> set EXPORT_IDS)
       (ValueError (''Unapproved TransparencyAPI export ID: '' @ export_id))) (\<lambda>_.
     Inr (if export_id = RCFE_EXPORT_ID then RCFE_HEADERS else STANDARD_HEADERS))"

definition complaint_fields :: "string \<Rightarrow> string list" where
  "complaint_fields export_id =
     (if export_id = RCFE_EXPORT_ID then RCFE_COMPLAINT_FIELDS else STANDARD_COMPLAINT_FIELDS)"

text \<open>The headers of an approved export, for the fingerprints, which range over those only.\<close>

definition approved_headers :: "string \<Rightarrow> string list" where
  "approved_headers export_id = (case expected_headers export_id of Inr hs \<Rightarrow> hs | Inl _ \<Rightarrow> [])"

definition schema_fingerprint_of :: "pyenv \<Rightarrow> string \<Rightarrow> string" where
  "schema_fingerprint_of env export_id =
     canonical_fingerprint env (PList (map PStr (approved_headers export_id)))"

definition source_family_schema_fingerprint :: "pyenv \<Rightarrow> string" where
  "source_family_schema_fingerprint env =
     canonical_fingerprint env
       (PDict (map (\<lambda>e. (e, PList (map PStr (approved_headers e)))) EXPORT_IDS))"

section \<open>Observations\<close>

text \<open>The source cell is a text, or missing (\<open>present=False\<close>, given as \<open>None\<close>).\<close>

definition normalized_observation :: "string option \<Rightarrow> pyval" where
  "normalized_observation raw =
     (case raw of
        None \<Rightarrow> PDict [(''state'', PStr ''absent''), (''raw'', PNone), (''value'', PNone)]
      | Some literal \<Rightarrow>
          (let stripped = py_strip literal;
               (state, value) =
                 (if stripped = [] then (''blank'', PNone)
                  else if py_casefold stripped \<in> set PLACEHOLDER_LITERALS then (''placeholder'', PStr stripped)
                  else (''populated'', PStr stripped))
           in PDict [(''state'', PStr state), (''raw'', PStr literal), (''value'', value)]))"

definition NORMALIZED_SOURCES :: "(string \<times> string) list" where
  "NORMALIZED_SOURCES =
     [(''facility_type'', ''Facility Type''),
      (''facility_number'', ''Facility Number''),
      (''facility_name'', ''Facility Name''),
      (''licensee'', ''Licensee''),
      (''facility_administrator'', ''Facility Administrator''),
      (''facility_telephone_number'', ''Facility Telephone Number''),
      (''facility_address'', ''Facility Address''),
      (''facility_city'', ''Facility City''),
      (''facility_state'', ''Facility State''),
      (''facility_zip'', ''Facility Zip''),
      (''county_name'', ''County Name''),
      (''regional_office'', ''Regional Office''),
      (''facility_capacity'', ''Facility Capacity''),
      (''bulk_status'', ''Facility Status''),
      (''license_first_date'', ''License First Date''),
      (''closed_date'', ''Closed Date''),
      (''last_visit_date'', ''Last Visit Date'')]"

definition normalize_bulk_row :: "(string \<times> string) list \<Rightarrow> pydict" where
  "normalize_bulk_row raw_record =
     map (\<lambda>(name, source). (name, normalized_observation (map_of raw_record source))) NORMALIZED_SOURCES"

section \<open>Keeping a populated prior value\<close>

definition preserve_field :: "pydict \<Rightarrow> pydict \<Rightarrow> string \<Rightarrow> pydict" where
  "preserve_field prior resolved field_name =
     (case (py_get resolved field_name, py_get prior field_name) of
        (PDict current_value, PDict prior_value) \<Rightarrow>
          if py_get current_value ''state'' \<notin> {PStr ''blank'', PStr ''placeholder'', PStr ''absent''} then resolved
          else if py_get prior_value ''state'' \<noteq> PStr ''populated'' then resolved
          else py_set resolved field_name
            (PDict (py_set (py_set prior_value ''preserved_from_prior'' (PBool True))
               ''superseding_observation'' (PDict current_value)))
      | _ \<Rightarrow> resolved)"

definition preserve_prior_populated_values :: "pydict \<Rightarrow> pydict option \<Rightarrow> pydict" where
  "preserve_prior_populated_values current prior =
     (case prior of
        None \<Rightarrow> current
      | Some p \<Rightarrow> foldl (preserve_field p) current PRESERVE_POPULATED_FIELDS)"

section \<open>Lemmas\<close>

lemma py_get_preserve_field:
  "py_get (preserve_field prior resolved f) g =
     (if g = f then py_get (preserve_field prior resolved f) f else py_get resolved g)"
  by (auto simp: preserve_field_def split: pyval.split)

end
