(* ===== verification/Transparency_Connector.thy ===== *)
theory Transparency_Connector imports Transparency_Contract
begin

text \<open>
  The TransparencyAPI connector (\<open>connectors/ccld_transparency_api/connector.py\<close>): the allowlist
  of request URLs, the parser of a bulk CSV export into facility rows with their complaint blocks,
  the readers of the detail and report-list responses, and the capture of one artifact from a
  response of the transport.
\<close>

section \<open>Small helpers\<close>

definition FACILITY_NUMBER_MESSAGE :: string where
  "FACILITY_NUMBER_MESSAGE = ''Facility Number must contain digits only.''"

definition validate_facility_number :: "string \<Rightarrow> unit result" where
  "validate_facility_number facility_number =
     guard (py_isdigit facility_number) (ConnectorError FACILITY_NUMBER_MESSAGE)"

text \<open>\<open>str(value).strip() or None\<close>, and \<open>None\<close> for a missing value.\<close>

definition optional_stripped :: "pyenv \<Rightarrow> pyval \<Rightarrow> string option" where
  "optional_stripped env v =
     (let stripped = (if v = PNone then [] else py_strip (py_str env v))
      in if stripped = [] then None else Some stripped)"

text \<open>The first of the names that is a key, compared without case; of keys that agree without
  case the last entry counts.\<close>

fun mapping_value :: "pydict \<Rightarrow> string list \<Rightarrow> pyval" where
  "mapping_value d [] = PNone"
| "mapping_value d (name # names) =
     (case map_of (rev (map (\<lambda>kv. (py_casefold (fst kv), snd kv)) d)) (py_casefold name) of
        Some v \<Rightarrow> v
      | None \<Rightarrow> mapping_value d names)"

text \<open>\<open>json.loads(content.decode("utf-8-sig"))\<close>.\<close>

definition json_loads_sig :: "pyenv \<Rightarrow> string \<Rightarrow> pyval option" where
  "json_loads_sig env content =
     (case decode_utf8_sig content of None \<Rightarrow> None | Some text \<Rightarrow> json_loads env text)"

definition json_value :: "pyenv \<Rightarrow> string \<Rightarrow> string \<Rightarrow> pyval result" where
  "json_value env label content =
     (case json_loads_sig env content of
        None \<Rightarrow> Inl (ConnectorError (label @ '' is not valid UTF-8 JSON.''))
      | Some v \<Rightarrow> Inr v)"

definition json_fingerprint_or_none :: "pyenv \<Rightarrow> string \<Rightarrow> string option" where
  "json_fingerprint_or_none env content = map_option (canonical_fingerprint env) (json_loads_sig env content)"

section \<open>The governed URLs\<close>

text \<open>The approved identifiers need no percent escape.\<close>

definition bulk_export_url :: "string \<Rightarrow> string result" where
  "bulk_export_url export_id =
     ebind (expected_headers export_id) (\<lambda>_. Inr (BASE_URL @ ''/DownloadStateData?id='' @ export_id))"

definition report_helper_url :: "string \<Rightarrow> int \<Rightarrow> string result" where
  "report_helper_url facility_number index =
     ebind (validate_facility_number facility_number) (\<lambda>_.
     ebind (guard (0 \<le> index) (ConnectorError ''Report index must be a nonnegative integer.'')) (\<lambda>_.
     Inr (BASE_URL @ ''/FacilityReports?facNum='' @ facility_number @ ''&inx='' @ show_int index)))"

definition remove_prefix :: "string \<Rightarrow> string \<Rightarrow> string" where
  "remove_prefix p s = (if prefix p s then drop (length p) s else s)"

definition validate_report_index :: "string \<Rightarrow> unit result" where
  "validate_report_index inx =
     (case py_int inx of
        None \<Rightarrow> Inl (ConnectorError ''Report index must be an integer.'')
      | Some index \<Rightarrow>
          guard (0 \<le> index \<and> show_int index = inx)
            (ConnectorError ''Report index must be canonical and nonnegative.''))"

definition validate_governed_url :: "string \<Rightarrow> unit result" where
  "validate_governed_url url =
     ebind (guard (\<not> py_in ''fakeout.gov'' (py_casefold url))
             (ConnectorError ''Prohibited REPORTPAGE source identity.'')) (\<lambda>_.
     ebind (urlsplit url) (\<lambda>parsed.
     ebind (guard (url_scheme parsed = ''https'' \<and> url_netloc parsed = ''www.ccld.dss.ca.gov'' \<and>
                   url_fragment parsed = [])
             (ConnectorError ''Request is outside the approved HTTPS source identity.'')) (\<lambda>_.
     (let path = url_path parsed; pairs = parse_qsl (url_query parsed);
          params = set (map fst pairs);
          endpoint = ''https://www.ccld.dss.ca.gov'' @ path;
          suffix = remove_prefix ''/transparencyapi/api/'' path
      in ebind (guard (card params = length pairs)
                 (ConnectorError ''Duplicate query parameters are prohibited.'')) (\<lambda>_.
         ebind (guard (\<not> py_in ''FacilitySearch'' path) (ConnectorError ''Prohibited source path.'')) (\<lambda>_.
         if endpoint = BASE_URL @ ''/DownloadStateData'' then
           guard (params = {''id''} \<and> the (map_of pairs ''id'') \<in> set EXPORT_IDS)
             (ConnectorError ''Bulk export request is outside the seven-ID allowlist.'')
         else if (endpoint = BASE_URL @ ''/Group/'' \<or> endpoint = BASE_URL @ ''/CACounty'') \<and> pairs = [] then
           Inr ()
         else if prefix ''FacilityDetail/'' suffix \<and> pairs = [] then
           validate_facility_number (remove_prefix ''FacilityDetail/'' suffix)
         else if prefix ''FacilityReports/'' suffix \<and> pairs = [] then
           validate_facility_number (remove_prefix ''FacilityReports/'' suffix)
         else if endpoint = BASE_URL @ ''/FacilityReports'' \<and> params = {''facNum'', ''inx''} then
           ebind (validate_facility_number (the (map_of pairs ''facNum''))) (\<lambda>_.
           validate_report_index (the (map_of pairs ''inx'')))
         else Inl (ConnectorError ''Request endpoint is outside the approved allowlist.'')))))))"

section \<open>The bulk export\<close>

record complaint_block =
  block_ordinal :: nat
  block_raw_values :: "string list"
  block_values :: "(string \<times> string) list"

record facility_row =
  row_export_id :: string
  row_ordinal :: nat
  row_facility_number :: "string option"
  row_raw_values :: "string list"
  row_raw_record :: "(string \<times> string) list"
  row_normalized_record :: pydict
  row_complaint_blocks :: "complaint_block list"
  row_trailing_values :: "string list"
  row_raw_sha256 :: string
  row_warnings :: "string list"
  row_quarantine_categories :: "string list"

record parsed_export =
  exp_export_id :: string
  exp_headers :: "string list"
  exp_rows :: "facility_row list"
  exp_rejection_reasons :: "string list"

definition is_zero_complaint_tail :: "string list \<Rightarrow> bool" where
  "is_zero_complaint_tail tail =
     (tail = [] \<or> list_all (\<lambda>v. py_strip v = []) tail \<or>
      (length tail = 1 \<and> py_casefold (py_strip (hd tail)) = ''no complaints''))"

text \<open>\<open>normalized[field]\<close>, which the normalised row always has as a mapping.\<close>

definition observed :: "pydict \<Rightarrow> string \<Rightarrow> pydict" where
  "observed normalized fld = (case py_get normalized fld of PDict d \<Rightarrow> d | _ \<Rightarrow> [])"

text \<open>\<open>str(observation.get("value") or "")\<close>.\<close>

definition observed_text :: "pyenv \<Rightarrow> pydict \<Rightarrow> string \<Rightarrow> string" where
  "observed_text env normalized fld =
     (let v = py_get (observed normalized fld) ''value''
      in if py_truthy v then py_str env v else [])"

definition status_closed_date_disagree :: "pyenv \<Rightarrow> pydict \<Rightarrow> bool" where
  "status_closed_date_disagree env normalized =
     (if py_get (observed normalized ''closed_date'') ''state'' \<noteq> PStr ''populated'' then False
      else (let status_value = py_casefold (observed_text env normalized ''bulk_status'')
            in \<not> (py_in ''closed'' status_value \<or> py_in ''inactive'' status_value)))"

text \<open>\<open>re.findall(r"(?:19|20)\d{2}", value)\<close>.\<close>

fun find_years :: "string \<Rightarrow> string list" where
  "find_years (a # b # c # d # s) =
     (if ([a, b] = ''19'' \<or> [a, b] = ''20'') \<and> is_digit c \<and> is_digit d
      then [a, b, c, d] # find_years s
      else find_years (b # c # d # s))"
| "find_years _ = []"

definition future_date_warnings :: "pyenv \<Rightarrow> pydict \<Rightarrow> int option \<Rightarrow> string list" where
  "future_date_warnings env normalized reference_year =
     (case reference_year of
        None \<Rightarrow> []
      | Some y \<Rightarrow>
          concat (map (\<lambda>fld.
              (let years = find_years (observed_text env normalized fld)
               in if years \<noteq> [] \<and> int (digits_value (last years)) > y
                  then [fld @ '' contains a suspicious future date''] else []))
            [''license_first_date'', ''closed_date'', ''last_visit_date'']))"

definition complaint_blocks_of :: "string list \<Rightarrow> string list \<Rightarrow> complaint_block list" where
  "complaint_blocks_of block_fields tail =
     (let n = length block_fields in
      map (\<lambda>k. (let values = take n (drop (k * n) tail)
                in \<lparr>block_ordinal = k + 1, block_raw_values = values,
                    block_values = zip block_fields values\<rparr>))
        [0..<length tail div n])"

definition parse_facility_row ::
  "pyenv \<Rightarrow> string \<Rightarrow> string list \<Rightarrow> int option \<Rightarrow> nat \<Rightarrow> string list \<Rightarrow> facility_row" where
  "parse_facility_row env export_id headers reference_year ordinal raw_values =
     (let complaint_start = length headers - 1;
          block_fields = complaint_fields export_id;
          fixed0 = take complaint_start raw_values;
          fixed = fixed0 @ replicate (complaint_start - length fixed0) '''';
          raw_record = zip (take complaint_start headers) fixed;
          tail = drop complaint_start raw_values;
          zero = is_zero_complaint_tail tail;
          complete_length = length tail - length tail mod length block_fields;
          blocks = (if zero then [] else complaint_blocks_of block_fields tail);
          trailing = (if zero then [] else drop complete_length tail);
          literal = py_strip (case map_of raw_record ''Facility Number'' of None \<Rightarrow> '''' | Some s \<Rightarrow> s);
          number = (if literal = [] then None else Some literal);
          normalized = normalize_bulk_row raw_record;
          warnings = (if trailing \<noteq> [] then [''partial complaint block is preserved''] else [])
            @ (if status_closed_date_disagree env normalized
               then [''bulk status and Closed Date require reconciliation''] else [])
            @ future_date_warnings env normalized reference_year;
          quarantines = (if trailing \<noteq> [] then [''malformed_trailing_complaint_block''] else [])
            @ (if number = None then [''blank_facility_number''] else [])
      in \<lparr>row_export_id = export_id, row_ordinal = ordinal, row_facility_number = number,
          row_raw_values = raw_values, row_raw_record = raw_record,
          row_normalized_record = normalized, row_complaint_blocks = blocks,
          row_trailing_values = trailing,
          row_raw_sha256 = sha256_bytes env (canonical_json_bytes env (PList (map PStr raw_values))),
          row_warnings = sorted_set warnings,
          row_quarantine_categories = sorted_set quarantines\<rparr>)"

definition is_blank_row :: "string list \<Rightarrow> bool" where
  "is_blank_row raw_values = list_all (\<lambda>v. py_strip v = []) raw_values"

text \<open>\<open>decode("utf-8-sig")\<close>, else \<open>decode("windows-1252")\<close>, which may raise.\<close>

definition decode_export :: "string \<Rightarrow> string result" where
  "decode_export content =
     (case decode_utf8_sig content of
        Some text \<Rightarrow> Inr text
      | None \<Rightarrow>
          (case decode_windows_1252 content of
             Some text \<Rightarrow> Inr text
           | None \<Rightarrow> Inl (ValueError ''charmap codec cannot decode byte'')))"

definition parse_bulk_csv :: "pyenv \<Rightarrow> string \<Rightarrow> string \<Rightarrow> int option \<Rightarrow> parsed_export result" where
  "parse_bulk_csv env content export_id reference_year =
     ebind (expected_headers export_id) (\<lambda>headers_expected.
     ebind (decode_export content) (\<lambda>text.
     Inr (case csv_reader text of
        [] \<Rightarrow> \<lparr>exp_export_id = export_id, exp_headers = [], exp_rows = [],
               exp_rejection_reasons = [''bulk export is empty'']\<rparr>
      | headers # records \<Rightarrow>
          if headers \<noteq> headers_expected
          then \<lparr>exp_export_id = export_id, exp_headers = headers, exp_rows = [],
                exp_rejection_reasons = [''fixed CSV headers differ from the approved export contract'']\<rparr>
          else \<lparr>exp_export_id = export_id, exp_headers = headers,
                exp_rows = map (\<lambda>(ordinal, raw_values).
                    parse_facility_row env export_id headers_expected reference_year ordinal raw_values)
                  (filter (\<lambda>ov. \<not> is_blank_row (snd ov)) (enumerate 1 records)),
                exp_rejection_reasons = []\<rparr>)))"

section \<open>Detail and report-list responses\<close>

record detail_observation =
  det_facility_number :: string
  det_raw_record :: pydict
  det_facility_name :: pyval
  det_facility_address :: pyval
  det_facility_city :: pyval
  det_facility_state :: pyval
  det_facility_zip :: pyval
  det_facility_telephone_number :: pyval
  det_contact :: pyval
  det_facility_administrator :: pyval
  det_licensee :: pyval
  det_detail_status :: pyval
  det_closed_date :: pyval
  det_facility_type_code :: "string option"
  det_sentinel :: bool
  det_quarantine_categories :: "string list"

definition detail_values :: "pydict \<Rightarrow> pydict" where
  "detail_values payload = (case py_get payload ''FacilityDetail'' of PDict d \<Rightarrow> d | _ \<Rightarrow> payload)"

definition parse_detail_response ::
  "pyenv \<Rightarrow> string \<Rightarrow> string \<Rightarrow> string set option \<Rightarrow> detail_observation result" where
  "parse_detail_response env content facility_number known_type_codes =
     ebind (json_value env ''FacilityDetail response'' content) (\<lambda>payload.
     case payload of
       PDict raw \<Rightarrow>
         (let dv = detail_values raw;
              sentinel = list_ex (\<lambda>v. py_in ''facility number not found'' (py_casefold (py_str env v)))
                           (map snd raw @ map snd dv);
              returned = mapping_value dv [''FacilityNumber'', ''FACILITYNUMBER'', ''FAC_NBR''];
              type_code = optional_stripped env
                (mapping_value dv [''TYPE'', ''TypeCode'', ''FacilityTypeCode'', ''GROUPID'', ''FACILITYTYPE''])
          in Inr \<lparr>det_facility_number = facility_number, det_raw_record = raw,
               det_facility_name = mapping_value dv [''FACILITYNAME'', ''Facility Name''],
               det_facility_address = mapping_value dv [''STREETADDRESS'', ''Facility Address''],
               det_facility_city = mapping_value dv [''CITY'', ''Facility City''],
               det_facility_state = mapping_value dv [''STATE'', ''Facility State''],
               det_facility_zip = mapping_value dv [''ZIPCODE'', ''Facility Zip''],
               det_facility_telephone_number = mapping_value dv [''TELEPHONE'', ''Facility Telephone Number''],
               det_contact = mapping_value dv [''CONTACT'', ''Contact''],
               det_facility_administrator =
                 mapping_value dv [''Facility Administrator'', ''FacilityAdministrator'', ''ADMINISTRATOR''],
               det_licensee = mapping_value dv [''LICENSEENAME'', ''Licensee''],
               det_detail_status = mapping_value dv [''STATUS'', ''FacilityStatus'', ''FACILITYSTATUS''],
               det_closed_date = mapping_value dv [''DATECLOSED'', ''Closed Date''],
               det_facility_type_code = type_code,
               det_sentinel = sentinel,
               det_quarantine_categories =
                 (if sentinel then [''facility_detail_sentinel''] else [])
                 @ (if returned \<noteq> PNone \<and> returned \<noteq> PStr [] \<and>
                       py_strip (py_str env returned) \<noteq> facility_number
                    then [''facility_detail_identity_mismatch''] else [])
                 @ (case (known_type_codes, type_code) of
                      (Some codes, Some code) \<Rightarrow>
                        if code \<notin> codes then [''unknown_facility_type_code''] else []
                    | _ \<Rightarrow> [])\<rparr>)
     | _ \<Rightarrow> Inl (ConnectorError ''FacilityDetail response must be a JSON object.''))"

record report_list_item =
  item_index :: nat
  item_facility_number :: string
  item_control_number :: "string option"
  item_report_date :: "string option"
  item_raw_record :: pydict

definition parse_report_item :: "pyenv \<Rightarrow> string \<Rightarrow> nat \<times> pyval \<Rightarrow> report_list_item result" where
  "parse_report_item env facility_number iv =
     (case snd iv of
        PDict raw \<Rightarrow>
          (let item_number = mapping_value raw [''FacilityNumber'', ''FACILITYNUMBER'', ''FAC_NUM''];
               report_page = mapping_value raw [''REPORTPAGE'', ''ReportPage'']
           in Inr \<lparr>item_index = fst iv,
                item_facility_number =
                  (if item_number = PNone \<or> item_number = PStr [] then facility_number
                   else py_strip (py_str env item_number)),
                item_control_number = optional_stripped env
                  (mapping_value raw [''ControlNumber'', ''CONTROLNUMBER'', ''ComplaintControl'']),
                item_report_date = optional_stripped env
                  (mapping_value raw [''ReportDate'', ''REPORTDATE'', ''Date'']),
                item_raw_record =
                  (if py_truthy report_page \<and> py_in ''fakeout.gov'' (py_casefold (py_str env report_page))
                   then py_set raw ''REPORTPAGE_REJECTED'' (PBool True) else raw)\<rparr>)
      | _ \<Rightarrow> Inl (ConnectorError ''FacilityReports list item must be an object.''))"

text \<open>The array of a report list: the response itself or the first entry named reports, data or
  items.\<close>

definition report_items_value :: "pyval \<Rightarrow> pyval" where
  "report_items_value payload =
     (case payload of
        PDict d \<Rightarrow>
          (case find (\<lambda>kv. py_casefold (fst kv) \<in> {''reports'', ''data'', ''items''}) d of
             Some kv \<Rightarrow> snd kv | None \<Rightarrow> PNone)
      | _ \<Rightarrow> payload)"

definition parse_report_list :: "pyenv \<Rightarrow> string \<Rightarrow> string \<Rightarrow> report_list_item list result" where
  "parse_report_list env content facility_number =
     ebind (json_value env ''FacilityReports list response'' content) (\<lambda>payload.
     case report_items_value payload of
       PList items \<Rightarrow> mapM_err (parse_report_item env facility_number) (enumerate 0 items)
     | _ \<Rightarrow> Inl (ConnectorError ''FacilityReports list response must contain an array.''))"

definition select_report_item :: "report_list_item list \<Rightarrow> int \<Rightarrow> report_list_item result" where
  "select_report_item items index =
     ebind (guard (0 \<le> index) (ConnectorError ''Report index must be a nonnegative integer.'')) (\<lambda>_.
     ebind (guard (nat index < length items)
             (ConnectorError ''Report index is outside the preserved report list.'')) (\<lambda>_.
     Inr (items ! nat index)))"

section \<open>Capturing an artifact\<close>

record http_artifact_response =
  resp_request_url :: string
  resp_final_url :: string
  resp_status :: int
  resp_headers :: "(string \<times> string) list"
  resp_body :: string

definition content_type :: "http_artifact_response \<Rightarrow> string" where
  "content_type response =
     (case find (\<lambda>h. py_casefold (fst h) = ''content-type'') (resp_headers response) of
        None \<Rightarrow> []
      | Some h \<Rightarrow> py_casefold (py_strip (fst (split_first (CHR '';'') (snd h)))))"

record preserved_artifact =
  art_artifact_id :: string
  art_endpoint_kind :: string
  art_export_id :: "string option"
  art_request_url :: string
  art_final_url :: string
  art_retrieved_at :: string
  art_status :: int
  art_response_headers :: "(string \<times> string) list"
  art_excluded_header_names :: "string list"
  art_media_type :: string
  art_content_disposition :: "string option"
  art_byte_count :: nat
  art_sha256 :: string
  art_raw_ref :: string

fun opt_str :: "string option \<Rightarrow> pyval" where
  "opt_str None = PNone"
| "opt_str (Some s) = PStr s"

definition manifest_record :: "preserved_artifact \<Rightarrow> pyval" where
  "manifest_record a = PDict
     [(''artifact_id'', PStr (art_artifact_id a)), (''endpoint_kind'', PStr (art_endpoint_kind a)),
      (''export_id'', opt_str (art_export_id a)), (''request_url'', PStr (art_request_url a)),
      (''final_url'', PStr (art_final_url a)), (''retrieved_at'', PStr (art_retrieved_at a)),
      (''status'', PInt (art_status a)),
      (''response_headers'',
        PList (map (\<lambda>h. PList [PStr (fst h), PStr (snd h)]) (art_response_headers a))),
      (''excluded_header_names'', PList (map PStr (art_excluded_header_names a))),
      (''media_type'', PStr (art_media_type a)),
      (''content_disposition'', opt_str (art_content_disposition a)),
      (''byte_count'', PInt (int (art_byte_count a))), (''sha256'', PStr (art_sha256 a)),
      (''raw_ref'', PStr (art_raw_ref a))]"

definition PROHIBITED_RESPONSE_HEADERS :: "string list" where
  "PROHIBITED_RESPONSE_HEADERS =
     [''authorization'', ''proxy-authorization'', ''set-cookie'', ''set-cookie2'']"

text \<open>The files of one evidence directory, by their reference; \<open>open("xb")\<close> refuses to overwrite.\<close>

type_synonym evidence = "(string \<times> string) list"

definition write_exclusive :: "evidence \<Rightarrow> string \<Rightarrow> string \<Rightarrow> evidence result" where
  "write_exclusive files ref content =
     (case map_of files ref of
        Some _ \<Rightarrow> Inl (OSError (''File exists: '' @ ref))
      | None \<Rightarrow> Inr (files @ [(ref, content)]))"

definition is_prohibited_header :: "string \<times> string \<Rightarrow> bool" where
  "is_prohibited_header h = (py_casefold (fst h) \<in> set PROHIBITED_RESPONSE_HEADERS)"

text \<open>The transport is a parameter. The excluded names are sorted without case; names that differ
  in case only are put in their own order.\<close>

definition fetch_and_preserve ::
  "pyenv \<Rightarrow> (string \<Rightarrow> http_artifact_response result) \<Rightarrow> evidence \<Rightarrow> string \<Rightarrow> string \<Rightarrow> string option
     \<Rightarrow> string \<Rightarrow> string \<Rightarrow> string \<Rightarrow> (evidence \<times> preserved_artifact) result" where
  "fetch_and_preserve env transport files artifact_id endpoint_kind export_id url raw_ref retrieved_at =
     ebind (validate_governed_url url) (\<lambda>_.
     ebind (transport url) (\<lambda>response.
     ebind (write_exclusive files raw_ref (resp_body response)) (\<lambda>files'.
     (let safe_headers = filter (\<lambda>h. \<not> is_prohibited_header h) (resp_headers response);
          excluded = map fst (filter is_prohibited_header (resp_headers response))
      in Inr (files',
          \<lparr>art_artifact_id = artifact_id, art_endpoint_kind = endpoint_kind, art_export_id = export_id,
           art_request_url = resp_request_url response, art_final_url = resp_final_url response,
           art_retrieved_at = retrieved_at, art_status = resp_status response,
           art_response_headers = safe_headers,
           art_excluded_header_names = sort_key py_casefold (sorted_set excluded),
           art_media_type = content_type response,
           art_content_disposition =
             map_option snd (find (\<lambda>h. py_casefold (fst h) = ''content-disposition'') safe_headers),
           art_byte_count = length (resp_body response),
           art_sha256 = sha256_bytes env (resp_body response), art_raw_ref = raw_ref\<rparr>)))))"

definition fetch_detail ::
  "pyenv \<Rightarrow> (string \<Rightarrow> http_artifact_response result) \<Rightarrow> evidence \<Rightarrow> string \<Rightarrow> string \<Rightarrow> string set option
     \<Rightarrow> (evidence \<times> preserved_artifact \<times> detail_observation) result" where
  "fetch_detail env transport files facility_number retrieved_at known_type_codes =
     ebind (validate_facility_number facility_number) (\<lambda>_.
     ebind (fetch_and_preserve env transport files (''facility-detail-'' @ facility_number) ''facility_detail''
         None (BASE_URL @ ''/FacilityDetail/'' @ facility_number)
         (''detail/'' @ facility_number @ ''.json'') retrieved_at) (\<lambda>(files', artifact).
     ebind (parse_detail_response env (the (map_of files' (art_raw_ref artifact))) facility_number
         known_type_codes) (\<lambda>d. Inr (files', artifact, d))))"

definition fetch_report_list ::
  "pyenv \<Rightarrow> (string \<Rightarrow> http_artifact_response result) \<Rightarrow> evidence \<Rightarrow> string \<Rightarrow> string
     \<Rightarrow> (evidence \<times> preserved_artifact \<times> report_list_item list) result" where
  "fetch_report_list env transport files facility_number retrieved_at =
     ebind (validate_facility_number facility_number) (\<lambda>_.
     ebind (fetch_and_preserve env transport files (''facility-report-list-'' @ facility_number) ''report_list''
         None (BASE_URL @ ''/FacilityReports/'' @ facility_number)
         (''reports/'' @ facility_number @ ''/list.json'') retrieved_at) (\<lambda>(files', artifact).
     ebind (parse_report_list env (the (map_of files' (art_raw_ref artifact))) facility_number)
       (\<lambda>items. Inr (files', artifact, items))))"

section \<open>Capturing the whole source family\<close>

definition run_id :: "pyenv \<Rightarrow> string \<Rightarrow> string" where
  "run_id env recorded =
     (let cleaned = take 24 (filter (\<lambda>c. is_alpha c \<or> is_digit c) recorded)
      in if cleaned = [] then take 24 (sha256_bytes env recorded) else cleaned)"

text \<open>The requests of one capture: identifier, kind, export, URL and file.\<close>

definition capture_requests :: "(string \<times> string \<times> string option \<times> string \<times> string) list" where
  "capture_requests =
     map (\<lambda>e. (''bulk-'' @ e, ''bulk_export'', Some e,
              case bulk_export_url e of Inr u \<Rightarrow> u | Inl _ \<Rightarrow> [], ''bulk/'' @ e @ ''.csv'')) EXPORT_IDS @
     [(''facility-type-taxonomy'', ''facility_type_taxonomy'', None, BASE_URL @ ''/Group/'', ''taxonomy/groups.json''),
      (''county-taxonomy'', ''county_taxonomy'', None, BASE_URL @ ''/CACounty'', ''taxonomy/counties.json'')]"

definition capture_one ::
  "pyenv \<Rightarrow> (string \<Rightarrow> http_artifact_response result) \<Rightarrow> string \<Rightarrow> evidence \<times> preserved_artifact list
     \<Rightarrow> string \<times> string \<times> string option \<times> string \<times> string \<Rightarrow> (evidence \<times> preserved_artifact list) result" where
  "capture_one env transport recorded acc request =
     (case request of (aid, kind, export_id, url, ref) \<Rightarrow>
        ebind (fetch_and_preserve env transport (fst acc) aid kind export_id url ref recorded) (\<lambda>(files, a).
        Inr (files, snd acc @ [a])))"

definition raw_response_set_fingerprint :: "pyenv \<Rightarrow> (string \<times> string) list \<Rightarrow> string" where
  "raw_response_set_fingerprint env pairs =
     canonical_fingerprint env (PList (map (\<lambda>ad. PList [PStr (fst ad), PStr (snd ad)]) pairs))"

text \<open>The manifest of a capture; \<open>taxonomy_fingerprints\<close> is keyed by the kind of the artifact.\<close>

definition taxonomy_fingerprints_of :: "pyenv \<Rightarrow> evidence \<Rightarrow> preserved_artifact list \<Rightarrow> pydict" where
  "taxonomy_fingerprints_of env files artifacts =
     map (\<lambda>a. (art_endpoint_kind a, opt_str (json_fingerprint_or_none env (the (map_of files (art_raw_ref a))))))
       (filter (\<lambda>a. art_endpoint_kind a \<in> {''facility_type_taxonomy'', ''county_taxonomy''}) artifacts)"

definition capture_manifest :: "pyenv \<Rightarrow> string \<Rightarrow> evidence \<Rightarrow> preserved_artifact list \<Rightarrow> pydict" where
  "capture_manifest env recorded files artifacts =
     (let raw_set = raw_response_set_fingerprint env (map (\<lambda>a. (art_artifact_id a, art_sha256 a)) artifacts);
          taxonomy = taxonomy_fingerprints_of env files artifacts
      in [(''contract_version'', PStr CONNECTOR_VERSION), (''source_family_id'', PStr SOURCE_FAMILY_ID),
          (''snapshot_id'', PStr (''transparencyapi-'' @ take 48 raw_set)), (''recorded_at'', PStr recorded),
          (''source_identity'', PDict
             [(''base_url'', PStr BASE_URL), (''bulk_export_ids'', PList (map PStr EXPORT_IDS)),
              (''statewide_enumeration_endpoint'', PStr ''DownloadStateData''),
              (''facility_search_used'', PBool False)]),
          (''fixed_header_fingerprints'',
             PDict (map (\<lambda>e. (e, PStr (schema_fingerprint_of env e))) EXPORT_IDS)),
          (''source_family_schema_fingerprint'', PStr (source_family_schema_fingerprint env)),
          (''taxonomy_fingerprints'', PDict taxonomy),
          (''domain_fingerprint'', PStr (canonical_fingerprint env (PDict taxonomy))),
          (''raw_response_set_sha256'', PStr raw_set),
          (''artifacts'', PList (map manifest_record artifacts))])"

text \<open>\<open>capture_snapshot\<close> with the serialiser of the manifest (\<open>json.dumps\<close> with indentation) as a
  parameter. The directories are the evidence root, one per run identifier; an existing one is
  never written to again.\<close>

definition capture_snapshot ::
  "pyenv \<Rightarrow> (pyval \<Rightarrow> string) \<Rightarrow> (string \<Rightarrow> http_artifact_response result) \<Rightarrow> (string \<times> evidence) list
     \<Rightarrow> string \<Rightarrow> (evidence \<times> pydict) result" where
  "capture_snapshot env dumps transport directories recorded =
     ebind (guard (run_id env recorded \<notin> fst ` set directories)
             (OSError (''File exists: '' @ run_id env recorded))) (\<lambda>_.
     ebind (foldM_err (capture_one env transport recorded) ([], []) capture_requests) (\<lambda>(files, artifacts).
     (let manifest = capture_manifest env recorded files artifacts
      in ebind (write_exclusive files ''manifest.json'' (dumps (PDict manifest) @ [CHR 0x0A])) (\<lambda>files'.
         Inr (files', manifest)))))"

end
