(* ===== verification/Transparency_Inspection.thy ===== *)
theory Transparency_Inspection imports Arcgis_Inspection Transparency_Connector "HOL-Library.Product_Lexorder"
begin

text \<open>
  The inspection of a TransparencyAPI package (\<open>inspect_transparencyapi_package\<close> of
  \<open>connectors/ccld_transparency_api/lifecycle.py\<close>): every artifact of the manifest is read and
  checked against its declaration, the seven bulk exports are parsed, the rows are resolved
  against the active snapshot, quarantined where they are not trustworthy, and every deviation
  from the contract becomes a rejection reason.
\<close>

section \<open>Evidence records\<close>

record transparency_artifact =
  ta_artifact_id :: string
  ta_endpoint_kind :: string
  ta_export_id :: pyval
  ta_request_url :: string
  ta_final_url :: string
  ta_retrieved_at :: string
  ta_http_status :: int
  ta_response_headers :: pyval
  ta_excluded_header_names :: pyval
  ta_media_type :: string
  ta_content_disposition :: pyval
  ta_byte_count :: int
  ta_raw_sha256 :: string
  ta_raw_ref :: string

record transparency_row =
  tr_export_id :: string
  tr_row_ordinal :: nat
  tr_facility_number :: "string option"
  tr_raw_row_sha256 :: string
  tr_raw_values :: "string list"
  tr_raw_record :: "(string \<times> string) list"
  tr_normalized_record :: pydict
  tr_resolved_current_reference :: pydict
  tr_autocomplete_search_text :: string
  tr_complaint_blocks :: pyval
  tr_row_fingerprint :: string
  tr_is_quarantined :: bool

record transparency_quarantine =
  tq_quarantine_id :: string
  tq_category :: string
  tq_export_id :: string
  tq_row_ordinal :: nat
  tq_facility_number :: "string option"
  tq_raw_row_sha256 :: string
  tq_evidence :: pyval

record transparency_disappearance =
  td_export_id :: string
  td_prior_row_ordinal :: nat
  td_prior_snapshot_id :: string
  td_facility_number :: string
  td_prior_row_fingerprint :: string
  td_review_state :: string
  td_closure_inferred :: bool

record transparency_inspection =
  ti_snapshot_id :: string
  ti_manifest_ref :: string
  ti_manifest_sha256 :: string
  ti_raw_response_set_sha256 :: string
  ti_normalized_content_sha256 :: string
  ti_schema_fingerprint :: string
  ti_taxonomy_fingerprint :: string
  ti_recorded_at :: string
  ti_artifacts :: "transparency_artifact list"
  ti_rows :: "transparency_row list"
  ti_quarantines :: "transparency_quarantine list"
  ti_disappearances :: "transparency_disappearance list"
  ti_validation_report :: pydict

section \<open>Small readers\<close>

text \<open>\<open>str(value or "")\<close>.\<close>

definition text_or_empty :: "pyenv \<Rightarrow> pyval \<Rightarrow> string" where
  "text_or_empty env v = (if py_truthy v then py_str env v else [])"

text \<open>\<open>int(value)\<close> of a JSON value.\<close>

definition int_of_value :: "pyval \<Rightarrow> int result" where
  "int_of_value v =
     (case v of
        PInt i \<Rightarrow> Inr i
      | PBool b \<Rightarrow> Inr (if b then 1 else 0)
      | PFloat r \<Rightarrow> Inr (if r < 0 then - \<lfloor>- r\<rfloor> else \<lfloor>r\<rfloor>)
      | PStr s \<Rightarrow> (case py_int s of Some i \<Rightarrow> Inr i
                   | None \<Rightarrow> Inl (ValueError (''invalid literal for int() with base 10: '' @ repr_str s)))
      | _ \<Rightarrow> Inl (TypeError ''int() argument must be a string, a bytes-like object or a real number''))"

text \<open>The text of the exceptions an artifact's read may raise.\<close>

fun error_message :: "py_error \<Rightarrow> string" where
  "error_message (ConnectorError m) = m"
| "error_message (OSError m) = m"
| "error_message (ValueError m) = m"
| "error_message (LifecycleError m) = m"
| "error_message _ = ''''"

definition transparency_json_object :: "pyenv \<Rightarrow> string \<Rightarrow> string \<Rightarrow> pydict result" where
  "transparency_json_object env label content =
     (case json_loads_sig env content of
        None \<Rightarrow> Inl (ConnectorError (label @ '' is not valid JSON.''))
      | Some (PDict d) \<Rightarrow> Inr d
      | Some _ \<Rightarrow> Inl (ConnectorError (label @ '' must be a JSON object.'')))"

definition resolve_reference :: "pyenv \<Rightarrow> string list \<Rightarrow> string \<Rightarrow> string list result" where
  "resolve_reference env manifest_path reference =
     (if reference = [] \<or> py_startswith reference ''/'' \<or> ''..'' \<in> set (posix_parts reference)
      then Inl (ConnectorError ''Artifact reference must be relative and contained.'')
      else
        (let root = resolve_path env (butlast manifest_path);
             resolved = resolve_path env (root @ posix_parts reference) in
         if prefix root resolved then Inr resolved
         else Inl (ConnectorError ''Artifact reference escapes the snapshot package.'')))"

text \<open>\<open>value.replace("Z", "+00:00")\<close>.\<close>

definition replace_zulu :: "string \<Rightarrow> string" where
  "replace_zulu s = concat (map (\<lambda>c. if c = CHR ''Z'' then ''+00:00'' else [c]) s)"

definition recorded_at_year :: "pyenv \<Rightarrow> string \<Rightarrow> int option" where
  "recorded_at_year env value =
     (case iso_datetime_year env (replace_zulu value) of
        None \<Rightarrow> None
      | Some (year, aware) \<Rightarrow> if aware then Some year else None)"

section \<open>Taxonomy codes\<close>

definition taxonomy_items :: "pyval \<Rightarrow> pyval" where
  "taxonomy_items payload =
     (case payload of
        PDict d \<Rightarrow>
          (case find (\<lambda>kv. py_casefold (fst kv) \<in> {''groups'', ''data'', ''items'', ''types''}) d of
             Some kv \<Rightarrow> snd kv | None \<Rightarrow> PList [])
      | _ \<Rightarrow> payload)"

definition taxonomy_code :: "pyenv \<Rightarrow> pyval \<Rightarrow> string list" where
  "taxonomy_code env item =
     (case item of
        PDict d \<Rightarrow>
          (let by_name = map_of (rev (map (\<lambda>kv. (py_casefold (fst kv), snd kv)) d));
               code = (\<lambda>name. case by_name name of None \<Rightarrow> [] | Some v \<Rightarrow> py_strip (py_str env v))
           in take 1 (filter (\<lambda>c. c \<noteq> []) (map code [''type'', ''typecode'', ''groupid'', ''id''])))
      | _ \<Rightarrow> [])"

definition taxonomy_codes :: "pyenv \<Rightarrow> pyval \<Rightarrow> string list" where
  "taxonomy_codes env payload =
     (case taxonomy_items payload of
        PList items \<Rightarrow> sorted_set (concat (map (taxonomy_code env) items))
      | _ \<Rightarrow> [])"

section \<open>The search text of a row\<close>

definition AUTOCOMPLETE_SEARCH_FIELDS :: "string list" where
  "AUTOCOMPLETE_SEARCH_FIELDS =
     [''facility_name'', ''facility_city'', ''county_name'', ''facility_zip'', ''facility_state'',
      ''facility_type'', ''bulk_status'']"

definition autocomplete_search_text :: "pyenv \<Rightarrow> string option \<Rightarrow> pydict \<Rightarrow> string" where
  "autocomplete_search_text env number resolved =
     (let values = (case number of None \<Rightarrow> [] | Some n \<Rightarrow> n) #
            concat (map (\<lambda>f. case py_get resolved f of
                PDict obs \<Rightarrow>
                  (if py_get obs ''value'' = PNone then []
                   else [py_str env (py_get obs ''value'')])
              | _ \<Rightarrow> []) AUTOCOMPLETE_SEARCH_FIELDS)
      in py_join '' '' (map (\<lambda>v. py_casefold (collapse_spaces v)) (filter (\<lambda>v. py_strip v \<noteq> []) values)))"

section \<open>One artifact\<close>

record package_scan =
  ps_artifacts :: "transparency_artifact list"
  ps_rejections :: "string list"
  ps_exports_seen :: "(string \<times> nat) list"
  ps_taxonomy_payloads :: pydict
  ps_parsed_exports :: "parsed_export list"

definition empty_package_scan :: package_scan where
  "empty_package_scan = \<lparr>ps_artifacts = [], ps_rejections = [], ps_exports_seen = [],
     ps_taxonomy_payloads = [], ps_parsed_exports = []\<rparr>"

definition content_length_reasons :: "pyenv \<Rightarrow> string \<Rightarrow> nat \<Rightarrow> pyval \<Rightarrow> string list" where
  "content_length_reasons env artifact_id byte_count response_headers =
     (case response_headers of
        PList headers \<Rightarrow>
          concat (map (\<lambda>header. case header of
              PList [name, v] \<Rightarrow>
                (if py_casefold (py_str env name) = ''content-length'' then
                   (case int_of_value v of
                      Inl _ \<Rightarrow> [''artifact '' @ artifact_id @ '' has an invalid Content-Length'']
                    | Inr declared \<Rightarrow> reason (declared \<noteq> int byte_count)
                        (''artifact '' @ artifact_id @ '' appears truncated by Content-Length''))
                 else [])
            | _ \<Rightarrow> []) headers)
      | _ \<Rightarrow> [])"

text \<open>The checks of one artifact that only add reasons; the governed URL may also raise.\<close>

definition artifact_reasons :: "pyenv \<Rightarrow> pydict \<Rightarrow> string \<Rightarrow> string \<Rightarrow> string list result" where
  "artifact_reasons env artifact artifact_id raw_bytes =
     (let about = (\<lambda>m. ''artifact '' @ artifact_id @ m);
          before = reason (\<not> py_eq (PStr (sha256_bytes env raw_bytes)) (py_get artifact ''sha256''))
              (about '' SHA-256 differs from preserved bytes'')
            @ reason (\<not> py_eq (PInt (int (length raw_bytes))) (py_get artifact ''byte_count''))
              (about '' byte count differs from preserved bytes'')
            @ content_length_reasons env artifact_id (length raw_bytes) (py_get artifact ''response_headers'');
          after = reason (\<not> py_eq (py_get artifact ''final_url'') (py_get artifact ''request_url''))
              (about '' redirected unexpectedly'')
            @ reason (\<not> py_eq (py_get artifact ''status'') (PInt 200)) (about '' was not HTTP 200'')
      in case validate_governed_url (text_or_empty env (py_get artifact ''request_url'')) of
           Inr _ \<Rightarrow> Inr (before @ after)
         | Inl (ConnectorError m) \<Rightarrow> Inr (before @ [about ('' request is not governed: '' @ m)] @ after)
         | Inl e \<Rightarrow> Inl e)"

definition artifact_media_type :: "pyenv \<Rightarrow> pydict \<Rightarrow> string" where
  "artifact_media_type env artifact = py_casefold (text_or_empty env (py_get artifact ''media_type''))"

fun is_unhashable :: "pyval \<Rightarrow> bool" where
  "is_unhashable (PList _) = True"
| "is_unhashable (PDict _) = True"
| "is_unhashable _ = False"

text \<open>What the content of an artifact adds, by its endpoint kind. A list or object as the kind is not
  hashable.\<close>

definition artifact_content ::
  "pyenv \<Rightarrow> int option \<Rightarrow> pydict \<Rightarrow> string \<Rightarrow> string \<Rightarrow> package_scan \<Rightarrow> package_scan result" where
  "artifact_content env reference_year artifact artifact_id raw_bytes acc =
     (let kind = py_get artifact ''endpoint_kind''; media_type = artifact_media_type env artifact
      in if kind = PStr ''bulk_export'' then
           (let export_id = text_or_empty env (py_get artifact ''export_id'');
                acc1 = acc\<lparr>ps_exports_seen := counter_incr (ps_exports_seen acc) export_id,
                  ps_rejections := ps_rejections acc @
                    reason (media_type \<notin> {''text/csv'', ''application/csv'', ''application/octet-stream''})
                      (''bulk export '' @ export_id @ '' has a non-CSV media type'')\<rparr>
            in if export_id \<in> set EXPORT_IDS then
                 ebind (parse_bulk_csv env raw_bytes export_id reference_year) (\<lambda>parsed.
                 Inr (acc1\<lparr>ps_parsed_exports := ps_parsed_exports acc1 @ [parsed],
                   ps_rejections := ps_rejections acc1 @
                     map (\<lambda>r. export_id @ '': '' @ r) (exp_rejection_reasons parsed)\<rparr>))
               else Inr (acc1\<lparr>ps_rejections := ps_rejections acc1 @
                   [''artifact '' @ artifact_id @ '' has an unapproved export ID'']\<rparr>))
         else if is_unhashable kind then
           Inl (TypeError ''unhashable type'')
         else if kind = PStr ''facility_type_taxonomy'' \<or> kind = PStr ''county_taxonomy'' then
           (let acc1 = acc\<lparr>ps_rejections := ps_rejections acc @
                  reason (media_type \<notin> {''application/json'', ''text/json'', ''text/plain''})
                    (''artifact '' @ artifact_id @ '' has a non-JSON media type'')\<rparr>
            in case json_loads_sig env raw_bytes of
                 Some payload \<Rightarrow> Inr (acc1\<lparr>ps_taxonomy_payloads :=
                   py_set (ps_taxonomy_payloads acc1) (py_str env kind) payload\<rparr>)
               | None \<Rightarrow> Inr (acc1\<lparr>ps_rejections := ps_rejections acc1 @
                   [''artifact '' @ artifact_id @ '' is not valid JSON'']\<rparr>))
         else Inr acc)"

definition stored_artifact ::
  "pyenv \<Rightarrow> pydict \<Rightarrow> string \<Rightarrow> string \<Rightarrow> string \<Rightarrow> transparency_artifact result" where
  "stored_artifact env artifact artifact_id raw_ref raw_bytes =
     (let g = py_get artifact; or_list = (\<lambda>v. if py_truthy v then v else PList [])
      in ebind (if py_truthy (g ''status'') then int_of_value (g ''status'') else Inr 0) (\<lambda>status.
         Inr \<lparr>ta_artifact_id = artifact_id,
              ta_endpoint_kind = text_or_empty env (g ''endpoint_kind''),
              ta_export_id = g ''export_id'',
              ta_request_url = text_or_empty env (g ''request_url''),
              ta_final_url = text_or_empty env (g ''final_url''),
              ta_retrieved_at = text_or_empty env (g ''retrieved_at''),
              ta_http_status = status,
              ta_response_headers = or_list (g ''response_headers''),
              ta_excluded_header_names = or_list (g ''excluded_header_names''),
              ta_media_type = artifact_media_type env artifact,
              ta_content_disposition = g ''content_disposition'',
              ta_byte_count = int (length raw_bytes),
              ta_raw_sha256 = sha256_bytes env raw_bytes,
              ta_raw_ref = raw_ref\<rparr>))"

definition scan_artifact ::
  "pyenv \<Rightarrow> string list \<Rightarrow> int option \<Rightarrow> package_scan \<Rightarrow> nat \<times> pyval \<Rightarrow> package_scan result" where
  "scan_artifact env manifest_path reference_year acc iv =
     (case snd iv of
        PDict artifact \<Rightarrow>
          (let artifact_id = text_or_empty env (py_get artifact ''artifact_id'');
               raw_ref = text_or_empty env (py_get artifact ''raw_ref'')
           in case ebind (resolve_reference env manifest_path raw_ref) (read_file env) of
                Inl e \<Rightarrow> Inr (acc\<lparr>ps_rejections := ps_rejections acc @
                    [''artifact '' @ (if artifact_id = [] then show_nat (fst iv) else artifact_id)
                       @ '' cannot be read: '' @ error_message e]\<rparr>)
              | Inr raw_bytes \<Rightarrow>
                  ebind (artifact_reasons env artifact artifact_id raw_bytes) (\<lambda>reasons.
                  ebind (artifact_content env reference_year artifact artifact_id raw_bytes
                    (acc\<lparr>ps_rejections := ps_rejections acc @ reasons\<rparr>)) (\<lambda>acc1.
                  ebind (stored_artifact env artifact artifact_id raw_ref raw_bytes) (\<lambda>stored.
                  Inr (acc1\<lparr>ps_artifacts := ps_artifacts acc1 @ [stored]\<rparr>)))))
      | _ \<Rightarrow> Inr (acc\<lparr>ps_rejections := ps_rejections acc @
            [''artifact '' @ show_nat (fst iv) @ '' is not an object'']\<rparr>))"

section \<open>Rows against the active snapshot\<close>

definition facility_counts :: "facility_row list \<Rightarrow> (string \<times> nat) list" where
  "facility_counts rows = counter_of (List.map_filter row_facility_number rows)"

text \<open>The resolved reference of the trusted prior rows, by facility number; the last row counts.\<close>

definition trusted_number :: "transparency_row \<Rightarrow> string option" where
  "trusted_number r =
     (case tr_facility_number r of
        Some n \<Rightarrow> if n \<noteq> [] \<and> \<not> tr_is_quarantined r then Some n else None
      | None \<Rightarrow> None)"

definition prior_by_number :: "transparency_row list \<Rightarrow> string \<Rightarrow> pydict option" where
  "prior_by_number prior_rows number =
     map_of (rev (List.map_filter
       (\<lambda>r. map_option (\<lambda>n. (n, tr_resolved_current_reference r)) (trusted_number r)) prior_rows)) number"

definition row_categories :: "(string \<times> nat) list \<Rightarrow> facility_row \<Rightarrow> string list" where
  "row_categories counts row =
     sorted_set (row_quarantine_categories row @
       (case row_facility_number row of
          Some n \<Rightarrow> if n \<noteq> [] \<and> counter_get counts n > 1 then [''duplicate_facility_number''] else []
        | None \<Rightarrow> []))"

definition complaint_blocks_value :: "facility_row \<Rightarrow> pyval" where
  "complaint_blocks_value row =
     PList (map (\<lambda>b. PDict [(''ordinal'', PInt (int (block_ordinal b))),
                            (''raw_values'', PList (map PStr (block_raw_values b))),
                            (''values'', PDict (map (\<lambda>kv. (fst kv, PStr (snd kv))) (block_values b)))])
                (row_complaint_blocks row))"

definition resolved_row ::
  "pyenv \<Rightarrow> (string \<times> nat) list \<Rightarrow> transparency_row list \<Rightarrow> facility_row \<Rightarrow> transparency_row" where
  "resolved_row env counts prior_rows row =
     (let normalized = row_normalized_record row;
          resolved = preserve_prior_populated_values normalized
            (prior_by_number prior_rows (case row_facility_number row of None \<Rightarrow> [] | Some n \<Rightarrow> n));
          blocks = complaint_blocks_value row
      in \<lparr>tr_export_id = row_export_id row, tr_row_ordinal = row_ordinal row,
          tr_facility_number = row_facility_number row, tr_raw_row_sha256 = row_raw_sha256 row,
          tr_raw_values = row_raw_values row, tr_raw_record = row_raw_record row,
          tr_normalized_record = normalized, tr_resolved_current_reference = resolved,
          tr_autocomplete_search_text = autocomplete_search_text env (row_facility_number row) resolved,
          tr_complaint_blocks = blocks,
          tr_row_fingerprint = canonical_fingerprint env (PDict
            [(''export_id'', PStr (row_export_id row)), (''row_ordinal'', PInt (int (row_ordinal row))),
             (''raw_row_sha256'', PStr (row_raw_sha256 row)), (''normalized_record'', PDict normalized),
             (''complaint_blocks'', blocks)]),
          tr_is_quarantined = (row_categories counts row \<noteq> [])\<rparr>)"

definition row_quarantines ::
  "pyenv \<Rightarrow> string \<Rightarrow> (string \<times> nat) list \<Rightarrow> facility_row \<Rightarrow> transparency_quarantine list" where
  "row_quarantines env snapshot counts row =
     map (\<lambda>category.
         (let identity = [(''snapshot_id'', PStr snapshot), (''export_id'', PStr (row_export_id row)),
                (''row_ordinal'', PInt (int (row_ordinal row))),
                (''raw_row_sha256'', PStr (row_raw_sha256 row)), (''category'', PStr category)]
          in \<lparr>tq_quarantine_id = canonical_fingerprint env (PDict identity), tq_category = category,
              tq_export_id = row_export_id row, tq_row_ordinal = row_ordinal row,
              tq_facility_number = row_facility_number row, tq_raw_row_sha256 = row_raw_sha256 row,
              tq_evidence = PDict (identity @
                [(''trailing_values'', PList (map PStr (row_trailing_values row)))])\<rparr>))
       (row_categories counts row)"

definition transparency_disappearances_of ::
  "transparency_row list \<Rightarrow> transparency_row list \<Rightarrow> string option \<Rightarrow> transparency_disappearance list" where
  "transparency_disappearances_of rows prior_rows prior_id =
     (case prior_id of
        None \<Rightarrow> []
      | Some pid \<Rightarrow>
          if pid = [] then []
          else List.map_filter (\<lambda>prior.
            (case trusted_number prior of
               None \<Rightarrow> None
             | Some n \<Rightarrow>
                 if Some n \<in> trusted_number ` set rows then None
                 else Some \<lparr>td_export_id = tr_export_id prior, td_prior_row_ordinal = tr_row_ordinal prior,
                        td_prior_snapshot_id = pid, td_facility_number = n,
                        td_prior_row_fingerprint = tr_row_fingerprint prior,
                        td_review_state = ''pending_reconciliation'', td_closure_inferred = False\<rparr>))
            prior_rows)"

section \<open>The package\<close>

definition manifest_reasons :: "pyenv \<Rightarrow> pydict \<Rightarrow> string list" where
  "manifest_reasons env manifest =
     reason (py_get manifest ''contract_version'' \<noteq> PStr CONNECTOR_VERSION)
       ''manifest contract_version is not supported''
     @ reason (py_get manifest ''source_family_id'' \<noteq> PStr SOURCE_FAMILY_ID)
       ''manifest source_family_id is not approved''
     @ (case py_get manifest ''source_identity'' of
          PDict d \<Rightarrow> reason (py_get d ''facility_search_used'' \<noteq> PBool False)
            ''manifest does not prove FacilitySearch was excluded''
        | _ \<Rightarrow> [''manifest source_identity is missing''])
     @ reason (py_get manifest ''source_family_schema_fingerprint'' \<noteq> PStr (source_family_schema_fingerprint env))
       ''manifest source-family schema fingerprint differs from contract''
     @ reason (\<not> py_eq (py_get manifest ''fixed_header_fingerprints'')
           (PDict (map (\<lambda>e. (e, PStr (schema_fingerprint_of env e))) EXPORT_IDS)))
       ''manifest fixed-header fingerprints differ from contract''
     @ reason (recorded_at_year env (text_or_empty env (py_get manifest ''recorded_at'')) = None)
       ''manifest recorded_at must be an ISO 8601 timestamp with a timezone''
     @ (case py_get manifest ''artifacts'' of PList _ \<Rightarrow> [] | _ \<Rightarrow> [''manifest artifacts must be an array''])"

definition family_reasons :: "package_scan \<Rightarrow> string list" where
  "family_reasons scan =
     concat (map (\<lambda>e. reason (counter_get (ps_exports_seen scan) e \<noteq> 1)
         (''complete source family requires exactly one '' @ e @ '' export'')) EXPORT_IDS)
     @ reason (set (py_keys (ps_taxonomy_payloads scan)) \<noteq> {''facility_type_taxonomy'', ''county_taxonomy''})
       ''complete source family requires Group/ and CACounty artifacts''"

definition expected_taxonomy_fingerprints :: "pyenv \<Rightarrow> package_scan \<Rightarrow> pyval" where
  "expected_taxonomy_fingerprints env scan =
     PDict (map (\<lambda>kv. (fst kv, PStr (canonical_fingerprint env (snd kv)))) (ps_taxonomy_payloads scan))"

definition response_set_sha256 :: "pyenv \<Rightarrow> package_scan \<Rightarrow> string" where
  "response_set_sha256 env scan =
     raw_response_set_fingerprint env (map (\<lambda>a. (ta_artifact_id a, ta_raw_sha256 a)) (ps_artifacts scan))"

definition fingerprint_reasons :: "pyenv \<Rightarrow> pydict \<Rightarrow> package_scan \<Rightarrow> string list" where
  "fingerprint_reasons env manifest scan =
     reason (\<not> py_eq (py_get manifest ''taxonomy_fingerprints'') (expected_taxonomy_fingerprints env scan))
       ''manifest taxonomy fingerprints differ from preserved content''
     @ reason (py_get manifest ''domain_fingerprint'' \<noteq>
           PStr (canonical_fingerprint env (expected_taxonomy_fingerprints env scan)))
       ''manifest domain fingerprint differs from taxonomy fingerprints''
     @ reason (py_get manifest ''raw_response_set_sha256'' \<noteq> PStr (response_set_sha256 env scan))
       ''manifest raw_response_set_sha256 differs from preserved artifacts''"

text \<open>The rows, warnings and counts of a package, once its artifacts are scanned.\<close>

definition parsed_rows :: "package_scan \<Rightarrow> facility_row list" where
  "parsed_rows scan = concat (map exp_rows (ps_parsed_exports scan))"

definition package_rows :: "pyenv \<Rightarrow> transparency_row list \<Rightarrow> package_scan \<Rightarrow> transparency_row list" where
  "package_rows env prior_rows scan =
     sort_key (\<lambda>r. (tr_export_id r, tr_row_ordinal r))
       (map (resolved_row env (facility_counts (parsed_rows scan)) prior_rows) (parsed_rows scan))"

definition transparency_warnings ::
  "pyenv \<Rightarrow> package_scan \<Rightarrow> transparency_disappearance list \<Rightarrow> string list" where
  "transparency_warnings env scan disappearances =
     (let codes = taxonomy_codes env (py_get (ps_taxonomy_payloads scan) ''facility_type_taxonomy'')
      in concat (map row_warnings (parsed_rows scan))
       @ reason (disappearances \<noteq> [])
           (show_nat (length disappearances) @ '' prior source row(s) disappeared; closure is not inferred'')
       @ reason (codes \<noteq> [] \<and> ''777'' \<notin> set codes)
           ''facility-type taxonomy omits known valid type code 777'')"

definition transparency_report ::
  "pyenv \<Rightarrow> package_scan \<Rightarrow> transparency_row list \<Rightarrow> transparency_quarantine list
     \<Rightarrow> transparency_disappearance list \<Rightarrow> string list \<Rightarrow> string list \<Rightarrow> pydict" where
  "transparency_report env scan rows quarantines disappearances warnings rejections =
     (let codes = taxonomy_codes env (py_get (ps_taxonomy_payloads scan) ''facility_type_taxonomy'') in
      [(''row_count'', PInt (int (length (parsed_rows scan)))),
       (''stored_row_count'', PInt (int (length rows))),
       (''duplicate_object_id_count'', PInt 0),
       (''duplicate_facility_number_count'', PInt (int (surplus (facility_counts (parsed_rows scan))))),
       (''omitted_field_count'', PInt 0),
       (''invalid_field_count'', PInt 0),
       (''quarantine_count'', PInt (int (length quarantines))),
       (''disappearance_count'', PInt (int (length disappearances))),
       (''warnings'', PList (map PStr (sorted_set warnings))),
       (''rejection_reasons'', PList (map PStr (sorted_set rejections))),
       (''closure_inferred'', PBool False),
       (''canonical_or_reviewer_fields_written'', PBool False),
       (''all_seven_exports_present'',
          PBool (list_all (\<lambda>e. counter_get (ps_exports_seen scan) e = 1) EXPORT_IDS)),
       (''ckan_history_preserved'', PBool True),
       (''arcgis_observations_remain_separate'', PBool True),
       (''known_type_code_count'', PInt (int (length codes))),
       (''type_777_available'', PBool (''777'' \<in> set codes))])"

definition inspect_transparencyapi_package ::
  "pyenv \<Rightarrow> string list \<Rightarrow> transparency_row list \<Rightarrow> string option \<Rightarrow> transparency_inspection result" where
  "inspect_transparencyapi_package env manifest_path prior_rows prior_id =
     ebind (read_file env manifest_path) (\<lambda>manifest_bytes.
     ebind (transparency_json_object env ''TransparencyAPI manifest'' manifest_bytes) (\<lambda>manifest.
     (let recorded = text_or_empty env (py_get manifest ''recorded_at'');
          artifact_values = list_or_empty (py_get manifest ''artifacts'')
      in ebind (foldM_err (scan_artifact env manifest_path (recorded_at_year env recorded))
                 empty_package_scan (enumerate 1 artifact_values)) (\<lambda>scan.
         (let sid = text_or_empty env (py_get manifest ''snapshot_id'');
              counts = facility_counts (parsed_rows scan);
              rows = package_rows env prior_rows scan;
              quarantines = concat (map (row_quarantines env sid counts) (parsed_rows scan));
              disappearances = transparency_disappearances_of rows prior_rows prior_id;
              warnings = transparency_warnings env scan disappearances;
              rejections = manifest_reasons env manifest @ ps_rejections scan @ family_reasons scan
                @ fingerprint_reasons env manifest scan
          in Inr \<lparr>ti_snapshot_id = sid,
                  ti_manifest_ref = last manifest_path,
                  ti_manifest_sha256 = sha256_bytes env manifest_bytes,
                  ti_raw_response_set_sha256 = response_set_sha256 env scan,
                  ti_normalized_content_sha256 = canonical_fingerprint env (PList (map (\<lambda>r. PList
                    [PStr (tr_export_id r), PInt (int (tr_row_ordinal r)), PStr (tr_row_fingerprint r)]) rows)),
                  ti_schema_fingerprint = source_family_schema_fingerprint env,
                  ti_taxonomy_fingerprint = canonical_fingerprint env (PDict (ps_taxonomy_payloads scan)),
                  ti_recorded_at = recorded,
                  ti_artifacts = ps_artifacts scan,
                  ti_rows = rows,
                  ti_quarantines = quarantines,
                  ti_disappearances = disappearances,
                  ti_validation_report = transparency_report env scan rows quarantines disappearances
                    warnings rejections\<rparr>)))))"

end
