(* ===== verification/Transparency_Lifecycle.thy ===== *)
theory Transparency_Lifecycle imports Transparency_Inspection Snapshot_Machine
begin

text \<open>
  The TransparencyAPI tables and operations (\<open>connectors/ccld_transparency_api/lifecycle.py\<close>): the
  database gains four tables of snapshot evidence, staging fills them, and validation,
  acceptance, promotion and rollback are the shared operations at the TransparencyAPI family.
\<close>

section \<open>Tables\<close>

record transparency_db = snapshot_db +
  transparency_artifacts :: "(string \<times> transparency_artifact) list"
  transparency_rows :: "(string \<times> transparency_row) list"
  transparency_quarantines :: "(string \<times> transparency_quarantine) list"
  transparency_disappearances :: "(string \<times> transparency_disappearance) list"

definition empty_transparency_db :: transparency_db where
  "empty_transparency_db = snapshot_db.extend empty_db
     (transparency_db.fields [] [] [] [])"

definition artifact_checks :: "transparency_artifact \<Rightarrow> bool" where
  "artifact_checks a \<longleftrightarrow> 0 \<le> ta_byte_count a"

definition transparency_row_checks :: "transparency_row \<Rightarrow> bool" where
  "transparency_row_checks r \<longleftrightarrow> 0 < tr_row_ordinal r"

definition transparency_disappearance_checks :: "transparency_disappearance \<Rightarrow> bool" where
  "transparency_disappearance_checks d \<longleftrightarrow>
     td_review_state d = ''pending_reconciliation'' \<and> td_closure_inferred d = False"

definition tr_key :: "transparency_row \<Rightarrow> string \<times> nat" where
  "tr_key r = (tr_export_id r, tr_row_ordinal r)"

definition td_key :: "transparency_disappearance \<Rightarrow> string \<times> nat" where
  "td_key d = (td_export_id d, td_prior_row_ordinal d)"

text \<open>The insert of one statement: all rows of it carry the snapshot's identifier; a repeated primary
  key, a failed check or a missing referenced snapshot raises.\<close>

definition insert_evidence ::
  "string \<Rightarrow> ('r \<Rightarrow> 'k) \<Rightarrow> ('r \<Rightarrow> bool) \<Rightarrow> string list \<Rightarrow> string \<Rightarrow> (string \<times> 'r) list \<Rightarrow> 'r list
     \<Rightarrow> (string \<times> 'r) list result" where
  "insert_evidence table key checks ids i stored new =
     ebind (guard (list_all checks new) (IntegrityError (table @ '' check''))) (\<lambda>_.
     ebind (guard (distinct (map key new) \<and> key ` set new \<inter> key ` snd ` set (filter (\<lambda>r. fst r = i) stored) = {})
             (IntegrityError (table @ ''_pkey''))) (\<lambda>_.
     ebind (guard (new = [] \<or> i \<in> set ids) (IntegrityError (table @ ''_snapshot_id_fkey''))) (\<lambda>_.
     Inr (stored @ map (Pair i) new))))"

section \<open>Staging\<close>

definition transparency_candidate :: "transparency_inspection \<Rightarrow> snapshot result" where
  "transparency_candidate insp =
     (let report = ti_validation_report insp in
      ebind (report_int report ''row_count'') (\<lambda>rc.
      ebind (report_int report ''stored_row_count'') (\<lambda>sc.
      ebind (report_int report ''duplicate_facility_number_count'') (\<lambda>fc.
      ebind (report_len report ''warnings'') (\<lambda>wc.
      ebind (report_len report ''rejection_reasons'') (\<lambda>rrc.
      Inr \<lparr>snapshot_id = ti_snapshot_id insp,
           source_family_id = SOURCE_FAMILY_ID,
           fixture_scope = SNAPSHOT_SCOPE,
           observation_kind = OBSERVATION_KIND,
           lifecycle_state = Candidate,
           manifest_ref = ti_manifest_ref insp,
           manifest_sha256 = ti_manifest_sha256 insp,
           raw_payload_ref = ''raw-response-set'',
           raw_payload_sha256 = ti_raw_response_set_sha256 insp,
           normalized_content_sha256 = ti_normalized_content_sha256 insp,
           schema_fingerprint = ti_schema_fingerprint insp,
           domain_fingerprint = ti_taxonomy_fingerprint insp,
           row_count = rc, stored_row_count = sc,
           duplicate_object_id_count = 0, duplicate_facility_number_count = fc,
           omitted_field_count = 0, invalid_field_count = 0,
           warning_count = wc, rejection_reason_count = rrc,
           validation_report = report,
           recorded_at = ti_recorded_at insp,
           validated_at = None, rejected_at = None, accepted_at = None\<rparr>))))))"

definition evidence_rows :: "string \<Rightarrow> (string \<times> 'r) list \<Rightarrow> 'r list" where
  "evidence_rows i stored = map snd (filter (\<lambda>r. fst r = i) stored)"

definition stored_transparencyapi_inspection ::
  "'z transparency_db_scheme \<Rightarrow> snapshot \<Rightarrow> transparency_inspection" where
  "stored_transparencyapi_inspection db s =
     \<lparr>ti_snapshot_id = snapshot_id s,
      ti_manifest_ref = manifest_ref s,
      ti_manifest_sha256 = manifest_sha256 s,
      ti_raw_response_set_sha256 = raw_payload_sha256 s,
      ti_normalized_content_sha256 = normalized_content_sha256 s,
      ti_schema_fingerprint = schema_fingerprint s,
      ti_taxonomy_fingerprint = domain_fingerprint s,
      ti_recorded_at = recorded_at s,
      ti_artifacts = sort_key ta_artifact_id (evidence_rows (snapshot_id s) (transparency_artifacts db)),
      ti_rows = sort_key tr_key (evidence_rows (snapshot_id s) (transparency_rows db)),
      ti_quarantines = sort_key tq_quarantine_id (evidence_rows (snapshot_id s) (transparency_quarantines db)),
      ti_disappearances = sort_key td_key (evidence_rows (snapshot_id s) (transparency_disappearances db)),
      ti_validation_report = validation_report s\<rparr>"

definition insert_transparency_candidate ::
  "'z transparency_db_scheme \<Rightarrow> transparency_inspection \<Rightarrow> 'z transparency_db_scheme result" where
  "insert_transparency_candidate db insp =
     (let i = ti_snapshot_id insp in
      ebind (transparency_candidate insp) (\<lambda>s.
      ebind (insert_snapshot s db) (\<lambda>db1.
      ebind (insert_evidence ''hosted_transparencyapi_snapshot_artifacts'' ta_artifact_id artifact_checks
          (snapshot_ids db1) i (transparency_artifacts db) (ti_artifacts insp)) (\<lambda>as.
      ebind (insert_evidence ''hosted_transparencyapi_snapshot_rows'' tr_key transparency_row_checks
          (snapshot_ids db1) i (transparency_rows db) (ti_rows insp)) (\<lambda>rs.
      ebind (insert_evidence ''hosted_transparencyapi_snapshot_quarantines'' tq_quarantine_id (\<lambda>_. True)
          (snapshot_ids db1) i (transparency_quarantines db) (ti_quarantines insp)) (\<lambda>qs.
      ebind (insert_evidence ''hosted_transparencyapi_snapshot_disappearances'' td_key
          (\<lambda>d. transparency_disappearance_checks d \<and> td_prior_snapshot_id d \<in> set (snapshot_ids db1))
          (snapshot_ids db1) i (transparency_disappearances db) (ti_disappearances insp)) (\<lambda>ds.
      Inr (db1\<lparr>transparency_artifacts := as, transparency_rows := rs,
               transparency_quarantines := qs, transparency_disappearances := ds\<rparr>))))))))"

text \<open>The rows of the active snapshot of the family.\<close>

definition transparency_prior :: "'z transparency_db_scheme \<Rightarrow> string option" where
  "transparency_prior db = map_option snapshot_id (active_snapshot_record db SOURCE_FAMILY_ID)"

definition transparency_prior_rows :: "'z transparency_db_scheme \<Rightarrow> transparency_row list" where
  "transparency_prior_rows db =
     (case transparency_prior db of
        None \<Rightarrow> []
      | Some i \<Rightarrow> if i = [] then [] else evidence_rows i (transparency_rows db))"

definition stage_transparencyapi_snapshot ::
  "pyenv \<Rightarrow> 'z transparency_db_scheme \<Rightarrow> string list
     \<Rightarrow> ('z transparency_db_scheme \<times> transparency_inspection) result" where
  "stage_transparencyapi_snapshot env db manifest_path =
     ebind (inspect_transparencyapi_package env manifest_path (transparency_prior_rows db)
              (transparency_prior db)) (\<lambda>insp.
     case find_snapshot db (ti_snapshot_id insp) of
       Some s \<Rightarrow>
         ebind (guard (source_family_id s = SOURCE_FAMILY_ID \<and>
                       manifest_sha256 s = ti_manifest_sha256 insp \<and>
                       raw_payload_sha256 s = ti_raw_response_set_sha256 insp)
                 (ConnectorError ''Snapshot ID already exists with different immutable evidence.'')) (\<lambda>_.
         Inr (db, stored_transparencyapi_inspection db s))
     | None \<Rightarrow>
         ebind (guard (ti_snapshot_id insp \<noteq> []) (ConnectorError ''Snapshot manifest has no snapshot_id.'')) (\<lambda>_.
         ebind (insert_transparency_candidate db insp) (\<lambda>db'. Inr (db', insp))))"

section \<open>The shared operations at this family\<close>

definition validate_transparencyapi_snapshot ::
  "'z snapshot_db_scheme \<Rightarrow> string \<Rightarrow> string \<Rightarrow> ('z snapshot_db_scheme \<times> lifecycle) result" where
  "validate_transparencyapi_snapshot db i ts =
     validate_source_snapshot db i SOURCE_FAMILY_ID SNAPSHOT_SCOPE ts"

definition accept_transparencyapi_snapshot ::
  "'z snapshot_db_scheme \<Rightarrow> string \<Rightarrow> string \<Rightarrow> ('z snapshot_db_scheme \<times> unit) result" where
  "accept_transparencyapi_snapshot db i ts =
     accept_source_snapshot db i SOURCE_FAMILY_ID SNAPSHOT_SCOPE ts"

definition promote_transparencyapi_snapshot ::
  "'z snapshot_db_scheme \<Rightarrow> string \<Rightarrow> string \<Rightarrow> ('z snapshot_db_scheme \<times> snapshot_pointer) result" where
  "promote_transparencyapi_snapshot db i ts =
     promote_source_snapshot db i SOURCE_FAMILY_ID SNAPSHOT_SCOPE ts"

definition rollback_transparencyapi_snapshot ::
  "'z snapshot_db_scheme \<Rightarrow> string \<Rightarrow> string \<Rightarrow> ('z snapshot_db_scheme \<times> snapshot_pointer) result" where
  "rollback_transparencyapi_snapshot db expected_active ts =
     rollback_source_snapshot db SOURCE_FAMILY_ID expected_active SNAPSHOT_SCOPE (Some SNAPSHOT_SCOPE) ts"

section \<open>The platform\<close>

datatype platform_event =
    Arcgis snapshot_event
  | StageTransparency "string list"
  | ValidateTransparency string string
  | AcceptTransparency string string
  | PromoteTransparency string string
  | RollbackTransparency string string

fun platform_step ::
  "pyenv \<Rightarrow> 'z transparency_db_scheme \<Rightarrow> platform_event \<Rightarrow> ('z transparency_db_scheme \<times> unit) result" where
  "platform_step env db (Arcgis e) = tagged (\<lambda>_. ()) (snapshot_step env db e)"
| "platform_step env db (StageTransparency path) =
     tagged (\<lambda>_. ()) (stage_transparencyapi_snapshot env db path)"
| "platform_step env db (ValidateTransparency i ts) =
     tagged (\<lambda>_. ()) (validate_transparencyapi_snapshot db i ts)"
| "platform_step env db (AcceptTransparency i ts) = accept_transparencyapi_snapshot db i ts"
| "platform_step env db (PromoteTransparency i ts) =
     tagged (\<lambda>_. ()) (promote_transparencyapi_snapshot db i ts)"
| "platform_step env db (RollbackTransparency a ts) =
     tagged (\<lambda>_. ()) (rollback_transparencyapi_snapshot db a ts)"

section \<open>Frames\<close>

text \<open>What every operation but staging leaves alone: the set of snapshots and the tables of the
  other components.\<close>

definition same_tables :: "'z snapshot_db_scheme \<Rightarrow> 'z snapshot_db_scheme \<Rightarrow> bool" where
  "same_tables db db' \<longleftrightarrow> snapshot_ids db' = snapshot_ids db \<and> snapshot_db.more db' = snapshot_db.more db"

lemma same_tables_refl [simp]: "same_tables db db"
  by (simp add: same_tables_def)

lemma more_update_snapshot [simp]: "snapshot_db.more (update_snapshot i f db) = snapshot_db.more db"
  by (simp add: update_snapshot_def)

lemma validate_same: "validate_source_snapshot db i fam sc ts = Inr (db', l) \<Longrightarrow> same_tables db db'"
  by (erule validate_cases) (simp add: same_tables_def)

lemma accept_same: "accept_source_snapshot db i fam sc ts = Inr (db', u) \<Longrightarrow> same_tables db db'"
  by (erule accept_cases) (simp_all add: same_tables_def)

lemma insert_pointer_same: "insert_pointer p db = Inr db' \<Longrightarrow> same_tables db db'"
  by (auto simp: insert_pointer_def ebind_eq_Inr same_tables_def)

lemma update_pointer_same: "update_pointer fam f db = Inr db' \<Longrightarrow> same_tables db db'"
  by (auto simp: update_pointer_def ebind_eq_Inr same_tables_def)

lemma promote_same: "promote_source_snapshot db i fam sc ts = Inr (db', r) \<Longrightarrow> same_tables db db'"
  by (auto simp: promote_source_snapshot_def ebind_eq_Inr split: option.splits if_splits
      intro: insert_pointer_same update_pointer_same)

lemma rollback_same: "rollback_source_snapshot db fam a sc psc ts = Inr (db', r) \<Longrightarrow> same_tables db db'"
  by (auto simp: rollback_source_snapshot_def ebind_eq_Inr Let_def split: option.splits if_splits
      intro: update_pointer_same)

lemma stage_arcgis_frame:
  assumes "store_inv db" and "stage_arcgis_snapshot env db path scope ex = Inr (db', insp)"
  shows "snapshot_db.more db' = snapshot_db.more db \<and> set (snapshot_ids db) \<subseteq> set (snapshot_ids db') \<and>
    (\<forall>i s. find_snapshot db' i = Some s \<longrightarrow> find_snapshot db i = None \<longrightarrow>
       source_family_id s = ARCGIS_SUPPLEMENT_SOURCE_FAMILY_ID)"
  using assms(2)
proof (cases rule: stage_cases)
  case (stored scope' insp0 s)
  then show ?thesis by auto
next
  case (fresh scope')
  have tables: "snapshot_db.more db' = snapshot_db.more db \<and> set (snapshot_ids db) \<subseteq> set (snapshot_ids db')"
    by (rule insert_candidate_fresh [OF assms(1) fresh(1,3,4)]) (simp add: snapshot_ids_def subset_insertI)
  obtain s where s: "find_snapshot db' (insp_snapshot_id insp) = Some s"
    "source_family_id s = ARCGIS_SUPPLEMENT_SOURCE_FAMILY_ID" and
    other: "\<And>i. i \<noteq> insp_snapshot_id insp \<Longrightarrow> find_snapshot db' i = find_snapshot db i"
    by (rule staged_candidate [OF assms fresh(3)]) (rule that)
  have "source_family_id t = ARCGIS_SUPPLEMENT_SOURCE_FAMILY_ID"
    if "find_snapshot db' i = Some t" "find_snapshot db i = None" for i t
    using that s other [of i] by (cases "i = insp_snapshot_id insp") simp_all
  with tables show ?thesis by blast
qed

text \<open>The events of the ArcGIS component seen from the other tables.\<close>

lemma arcgis_frame:
  assumes inv: "store_inv db" and run: "snapshot_step env db e = Inr (db', r)"
  shows "snapshot_db.more db' = snapshot_db.more db \<and> set (snapshot_ids db) \<subseteq> set (snapshot_ids db') \<and>
    (\<forall>i s. find_snapshot db' i = Some s \<longrightarrow> find_snapshot db i = None \<longrightarrow>
       source_family_id s = ARCGIS_SUPPLEMENT_SOURCE_FAMILY_ID)"
proof -
  have same: "same_tables db db' \<Longrightarrow> ?thesis"
    by (auto simp: same_tables_def find_snapshot_None_iff dest: find_snapshot_SomeD)
       (metis find_snapshot_None_iff option.distinct(1))
  show ?thesis
    using run
    by (cases e)
       (auto simp: tagged_Inr arcgis_wrappers ebind_eq_Inr
         dest!: stage_arcgis_frame [OF inv] validate_same accept_same promote_same rollback_same
         intro: same [THEN conjunct1] same [THEN conjunct2, THEN conjunct1, THEN subsetD]
           same [THEN conjunct2, THEN conjunct2, rule_format])
qed

section \<open>Staging keeps the store\<close>

lemma store_inv_transparency [simp]:
  "store_inv (db\<lparr>transparency_artifacts := as\<rparr>) = store_inv db"
  "store_inv (db\<lparr>transparency_rows := rs\<rparr>) = store_inv db"
  "store_inv (db\<lparr>transparency_quarantines := qs\<rparr>) = store_inv db"
  "store_inv (db\<lparr>transparency_disappearances := ds\<rparr>) = store_inv db"
  by (simp_all add: store_inv_def snapshot_ids_def pointer_inv_def accepted_in_def find_snapshot_def
      cong: option.case_cong)

lemma find_snapshot_transparency [simp]:
  "find_snapshot (db\<lparr>transparency_artifacts := as\<rparr>) = find_snapshot db"
  "find_snapshot (db\<lparr>transparency_rows := rs\<rparr>) = find_snapshot db"
  "find_snapshot (db\<lparr>transparency_quarantines := qs\<rparr>) = find_snapshot db"
  "find_snapshot (db\<lparr>transparency_disappearances := ds\<rparr>) = find_snapshot db"
  by (simp_all add: find_snapshot_def fun_eq_iff)

lemma evolves_transparency [simp]:
  "evolves db (db'\<lparr>transparency_artifacts := as\<rparr>) = evolves db db'"
  "evolves db (db'\<lparr>transparency_rows := rs\<rparr>) = evolves db db'"
  "evolves db (db'\<lparr>transparency_quarantines := qs\<rparr>) = evolves db db'"
  "evolves db (db'\<lparr>transparency_disappearances := ds\<rparr>) = evolves db db'"
  by (simp_all add: evolves_def)

lemma insert_evidence_Inr:
  "insert_evidence table key checks ids i stored new = Inr out \<Longrightarrow>
     out = stored @ map (Pair i) new \<and> list_all checks new \<and> distinct (map key new)"
  by (auto simp: insert_evidence_def ebind_eq_Inr)

lemma transparency_candidate_fields:
  assumes "transparency_candidate insp = Inr s"
  shows "snapshot_id s = ti_snapshot_id insp" "source_family_id s = SOURCE_FAMILY_ID"
    "lifecycle_state s = Candidate" "validated_at s = None" "rejected_at s = None" "accepted_at s = None"
    "validation_report s = ti_validation_report insp"
    "report_len (ti_validation_report insp) ''rejection_reasons'' = Inr (rejection_reason_count s)"
  using assms by (auto simp: transparency_candidate_def ebind_eq_Inr Let_def)

lemma stage_transparency_cases:
  assumes "stage_transparencyapi_snapshot env db path = Inr (db', insp)"
  obtains (stored) insp0 s where
      "inspect_transparencyapi_package env path (transparency_prior_rows db) (transparency_prior db) = Inr insp0"
      "find_snapshot db (ti_snapshot_id insp0) = Some s" "db' = db"
      "insp = stored_transparencyapi_inspection db s"
  | (fresh) s where
      "inspect_transparencyapi_package env path (transparency_prior_rows db) (transparency_prior db) = Inr insp"
      "find_snapshot db (ti_snapshot_id insp) = None" "transparency_candidate insp = Inr s"
      "snapshot_checks s" "fixture_identity s \<notin> fixture_identity ` set (source_snapshots db)"
      "list_all transparency_disappearance_checks (ti_disappearances insp)"
      "db' = db\<lparr>source_snapshots := source_snapshots db @ [s],
         transparency_artifacts := transparency_artifacts db @ map (Pair (ti_snapshot_id insp)) (ti_artifacts insp),
         transparency_rows := transparency_rows db @ map (Pair (ti_snapshot_id insp)) (ti_rows insp),
         transparency_quarantines := transparency_quarantines db
           @ map (Pair (ti_snapshot_id insp)) (ti_quarantines insp),
         transparency_disappearances := transparency_disappearances db
           @ map (Pair (ti_snapshot_id insp)) (ti_disappearances insp)\<rparr>"
proof -
  from assms obtain insp0 where insp0:
      "inspect_transparencyapi_package env path (transparency_prior_rows db) (transparency_prior db) = Inr insp0"
    and rest: "(case find_snapshot db (ti_snapshot_id insp0) of
       Some s \<Rightarrow>
         ebind (guard (source_family_id s = SOURCE_FAMILY_ID \<and>
                       manifest_sha256 s = ti_manifest_sha256 insp0 \<and>
                       raw_payload_sha256 s = ti_raw_response_set_sha256 insp0)
                 (ConnectorError ''Snapshot ID already exists with different immutable evidence.'')) (\<lambda>_.
         Inr (db, stored_transparencyapi_inspection db s))
     | None \<Rightarrow>
         ebind (guard (ti_snapshot_id insp0 \<noteq> []) (ConnectorError ''Snapshot manifest has no snapshot_id.'')) (\<lambda>_.
         ebind (insert_transparency_candidate db insp0) (\<lambda>db'. Inr (db', insp0)))) = Inr (db', insp)"
    by (auto simp: stage_transparencyapi_snapshot_def ebind_eq_Inr)
  show ?thesis
  proof (cases "find_snapshot db (ti_snapshot_id insp0)")
    case (Some s)
    with rest insp0 show ?thesis by (intro stored [of insp0 s]) (auto simp: ebind_eq_Inr)
  next
    case None
    with rest have ins: "insert_transparency_candidate db insp0 = Inr db'" and same: "insp = insp0"
      by (auto simp: ebind_eq_Inr)
    from ins obtain s db1 as rs qs ds where parts: "transparency_candidate insp0 = Inr s"
      "insert_snapshot s db = Inr db1"
      "insert_evidence ''hosted_transparencyapi_snapshot_artifacts'' ta_artifact_id artifact_checks
          (snapshot_ids db1) (ti_snapshot_id insp0) (transparency_artifacts db) (ti_artifacts insp0) = Inr as"
      "insert_evidence ''hosted_transparencyapi_snapshot_rows'' tr_key transparency_row_checks
          (snapshot_ids db1) (ti_snapshot_id insp0) (transparency_rows db) (ti_rows insp0) = Inr rs"
      "insert_evidence ''hosted_transparencyapi_snapshot_quarantines'' tq_quarantine_id (\<lambda>_. True)
          (snapshot_ids db1) (ti_snapshot_id insp0) (transparency_quarantines db) (ti_quarantines insp0) = Inr qs"
      "insert_evidence ''hosted_transparencyapi_snapshot_disappearances'' td_key
          (\<lambda>d. transparency_disappearance_checks d \<and> td_prior_snapshot_id d \<in> set (snapshot_ids db1))
          (snapshot_ids db1) (ti_snapshot_id insp0) (transparency_disappearances db)
          (ti_disappearances insp0) = Inr ds"
      "db' = db1\<lparr>transparency_artifacts := as, transparency_rows := rs,
               transparency_quarantines := qs, transparency_disappearances := ds\<rparr>"
      unfolding insert_transparency_candidate_def Let_def by (elim ebind_InrE) simp
    note ev = parts(3-6) [THEN insert_evidence_Inr]
    have db1: "db1 = db\<lparr>source_snapshots := source_snapshots db @ [s]\<rparr>" and chk: "snapshot_checks s"
      "fixture_identity s \<notin> fixture_identity ` set (source_snapshots db)"
      using parts(2) by (auto simp: insert_snapshot_def ebind_eq_Inr)
    have dis: "list_all transparency_disappearance_checks (ti_disappearances insp0)"
      using ev(4) by (auto simp: list_all_iff)
    show ?thesis
      using insp0 None parts(1) chk dis ev parts(7) unfolding same [symmetric] db1
      by (intro fresh [of s]) simp_all
  qed
qed

lemma stage_transparency_fresh:
  assumes inv: "store_inv db" and new: "find_snapshot db i = None"
    and s: "transparency_candidate insp = Inr s" "ti_snapshot_id insp = i" "snapshot_checks s"
      "fixture_identity s \<notin> fixture_identity ` set (source_snapshots db)"
  shows "store_inv (db\<lparr>source_snapshots := source_snapshots db @ [s]\<rparr>)"
    and "evolves db (db\<lparr>source_snapshots := source_snapshots db @ [s]\<rparr>)"
    and "find_snapshot (db\<lparr>source_snapshots := source_snapshots db @ [s]\<rparr>) j =
      (if j = i then Some s else find_snapshot db j)"
proof -
  note f = transparency_candidate_fields [OF s(1)]
  have nin: "snapshot_id s \<notin> set (snapshot_ids db)"
    using new by (simp add: f s(2) find_snapshot_None_iff)
  have sinv: "snapshot_inv s" using f by (simp add: snapshot_inv.simps)
  have "db\<lparr>source_snapshots := source_snapshots db @ [s]\<rparr> =
    db\<lparr>source_snapshots := source_snapshots db @ [s],
       source_snapshot_rows := source_snapshot_rows db @ map (Pair (snapshot_id s)) [],
       source_snapshot_disappearances := source_snapshot_disappearances db @ map (Pair (snapshot_id s)) []\<rparr>"
    by simp
  note st = staged_store [OF inv nin s(3,4) sinv _ _ this]
  show "store_inv (db\<lparr>source_snapshots := source_snapshots db @ [s]\<rparr>)"
    "evolves db (db\<lparr>source_snapshots := source_snapshots db @ [s]\<rparr>)"
    "find_snapshot (db\<lparr>source_snapshots := source_snapshots db @ [s]\<rparr>) j =
      (if j = i then Some s else find_snapshot db j)"
    using st(1,2,3) f s(2) by simp_all
qed

section \<open>The platform invariant\<close>

text \<open>An active snapshot of this family is complete: a report without rejection says that all seven
  exports were present, exactly once each.\<close>

definition reported_complete :: "snapshot \<Rightarrow> bool" where
  "reported_complete s \<longleftrightarrow>
     (source_family_id s = SOURCE_FAMILY_ID \<and> rejection_reason_count s \<le> 0 \<longrightarrow>
      py_get (validation_report s) ''all_seven_exports_present'' = PBool True)"

definition platform_inv :: "'z transparency_db_scheme \<Rightarrow> bool" where
  "platform_inv db \<longleftrightarrow>
     store_inv db \<and>
     (\<forall>i s. find_snapshot db i = Some s \<longrightarrow> reported_complete s) \<and>
     fst ` set (transparency_artifacts db) \<subseteq> set (snapshot_ids db) \<and>
     fst ` set (transparency_rows db) \<subseteq> set (snapshot_ids db) \<and>
     fst ` set (transparency_quarantines db) \<subseteq> set (snapshot_ids db) \<and>
     (\<forall>(i, d) \<in> set (transparency_disappearances db).
        i \<in> set (snapshot_ids db) \<and> transparency_disappearance_checks d)"

text \<open>How the platform evolves: as the shared tables do, and the evidence of this family of a stored
  snapshot never changes.\<close>

definition platform_evolves :: "'z transparency_db_scheme \<Rightarrow> 'z transparency_db_scheme \<Rightarrow> bool" where
  "platform_evolves db db' \<longleftrightarrow> evolves db db' \<and>
     (\<forall>i \<in> set (snapshot_ids db).
        evidence_rows i (transparency_artifacts db') = evidence_rows i (transparency_artifacts db) \<and>
        evidence_rows i (transparency_rows db') = evidence_rows i (transparency_rows db) \<and>
        evidence_rows i (transparency_quarantines db') = evidence_rows i (transparency_quarantines db) \<and>
        evidence_rows i (transparency_disappearances db') =
          evidence_rows i (transparency_disappearances db))"

lemma evolves_ids: "evolves db db' \<Longrightarrow> set (snapshot_ids db) \<subseteq> set (snapshot_ids db')"
  unfolding evolves_def by (metis find_snapshot_None_iff not_None_eq subsetI)

lemma platform_evolves_refl: "platform_evolves db db"
  by (simp add: platform_evolves_def evolves_refl)

lemma platform_evolves_trans:
  assumes "platform_evolves a b" and "platform_evolves b c"
  shows "platform_evolves a c"
proof -
  have "set (snapshot_ids a) \<subseteq> set (snapshot_ids b)"
    using assms(1) by (simp add: platform_evolves_def evolves_ids)
  with assms show ?thesis unfolding platform_evolves_def by (auto intro: evolves_trans)
qed

lemma same_more:
  assumes "snapshot_db.more db' = snapshot_db.more db"
  shows "transparency_artifacts db' = transparency_artifacts db"
    "transparency_rows db' = transparency_rows db"
    "transparency_quarantines db' = transparency_quarantines db"
    "transparency_disappearances db' = transparency_disappearances db"
  using assms by (cases db; cases db'; simp)+

lemma reported_complete_evidence:
  "evidence_of s' = evidence_of s \<Longrightarrow> reported_complete s' = reported_complete s"
  unfolding evidence_of_def reported_complete_def by (cases s; cases s') simp

lemma evolved_from:
  assumes "evolves db db'" and "find_snapshot db' i = Some s'" and "find_snapshot db i = Some s"
  shows "evidence_of s' = evidence_of s"
  using evolves_find [OF assms(1,3)] assms(2) by auto

lemma platform_shared:
  assumes inv: "platform_inv db" and ok: "store_inv db'" "evolves db db'"
    and frame: "snapshot_db.more db' = snapshot_db.more db"
    and new: "\<And>i s. find_snapshot db' i = Some s \<Longrightarrow> find_snapshot db i = None \<Longrightarrow>
      source_family_id s \<noteq> SOURCE_FAMILY_ID"
  shows "platform_inv db' \<and> platform_evolves db db'"
proof -
  have "reported_complete s'" if "find_snapshot db' i = Some s'" for i s'
  proof (cases "find_snapshot db i")
    case None
    with new that show ?thesis by (simp add: reported_complete_def)
  next
    case (Some s)
    then have "reported_complete s" using inv by (simp add: platform_inv_def)
    with reported_complete_evidence [OF evolved_from [OF ok(2) that Some]] show ?thesis by simp
  qed
  then have rep: "\<forall>i s. find_snapshot db' i = Some s \<longrightarrow> reported_complete s" by blast
  have ids: "set (snapshot_ids db) \<subseteq> set (snapshot_ids db')" using ok(2) by (rule evolves_ids)
  have "platform_inv db'"
    unfolding platform_inv_def same_more [OF frame]
  proof (intro conjI rep ok(1))
    note old = inv [unfolded platform_inv_def]
    show "fst ` set (transparency_artifacts db) \<subseteq> set (snapshot_ids db')"
      by (rule subset_trans [OF _ ids]) (simp add: old)
    show "fst ` set (transparency_rows db) \<subseteq> set (snapshot_ids db')"
      by (rule subset_trans [OF _ ids]) (simp add: old)
    show "fst ` set (transparency_quarantines db) \<subseteq> set (snapshot_ids db')"
      by (rule subset_trans [OF _ ids]) (simp add: old)
    show "\<forall>(i, d) \<in> set (transparency_disappearances db).
        i \<in> set (snapshot_ids db') \<and> transparency_disappearance_checks d"
      using old ids by auto
  qed
  moreover have "platform_evolves db db'"
    using ok(2) by (simp add: platform_evolves_def same_more [OF frame])
  ultimately show ?thesis ..
qed

lemma stage_transparency_reported:
  assumes "inspect_transparencyapi_package env path rows prior = Inr insp"
    and "transparency_candidate insp = Inr s"
  shows "reported_complete s"
proof -
  note f = transparency_candidate_fields [OF assms(2)]
  from assms(1) obtain manifest scan where rep: "ti_validation_report insp =
      transparency_report env scan (ti_rows insp) (ti_quarantines insp) (ti_disappearances insp)
        (transparency_warnings env scan (ti_disappearances insp))
        (manifest_reasons env manifest @ ps_rejections scan @ family_reasons scan
          @ fingerprint_reasons env manifest scan)"
    by (auto simp: inspect_transparencyapi_package_def ebind_eq_Inr Let_def)
  show ?thesis
    unfolding reported_complete_def
  proof (intro impI)
    assume clean: "source_family_id s = SOURCE_FAMILY_ID \<and> rejection_reason_count s \<le> 0"
    let ?rejections = "manifest_reasons env manifest @ ps_rejections scan @ family_reasons scan
          @ fingerprint_reasons env manifest scan"
    have "rejection_reason_count s = int (length (sorted_set ?rejections))"
      using f(8) by (simp add: rep report_len_def py_index_def transparency_report_def Let_def)
    with clean have "length (sorted_set ?rejections) = 0" by linarith
    then have "family_reasons scan = []" by simp
    then have "list_all (\<lambda>e. counter_get (ps_exports_seen scan) e = 1) EXPORT_IDS"
      by (simp add: family_reasons_def list_all_iff)
    then show "py_get (validation_report s) ''all_seven_exports_present'' = PBool True"
      by (simp add: f(7) rep transparency_report_def Let_def)
  qed
qed

lemma evidence_rows_other: "i \<noteq> j \<Longrightarrow> evidence_rows i (xs @ map (Pair j) ys) = evidence_rows i xs"
  by (simp add: evidence_rows_def filter_empty_conv)

lemma evidence_rows_own:
  "j \<notin> fst ` set xs \<Longrightarrow> evidence_rows j (xs @ map (Pair j) ys) = ys"
  by (auto simp: evidence_rows_def filter_empty_conv comp_def rev_image_eqI)

lemma stage_transparency_ok:
  assumes inv: "platform_inv db" and run: "stage_transparencyapi_snapshot env db path = Inr (db', insp)"
  shows "platform_inv db' \<and> platform_evolves db db'"
  using run
proof (cases rule: stage_transparency_cases)
  case (stored insp0 s)
  with inv show ?thesis by (simp add: platform_evolves_refl)
next
  case (fresh s)
  have store: "store_inv db" using inv by (simp add: platform_inv_def)
  note st = stage_transparency_fresh [OF store fresh(2,3) refl fresh(4,5)]
  note f = transparency_candidate_fields [OF fresh(3)]
  have find: "find_snapshot db' j = (if j = ti_snapshot_id insp then Some s else find_snapshot db j)" for j
    using st(3) by (simp add: fresh(7))
  have ids: "snapshot_ids db' = snapshot_ids db @ [ti_snapshot_id insp]"
    by (simp add: fresh(7) snapshot_ids_def f)
  have "reported_complete t" if "find_snapshot db' j = Some t" for j t
    using that inv stage_transparency_reported [OF fresh(1,3)]
    by (auto simp: find platform_inv_def split: if_splits)
  then have "platform_inv db'"
    using inv st(1) fresh(6) unfolding platform_inv_def ids
    by (auto simp: fresh(7) list_all_iff)
  moreover have "platform_evolves db db'"
  proof -
    have "i \<noteq> ti_snapshot_id insp" if "i \<in> set (snapshot_ids db)" for i
      using that fresh(2) by (auto simp: find_snapshot_None_iff)
    with st(2) show ?thesis
      by (simp add: platform_evolves_def fresh(7) evidence_rows_other)
  qed
  ultimately show ?thesis ..
qed

section \<open>Every run of the platform\<close>

lemma families_differ: "ARCGIS_SUPPLEMENT_SOURCE_FAMILY_ID \<noteq> SOURCE_FAMILY_ID"
  by (simp add: ARCGIS_SUPPLEMENT_SOURCE_FAMILY_ID_def SOURCE_FAMILY_ID_def)

lemmas transparency_wrappers = validate_transparencyapi_snapshot_def accept_transparencyapi_snapshot_def
  promote_transparencyapi_snapshot_def rollback_transparencyapi_snapshot_def

lemma platform_same:
  assumes "platform_inv db" and "store_inv db' \<and> evolves db db'" and "same_tables db db'"
  shows "platform_inv db' \<and> platform_evolves db db'"
proof (rule platform_shared)
  fix i s assume "find_snapshot db' i = Some s" "find_snapshot db i = None"
  then have False
    using assms(3) by (metis find_snapshot_None_iff option.distinct(1) same_tables_def)
  then show "source_family_id s \<noteq> SOURCE_FAMILY_ID" ..
qed (use assms in \<open>simp_all add: same_tables_def\<close>)

lemma platform_step_ok:
  assumes inv: "platform_inv db" and run: "platform_step env db e = Inr (db', r)"
  shows "platform_inv db' \<and> platform_evolves db db'"
proof -
  have store: "store_inv db" using inv by (simp add: platform_inv_def)
  show ?thesis
  proof (cases e)
    case (Arcgis e')
    with run obtain r' where step: "snapshot_step env db e' = Inr (db', r')" by (auto simp: tagged_Inr)
    from snapshot_step_ok [OF store step] arcgis_frame [OF store step] inv families_differ
    show ?thesis by (intro platform_shared) auto
  next
    case (StageTransparency path)
    with run show ?thesis by (auto simp: tagged_Inr dest: stage_transparency_ok [OF inv])
  next
    case (ValidateTransparency i ts)
    with run show ?thesis
      by (auto simp: tagged_Inr transparency_wrappers
          dest: platform_same [OF inv validate_inv [OF store] validate_same])
  next
    case (AcceptTransparency i ts)
    with run show ?thesis
      by (auto simp: tagged_Inr transparency_wrappers
          dest: platform_same [OF inv accept_inv [OF store] accept_same])
  next
    case (PromoteTransparency i ts)
    with run show ?thesis
      by (auto simp: tagged_Inr transparency_wrappers
          dest: platform_same [OF inv promote_inv [OF store] promote_same])
  next
    case (RollbackTransparency a ts)
    with run show ?thesis
      by (auto simp: tagged_Inr transparency_wrappers
          dest: platform_same [OF inv rollback_inv [OF store] rollback_same])
  qed
qed

interpretation platform: monotone_machine "platform_step env" platform_inv platform_evolves for env
  by unfold_locales
     (auto intro: platform_evolves_refl platform_evolves_trans dest: platform_step_ok)

lemma platform_inv_empty: "platform_inv empty_transparency_db"
  by (simp add: platform_inv_def empty_transparency_db_def snapshot_db.defs transparency_db.defs
      empty_db_def store_inv_def snapshot_ids_def find_snapshot_def tbl_find_def)

end
