(* ===== verification/Transparency_Properties.thy ===== *)
theory Transparency_Properties imports Transparency_Lifecycle
begin

text \<open>
  The properties of the TransparencyAPI component: the URL allowlist, the reader of bulk exports,
  the capture of artifacts, the rule that keeps populated prior values, staging, and what every
  run of the platform keeps.
\<close>

section \<open>The CSV reader reads what a quoting writer writes\<close>

text \<open>A writer that quotes every field: the reader is its inverse, whatever the fields hold.\<close>

definition csv_quote :: "string \<Rightarrow> string" where
  "csv_quote f = [CHR 0x22] @ concat (map (\<lambda>c. if c = CHR 0x22 then [c, c] else [c]) f) @ [CHR 0x22]"

definition csv_line :: "string list \<Rightarrow> string" where
  "csv_line row = py_join '','' (map csv_quote row) @ [CHR 0x0D, CHR 0x0A]"

definition csv_text :: "string list list \<Rightarrow> string" where
  "csv_text rows = concat (map csv_line rows)"

lemma csv_quoted_run:
  "csv_at a = InQuoted \<Longrightarrow>
   foldl csv_step a (concat (map (\<lambda>c. if c = CHR 0x22 then [c, c] else [c]) f)) =
     a\<lparr>csv_field := csv_field a @ f\<rparr>"
proof (induction f arbitrary: a)
  case (Cons c f)
  let ?b = "a\<lparr>csv_field := csv_field a @ [c]\<rparr>"
  have "foldl csv_step a (if c = CHR 0x22 then [c, c] else [c]) = ?b"
    using Cons.prems by (simp add: csv_step_def csv_add_def)
  moreover have "foldl csv_step ?b (concat (map (\<lambda>c. if c = CHR 0x22 then [c, c] else [c]) f)) =
      ?b\<lparr>csv_field := csv_field ?b @ f\<rparr>"
    by (rule Cons.IH) (simp add: Cons.prems)
  ultimately show ?case by simp
qed simp

lemma csv_quoted_field:
  assumes "csv_at a \<in> {StartRecord, StartField}" and "csv_field a = []"
  shows "foldl csv_step a (csv_quote f) = a\<lparr>csv_at := QuoteInQuoted, csv_field := f\<rparr>"
proof -
  have open_quote: "csv_step a (CHR 0x22) = a\<lparr>csv_at := InQuoted\<rparr>"
    using assms by (auto simp: csv_step_def csv_record_char_def csv_open_char_def is_eol_def)
  let ?b = "a\<lparr>csv_at := InQuoted\<rparr>"
  have "foldl csv_step ?b (concat (map (\<lambda>c. if c = CHR 0x22 then [c, c] else [c]) f)) =
      ?b\<lparr>csv_field := csv_field ?b @ f\<rparr>"
    by (rule csv_quoted_run) simp
  with assms(2) have body: "foldl csv_step ?b (concat (map (\<lambda>c. if c = CHR 0x22 then [c, c] else [c]) f)) =
      ?b\<lparr>csv_field := f\<rparr>" by simp
  have "csv_step (?b\<lparr>csv_field := f\<rparr>) (CHR 0x22) = a\<lparr>csv_at := QuoteInQuoted, csv_field := f\<rparr>"
    by (simp add: csv_step_def)
  then show ?thesis
    by (simp add: csv_quote_def open_quote body)
qed

lemma csv_quoted_line:
  assumes "csv_at a \<in> {StartRecord, StartField}" and "csv_field a = []" and "row \<noteq> []"
  shows "foldl csv_step a (csv_line row) = a\<lparr>csv_at := StartRecord, csv_field := [],
    csv_fields := [], csv_rows := csv_rows a @ [csv_fields a @ row]\<rparr>"
  using assms
proof (induction row arbitrary: a)
  case (Cons f row)
  show ?case
  proof (cases row)
    case Nil
    have "csv_line [f] = csv_quote f @ [CHR 0x0D, CHR 0x0A]" by (simp add: csv_line_def)
    then show ?thesis using Cons.prems
      by (simp add: Nil csv_quoted_field)
         (simp add: csv_step_def is_eol_def csv_end_record_def csv_save_field_def csv_after_def)
  next
    case (Cons g rest)
    let ?b = "a\<lparr>csv_at := StartField, csv_field := [], csv_fields := csv_fields a @ [f]\<rparr>"
    have "foldl csv_step ?b (csv_line row) = ?b\<lparr>csv_at := StartRecord, csv_field := [],
        csv_fields := [], csv_rows := csv_rows ?b @ [csv_fields ?b @ row]\<rparr>"
      by (rule Cons.IH) (simp_all add: Cons)
    moreover have "foldl csv_step a (csv_quote f @ '','') = ?b"
      using Cons.prems by (simp add: csv_quoted_field) (simp add: csv_step_def csv_save_field_def)
    moreover have "csv_line (f # row) = (csv_quote f @ '','') @ csv_line row"
      by (simp add: csv_line_def Cons)
    ultimately show ?thesis by (simp del: foldl_append add: foldl_append [of csv_step])
  qed
qed simp

lemma csv_reader_text:
  assumes "\<forall>row \<in> set rows. row \<noteq> []"
  shows "csv_reader (csv_text rows) = rows"
proof -
  have "foldl csv_step a (csv_text rows) = a\<lparr>csv_rows := csv_rows a @ rows\<rparr>"
    if "csv_at a = StartRecord" "csv_field a = []" "csv_fields a = []" for a
    using that assms
  proof (induction rows arbitrary: a)
    case (Cons row rows)
    then show ?case by (simp add: csv_text_def csv_quoted_line)
  qed (simp add: csv_text_def)
  from this [of csv_start] show ?thesis
    by (simp add: csv_reader_def csv_start_def csv_finish_def)
qed

section \<open>The URL allowlist\<close>

text \<open>What an accepted URL may ask for: one bulk export of the seven, one of the two taxonomies, the
  detail or the report list of a numbered facility, or one report of it.\<close>

definition governed_request :: "string \<Rightarrow> (string \<times> string) list \<Rightarrow> bool" where
  "governed_request path params \<longleftrightarrow>
     (path = ''/transparencyapi/api/DownloadStateData'' \<and> (\<exists>e \<in> set EXPORT_IDS. params = [(''id'', e)])) \<or>
     (path \<in> {''/transparencyapi/api/Group/'', ''/transparencyapi/api/CACounty''} \<and> params = []) \<or>
     (\<exists>n. py_isdigit n \<and> params = [] \<and>
        path \<in> {''/transparencyapi/api/FacilityDetail/'' @ n, ''/transparencyapi/api/FacilityReports/'' @ n}) \<or>
     (path = ''/transparencyapi/api/FacilityReports'' \<and>
      (\<exists>n i. py_isdigit n \<and> 0 \<le> i \<and>
         set params = {(''facNum'', n), (''inx'', show_int i)} \<and> length params = 2))"

lemma endpoint_path: "''https://www.ccld.dss.ca.gov'' @ path = BASE_URL @ rest \<longleftrightarrow>
    path = ''/transparencyapi/api'' @ rest"
  by (simp add: BASE_URL_def)

lemma governed_path:
  assumes "urlsplit url = Inr p" and "url_netloc p \<noteq> []"
  shows "url_path p = [] \<or> hd (url_path p) = CHR ''/''"
proof -
  let ?stop = "\<lambda>c. c \<notin> {CHR ''/'', CHR ''?'', CHR ''#''}"
  from assms obtain url1 where path: "url_path p =
      takeWhile (\<lambda>c. c \<noteq> CHR ''?'') (takeWhile (\<lambda>c. c \<noteq> CHR ''#'') (dropWhile ?stop url1))"
    by (auto simp: urlsplit_def Let_def split_first_def ebind_eq_Inr split: if_splits prod.splits)
  show ?thesis
  proof (cases "dropWhile ?stop url1")
    case (Cons c cs)
    then have "\<not> ?stop c" by (metis hd_dropWhile list.distinct(1) list.sel(1))
    with Cons show ?thesis by (auto simp: path)
  next
    case Nil
    show ?thesis unfolding path Nil by simp
  qed
qed

lemma governed_suffix:
  assumes "path = [] \<or> hd path = CHR ''/''" and "c \<noteq> CHR ''/''"
    and "prefix (c # cs) (remove_prefix ''/transparencyapi/api/'' path)"
  shows "path = ''/transparencyapi/api/'' @ (c # cs) @
    remove_prefix (c # cs) (remove_prefix ''/transparencyapi/api/'' path)"
  using assms by (cases path) (auto simp: remove_prefix_def prefix_def split: if_splits)

lemma distinct_params:
  assumes "card (set (map fst pairs)) = length pairs"
  shows "distinct (map fst pairs)"
  using assms by (metis card_distinct length_map)

lemmas text_eval = py_casefold_def char_lower_def is_upper_def is_lower_def is_digit_def is_alpha_def
  py_in_def split_first_def is_scheme_char_def remove_prefix_def py_isdigit_def is_space_def

lemmas url_eval = validate_governed_url_def urlsplit_def Let_def split_scheme_def
  BASE_URL_def validate_facility_number_def parse_qsl_def

lemma two_pairs:
  assumes "set (map fst xs) = {a, b}" and "distinct (map fst xs)"
    and "\<And>k. k \<in> {a, b} \<Longrightarrow> map_of xs k = Some (the (map_of xs k))"
  shows "set xs = {(a, the (map_of xs a)), (b, the (map_of xs b))}"
proof -
  have "(k, v) \<in> set xs \<longleftrightarrow> map_of xs k = Some v" for k v using assms(2) by simp
  moreover have "map_of xs k = Some v \<Longrightarrow> k \<in> {a, b}" for k v
    using assms(1) by (metis domI dom_map_of_conv_image_fst set_map)
  ultimately have "(k, v) \<in> set xs \<longleftrightarrow> k \<in> {a, b} \<and> v = the (map_of xs k)" for k v
    using assms(3) by (metis option.sel)
  then show ?thesis by auto
qed

text \<open>a URL the connector accepts has the governed scheme, host and nothing else than one of the
  approved requests; in particular the identifier of a bulk export is one of the seven, a facility
  number is all digits, and a report index is a canonical nonnegative numeral.\<close>

theorem governed_url_is_approved:
  assumes "validate_governed_url url = Inr ()"
  shows "\<exists>p. urlsplit url = Inr p \<and> url_scheme p = ''https'' \<and> url_netloc p = ''www.ccld.dss.ca.gov'' \<and>
      url_fragment p = [] \<and> governed_request (url_path p) (parse_qsl (url_query p))"
proof -
  from assms obtain p where p: "urlsplit url = Inr p" "url_scheme p = ''https''"
    "url_netloc p = ''www.ccld.dss.ca.gov''" "url_fragment p = []"
    by (auto simp: validate_governed_url_def ebind_eq_Inr)
  let ?path = "url_path p" and ?pairs = "parse_qsl (url_query p)"
  from assms p(1) have card: "card (set (map fst ?pairs)) = length ?pairs"
    and rest: "(if ''https://www.ccld.dss.ca.gov'' @ ?path = BASE_URL @ ''/DownloadStateData'' then
           guard (set (map fst ?pairs) = {''id''} \<and> the (map_of ?pairs ''id'') \<in> set EXPORT_IDS)
             (ConnectorError ''Bulk export request is outside the seven-ID allowlist.'')
         else if (''https://www.ccld.dss.ca.gov'' @ ?path = BASE_URL @ ''/Group/'' \<or>
             ''https://www.ccld.dss.ca.gov'' @ ?path = BASE_URL @ ''/CACounty'') \<and> ?pairs = [] then Inr ()
         else if prefix ''FacilityDetail/'' (remove_prefix ''/transparencyapi/api/'' ?path) \<and> ?pairs = [] then
           validate_facility_number (remove_prefix ''FacilityDetail/'' (remove_prefix ''/transparencyapi/api/'' ?path))
         else if prefix ''FacilityReports/'' (remove_prefix ''/transparencyapi/api/'' ?path) \<and> ?pairs = [] then
           validate_facility_number (remove_prefix ''FacilityReports/'' (remove_prefix ''/transparencyapi/api/'' ?path))
         else if ''https://www.ccld.dss.ca.gov'' @ ?path = BASE_URL @ ''/FacilityReports'' \<and>
             set (map fst ?pairs) = {''facNum'', ''inx''} then
           ebind (validate_facility_number (the (map_of ?pairs ''facNum''))) (\<lambda>_.
           validate_report_index (the (map_of ?pairs ''inx'')))
         else Inl (ConnectorError ''Request endpoint is outside the approved allowlist.'')) = Inr ()"
    unfolding validate_governed_url_def Let_def by (elim ebind_InrE; simp only: guard_eq_Inr sum.inject)+
  then have dist: "distinct (map fst ?pairs)" by (intro distinct_params)
  have path: "?path = [] \<or> hd ?path = CHR ''/''" by (rule governed_path [OF p(1)]) (simp add: p)
  consider (bulk) "?path = ''/transparencyapi/api/DownloadStateData''" "set (map fst ?pairs) = {''id''}"
      "the (map_of ?pairs ''id'') \<in> set EXPORT_IDS"
    | (taxonomy) "?path \<in> {''/transparencyapi/api/Group/'', ''/transparencyapi/api/CACounty''}" "?pairs = []"
    | (facility) a cs where "a # cs \<in> {''FacilityDetail/'', ''FacilityReports/''}" "?pairs = []"
        "prefix (a # cs) (remove_prefix ''/transparencyapi/api/'' ?path)"
        "py_isdigit (remove_prefix (a # cs) (remove_prefix ''/transparencyapi/api/'' ?path))"
    | (report) "?path = ''/transparencyapi/api/FacilityReports''" "set (map fst ?pairs) = {''facNum'', ''inx''}"
        "py_isdigit (the (map_of ?pairs ''facNum''))" "validate_report_index (the (map_of ?pairs ''inx'')) = Inr ()"
    using rest unfolding endpoint_path validate_facility_number_def
    by (auto simp: ebind_eq_Inr split: if_splits)
  then have "governed_request ?path ?pairs"
  proof cases
    case bulk
    with card have "length ?pairs = 1" by simp
    then obtain k v where kv: "?pairs = [(k, v)]" by (cases ?pairs) auto
    with bulk show ?thesis by (simp add: governed_request_def)
  next
    case taxonomy
    then show ?thesis by (auto simp: governed_request_def)
  next
    case (facility a cs)
    have "a \<noteq> CHR ''/''" using facility(1) by auto
    from governed_suffix [OF path this facility(3)] facility(1,2,4) show ?thesis
      unfolding governed_request_def by force
  next
    case report
    with card have len: "length ?pairs = 2" by simp
    have "map_of ?pairs k = Some (the (map_of ?pairs k))" if "k \<in> {''facNum'', ''inx''}" for k
      using that report(2) by (metis map_of_eq_None_iff option.collapse set_map)
    with report(2) dist have pairs: "set ?pairs =
        {(''facNum'', the (map_of ?pairs ''facNum'')), (''inx'', the (map_of ?pairs ''inx''))}"
      by (rule two_pairs)
    from report(4) obtain i where "0 \<le> i" "show_int i = the (map_of ?pairs ''inx'')"
      by (auto simp: validate_report_index_def split: option.splits)
    with len pairs report(1,3) show ?thesis unfolding governed_request_def by metis
  qed
  with p show ?thesis by blast
qed


lemma governed_url_is_approved_witness:
  "\<exists>p. urlsplit ''https://www.ccld.dss.ca.gov/transparencyapi/api/FacilityDetail/197'' = Inr p \<and>
     governed_request (url_path p) (parse_qsl (url_query p))"
proof -
  have "validate_governed_url ''https://www.ccld.dss.ca.gov/transparencyapi/api/FacilityDetail/197'' = Inr ()"
    by (simp add: url_eval text_eval)
  from governed_url_is_approved [OF this] show ?thesis by blast
qed

lemma governed_bulk:
  "list_all (\<lambda>e. validate_governed_url (BASE_URL @ ''/DownloadStateData?id='' @ e) = Inr ()) EXPORT_IDS"
  by (simp add: EXPORT_IDS_def url_eval text_eval del: set_filter)

lemma governed_taxonomies:
  "validate_governed_url (BASE_URL @ ''/Group/'') = Inr ()"
  "validate_governed_url (BASE_URL @ ''/CACounty'') = Inr ()"
  by (simp_all add: url_eval text_eval)


section \<open>Capturing\<close>


definition sample_response :: http_artifact_response where
  "sample_response = \<lparr>resp_request_url = ''u'', resp_final_url = ''u'', resp_status = 200,
     resp_headers = [(''Content-Type'', ''text/csv''), (''Set-Cookie'', ''secret'')], resp_body = ''x''\<rparr>"


section \<open>Populated prior values\<close>

text \<open>C17: resolving a row against the active snapshot never loses a populated address or telephone
  number: where the current cell is blank, a placeholder or absent and the prior one is populated,
  the prior value is kept, marked as preserved, with the current observation beside it; every other
  field is the current one.\<close>

theorem populated_values_are_preserved:
  assumes "py_get current f = PDict now" and "py_get prior f = PDict before"
    and "py_get now ''state'' \<in> {PStr ''blank'', PStr ''placeholder'', PStr ''absent''}"
    and "py_get before ''state'' = PStr ''populated''"
    and "f \<in> set PRESERVE_POPULATED_FIELDS"
  shows "\<exists>kept. py_get (preserve_prior_populated_values current (Some prior)) f = PDict kept \<and>
      py_get kept ''state'' = PStr ''populated'' \<and> py_get kept ''value'' = py_get before ''value'' \<and>
      py_get kept ''raw'' = py_get before ''raw'' \<and>
      py_get kept ''preserved_from_prior'' = PBool True \<and>
      py_get kept ''superseding_observation'' = PDict now \<and>
      (\<forall>g. g \<notin> set PRESERVE_POPULATED_FIELDS \<longrightarrow>
         py_get (preserve_prior_populated_values current (Some prior)) g = py_get current g)"
proof -
  let ?kept = "py_set (py_set before ''preserved_from_prior'' (PBool True)) ''superseding_observation'' (PDict now)"
  let ?a = "''facility_address''" and ?t = "''facility_telephone_number''"
  have steps: "preserve_prior_populated_values current (Some prior) =
      preserve_field prior (preserve_field prior current ?a) ?t"
    by (simp add: preserve_prior_populated_values_def PRESERVE_POPULATED_FIELDS_def)
  have one: "py_get (preserve_field prior resolved f) f = PDict ?kept" if "py_get resolved f = PDict now" for resolved
    using that assms(2-4) by (auto simp: preserve_field_def)
  have at: "py_get (preserve_field prior resolved h) g = py_get resolved g" if "g \<noteq> h" for resolved g h
    using that by (subst py_get_preserve_field) simp
  have "py_get (preserve_prior_populated_values current (Some prior)) f = PDict ?kept"
    using assms(1,5) one at unfolding steps by (auto simp: PRESERVE_POPULATED_FIELDS_def)
  moreover have "\<forall>g. g \<notin> set PRESERVE_POPULATED_FIELDS \<longrightarrow>
      py_get (preserve_prior_populated_values current (Some prior)) g = py_get current g"
    unfolding steps by (auto simp: at PRESERVE_POPULATED_FIELDS_def)
  ultimately show ?thesis using assms(4) by (intro exI [of _ ?kept]) simp
qed

lemma populated_values_are_preserved_witness:
  "\<exists>kept. py_get (preserve_prior_populated_values
        (normalize_bulk_row [(''Facility Address'', '' N/A '')])
        (Some (normalize_bulk_row [(''Facility Address'', '' 1 Main St'')]))) ''facility_address'' = PDict kept \<and>
     py_get kept ''value'' = PStr ''1 Main St''"
proof -
  have now: "py_get (normalize_bulk_row [(''Facility Address'', '' N/A '')]) ''facility_address'' =
      PDict [(''state'', PStr ''placeholder''), (''raw'', PStr '' N/A ''), (''value'', PStr ''N/A'')]"
    and before: "py_get (normalize_bulk_row [(''Facility Address'', '' 1 Main St'')]) ''facility_address'' =
      PDict [(''state'', PStr ''populated''), (''raw'', PStr '' 1 Main St''), (''value'', PStr ''1 Main St'')]"
    by code_simp+
  from populated_values_are_preserved [OF now before] show ?thesis
    by (auto simp: PRESERVE_POPULATED_FIELDS_def)
qed

section \<open>Bulk exports\<close>

text \<open>The parts of one record: the fixed cells, the complaint blocks and what is left over.\<close>

lemma chunks_concat:
  "n > 0 \<Longrightarrow> concat (map (\<lambda>k. take n (drop (k * n) xs)) [0..<m]) = take (m * n) xs"
proof (induction m)
  case (Suc m)
  then show ?case by (simp add: take_add [symmetric] add.commute)
qed simp

lemma complaint_fields_positive: "0 < length (complaint_fields e)"
  by (simp add: complaint_fields_def RCFE_COMPLAINT_FIELDS_def STANDARD_COMPLAINT_FIELDS_def)

lemma complaint_blocks_concat:
  "concat (map block_raw_values (complaint_blocks_of fs tail)) = take (length tail div length fs * length fs) tail"
  if "0 < length fs"
  using chunks_concat [OF that, of tail "length tail div length fs"]
  by (simp add: complaint_blocks_of_def Let_def comp_def)

lemma complaint_block_length:
  assumes "b \<in> set (complaint_blocks_of fs tail)" and "0 < length fs"
  shows "length (block_raw_values b) = length fs \<and> map fst (block_values b) = fs \<and>
    map snd (block_values b) = block_raw_values b"
proof -
  from assms(1) obtain k where k: "k < length tail div length fs"
    "b = \<lparr>block_ordinal = k + 1, block_raw_values = take (length fs) (drop (k * length fs) tail),
       block_values = zip fs (take (length fs) (drop (k * length fs) tail))\<rparr>"
    by (auto simp: complaint_blocks_of_def Let_def)
  from k(1) have "Suc k * length fs \<le> length tail div length fs * length fs" by (intro mult_le_mono1) simp
  also have "\<dots> \<le> length tail" by simp
  finally have "length fs \<le> length (drop (k * length fs) tail)" by simp
  then show ?thesis by (simp add: k(2))
qed

text \<open>Nothing of a record is lost: the fixed cells, the blocks and the trailing cells put together are
  the record, unless its tail says there are no complaints.\<close>

definition rebuilt_values :: "nat \<Rightarrow> facility_row \<Rightarrow> string list" where
  "rebuilt_values fixed_columns r =
     take fixed_columns (row_raw_values r) @ concat (map block_raw_values (row_complaint_blocks r))
       @ row_trailing_values r"

lemma facility_row_parts:
  fixes env e hs y n vs
  defines "r \<equiv> parse_facility_row env e hs y n vs"
  shows "row_raw_values r = vs" "row_ordinal r = n" "row_export_id r = e"
    and "\<not> is_zero_complaint_tail (drop (length hs - 1) vs) \<Longrightarrow> rebuilt_values (length hs - 1) r = vs"
    and "is_zero_complaint_tail (drop (length hs - 1) vs) \<Longrightarrow>
      row_complaint_blocks r = [] \<and> row_trailing_values r = []"
    and "\<forall>b \<in> set (row_complaint_blocks r). map fst (block_values b) = complaint_fields e \<and>
      map snd (block_values b) = block_raw_values b"
    and "length (row_trailing_values r) < length (complaint_fields e)"
    and "row_quarantine_categories r \<noteq> [] \<longleftrightarrow> row_trailing_values r \<noteq> [] \<or> row_facility_number r = None"
proof -
  let ?tail = "drop (length hs - 1) vs" and ?fs = "complaint_fields e"
  note pos = complaint_fields_positive [of e]
  show "row_raw_values r = vs" "row_ordinal r = n" "row_export_id r = e"
    by (simp_all add: r_def parse_facility_row_def Let_def)
  have blocks: "row_complaint_blocks r = (if is_zero_complaint_tail ?tail then [] else complaint_blocks_of ?fs ?tail)"
    and trail: "row_trailing_values r = (if is_zero_complaint_tail ?tail then []
      else drop (length ?tail - length ?tail mod length ?fs) ?tail)"
    by (simp_all add: r_def parse_facility_row_def Let_def)
  have cut: "length ?tail - length ?tail mod length ?fs = length ?tail div length ?fs * length ?fs"
    by (simp add: minus_mod_eq_div_mult)
  show "\<not> is_zero_complaint_tail ?tail \<Longrightarrow> rebuilt_values (length hs - 1) r = vs"
    by (simp only: rebuilt_values_def blocks trail if_False complaint_blocks_concat [OF pos] cut
        \<open>row_raw_values r = vs\<close> append_take_drop_id)
  show "is_zero_complaint_tail ?tail \<Longrightarrow> row_complaint_blocks r = [] \<and> row_trailing_values r = []"
    by (simp add: blocks trail)
  show "\<forall>b \<in> set (row_complaint_blocks r). map fst (block_values b) = ?fs \<and>
      map snd (block_values b) = block_raw_values b"
    using complaint_block_length [OF _ pos] by (simp add: blocks)
  have "length ?tail mod length ?fs \<le> length ?tail" by simp
  then show "length (row_trailing_values r) < length ?fs"
    using pos mod_less_divisor [OF pos, of "length ?tail"]
    by (simp only: trail length_drop diff_diff_cancel split: if_split) simp
  show "row_quarantine_categories r \<noteq> [] \<longleftrightarrow> row_trailing_values r \<noteq> [] \<or> row_facility_number r = None"
    by (auto simp: r_def parse_facility_row_def Let_def)
qed

lemma quoted_export_parse:
  assumes "expected_headers e = Inr headers" and "\<forall>record \<in> set records. record \<noteq> []"
    and "utf8_valid (csv_text (headers # records))"
  shows "\<exists>p. parse_bulk_csv env (csv_text (headers # records)) e y = Inr p \<and>
      exp_rejection_reasons p = [] \<and>
      map row_raw_values (exp_rows p) = filter (\<lambda>vs. \<not> is_blank_row vs) records"
proof -
  have "headers \<noteq> []"
    using assms(1) by (auto simp: expected_headers_def ebind_eq_Inr RCFE_HEADERS_def STANDARD_HEADERS_def
        split: if_splits)
  then have read: "csv_reader (csv_text (headers # records)) = headers # records"
    using assms(2) by (intro csv_reader_text) simp
  have "hd (csv_text (headers # records)) = CHR 0x22" "csv_text (headers # records) \<noteq> []"
    using \<open>headers \<noteq> []\<close> by (cases headers rule: list.exhaust; cases "tl headers";
        simp add: csv_text_def csv_line_def csv_quote_def)+
  then have "\<not> prefix [CHR 0xEF, CHR 0xBB, CHR 0xBF] (csv_text (headers # records))"
    by (cases "csv_text (headers # records)") auto
  with assms(3) have "decode_export (csv_text (headers # records)) = Inr (csv_text (headers # records))"
    by (simp add: decode_export_def decode_utf8_sig_def)
  moreover have "map row_raw_values (map (\<lambda>(n, vs). parse_facility_row env e headers y n vs)
      (filter (\<lambda>ov. \<not> is_blank_row (snd ov)) (enumerate k records))) = filter (\<lambda>vs. \<not> is_blank_row vs) records" for k
    by (induction records arbitrary: k) (simp_all add: facility_row_parts)
  ultimately show ?thesis using assms(1) read by (simp add: parse_bulk_csv_def)
qed


text \<open>A sample export of one record.\<close>

definition sample_export :: string where
  "sample_export = csv_text [STANDARD_HEADERS, replicate 31 ''7'']"

lemma ascii_valid: "list_all (\<lambda>c. ord c < 0x80) s \<Longrightarrow> utf8_valid s"
  by (induction s) auto

lemma list_all_concat: "list_all P (concat xss) = list_all (list_all P) xss"
  by (induction xss) simp_all

lemma list_all_join: "list_all P (py_join sep xs) \<longleftrightarrow> list_all (list_all P) xs \<and> (length xs > 1 \<longrightarrow> list_all P sep)"
  by (induction sep xs rule: py_join.induct) auto

lemma sample_export_valid: "utf8_valid (csv_text [STANDARD_HEADERS, replicate 31 ''7''])"
proof (rule ascii_valid)
  have "list_all (list_all (\<lambda>c. ord c < 0x80)) (STANDARD_HEADERS @ replicate 31 ''7'')" by code_simp
  then have "list_all (\<lambda>c. ord c < 0x80) (csv_quote f)" if "f \<in> set STANDARD_HEADERS \<union> {''7''}" for f
    using that by (auto simp: csv_quote_def list_all_concat list_all_iff)
  then show "list_all (\<lambda>c. ord c < 0x80) (csv_text [STANDARD_HEADERS, replicate 31 ''7''])"
    unfolding csv_text_def csv_line_def list.map concat.simps list_all_append list_all_join
    by (auto simp: list_all_iff)
qed

lemma sample_not_blank: "filter (\<lambda>vs. \<not> is_blank_row vs) [replicate 31 ''7''] = [replicate 31 ''7'']"
  by code_simp

lemma sample_headers: "expected_headers ''HomeCare'' = Inr STANDARD_HEADERS"
  by (simp add: expected_headers_def EXPORT_IDS_def RCFE_EXPORT_ID_def)

text \<open>C13: an export with the approved headers is parsed without loss. There is one row for every
  record that is not blank, in order, with the record's cells unchanged and its own ordinal; the fixed
  cells, the complaint blocks and the trailing cells make up the record again (or the tail declares
  that there are no complaints); every block names all its fields; and a row is quarantined exactly
  when cells are left over or the facility number is missing.\<close>

theorem bulk_export_is_lossless:
  assumes "parse_bulk_csv env content e y = Inr p" and "exp_rejection_reasons p = []"
  shows "\<exists>text headers records. decode_export content = Inr text \<and> csv_reader text = headers # records \<and>
      expected_headers e = Inr headers \<and>
      map (\<lambda>r. (row_ordinal r, row_raw_values r)) (exp_rows p) =
        filter (\<lambda>ov. \<not> is_blank_row (snd ov)) (enumerate 1 records) \<and>
      (\<forall>r \<in> set (exp_rows p).
         (if is_zero_complaint_tail (drop (length headers - 1) (row_raw_values r))
          then row_complaint_blocks r = [] \<and> row_trailing_values r = []
          else rebuilt_values (length headers - 1) r = row_raw_values r) \<and>
         (\<forall>b \<in> set (row_complaint_blocks r). map fst (block_values b) = complaint_fields e \<and>
            map snd (block_values b) = block_raw_values b) \<and>
         (row_quarantine_categories r \<noteq> [] \<longleftrightarrow> row_trailing_values r \<noteq> [] \<or> row_facility_number r = None))"
proof -
  from assms(1) obtain hs decoded where ht: "expected_headers e = Inr hs" "decode_export content = Inr decoded"
    "p = (case csv_reader decoded of
        [] \<Rightarrow> \<lparr>exp_export_id = e, exp_headers = [], exp_rows = [],
               exp_rejection_reasons = [''bulk export is empty'']\<rparr>
      | headers # records \<Rightarrow>
          if headers \<noteq> hs
          then \<lparr>exp_export_id = e, exp_headers = headers, exp_rows = [],
                exp_rejection_reasons = [''fixed CSV headers differ from the approved export contract'']\<rparr>
          else \<lparr>exp_export_id = e, exp_headers = headers,
                exp_rows = map (\<lambda>(ordinal, raw_values). parse_facility_row env e hs y ordinal raw_values)
                  (filter (\<lambda>ov. \<not> is_blank_row (snd ov)) (enumerate 1 records)),
                exp_rejection_reasons = []\<rparr>)"
    by (auto simp: parse_bulk_csv_def ebind_eq_Inr)
  with assms(2) obtain records where rec: "csv_reader decoded = hs # records"
    by (auto split: list.splits if_splits)
  let ?kept = "filter (\<lambda>ov. \<not> is_blank_row (snd ov)) (enumerate 1 records)"
  have rows: "exp_rows p = map (\<lambda>(n, vs). parse_facility_row env e hs y n vs) ?kept"
    by (simp add: ht(3) rec)
  have "map (\<lambda>r. (row_ordinal r, row_raw_values r)) (exp_rows p) = ?kept"
    unfolding rows map_map by (rule map_idI) (auto simp: facility_row_parts)
  moreover have "\<forall>r \<in> set (exp_rows p).
         (if is_zero_complaint_tail (drop (length hs - 1) (row_raw_values r))
          then row_complaint_blocks r = [] \<and> row_trailing_values r = []
          else rebuilt_values (length hs - 1) r = row_raw_values r) \<and>
         (\<forall>b \<in> set (row_complaint_blocks r). map fst (block_values b) = complaint_fields e \<and>
            map snd (block_values b) = block_raw_values b) \<and>
         (row_quarantine_categories r \<noteq> [] \<longleftrightarrow> row_trailing_values r \<noteq> [] \<or> row_facility_number r = None)"
    unfolding rows using facility_row_parts [where env = env and e = e and hs = hs and y = y] by fastforce
  ultimately show ?thesis using ht rec by blast
qed

lemma bulk_export_is_lossless_witness:
  "\<forall>env. \<exists>p. parse_bulk_csv env sample_export ''HomeCare'' (Some 2026) = Inr p \<and>
     map row_raw_values (exp_rows p) = [replicate 31 ''7''] \<and>
     (\<forall>r \<in> set (exp_rows p). rebuilt_values 30 r = row_raw_values r)"
proof (rule allI)
  fix env
  obtain p where p: "parse_bulk_csv env sample_export ''HomeCare'' (Some 2026) = Inr p"
    "exp_rejection_reasons p = []" "map row_raw_values (exp_rows p) = [replicate 31 ''7'']"
    using quoted_export_parse [OF sample_headers, of "[replicate 31 ''7'']" env "Some 2026"] sample_export_valid
    unfolding sample_export_def sample_not_blank by auto
  have tail: "\<not> is_zero_complaint_tail (drop 30 (replicate 31 ''7''))" by code_simp
  have len: "length STANDARD_HEADERS - 1 = 30" by (simp add: STANDARD_HEADERS_def)
  have raw: "row_raw_values r = replicate 31 ''7''" if "r \<in> set (exp_rows p)" for r
  proof -
    from that have "row_raw_values r \<in> set (map row_raw_values (exp_rows p))" by simp
    then show ?thesis unfolding p(3) by simp
  qed
  from bulk_export_is_lossless [OF p(1,2)] obtain headers where
    "expected_headers ''HomeCare'' = Inr headers" and
    rows: "\<forall>r \<in> set (exp_rows p). if is_zero_complaint_tail (drop (length headers - 1) (row_raw_values r))
          then row_complaint_blocks r = [] \<and> row_trailing_values r = []
          else rebuilt_values (length headers - 1) r = row_raw_values r" by blast
  then have h: "headers = STANDARD_HEADERS" by (simp only: sample_headers sum.inject)
  have "rebuilt_values 30 r = row_raw_values r" if "r \<in> set (exp_rows p)" for r
    using rows [unfolded h len, rule_format, OF that] raw [OF that] tail by (simp only: if_False)
  then show "\<exists>p. parse_bulk_csv env sample_export ''HomeCare'' (Some 2026) = Inr p \<and>
     map row_raw_values (exp_rows p) = [replicate 31 ''7''] \<and>
     (\<forall>r \<in> set (exp_rows p). rebuilt_values 30 r = row_raw_values r)"
    by (intro exI [of _ p] conjI ballI p(1) p(3))
qed



end
