(* ===== verification/Platform_Properties.thy ===== *)
theory Platform_Properties imports Transparency_Properties Snapshot_Properties begin

text \<open>
  The two source families on one database: what every run of their operations keeps, and what
  staging a TransparencyAPI package stores.
\<close>

section \<open>A sample platform\<close>

definition sample_transparency_candidate :: snapshot where
  "sample_transparency_candidate = (sample_candidate ''t'' 0)
     \<lparr>source_family_id := SOURCE_FAMILY_ID, fixture_scope := SNAPSHOT_SCOPE,
      observation_kind := OBSERVATION_KIND,
      validation_report := [(''all_seven_exports_present'', PBool True)]\<rparr>"

definition sample_artifact :: transparency_artifact where
  "sample_artifact = \<lparr>ta_artifact_id = ''a'', ta_endpoint_kind = ''bulk_export'', ta_export_id = PNone,
     ta_request_url = ''u'', ta_final_url = ''u'', ta_retrieved_at = ''t'', ta_http_status = 200,
     ta_response_headers = PList [], ta_excluded_header_names = PList [], ta_media_type = ''text/csv'',
     ta_content_disposition = PNone, ta_byte_count = 1, ta_raw_sha256 = ''d'', ta_raw_ref = ''f''\<rparr>"

definition sample_platform :: transparency_db where
  "sample_platform = empty_transparency_db\<lparr>source_snapshots := [sample_transparency_candidate],
     transparency_artifacts := [(''t'', sample_artifact)]\<rparr>"

definition sample_platform_run :: "platform_event list" where
  "sample_platform_run =
     [ValidateTransparency ''t'' ''t1'', PromoteTransparency ''t'' ''t1'', AcceptTransparency ''t'' ''t2'',
      Arcgis (PromoteFixture ''t'' ''t3''), PromoteTransparency ''t'' ''t3'']"

lemma sample_platform_inv: "platform_inv sample_platform"
  by (auto simp: platform_inv_def store_inv_def sample_platform_def empty_transparency_db_def
      snapshot_db.defs transparency_db.defs empty_db_def sample_transparency_candidate_def
      sample_candidate_def snapshot_ids_def snapshot_checks_def fixture_identity_def snapshot_inv.simps
      reported_complete_def find_snapshot_def tbl_find_def OFFLINE_FIXTURE_SCOPE_def SNAPSHOT_SCOPE_def
      OBSERVATION_KIND_def LIVE_QUERY_SCOPE_def split: if_splits)

definition sample_active :: "snapshot option" where
  "sample_active = active_snapshot_record (run_all (platform_step no_env) sample_platform sample_platform_run)
     SOURCE_FAMILY_ID"

lemma sample_active: "map_option snapshot_id sample_active = Some ''t''"
  by code_simp

section \<open>Every run\<close>

text \<open>C9: over the operations of both families, attempted in any order, the active TransparencyAPI
  snapshot is an accepted one without rejection reasons, and its stored validation report says that
  all seven exports were present exactly once: an incomplete package is never what readers see.\<close>

theorem active_transparency_snapshot_is_complete:
  assumes "platform_inv db"
    and "active_snapshot_record (run_all (platform_step env) db events) SOURCE_FAMILY_ID = Some s"
  shows "lifecycle_state s = Accepted \<and> source_family_id s = SOURCE_FAMILY_ID \<and>
      rejection_reason_count s \<le> 0 \<and>
      py_get (validation_report s) ''all_seven_exports_present'' = PBool True"
proof -
  let ?db = "run_all (platform_step env) db events"
  have inv: "platform_inv ?db" using assms(1) by (rule platform.run_inv)
  then have store: "store_inv ?db" by (simp add: platform_inv_def)
  from assms(2) obtain p where p: "find_pointer ?db SOURCE_FAMILY_ID = Some p"
    by (auto simp: active_snapshot_record_def split: option.splits)
  obtain t where t: "find_snapshot ?db (active_snapshot_id p) = Some t"
    "active_snapshot_record ?db SOURCE_FAMILY_ID = Some t" "lifecycle_state t = Accepted"
    "source_family_id t = SOURCE_FAMILY_ID" "rejection_reason_count t \<le> 0"
    using store p by (rule pointer_points_to_accepted)
  from inv t(1) have "reported_complete t" by (simp add: platform_inv_def)
  with t assms(2) show ?thesis by (simp add: reported_complete_def)
qed

lemma active_transparency_snapshot_is_complete_witness:
  "\<exists>s. sample_active = Some s \<and> snapshot_id s = ''t'' \<and> lifecycle_state s = Accepted"
proof -
  obtain s where s: "sample_active = Some s" "snapshot_id s = ''t''" using sample_active by auto
  with active_transparency_snapshot_is_complete [OF sample_platform_inv, of no_env sample_platform_run s]
  show ?thesis by (simp add: sample_active_def)
qed

text \<open>C10: evidence is immutable across both families: whatever either family's operations attempt,
  a stored snapshot keeps its record but for its lifecycle, and every artifact, row, quarantine and
  disappearance stored for it stays, unchanged and with nothing added.\<close>

theorem platform_evidence_is_immutable:
  assumes "platform_inv db" and "find_snapshot db i = Some s"
  shows "(\<exists>s'. find_snapshot (run_all (platform_step env) db events) i = Some s' \<and>
        evidence_of s' = evidence_of s) \<and>
      evidence_rows i (transparency_artifacts (run_all (platform_step env) db events)) =
        evidence_rows i (transparency_artifacts db) \<and>
      evidence_rows i (transparency_rows (run_all (platform_step env) db events)) =
        evidence_rows i (transparency_rows db) \<and>
      evidence_rows i (transparency_quarantines (run_all (platform_step env) db events)) =
        evidence_rows i (transparency_quarantines db) \<and>
      evidence_rows i (transparency_disappearances (run_all (platform_step env) db events)) =
        evidence_rows i (transparency_disappearances db)"
proof -
  have ev: "platform_evolves db (run_all (platform_step env) db events)"
    using assms(1) by (rule platform.run_below)
  have "i \<in> set (snapshot_ids db)"
    using assms(2) find_snapshot_None_iff [of db i] by auto
  with ev evolves_find [OF _ assms(2)] show ?thesis by (auto simp: platform_evolves_def)
qed

lemma platform_evidence_is_immutable_witness:
  "evidence_rows ''t'' (transparency_artifacts
     (run_all (platform_step no_env) sample_platform sample_platform_run)) = [sample_artifact]"
proof -
  have f: "find_snapshot sample_platform ''t'' = Some sample_transparency_candidate"
    by (simp add: sample_platform_def find_snapshot_def tbl_find_def sample_transparency_candidate_def
        sample_candidate_def)
  have "evidence_rows ''t'' (transparency_artifacts sample_platform) = [sample_artifact]"
    by (simp add: sample_platform_def evidence_rows_def)
  with platform_evidence_is_immutable [OF sample_platform_inv f] show ?thesis by simp
qed

section \<open>Staging\<close>

text \<open>C11: staging is a round trip. A new package is stored as a candidate of the family that carries
  the inspection's report, no pointer moves and no earlier snapshot changes; reading the candidate
  back gives the inspection itself, its evidence in the order of the keys; and staging the same
  package again changes nothing.\<close>

theorem transparency_staging_round_trip:
  assumes "platform_inv db"
    and "stage_transparencyapi_snapshot env db path = Inr (db', insp)"
    and "find_snapshot db (ti_snapshot_id insp) = None"
  shows "\<exists>s. find_snapshot db' (ti_snapshot_id insp) = Some s \<and> lifecycle_state s = Candidate \<and>
      source_snapshot_pointers db' = source_snapshot_pointers db \<and>
      (\<forall>j. j \<noteq> ti_snapshot_id insp \<longrightarrow> find_snapshot db' j = find_snapshot db j) \<and>
      stored_transparencyapi_inspection db' s =
        insp\<lparr>ti_artifacts := sort_key ta_artifact_id (ti_artifacts insp),
             ti_rows := sort_key tr_key (ti_rows insp),
             ti_quarantines := sort_key tq_quarantine_id (ti_quarantines insp),
             ti_disappearances := sort_key td_key (ti_disappearances insp)\<rparr> \<and>
      stage_transparencyapi_snapshot env db' path = Inr (db', stored_transparencyapi_inspection db' s)"
  using assms(2)
proof (cases rule: stage_transparency_cases)
  case (stored insp0 s)
  then have "find_snapshot db (ti_snapshot_id insp) = Some s"
    using find_snapshot_SomeD [OF stored(2)] by (simp add: stored_transparencyapi_inspection_def)
  with assms(3) show ?thesis by simp
next
  case (fresh s)
  have inv: "store_inv db" using assms(1) by (simp add: platform_inv_def)
  have nin: "ti_snapshot_id insp \<notin> set (snapshot_ids db)"
    using assms(3) by (simp add: find_snapshot_None_iff)
  note st = stage_transparency_fresh [OF inv fresh(2,3) refl fresh(4,5)]
  note f = transparency_candidate_fields [OF fresh(3)]
  have find: "find_snapshot db' j = (if j = ti_snapshot_id insp then Some s else find_snapshot db j)" for j
    using st(3) by (simp add: fresh(7))
  have ids: "fst ` set (transparency_artifacts db) \<subseteq> set (snapshot_ids db)"
    "fst ` set (transparency_rows db) \<subseteq> set (snapshot_ids db)"
    "fst ` set (transparency_quarantines db) \<subseteq> set (snapshot_ids db)"
    "fst ` set (transparency_disappearances db) \<subseteq> set (snapshot_ids db)"
    using assms(1) unfolding platform_inv_def by auto
  then have own: "evidence_rows (ti_snapshot_id insp) (transparency_artifacts db') = ti_artifacts insp"
    "evidence_rows (ti_snapshot_id insp) (transparency_rows db') = ti_rows insp"
    "evidence_rows (ti_snapshot_id insp) (transparency_quarantines db') = ti_quarantines insp"
    "evidence_rows (ti_snapshot_id insp) (transparency_disappearances db') = ti_disappearances insp"
    using nin by (auto simp: fresh(7) intro!: evidence_rows_own)
  have same: "manifest_ref s = ti_manifest_ref insp" "manifest_sha256 s = ti_manifest_sha256 insp"
    "raw_payload_sha256 s = ti_raw_response_set_sha256 insp"
    "normalized_content_sha256 s = ti_normalized_content_sha256 insp"
    "schema_fingerprint s = ti_schema_fingerprint insp"
    "domain_fingerprint s = ti_taxonomy_fingerprint insp" "recorded_at s = ti_recorded_at insp"
    using fresh(3) by (auto simp: transparency_candidate_def ebind_eq_Inr Let_def)
  have ptr: "source_snapshot_pointers db' = source_snapshot_pointers db" by (simp add: fresh(7))
  have act: "active_snapshot_record db' SOURCE_FAMILY_ID = active_snapshot_record db SOURCE_FAMILY_ID"
  proof (cases "find_pointer db SOURCE_FAMILY_ID")
    case (Some p)
    obtain t where "find_snapshot db (active_snapshot_id p) = Some t"
      using inv Some by (rule pointer_points_to_accepted)
    with Some assms(3) show ?thesis
      by (auto simp: active_snapshot_record_def find_pointer_def ptr find)
  qed (simp add: active_snapshot_record_def find_pointer_def ptr)
  have prior: "transparency_prior db' = transparency_prior db"
    by (simp add: transparency_prior_def act)
  have "transparency_prior_rows db' = transparency_prior_rows db"
  proof (cases "transparency_prior db")
    case (Some i)
    then have "i \<in> set (snapshot_ids db)"
      using find_snapshot_None_iff [of db i]
      by (auto simp: transparency_prior_def active_snapshot_record_def find_snapshot_SomeD
          split: option.splits)
    with nin have "i \<noteq> ti_snapshot_id insp" by auto
    then show ?thesis
      unfolding transparency_prior_rows_def prior Some by (simp add: fresh(7) evidence_rows_other)
  qed (simp add: transparency_prior_rows_def prior)
  with fresh(1) prior have "stage_transparencyapi_snapshot env db' path =
      Inr (db', stored_transparencyapi_inspection db' s)"
    by (simp add: stage_transparencyapi_snapshot_def find f same)
  with find f(3) ptr show ?thesis
    by (auto simp: stored_transparencyapi_inspection_def f same own)
qed

text \<open>An empty package: it is rejected for every reason an empty family has, and it is staged.\<close>

definition empty_package_env :: pyenv where
  "empty_package_env = \<lparr>json_loads = (\<lambda>_. Some (PDict [(''snapshot_id'', PStr ''x'')])),
     sha256_hex = (\<lambda>_. ''d''), float_repr = (\<lambda>_. []), read_bytes = (\<lambda>_. Some ''M''), resolve_path = id,
     iso_datetime_year = (\<lambda>_. None)\<rparr>"

lemma empty_scan: "parsed_rows empty_package_scan = []" "package_rows env prior empty_package_scan = []"
  "ps_artifacts empty_package_scan = []"
  by (simp_all add: parsed_rows_def package_rows_def empty_package_scan_def)

lemma candidate_of_report:
  assumes "ti_validation_report insp = transparency_report env scan rows qs ds ws rs"
  shows "\<exists>s. transparency_candidate insp = Inr s \<and> snapshot_checks s \<and>
    fixture_identity s = (SOURCE_FAMILY_ID, ti_manifest_sha256 insp, ti_raw_response_set_sha256 insp)"
  unfolding transparency_candidate_def assms
  by (simp add: transparency_report_def report_int_def report_len_def py_index_def Let_def
      snapshot_checks_def fixture_identity_def SNAPSHOT_SCOPE_def OBSERVATION_KIND_def)

lemma empty_package_inspected:
  obtains insp where "inspect_transparencyapi_package empty_package_env [''m''] prior pid = Inr insp"
    "ti_snapshot_id insp = ''x''" "ti_artifacts insp = []" "ti_rows insp = []" "ti_quarantines insp = []"
    "ti_disappearances insp = transparency_disappearances_of [] prior pid" "ti_manifest_sha256 insp = ''d''"
    "\<exists>s. transparency_candidate insp = Inr s \<and> snapshot_checks s \<and>
       fixture_identity s = (SOURCE_FAMILY_ID, ''d'', ti_raw_response_set_sha256 insp)"
proof -
  have read: "read_file empty_package_env [''m''] = Inr ''M''"
    "transparency_json_object empty_package_env l ''M'' = Inr [(''snapshot_id'', PStr ''x'')]"
    "sha256_bytes empty_package_env b = ''d''" for l b
    by (simp_all add: read_file_def transparency_json_object_def json_loads_sig_def decode_utf8_sig_def
        empty_package_env_def sha256_bytes_def)
  have "text_or_empty empty_package_env (PStr ''x'') = ''x''" by (simp add: text_or_empty_def py_str_def)
  with read obtain insp w r where insp:
    "inspect_transparencyapi_package empty_package_env [''m''] prior pid = Inr insp"
    "ti_snapshot_id insp = ''x''" "ti_artifacts insp = []" "ti_rows insp = []" "ti_quarantines insp = []"
    "ti_disappearances insp = transparency_disappearances_of [] prior pid" "ti_manifest_sha256 insp = ''d''"
    "ti_validation_report insp = transparency_report empty_package_env empty_package_scan [] []
       (transparency_disappearances_of [] prior pid) w r"
    by (simp add: inspect_transparencyapi_package_def empty_scan Let_def)
  with candidate_of_report [OF insp(8)] show ?thesis by (intro that) simp_all
qed

lemma transparency_staging_round_trip_witness:
  "\<exists>db' s. find_snapshot db' ''x'' = Some s \<and> lifecycle_state s = Candidate \<and>
     source_snapshot_pointers (db' :: transparency_db) = [] \<and>
     stage_transparencyapi_snapshot empty_package_env db' [''m''] =
       Inr (db', stored_transparencyapi_inspection db' s)"
proof -
  have act: "map_option snapshot_id (active_snapshot_record sample_platform SOURCE_FAMILY_ID) = None"
    and new: "map_option snapshot_id (find_snapshot sample_platform ''x'') = None" by code_simp+
  have none: "transparency_prior sample_platform = None" using act by (simp add: transparency_prior_def)
  obtain insp s where insp: "inspect_transparencyapi_package empty_package_env [''m''] [] None = Inr insp"
    "ti_snapshot_id insp = ''x''" "ti_artifacts insp = []" "ti_rows insp = []" "ti_quarantines insp = []"
    "ti_disappearances insp = []" and s: "transparency_candidate insp = Inr s" "snapshot_checks s"
    "manifest_sha256 s = ''d''"
    by (rule empty_package_inspected [of "[]" None])
       (auto simp: transparency_disappearances_of_def fixture_identity_def)
  have "fixture_identity s \<notin> fixture_identity ` set (source_snapshots sample_platform)"
    using s(3) by (simp add: fixture_identity_def sample_platform_def sample_transparency_candidate_def sample_candidate_def)
  moreover have "snapshot_id s \<notin> set (snapshot_ids sample_platform)"
    using new transparency_candidate_fields(1) [OF s(1)] by (simp add: insp(2) find_snapshot_None_iff)
  ultimately have "\<exists>db'. insert_transparency_candidate sample_platform insp = Inr db'"
    using s insp by (simp add: insert_transparency_candidate_def insert_snapshot_def insert_evidence_def Let_def)
  then obtain db' where run: "stage_transparencyapi_snapshot empty_package_env sample_platform [''m''] = Inr (db', insp)"
    using insp new by (auto simp: stage_transparencyapi_snapshot_def none transparency_prior_rows_def)
  have "find_snapshot sample_platform (ti_snapshot_id insp) = None" using new insp(2) by simp
  from transparency_staging_round_trip [OF sample_platform_inv run this]
  obtain t where t: "find_snapshot db' ''x'' = Some t" "lifecycle_state t = Candidate"
    "source_snapshot_pointers db' = source_snapshot_pointers sample_platform"
    "stage_transparencyapi_snapshot empty_package_env db' [''m''] =
       Inr (db', stored_transparencyapi_inspection db' t)" unfolding insp(2) by blast
  have "source_snapshot_pointers sample_platform = []"
    by (simp add: sample_platform_def empty_transparency_db_def snapshot_db.defs empty_db_def)
  with t show ?thesis by (intro exI conjI) simp_all
qed

section \<open>Rows that cannot be trusted\<close>

lemma mset_map_filter: "mset xs = mset ys \<Longrightarrow> mset (List.map_filter f xs) = mset (List.map_filter f ys)"
  by (simp add: List.map_filter_def)

lemma count_map_filter:
  "count_list (List.map_filter f xs) n = length (filter (\<lambda>x. f x = Some n) xs)"
  by (induction xs) (auto simp: List.map_filter_def)

lemma set_map_filter: "set (List.map_filter f xs) = {y. \<exists>x \<in> set xs. f x = Some y}"
  by (force simp: List.map_filter_def)

lemma length_filter_mono: "(\<And>x. P x \<Longrightarrow> Q x) \<Longrightarrow> length (filter P xs) \<le> length (filter Q xs)"
  by (induction xs) auto

lemma trusted_resolved:
  "trusted_number (resolved_row env counts prior row) = Some n \<longleftrightarrow>
     row_facility_number row = Some n \<and> n \<noteq> [] \<and> row_categories counts row = []"
  by (auto simp: trusted_number_def resolved_row_def Let_def split: option.splits)

lemma trusted_numbers_distinct:
  "distinct (List.map_filter trusted_number (package_rows env prior scan))"
proof -
  let ?resolve = "resolved_row env (facility_counts (parsed_rows scan)) prior"
  let ?trusted = "List.map_filter trusted_number (map ?resolve (parsed_rows scan))"
  have "\<not> count_list ?trusted n > 1" for n
  proof
    assume many: "count_list ?trusted n > 1"
    then obtain row where row: "row \<in> set (parsed_rows scan)" "trusted_number (?resolve row) = Some n"
      by (auto simp: count_map_filter filter_map comp_def length_greater_0_conv filter_empty_conv
          dest!: Suc_lessD)
    then have one: "\<not> count_list (List.map_filter row_facility_number (parsed_rows scan)) n > 1"
      by (auto simp: trusted_resolved row_categories_def facility_counts_def split: if_splits)
    have "count_list ?trusted n \<le> count_list (List.map_filter row_facility_number (parsed_rows scan)) n"
      unfolding count_map_filter filter_map length_map comp_def trusted_resolved
      by (rule length_filter_mono) simp
    with one many show False by simp
  qed
  then have "distinct ?trusted" by (simp add: distinct_count [symmetric])
  moreover have "mset (List.map_filter trusted_number (package_rows env prior scan)) = mset ?trusted"
    by (rule mset_map_filter) (simp add: package_rows_def)
  ultimately show ?thesis using mset_eq_imp_distinct_iff by blast
qed

lemma set_disappearances:
  "td_facility_number ` set (transparency_disappearances_of rows prior (Some pid)) =
     (if pid = [] then {} else {n. Some n \<in> trusted_number ` set prior \<and> Some n \<notin> trusted_number ` set rows})"
  by (force simp: transparency_disappearances_of_def set_map_filter split: option.splits if_splits)

lemma quarantine_keys:
  "(\<lambda>q. (tq_export_id q, tq_row_ordinal q, tq_raw_row_sha256 q)) ` set (row_quarantines env i counts row) =
     (if row_categories counts row = [] then {} else {(row_export_id row, row_ordinal row, row_raw_sha256 row)})"
  by (cases "row_categories counts row") (auto simp: row_quarantines_def Let_def image_image)

lemma disappearance_checks:
  "list_all transparency_disappearance_checks (transparency_disappearances_of rows prior pid)"
  by (auto simp: transparency_disappearances_of_def list_all_iff set_map_filter
      transparency_disappearance_checks_def split: option.splits if_splits)

text \<open>C12: an inspection accounts for every row it does not trust. The facility numbers of the rows that
  are not quarantined are pairwise different; every quarantined row has a quarantine record with its
  export, ordinal and digest, and every quarantine record belongs to a quarantined row; and the
  disappearances are exactly the trusted facility numbers of the active snapshot that no trusted row
  of the package carries, all of them left to reconciliation with no closure inferred.\<close>

theorem untrusted_rows_are_accounted_for:
  assumes "inspect_transparencyapi_package env path prior (Some pid) = Inr insp" and "pid \<noteq> []"
  shows "distinct (List.map_filter trusted_number (ti_rows insp)) \<and>
      (\<lambda>r. (tr_export_id r, tr_row_ordinal r, tr_raw_row_sha256 r)) ` {r \<in> set (ti_rows insp). tr_is_quarantined r} =
      (\<lambda>q. (tq_export_id q, tq_row_ordinal q, tq_raw_row_sha256 q)) ` set (ti_quarantines insp) \<and>
      td_facility_number ` set (ti_disappearances insp) =
        {n. Some n \<in> trusted_number ` set prior \<and> Some n \<notin> trusted_number ` set (ti_rows insp)} \<and>
      list_all transparency_disappearance_checks (ti_disappearances insp)"
proof -
  from assms(1) obtain scan where scan: "ti_rows insp = package_rows env prior scan"
    "ti_quarantines insp = concat (map (row_quarantines env (ti_snapshot_id insp)
       (facility_counts (parsed_rows scan))) (parsed_rows scan))"
    "ti_disappearances insp = transparency_disappearances_of (ti_rows insp) prior (Some pid)"
    by (auto simp: inspect_transparencyapi_package_def ebind_eq_Inr Let_def)
  let ?counts = "facility_counts (parsed_rows scan)"
  have "{r \<in> set (ti_rows insp). tr_is_quarantined r} =
      resolved_row env ?counts prior ` {row \<in> set (parsed_rows scan). row_categories ?counts row \<noteq> []}"
    by (auto simp: scan(1) package_rows_def resolved_row_def Let_def)
  then have "(\<lambda>r. (tr_export_id r, tr_row_ordinal r, tr_raw_row_sha256 r)) ` {r \<in> set (ti_rows insp). tr_is_quarantined r} =
      (\<lambda>row. (row_export_id row, row_ordinal row, row_raw_sha256 row)) `
        {row \<in> set (parsed_rows scan). row_categories ?counts row \<noteq> []}"
    by (simp add: image_image resolved_row_def Let_def)
  also have "\<dots> = (\<lambda>q. (tq_export_id q, tq_row_ordinal q, tq_raw_row_sha256 q)) ` set (ti_quarantines insp)"
    unfolding scan(2) set_concat set_map image_UN image_image quarantine_keys by auto
  finally show ?thesis
    using assms(2) trusted_numbers_distinct [of env prior scan]
    by (simp add: scan(1,3) set_disappearances disappearance_checks)
qed

definition sample_prior_row :: transparency_row where
  "sample_prior_row = \<lparr>tr_export_id = ''HomeCare'', tr_row_ordinal = 1, tr_facility_number = Some ''7'',
     tr_raw_row_sha256 = ''d'', tr_raw_values = [], tr_raw_record = [], tr_normalized_record = [],
     tr_resolved_current_reference = [], tr_autocomplete_search_text = [], tr_complaint_blocks = PList [],
     tr_row_fingerprint = ''f'', tr_is_quarantined = False\<rparr>"

lemma untrusted_rows_are_accounted_for_witness:
  "\<exists>insp. inspect_transparencyapi_package empty_package_env [''m''] [sample_prior_row] (Some ''t'') = Inr insp \<and>
     td_facility_number ` set (ti_disappearances insp) = {''7''}"
proof -
  obtain insp where insp: "inspect_transparencyapi_package empty_package_env [''m''] [sample_prior_row]
      (Some ''t'') = Inr insp" "ti_rows insp = []"
    by (rule empty_package_inspected)
  from untrusted_rows_are_accounted_for [OF insp(1)] insp(2)
  have "td_facility_number ` set (ti_disappearances insp) = {n. Some n = trusted_number sample_prior_row}"
    by auto
  also have "\<dots> = {''7''}" by (auto simp: trusted_number_def sample_prior_row_def)
  finally show ?thesis using insp(1) by blast
qed

end
