(* ===== verification/Py_Date.thy ===== *)
theory Py_Date imports Py_Text
begin

text \<open>
  The dates of Python's \<open>datetime\<close> module as far as the program uses them: the constructor with its
  range checks, the order, ordinals and differences in days, moving by days, \<open>isoformat\<close> and
  \<open>fromisoformat\<close>. A year lies between 1 and 9999.
\<close>

section \<open>Dates\<close>

datatype date = Date (d_year: int) (d_month: int) (d_day: int)

instantiation date :: linorder
begin

definition less_eq_date :: "date \<Rightarrow> date \<Rightarrow> bool" where
  "d \<le> e \<longleftrightarrow> d_year d < d_year e \<or> (d_year d = d_year e \<and>
     (d_month d < d_month e \<or> (d_month d = d_month e \<and> d_day d \<le> d_day e)))"

definition less_date :: "date \<Rightarrow> date \<Rightarrow> bool" where
  "d < e \<longleftrightarrow> d_year d < d_year e \<or> (d_year d = d_year e \<and>
     (d_month d < d_month e \<or> (d_month d = d_month e \<and> d_day d < d_day e)))"

instance
  by standard (auto simp: less_eq_date_def less_date_def intro: date.expand)

end

definition is_leap :: "int \<Rightarrow> bool" where
  "is_leap y \<longleftrightarrow> y mod 4 = 0 \<and> (y mod 100 \<noteq> 0 \<or> y mod 400 = 0)"

definition days_in_month :: "int \<Rightarrow> int \<Rightarrow> int" where
  "days_in_month y m =
     (if m = 2 then (if is_leap y then 29 else 28) else if m \<in> {4, 6, 9, 11} then 30 else 31)"

fun valid_date :: "date \<Rightarrow> bool" where
  "valid_date (Date y m d) \<longleftrightarrow>
     1 \<le> y \<and> y \<le> 9999 \<and> 1 \<le> m \<and> m \<le> 12 \<and> 1 \<le> d \<and> d \<le> days_in_month y m"

text \<open>\<open>date(y, m, d)\<close>.\<close>

definition mk_date :: "int \<Rightarrow> int \<Rightarrow> int \<Rightarrow> date result" where
  "mk_date y m d =
     ebind (guard (1 \<le> y \<and> y \<le> 9999) (ValueError ''year is out of range'')) (\<lambda>_.
     ebind (guard (1 \<le> m \<and> m \<le> 12) (ValueError ''month must be in 1..12'')) (\<lambda>_.
     ebind (guard (1 \<le> d \<and> d \<le> days_in_month y m) (ValueError ''day is out of range for month'')) (\<lambda>_.
     Inr (Date y m d))))"

section \<open>Ordinals\<close>

definition days_before_year :: "int \<Rightarrow> int" where
  "days_before_year y = (let p = y - 1 in p * 365 + p div 4 - p div 100 + p div 400)"

definition days_before_month :: "int \<Rightarrow> int \<Rightarrow> int" where
  "days_before_month y m = sum_list (map (\<lambda>k. days_in_month y k) [1..m - 1])"

fun toordinal :: "date \<Rightarrow> int" where
  "toordinal (Date y m d) = days_before_year y + days_before_month y m + d"

text \<open>\<open>(end - start).days\<close>.\<close>

definition days_between :: "date \<Rightarrow> date \<Rightarrow> int" where
  "days_between start end' = toordinal end' - toordinal start"

section \<open>Moving by days\<close>

fun next_day :: "date \<Rightarrow> date option" where
  "next_day (Date y m d) =
     (if d < days_in_month y m then Some (Date y m (d + 1))
      else if m < 12 then Some (Date y (m + 1) 1)
      else if y < 9999 then Some (Date (y + 1) 1 1) else None)"

fun prev_day :: "date \<Rightarrow> date option" where
  "prev_day (Date y m d) =
     (if 1 < d then Some (Date y m (d - 1))
      else if 1 < m then Some (Date y (m - 1) (days_in_month y (m - 1)))
      else if 1 < y then Some (Date (y - 1) 12 31) else None)"

fun iterate_days :: "nat \<Rightarrow> (date \<Rightarrow> date option) \<Rightarrow> date \<Rightarrow> date option" where
  "iterate_days 0 f d = Some d"
| "iterate_days (Suc n) f d = Option.bind (f d) (iterate_days n f)"

text \<open>\<open>d + timedelta(days=n)\<close>.\<close>

definition shift_days :: "date \<Rightarrow> int \<Rightarrow> date option" where
  "shift_days d n = (if 0 \<le> n then iterate_days (nat n) next_day d else iterate_days (nat (- n)) prev_day d)"

definition plus_days :: "date \<Rightarrow> int \<Rightarrow> date result" where
  "plus_days d n = (case shift_days d n of
     None \<Rightarrow> Inl (OverflowError ''date value out of range'') | Some e \<Rightarrow> Inr e)"

section \<open>ISO texts\<close>

definition isoformat :: "date \<Rightarrow> string" where
  "isoformat d = show_padded 4 (nat (d_year d)) @ ''-'' @ show_padded 2 (nat (d_month d)) @ ''-''
     @ show_padded 2 (nat (d_day d))"

definition parse_digits :: "nat \<Rightarrow> string \<Rightarrow> (nat \<times> string) option" where
  "parse_digits n s =
     (if length (take n s) = n \<and> list_all is_digit (take n s)
      then Some (digits_value (take n s), drop n s) else None)"

definition take_char :: "char \<Rightarrow> string \<Rightarrow> string option" where
  "take_char c s = (case s of [] \<Rightarrow> None | x # xs \<Rightarrow> if x = c then Some xs else None)"

text \<open>The day of an ISO year, week and weekday; week 53 exists in long years only.\<close>

definition iso_week_date :: "nat \<Rightarrow> nat \<Rightarrow> nat \<Rightarrow> date option" where
  "iso_week_date y w d =
     (let first = toordinal (Date (int y) 1 1);
          long = first mod 7 = 4 \<or> (first mod 7 = 3 \<and> is_leap (int y));
          weekday = (first + 6) mod 7;
          monday = (if weekday > 3 then 7 - weekday else - weekday)
      in if y < 1 \<or> w < 1 \<or> w > 53 \<or> (w = 53 \<and> \<not> long) \<or> d < 1 \<or> d > 7 then None
         else shift_days (Date (int y) 1 1) (monday + (int w - 1) * 7 + int d - 1))"

definition mk_date_option :: "nat \<Rightarrow> nat \<Rightarrow> nat \<Rightarrow> date option" where
  "mk_date_option y m d =
     (if valid_date (Date (int y) (int m) (int d)) then Some (Date (int y) (int m) (int d)) else None)"

text \<open>\<open>date.fromisoformat\<close>, with None for its \<open>ValueError\<close>: a calendar date or an ISO week date, with
  or without separators. As in CPython, only the length bounds what follows the day.\<close>

definition date_fromisoformat :: "string \<Rightarrow> date option" where
  "date_fromisoformat s =
     (if length s \<notin> {7, 8, 10} then None
      else Option.bind (parse_digits 4 s) (\<lambda>(y, r).
        let sep = (\<lambda>t. case take_char (CHR ''-'') r of None \<Rightarrow> Some t | Some _ \<Rightarrow> take_char (CHR ''-'') t);
            r1 = (case take_char (CHR ''-'') r of None \<Rightarrow> r | Some t \<Rightarrow> t)
        in case take_char (CHR ''W'') r1 of
             Some r2 \<Rightarrow>
               Option.bind (parse_digits 2 r2) (\<lambda>(w, r3).
                 if r3 = [] then iso_week_date y w 1
                 else Option.bind (sep r3) (\<lambda>r4.
                      Option.bind (parse_digits 1 r4) (\<lambda>(d, _). iso_week_date y w d)))
           | None \<Rightarrow>
               Option.bind (parse_digits 2 r1) (\<lambda>(m, r3).
               Option.bind (sep r3) (\<lambda>r4.
               Option.bind (parse_digits 2 r4) (\<lambda>(d, _). mk_date_option y m d)))))"

section \<open>Lemmas\<close>

lemma mk_date_Inr [simp]: "mk_date y m d = Inr e \<longleftrightarrow> valid_date (Date y m d) \<and> e = Date y m d"
  by (auto simp: mk_date_def ebind_eq_Inr)

lemma days_in_month_bounds: "28 \<le> days_in_month y m" "days_in_month y m \<le> 31"
  by (simp_all add: days_in_month_def)

lemma next_day_valid: "valid_date d \<Longrightarrow> next_day d = Some e \<Longrightarrow> valid_date e"
  using days_in_month_bounds(1) [of "d_year d + 1" 1]
  by (cases d) (auto simp: days_in_month_def split: if_splits)

lemma prev_day_valid: "valid_date d \<Longrightarrow> prev_day d = Some e \<Longrightarrow> valid_date e"
  by (cases d) (auto simp: days_in_month_def split: if_splits)

lemma prev_next: "valid_date d \<Longrightarrow> next_day d = Some e \<Longrightarrow> prev_day e = Some d"
  by (cases d) (auto simp: days_in_month_def split: if_splits)

lemma next_prev: "valid_date d \<Longrightarrow> prev_day d = Some e \<Longrightarrow> next_day e = Some d"
  by (cases d) (auto simp: days_in_month_def split: if_splits)

lemma next_day_gap: "valid_date d \<Longrightarrow> valid_date x \<Longrightarrow> next_day d = Some e \<Longrightarrow> x < e \<longleftrightarrow> x \<le> d"
  by (cases d; cases x) (auto simp: less_eq_date_def less_date_def split: if_splits)

section \<open>Ordinals follow the calendar\<close>

lemma days_before_month_step: "1 \<le> m \<Longrightarrow> days_before_month y (m + 1) = days_before_month y m + days_in_month y m"
  by (simp add: days_before_month_def upto_rec2)

lemma days_before_month_12: "days_before_month y 12 = 334 + (if is_leap y then 1 else 0)"
  by (simp add: days_before_month_def upto.simps days_in_month_def)

lemma days_before_month_1 [simp]: "days_before_month y 1 = 0"
  by (simp add: days_before_month_def)

lemma div_step:
  fixes p n :: int
  assumes "0 < n"
  shows "(p + 1) div n = p div n + (if (p + 1) mod n = 0 then 1 else 0)"
proof -
  have r: "0 \<le> p mod n" "p mod n < n" using assms by simp_all
  show ?thesis
  proof (cases "p mod n + 1 = n")
    case True
    then have "p + 1 = n * (p div n + 1) + 0"
      using mult_div_mod_eq [of n p] unfolding distrib_left by linarith
    with assms show ?thesis by (simp add: int_div_pos_eq int_mod_pos_eq)
  next
    case False
    then have s: "p + 1 = n * (p div n) + (p mod n + 1)" "0 \<le> p mod n + 1" "p mod n + 1 < n" using r by simp_all
    from int_div_pos_eq [OF s] int_mod_pos_eq [OF s] r show ?thesis by simp
  qed
qed

lemma leap_sum:
  fixes a b c q4 q100 q400 :: int
  assumes "q4 = a + (if l4 then 1 else 0)" and "q100 = b + (if l100 then 1 else 0)"
    and "q400 = c + (if l400 then 1 else 0)" and "l100 \<Longrightarrow> l4" and "l400 \<Longrightarrow> l100"
  shows "q4 - q100 + q400 = a - b + c + (if l4 \<and> (\<not> l100 \<or> l400) then 1 else 0)"
  using assms by (cases l4; cases l100; cases l400) simp_all

lemma year_sum:
  fixes a b c q4 q100 q400 l y :: int
  shows "q4 - q100 + q400 = a - b + c + l \<Longrightarrow>
    y * 365 + q4 - q100 + q400 = (y - 1) * 365 + a - b + c + 365 + l"
  by (simp add: algebra_simps)

lemma days_before_year_step: "days_before_year (y + 1) = days_before_year y + 365 + (if is_leap y then 1 else 0)"
proof -
  have "y div 4 - y div 100 + y div 400 =
      (y - 1) div 4 - (y - 1) div 100 + (y - 1) div 400 + (if is_leap y then 1 else 0)"
    unfolding is_leap_def
  proof (rule leap_sum)
    show "y mod 100 = 0 \<Longrightarrow> y mod 4 = 0" "y mod 400 = 0 \<Longrightarrow> y mod 100 = 0"
      unfolding mod_eq_0_iff_dvd by (erule dvd_trans [rotated], simp)+
  qed (use div_step [of _ "y - 1"] in \<open>simp_all only: diff_add_cancel zero_less_numeral\<close>)
  then show ?thesis unfolding days_before_year_def Let_def add_diff_cancel_right' by (rule year_sum)
qed

lemma toordinal_next:
  assumes "valid_date d" and "next_day d = Some e"
  shows "toordinal e = toordinal d + 1"
proof (cases d)
  case (Date y m k)
  show ?thesis
  proof (cases "k < days_in_month y m")
    case True
    then show ?thesis using assms Date by auto
  next
    case last: False
    then have k: "k = days_in_month y m" using assms(1) Date by simp
    show ?thesis
    proof (cases "m < 12")
      case True
      with last k assms Date days_before_month_step [of m y] show ?thesis by auto
    next
      case False
      then have "m = 12" using assms(1) Date by simp
      with last k assms Date show ?thesis
        by (auto simp: days_before_month_12 days_before_year_step days_in_month_def split: if_splits)
    qed
  qed
qed

section \<open>The ISO text reads back\<close>

lemma show_nat_length: "0 < w \<Longrightarrow> n < 10 ^ w \<Longrightarrow> length (show_nat n) \<le> w"
proof (induction n arbitrary: w rule: show_nat.induct)
  case (1 n)
  show ?case
  proof (cases "n < 10")
    case False
    obtain v where w: "w = Suc v" using 1(2) by (cases w) auto
    with False 1(3) have "0 < v" by (cases v) simp_all
    note w = w this
    then have "n div 10 < 10 ^ v" using 1(3) by (simp add: less_mult_imp_div_less mult.commute)
    with 1(1) [OF False, of v] w(2) have "length (show_nat (n div 10)) \<le> v" by simp
    with False w show ?thesis by (simp add: show_nat.simps [of n])
  qed (use 1(2) in \<open>simp add: show_nat.simps [of n]\<close>)
qed

lemma digits_value_zeros: "digits_value (replicate k (CHR ''0'') @ s) = digits_value s"
  by (induction k) (simp_all add: digits_value_def char_digit_def)

lemma show_padded_props:
  assumes "0 < w" and "n < 10 ^ w"
  shows "length (show_padded w n) = w" "list_all is_digit (show_padded w n)" "digits_value (show_padded w n) = n"
  using show_nat_length [OF assms] show_nat_digits [of n]
  by (auto simp: show_padded_def Let_def digits_value_zeros list_all_iff is_digit_def)

lemma parse_padded:
  "0 < w \<Longrightarrow> n < 10 ^ w \<Longrightarrow> parse_digits w (show_padded w n @ rest) = Some (n, rest)"
  by (simp add: parse_digits_def show_padded_props)

lemma take_char_padded:
  assumes "0 < w" and "n < 10 ^ w" and "\<not> is_digit c"
  shows "take_char c (show_padded w n @ rest) = None"
proof (cases "show_padded w n")
  case Nil
  with show_padded_props(1) [OF assms(1,2)] assms(1) show ?thesis by simp
next
  case (Cons x xs)
  with show_padded_props(2) [OF assms(1,2)] assms(3) show ?thesis by (auto simp: take_char_def)
qed

lemma fromisoformat_isoformat:
  assumes "valid_date d"
  shows "date_fromisoformat (isoformat d) = Some d"
proof (cases d)
  case (Date y m k)
  with assms days_in_month_bounds(2) [of y m]
  have b: "nat y < 10 ^ 4" "nat m < 10 ^ 2" "nat k < 10 ^ 2" "int (nat y) = y" "int (nat m) = m" "int (nat k) = k"
    by auto
  note p = parse_padded [OF _ b(1)] parse_padded [OF _ b(2)] parse_padded [OF _ b(3), of "[]", simplified]
  have [simp]: "take_char c (c # r) = Some r" for c r by (simp add: take_char_def)
  have w: "take_char (CHR ''W'') (show_padded 2 (nat m) @ r) = None" for r
    by (rule take_char_padded [OF _ b(2)]) (simp_all add: is_digit_def)
  have "length (isoformat d) = 10"
    by (simp add: isoformat_def Date show_padded_props(1) [OF _ b(1)] show_padded_props(1) [OF _ b(2)]
        show_padded_props(1) [OF _ b(3)])
  then show ?thesis
    using assms Date days_in_month_bounds(2) [of y m]
    by (auto simp: date_fromisoformat_def isoformat_def p w b mk_date_option_def Let_def)
qed

end
