(* ===== verification/Facility_Trends.thy ===== *)
theory Facility_Trends imports Py_Date "HOL-Library.Product_Lexorder"
begin

text \<open>
  Complaint trends over months or quarters (\<open>hosted_app/facility_trends.py\<close>): the filters, the
  natural periods a request displays, the counts and the coverage state of every period, and the
  rules that mark a period as an anomaly against the one before it.
\<close>

section \<open>Data\<close>

definition COMPLETE_PERIOD :: string where "COMPLETE_PERIOD = ''Complete period''"
definition INCOMPLETE_CURRENT_PERIOD :: string where
  "INCOMPLETE_CURRENT_PERIOD = ''Incomplete current period''"
definition ZERO_QUALIFYING_RECORDS :: string where
  "ZERO_QUALIFYING_RECORDS = ''Zero qualifying records''"
definition COVERAGE_UNAVAILABLE :: string where "COVERAGE_UNAVAILABLE = ''Coverage unavailable''"

definition NO_ANOMALY_CUE :: string where "NO_ANOMALY_CUE = ''No anomaly cue''"
definition INCREASED_ACTIVITY :: string where "INCREASED_ACTIVITY = ''Increased activity''"
definition NEW_ACTIVITY :: string where "NEW_ACTIVITY = ''New activity''"
definition DECREASED_ACTIVITY :: string where "DECREASED_ACTIVITY = ''Decreased activity''"

record trend_complaint =
  tc_stable_complaint_id :: string
  tc_source_record_key :: string
  tc_complaint_control_number :: string
  tc_facility_number :: string
  tc_facility_name :: string
  tc_facility_type :: string
  tc_geography :: string
  tc_complaint_date :: "date option"
  tc_finding :: string
  tc_substantiated :: bool
  tc_serious_topics :: "string list"
  tc_detail_href :: string
  tc_source_available :: bool

text \<open>A filter is one text or a tuple of texts.\<close>

datatype filter_choice = Single string | Several "string list"

record trend_filters =
  tf_start_date :: "date option"
  tf_end_date :: "date option"
  tf_date_dimension :: string
  tf_facility :: string
  tf_facility_type :: filter_choice
  tf_geography :: filter_choice
  tf_finding :: filter_choice
  tf_serious_topic :: filter_choice
  tf_time_grain :: string
  tf_period_count :: int

record trend_period =
  tp_period_start :: date
  tp_period_end :: date
  tp_complaint_count :: nat
  tp_substantiated_count :: nat
  tp_serious_topic_count :: nat
  tp_coverage_state :: string
  tp_comparable :: bool
  tp_anomaly_cue :: string
  tp_preceding_complaint_count :: "nat option"
  tp_complaints :: "trend_complaint list"

record trend_result =
  tr_periods :: "trend_period list"
  tr_date_unavailable_complaints :: "trend_complaint list"
  tr_qualifying_complaint_count :: nat
  tr_dated_qualifying_complaint_count :: nat

section \<open>Filters\<close>

fun clean_values :: "string list \<Rightarrow> string list \<Rightarrow> string list" where
  "clean_values seen [] = []"
| "clean_values seen (item # rest) =
     (let cleaned = py_strip item; key = py_casefold cleaned
      in if cleaned \<noteq> [] \<and> key \<notin> set seen then cleaned # clean_values (key # seen) rest
         else clean_values seen rest)"

definition filter_values :: "filter_choice \<Rightarrow> string list" where
  "filter_values v = clean_values [] (case v of Single s \<Rightarrow> [s] | Several xs \<Rightarrow> xs)"

definition normalized_text :: "string \<Rightarrow> string" where
  "normalized_text s = py_join '' '' (py_split (py_casefold s))"

definition contains_filter :: "string \<Rightarrow> string list \<Rightarrow> bool" where
  "contains_filter f vs = list_ex (\<lambda>v. py_in (normalized_text f) (normalized_text v)) vs"

definition any_contains_filter :: "string list \<Rightarrow> string list \<Rightarrow> bool" where
  "any_contains_filter fs vs = list_ex (\<lambda>f. contains_filter f vs) fs"

definition base_filter_matches :: "trend_filters \<Rightarrow> trend_complaint \<Rightarrow> bool" where
  "base_filter_matches filters c =
     (if tf_facility filters \<noteq> [] \<and> \<not> contains_filter (tf_facility filters)
           [tc_facility_name c, tc_facility_number c, tc_stable_complaint_id c, tc_complaint_control_number c]
      then False
      else if filter_values (tf_facility_type filters) \<noteq> [] \<and>
           \<not> any_contains_filter (filter_values (tf_facility_type filters)) [tc_facility_type c]
      then False
      else filter_values (tf_geography filters) = [] \<or>
           any_contains_filter (filter_values (tf_geography filters)) [tc_geography c])"

definition qualifying_filter_matches :: "trend_filters \<Rightarrow> trend_complaint \<Rightarrow> bool" where
  "qualifying_filter_matches filters c =
     (let findings = filter_values (tf_finding filters); topics = filter_values (tf_serious_topic filters)
      in if findings \<noteq> [] \<and> normalized_text (tc_finding c) \<notin> set (map normalized_text findings) then False
         else topics = [] \<or> any_contains_filter topics (tc_serious_topics c))"

section \<open>Periods\<close>

definition months_of :: "string \<Rightarrow> int" where
  "months_of grain = (if grain = ''quarter'' then 3 else 1)"

definition period_start :: "date \<Rightarrow> string \<Rightarrow> date result" where
  "period_start d grain =
     (if grain = ''quarter'' then mk_date (d_year d) ((d_month d - 1) div 3 * 3 + 1) 1
      else mk_date (d_year d) (d_month d) 1)"

definition shift_period :: "date \<Rightarrow> string \<Rightarrow> int \<Rightarrow> date result" where
  "shift_period start grain steps =
     (let month_delta = steps * months_of grain;
          month_index = d_year start * 12 + d_month start - 1 + month_delta
      in mk_date (month_index div 12) (month_index mod 12 + 1) 1)"

definition period_end :: "date \<Rightarrow> string \<Rightarrow> date result" where
  "period_end start grain = ebind (shift_period start grain 1) (\<lambda>d. plus_days d (- 1))"

text \<open>The \<open>while\<close> loop: the first argument is the number of periods that may still be added.\<close>

fun period_starts :: "nat \<Rightarrow> string \<Rightarrow> date \<Rightarrow> date \<Rightarrow> date list result" where
  "period_starts 0 grain final current = Inr []"
| "period_starts (Suc n) grain final current =
     (if current \<le> final then
        ebind (shift_period current grain 1) (\<lambda>following.
        ebind (period_starts n grain final following) (\<lambda>rest. Inr (current # rest)))
      else Inr [])"

definition periods_for_filters :: "trend_filters \<Rightarrow> date \<Rightarrow> (date \<times> date) list result" where
  "periods_for_filters filters today =
     (let grain = (if tf_time_grain filters = ''quarter'' then ''quarter'' else ''month'');
          period_count = max 1 (min (tf_period_count filters) 24)
      in ebind (case tf_end_date filters of
             Some e \<Rightarrow> period_start e grain
           | None \<Rightarrow> (case tf_start_date filters of
               Some s \<Rightarrow> ebind (period_start s grain) (\<lambda>p. shift_period p grain (period_count - 1))
             | None \<Rightarrow> period_start today grain)) (\<lambda>final_start.
         ebind (case tf_start_date filters of
             Some s \<Rightarrow> period_start s grain
           | None \<Rightarrow> shift_period final_start grain (- (period_count - 1))) (\<lambda>first_start.
         ebind (period_starts (nat period_count) grain final_start first_start) (\<lambda>starts.
         mapM_err (\<lambda>start. ebind (period_end start grain) (\<lambda>e. Inr (start, e))) starts))))"

definition coverage_period_bounds :: "trend_complaint list \<Rightarrow> string \<Rightarrow> (date \<times> date) option result" where
  "coverage_period_bounds complaints grain =
     (case List.map_filter tc_complaint_date complaints of
        [] \<Rightarrow> Inr None
      | d # ds \<Rightarrow>
          ebind (period_start (foldl min d ds) grain) (\<lambda>lo.
          ebind (period_start (foldl max d ds) grain) (\<lambda>hi. Inr (Some (lo, hi)))))"

section \<open>Anomaly cues\<close>

definition anomaly_cue :: "trend_period \<Rightarrow> trend_period \<Rightarrow> string" where
  "anomaly_cue previous current =
     (if tp_comparable current \<and> tp_comparable previous then
        (if tp_complaint_count current \<ge> 3 \<and> tp_complaint_count previous = 0 then NEW_ACTIVITY
         else if tp_complaint_count current \<ge> 3 \<and>
             tp_complaint_count current \<ge> 2 * tp_complaint_count previous then INCREASED_ACTIVITY
         else if tp_complaint_count previous \<ge> 3 \<and>
             tp_complaint_count current * 2 \<le> tp_complaint_count previous then DECREASED_ACTIVITY
         else NO_ANOMALY_CUE)
      else NO_ANOMALY_CUE)"

fun apply_anomaly_from :: "trend_period option \<Rightarrow> trend_period list \<Rightarrow> trend_period list" where
  "apply_anomaly_from previous [] = []"
| "apply_anomaly_from previous (current # rest) =
     current\<lparr>tp_anomaly_cue := (case previous of None \<Rightarrow> NO_ANOMALY_CUE | Some p \<Rightarrow> anomaly_cue p current),
             tp_preceding_complaint_count := map_option tp_complaint_count previous\<rparr>
     # apply_anomaly_from (Some current) rest"

definition apply_anomaly_rules :: "trend_period list \<Rightarrow> trend_period list" where
  "apply_anomaly_rules periods = apply_anomaly_from None periods"

section \<open>The trend\<close>

definition complaint_sort_key :: "trend_complaint \<Rightarrow> string \<times> string" where
  "complaint_sort_key c = (tc_stable_complaint_id c, tc_source_record_key c)"

definition dated_between :: "date \<Rightarrow> date \<Rightarrow> trend_complaint \<Rightarrow> bool" where
  "dated_between lo hi c = (case tc_complaint_date c of None \<Rightarrow> False | Some d \<Rightarrow> lo \<le> d \<and> d \<le> hi)"

definition displayed_start :: "trend_filters \<Rightarrow> date \<Rightarrow> date" where
  "displayed_start filters natural = max natural (case tf_start_date filters of None \<Rightarrow> natural | Some s \<Rightarrow> s)"

definition displayed_end :: "trend_filters \<Rightarrow> date \<Rightarrow> date" where
  "displayed_end filters natural = min natural (case tf_end_date filters of None \<Rightarrow> natural | Some e \<Rightarrow> e)"

definition trend_period_of ::
  "trend_filters \<Rightarrow> date \<Rightarrow> trend_complaint list \<Rightarrow> (date \<times> date) option \<Rightarrow> date \<times> date \<Rightarrow> trend_period" where
  "trend_period_of filters today dated_qualifying coverage natural =
     (let (natural_start, natural_end) = natural;
          shown_start = displayed_start filters natural_start;
          shown_end = displayed_end filters natural_end;
          period_complaints = sort_key complaint_sort_key (filter (dated_between shown_start shown_end) dated_qualifying);
          is_current = (natural_start \<le> today \<and> today \<le> natural_end);
          coverage_available = (case coverage of None \<Rightarrow> False
            | Some (lo, hi) \<Rightarrow> lo \<le> natural_start \<and> natural_start \<le> hi);
          is_full_period = (shown_start = natural_start \<and> shown_end = natural_end)
      in \<lparr>tp_period_start = shown_start, tp_period_end = shown_end,
          tp_complaint_count = length period_complaints,
          tp_substantiated_count = length (filter tc_substantiated period_complaints),
          tp_serious_topic_count = length (filter (\<lambda>c. tc_serious_topics c \<noteq> []) period_complaints),
          tp_coverage_state =
            (if is_current then INCOMPLETE_CURRENT_PERIOD
             else if \<not> coverage_available then COVERAGE_UNAVAILABLE
             else if period_complaints = [] then ZERO_QUALIFYING_RECORDS
             else COMPLETE_PERIOD),
          tp_comparable = (\<not> is_current \<and> natural_end < today \<and> coverage_available \<and> is_full_period),
          tp_anomaly_cue = NO_ANOMALY_CUE, tp_preceding_complaint_count = None,
          tp_complaints = period_complaints\<rparr>)"

definition build_facility_trend :: "trend_complaint list \<Rightarrow> trend_filters \<Rightarrow> date \<Rightarrow> trend_result result" where
  "build_facility_trend complaints filters today =
     (let base_complaints = filter (base_filter_matches filters) complaints;
          qualifying = filter (qualifying_filter_matches filters) base_complaints;
          date_unavailable = sort_key complaint_sort_key (filter (\<lambda>c. tc_complaint_date c = None) qualifying)
      in ebind (periods_for_filters filters today) (\<lambda>natural_periods.
         if natural_periods = [] then Inl (IndexError ''list index out of range'')
         else
           (let range_start = displayed_start filters (fst (hd natural_periods));
                range_end = displayed_end filters (snd (last natural_periods));
                dated_qualifying = filter (dated_between range_start range_end) qualifying
            in ebind (coverage_period_bounds base_complaints (tf_time_grain filters)) (\<lambda>coverage.
               Inr \<lparr>tr_periods = apply_anomaly_rules
                      (map (trend_period_of filters today dated_qualifying coverage) natural_periods),
                    tr_date_unavailable_complaints = date_unavailable,
                    tr_qualifying_complaint_count = length dated_qualifying + length date_unavailable,
                    tr_dated_qualifying_complaint_count = length dated_qualifying\<rparr>))))"

end
