(* ===== verification/Trend_Periods.thy ===== *)
theory Trend_Periods imports Facility_Trends
begin

text \<open>
  The natural periods of a trend by their month index: which periods a request displays, and that
  every date between the first and the last of them lies in exactly one.
\<close>

section \<open>Natural periods\<close>

definition month_index :: "date \<Rightarrow> int" where
  "month_index d = d_year d * 12 + d_month d - 1"

text \<open>The first day of a month or quarter, by its month index.\<close>

definition first_of :: "int \<Rightarrow> date" where
  "first_of i = Date (i div 12) (i mod 12 + 1) 1"

definition period_index :: "string \<Rightarrow> date \<Rightarrow> int" where
  "period_index grain d = (month_index d div months_of grain) * months_of grain"

lemma month_index_first [simp]: "month_index (first_of i) = i"
  by (simp add: month_index_def first_of_def)

lemma valid_first: "valid_date (first_of i) \<longleftrightarrow> 12 \<le> i \<and> i < 120000"
  using days_in_month_bounds(1) [of "i div 12" "i mod 12 + 1"] by (auto simp: first_of_def)

lemma months_pos: "0 < months_of grain"
  by (simp add: months_of_def)

lemma first_of_mono: "first_of i \<le> first_of j \<longleftrightarrow> i \<le> j"
proof -
  have lex: "a < b \<or> a = b \<and> r \<le> s \<longleftrightarrow> a * 12 + r \<le> b * 12 + s"
    if "0 \<le> r" "r < 12" "0 \<le> s" "s < 12" for a b r s :: int using that by linarith
  have "first_of i \<le> first_of j \<longleftrightarrow> i div 12 < j div 12 \<or> i div 12 = j div 12 \<and> i mod 12 \<le> j mod 12"
    by (auto simp: first_of_def less_eq_date_def)
  also have "\<dots> \<longleftrightarrow> i div 12 * 12 + i mod 12 \<le> j div 12 * 12 + j mod 12"
    by (rule lex) simp_all
  finally show ?thesis by (simp only: div_mult_mod_eq)
qed

lemma shift_first: "shift_period (first_of i) grain n =
    (if valid_date (first_of (i + n * months_of grain)) then Inr (first_of (i + n * months_of grain))
     else Inl (ValueError ''year is out of range''))"
  using days_in_month_bounds(1) [of "(i + n * months_of grain) div 12" "(i + n * months_of grain) mod 12 + 1"]
  by (auto simp: shift_period_def first_of_def Let_def mk_date_def add.commute add.left_commute)

lemma period_start_valid:
  assumes "valid_date d"
  shows "period_start d grain = Inr (first_of (period_index grain d))"
proof (cases d)
  case (Date y m k)
  then have b: "1 \<le> y" "y \<le> 9999" "1 \<le> m" "m \<le> 12" using assms by auto
  have m: "(m - 1) div 12 = 0" "(m - 1) mod 12 = m - 1" using b(3,4) by simp_all
  have q: "0 \<le> (m - 1) div 3 * 3" "(m - 1) div 3 * 3 < 12" "(m - 1) div 3 * 3 div 12 = 0" using b(3,4) by auto
  have i: "y * 12 + m - 1 = (m - 1) + y * 12" "y * 12 + m - 1 = (m - 1) + (y * 4) * 3" by simp_all
  have "(m - 1 + y * 12) div 12 = y + (m - 1) div 12" by (rule div_mult_self1) simp
  moreover have "(m - 1 + y * 12) mod 12 = (m - 1) mod 12" by (rule mod_mult_self1)
  ultimately have "month_index d div 12 = y" "month_index d mod 12 = m - 1"
    unfolding month_index_def Date date.sel i(1) m by simp_all
  moreover have j: "month_index d div 3 * 3 = (m - 1) div 3 * 3 + y * 12"
  proof -
    have "(m - 1 + y * 4 * 3) div 3 = y * 4 + (m - 1) div 3" by (rule div_mult_self1) simp
    then show ?thesis unfolding month_index_def Date date.sel i(2) by simp
  qed
  have "month_index d div 3 * 3 div 12 = y" "month_index d div 3 * 3 mod 12 = (m - 1) div 3 * 3"
    unfolding j using q by simp_all
  ultimately have first: "first_of (month_index d) = Date y (m - 1 + 1) 1"
    "first_of (month_index d div 3 * 3) = Date y ((m - 1) div 3 * 3 + 1) 1" by (simp_all only: first_of_def)
  have val: "mk_date y (r + 1) 1 = Inr (Date y (r + 1) 1)" if "0 \<le> r" "r < 12" for r
    using that b days_in_month_bounds(1) [of y "r + 1"] by simp
  show ?thesis
  proof (cases "grain = ''quarter''")
    case True
    with val [OF q(1,2)] first show ?thesis
      by (simp only: period_start_def period_index_def months_of_def Date date.sel refl if_True)
  next
    case False
    with val [of "m - 1"] b first show ?thesis
      by (simp add: period_start_def period_index_def months_of_def Date)
  qed
qed

lemma prev_first:
  assumes "12 < j"
  shows "\<exists>e. prev_day (first_of j) = Some e"
proof -
  have "0 \<le> j mod 12" by simp
  then have "j mod 12 = 0 \<or> 0 < j mod 12" by linarith
  then show ?thesis
  proof
    assume "j mod 12 = 0"
    with assms have "1 < j div 12" using div_mult_mod_eq [of j 12] by linarith
    then show ?thesis by (simp add: first_of_def)
  qed (simp add: first_of_def)
qed

lemma period_end_first:
  assumes "valid_date (first_of i)" and "valid_date (first_of (i + months_of grain))"
  shows "\<exists>e. period_end (first_of i) grain = Inr e \<and> next_day e = Some (first_of (i + months_of grain)) \<and>
    valid_date e \<and> first_of i \<le> e"
proof -
  have "12 < i + months_of grain" using assms(1) months_pos [of grain] by (simp only: valid_first) linarith
  from prev_first [OF this] obtain e where e: "prev_day (first_of (i + months_of grain)) = Some e" by blast
  note props = prev_day_valid [OF assms(2) e] next_prev [OF assms(2) e]
  have "first_of i < first_of (i + months_of grain)"
    using first_of_mono [of "i + months_of grain" i] months_pos [of grain] by simp
  with next_day_gap [OF props(1) assms(1) props(2)] have "first_of i \<le> e" by simp
  with e props assms show ?thesis
    by (simp add: period_end_def shift_first plus_days_def shift_days_def numeral_eq_Suc)
qed

section \<open>The periods of a request\<close>

definition last_of :: "string \<Rightarrow> int \<Rightarrow> date" where
  "last_of grain i = (case prev_day (first_of (i + months_of grain)) of None \<Rightarrow> first_of i | Some e \<Rightarrow> e)"

definition period_of :: "string \<Rightarrow> int \<Rightarrow> date \<times> date" where
  "period_of grain i = (first_of i, last_of grain i)"

lemma period_of_props:
  assumes "valid_date (first_of i)" and "valid_date (first_of (i + months_of grain))"
  shows "period_end (first_of i) grain = Inr (last_of grain i)" "valid_date (last_of grain i)"
    "next_day (last_of grain i) = Some (first_of (i + months_of grain))" "first_of i \<le> last_of grain i"
proof -
  obtain e where e: "period_end (first_of i) grain = Inr e" "next_day e = Some (first_of (i + months_of grain))"
    "valid_date e" "first_of i \<le> e" using period_end_first [OF assms] by blast
  with prev_next [OF e(3,2)] have "last_of grain i = e" by (simp add: last_of_def)
  with e show "period_end (first_of i) grain = Inr (last_of grain i)" "valid_date (last_of grain i)"
    "next_day (last_of grain i) = Some (first_of (i + months_of grain))" "first_of i \<le> last_of grain i"
    by simp_all
qed

lemma period_starts_first:
  assumes "\<And>k. k \<le> n \<Longrightarrow> valid_date (first_of (i + int k * months_of grain))"
  shows "period_starts n grain (first_of f) (first_of i) =
    Inr (map (\<lambda>k. first_of (i + int k * months_of grain)) [0..<min n (nat ((f - i) div months_of grain + 1))])"
  using assms
proof (induction n arbitrary: i)
  case (Suc n)
  show ?case
  proof (cases "i \<le> f")
    case True
    let ?i = "i + months_of grain"
    have v: "valid_date (first_of ?i)" using Suc.prems [of 1] by simp
    have "valid_date (first_of (?i + int k * months_of grain))" if "k \<le> n" for k
      using Suc.prems [of "Suc k"] that by (simp add: algebra_simps)
    note IH = Suc.IH [OF this]
    have step: "(f - i) div months_of grain = (f - ?i) div months_of grain + 1"
      using div_mult_self1 [of "months_of grain" "f - ?i" 1] months_pos [of grain] by simp
    moreover have "0 \<le> (f - i) div months_of grain" using True months_pos by (simp add: pos_imp_zdiv_nonneg_iff)
    ultimately have m: "min (Suc n) (nat ((f - i) div months_of grain + 1)) =
        Suc (min n (nat ((f - ?i) div months_of grain + 1)))" by linarith
    show ?thesis
      unfolding m using True v IH
      by (simp add: first_of_mono shift_first upt_conv_Cons map_Suc_upt [symmetric] comp_def algebra_simps
          del: upt_Suc)
  next
    case False
    then have "(f - i) div months_of grain < 0" using months_pos by (simp add: pos_imp_zdiv_neg_iff)
    with False show ?thesis by (simp add: first_of_mono)
  qed
qed simp

lemma mapM_err_map: "(\<And>x. x \<in> set xs \<Longrightarrow> f x = Inr (g x)) \<Longrightarrow> mapM_err f xs = Inr (map g xs)"
  by (induction xs) simp_all

text \<open>Where the periods of a request begin and end, by month index.\<close>

definition period_total :: "trend_filters \<Rightarrow> nat" where
  "period_total filters = nat (max 1 (min (tf_period_count filters) 24))"

definition final_index :: "trend_filters \<Rightarrow> date \<Rightarrow> int" where
  "final_index filters today =
     (let g = tf_time_grain filters in case tf_end_date filters of
        Some e \<Rightarrow> period_index g e
      | None \<Rightarrow> (case tf_start_date filters of
          Some s \<Rightarrow> period_index g s + (int (period_total filters) - 1) * months_of g
        | None \<Rightarrow> period_index g today))"

definition first_index :: "trend_filters \<Rightarrow> date \<Rightarrow> int" where
  "first_index filters today =
     (let g = tf_time_grain filters in case tf_start_date filters of
        Some s \<Rightarrow> period_index g s
      | None \<Rightarrow> final_index filters today - (int (period_total filters) - 1) * months_of g)"

definition shown_total :: "trend_filters \<Rightarrow> date \<Rightarrow> nat" where
  "shown_total filters today = min (period_total filters)
     (nat ((final_index filters today - first_index filters today) div months_of (tf_time_grain filters) + 1))"

text \<open>Dates at least 24 quarters away from the ends of the calendar.\<close>

fun inner_date :: "date \<Rightarrow> bool" where
  "inner_date (Date y m d) \<longleftrightarrow> valid_date (Date y m d) \<and> 10 \<le> y \<and> y \<le> 9990"

definition inner_request :: "trend_filters \<Rightarrow> date \<Rightarrow> bool" where
  "inner_request filters today \<longleftrightarrow> inner_date today \<and> pred_option inner_date (tf_start_date filters) \<and>
     pred_option inner_date (tf_end_date filters)"

lemma inner_valid: "inner_date d \<Longrightarrow> valid_date d"
  by (cases d) auto

lemma inner_index: "inner_date d \<Longrightarrow> 115 \<le> period_index grain d \<and> period_index grain d \<le> 119891"
proof -
  assume "inner_date d"
  then have "120 \<le> month_index d" "month_index d \<le> 119891" by (cases d; simp add: month_index_def)+
  moreover have "month_index d div 3 * 3 \<le> month_index d" "month_index d - 3 < month_index d div 3 * 3"
    by presburger+
  ultimately show ?thesis by (simp add: period_index_def months_of_def)
qed

lemma normal_grain:
  fixes g :: string
  defines "g' \<equiv> (if g = ''quarter'' then ''quarter'' else ''month'')"
  shows "months_of g' = months_of g" "period_index g' = period_index g" "period_of g' = period_of g"
  by (auto simp: g'_def months_of_def period_index_def period_of_def last_of_def fun_eq_iff)

lemma months_le: "months_of g \<le> 3"
  by (simp add: months_of_def)

lemma period_total_bounds: "1 \<le> period_total filters" "period_total filters \<le> 24"
  "int (period_total filters) = max 1 (min (tf_period_count filters) 24)"
  by (auto simp: period_total_def)

lemma index_bounds:
  assumes "inner_request filters today"
  shows "40 \<le> first_index filters today" "first_index filters today \<le> 119900"
    "40 \<le> final_index filters today" "final_index filters today \<le> 119970"
proof -
  let ?g = "tf_time_grain filters" and ?n = "int (period_total filters) - 1"
  have n: "0 \<le> ?n" "?n \<le> 23" using period_total_bounds [of filters] by linarith+
  have m: "0 \<le> ?n * months_of ?g" "?n * months_of ?g \<le> 69"
    using n months_pos [of ?g] months_le [of ?g] mult_mono [of ?n 23 "months_of ?g" 3] by simp_all
  have d: "115 \<le> period_index ?g d" "period_index ?g d \<le> 119891" if "inner_date d" for d
    using inner_index [OF that] by simp_all
  show "40 \<le> first_index filters today" "first_index filters today \<le> 119900"
    "40 \<le> final_index filters today" "final_index filters today \<le> 119970"
    using assms m d unfolding inner_request_def first_index_def final_index_def Let_def
    by (cases "tf_start_date filters"; cases "tf_end_date filters"; force)+
qed

lemma index_valid:
  assumes "inner_request filters today" and "k \<le> 25"
  shows "valid_date (first_of (first_index filters today + int k * months_of (tf_time_grain filters)))"
proof -
  have "int k * months_of (tf_time_grain filters) \<le> 25 * 3"
    using assms(2) months_pos [of "tf_time_grain filters"] months_le by (intro mult_mono) auto
  moreover have "0 \<le> int k * months_of (tf_time_grain filters)" using months_pos [of "tf_time_grain filters"] by simp
  ultimately show ?thesis using index_bounds(1,2) [OF assms(1)] unfolding valid_first by linarith
qed

lemma periods_for_filters_inner:
  assumes "inner_request filters today"
  shows "periods_for_filters filters today = Inr (map (\<lambda>k. period_of (tf_time_grain filters)
     (first_index filters today + int k * months_of (tf_time_grain filters))) [0..<shown_total filters today])"
proof -
  let ?g = "tf_time_grain filters" and ?n = "int (period_total filters)"
  define g where "g = (if ?g = ''quarter'' then ''quarter'' else ''month'')"
  note g = normal_grain [of ?g, folded g_def]
  have start: "period_start d g = Inr (first_of (period_index ?g d))" if "inner_date d" for d
    using period_start_valid [OF inner_valid [OF that], of g] by (simp add: g)
  have inner: "inner_date today" "\<And>d. tf_start_date filters = Some d \<Longrightarrow> inner_date d"
    "\<And>d. tf_end_date filters = Some d \<Longrightarrow> inner_date d"
    using assms by (auto simp: inner_request_def)
  have valid_final: "valid_date (first_of (final_index filters today))"
    "valid_date (first_of (first_index filters today))"
    using index_bounds [OF assms] by (simp_all add: valid_first)
  have shift: "shift_period (first_of i) g n = Inr (first_of (i + n * months_of ?g))"
    if "valid_date (first_of (i + n * months_of ?g))" for i n
    using that by (simp add: shift_first g)
  have final: "(case tf_end_date filters of
         Some e \<Rightarrow> period_start e g
       | None \<Rightarrow> (case tf_start_date filters of
           Some s \<Rightarrow> ebind (period_start s g) (\<lambda>p. shift_period p g (?n - 1))
         | None \<Rightarrow> period_start today g)) = Inr (first_of (final_index filters today))"
    using inner start valid_final(1) shift
    by (auto simp: final_index_def Let_def split: option.splits)
  have first: "(case tf_start_date filters of
         Some s \<Rightarrow> period_start s g
       | None \<Rightarrow> shift_period (first_of (final_index filters today)) g (- (?n - 1))) =
       Inr (first_of (first_index filters today))"
    using inner start valid_final(2) shift [of "final_index filters today" "- (?n - 1)"]
    by (auto simp: first_index_def Let_def algebra_simps split: option.splits)
  let ?f = "\<lambda>start. ebind (period_end start g) (\<lambda>e. Inr (start, e))"
  let ?i = "\<lambda>k. first_index filters today + int k * months_of ?g"
  have starts: "period_starts (period_total filters) g (first_of (final_index filters today))
      (first_of (first_index filters today)) = Inr (map (\<lambda>k. first_of (?i k)) [0..<shown_total filters today])"
    using period_starts_first [of "period_total filters" "first_index filters today" g "final_index filters today"]
      index_valid [OF assms] period_total_bounds(2) [of filters]
    by (simp add: g shown_total_def)
  have "mapM_err ?f (map (\<lambda>k. first_of (?i k)) [0..<shown_total filters today]) =
      Inr (map (\<lambda>d. (d, snd (period_of ?g (month_index d)))) (map (\<lambda>k. first_of (?i k)) [0..<shown_total filters today]))"
  proof (rule mapM_err_map)
    fix d assume "d \<in> set (map (\<lambda>k. first_of (?i k)) [0..<shown_total filters today])"
    then obtain k where k: "d = first_of (?i k)" "k < shown_total filters today" by auto
    then have "k \<le> 25" "Suc k \<le> 25" using period_total_bounds(2) [of filters] by (simp_all add: shown_total_def)
    from index_valid [OF assms this(1)] index_valid [OF assms this(2)]
    have "period_end d g = Inr (last_of g (?i k))"
      unfolding k(1) by (intro period_of_props(1)) (simp_all add: g algebra_simps)
    then show "?f d = Inr (d, snd (period_of ?g (month_index d)))"
      by (simp add: k(1) g(3) [symmetric] period_of_def)
  qed
  moreover have pc: "max 1 (min (tf_period_count filters) 24) = int (period_total filters)"
    by (simp only: period_total_bounds(3))
  ultimately show ?thesis
    unfolding periods_for_filters_def Let_def g_def [symmetric] pc nat_int final ebind_simps first starts
    by (simp add: period_of_def comp_def)
qed

section \<open>Every date has one period\<close>

lemma mset_filter_disjoint:
  "(\<And>x. \<not> (P x \<and> Q x)) \<Longrightarrow> mset (filter P xs) + mset (filter Q xs) = mset (filter (\<lambda>x. P x \<or> Q x) xs)"
  by (induction xs) auto

definition dated_before :: "date \<Rightarrow> trend_complaint \<Rightarrow> bool" where
  "dated_before hi c = (case tc_complaint_date c of None \<Rightarrow> False | Some d \<Rightarrow> d < hi)"

definition dated_from :: "date \<Rightarrow> trend_complaint \<Rightarrow> bool" where
  "dated_from lo c = (case tc_complaint_date c of None \<Rightarrow> False | Some d \<Rightarrow> lo \<le> d)"

lemma dated_last:
  assumes "valid_date (first_of i)" and "valid_date (first_of (i + months_of g))"
    and "pred_option valid_date (tc_complaint_date c)"
  shows "dated_between lo (last_of g i) c \<longleftrightarrow> dated_from lo c \<and> dated_before (first_of (i + months_of g)) c"
  using next_day_gap [OF period_of_props(2) [OF assms(1,2)] _ period_of_props(3) [OF assms(1,2)]] assms(3)
  by (auto simp: dated_between_def dated_from_def dated_before_def split: option.splits)

lemma first_chain: "first_of i \<le> first_of (i + int k * months_of g)"
  using months_pos [of g] by (simp add: first_of_mono)

lemma periods_partition:
  assumes "\<And>k. k \<le> n \<Longrightarrow> valid_date (first_of (i + int k * months_of g))"
    and "\<forall>c \<in> set cs. pred_option valid_date (tc_complaint_date c)"
  shows "mset (concat (map (\<lambda>k. filter (dated_between (first_of (i + int k * months_of g))
        (last_of g (i + int k * months_of g))) cs) [0..<n])) =
    mset (filter (\<lambda>c. dated_from (first_of i) c \<and> dated_before (first_of (i + int n * months_of g)) c) cs)"
  using assms(1)
proof (induction n)
  case 0
  have "filter (\<lambda>c. dated_from (first_of i) c \<and> dated_before (first_of i) c) cs = []"
    by (auto simp: filter_empty_conv dated_from_def dated_before_def split: option.splits)
  then show ?case by simp
next
  case (Suc n)
  let ?j = "i + int n * months_of g"
  have next': "i + int (Suc n) * months_of g = ?j + months_of g" by (simp add: algebra_simps)
  have v: "valid_date (first_of ?j)" "valid_date (first_of (?j + months_of g))"
    using Suc.prems [of n] Suc.prems [of "Suc n"] by (simp_all add: algebra_simps)
  have "filter (dated_between (first_of ?j) (last_of g ?j)) cs =
      filter (\<lambda>c. dated_from (first_of ?j) c \<and> dated_before (first_of (?j + months_of g)) c) cs"
    using assms(2) by (intro filter_cong) (simp_all add: dated_last [OF v])
  moreover have "mset (filter (\<lambda>c. dated_from (first_of i) c \<and> dated_before (first_of ?j) c) cs) +
      mset (filter (\<lambda>c. dated_from (first_of ?j) c \<and> dated_before (first_of (?j + months_of g)) c) cs) =
      mset (filter (\<lambda>c. (dated_from (first_of i) c \<and> dated_before (first_of ?j) c) \<or>
        (dated_from (first_of ?j) c \<and> dated_before (first_of (?j + months_of g)) c)) cs)"
    by (rule mset_filter_disjoint) (auto simp: dated_from_def dated_before_def split: option.splits)
  moreover have "(dated_from (first_of i) c \<and> dated_before (first_of ?j) c) \<or>
        (dated_from (first_of ?j) c \<and> dated_before (first_of (?j + months_of g)) c) \<longleftrightarrow>
      dated_from (first_of i) c \<and> dated_before (first_of (?j + months_of g)) c" for c
    using first_chain [of i n g] first_chain [of ?j 1 g]
    by (auto simp: dated_from_def dated_before_def split: option.splits)
  moreover have "mset (concat (map (\<lambda>k. filter (dated_between (first_of (i + int k * months_of g))
        (last_of g (i + int k * months_of g))) cs) [0..<n])) =
      mset (filter (\<lambda>c. dated_from (first_of i) c \<and> dated_before (first_of ?j) c) cs)"
    using Suc.prems by (intro Suc.IH) simp
  ultimately show ?case by (simp only: next' upt_Suc_append [OF le0] map_append concat_append mset_append
      list.map concat.simps append_Nil2)
qed

end
