(* ===== verification/Trend_Properties.thy ===== *)
theory Trend_Properties imports Trend_Periods
begin

text \<open>
  The properties of complaint trends: every complaint is counted once, anomaly cues are justified,
  and the only failure is a reversed range.
\<close>

section \<open>The result\<close>

lemma apply_anomaly_nth:
  "length (apply_anomaly_from previous ps) = length ps"
  "i < length ps \<Longrightarrow> apply_anomaly_from previous ps ! i =
     (let before = (if i = 0 then previous else Some (ps ! (i - 1))) in
      (ps ! i)\<lparr>tp_anomaly_cue := (case before of None \<Rightarrow> NO_ANOMALY_CUE | Some p \<Rightarrow> anomaly_cue p (ps ! i)),
        tp_preceding_complaint_count := map_option tp_complaint_count before\<rparr>)"
proof (induction ps arbitrary: previous i)
  case (Cons p ps)
  { case 1 show ?case using Cons.IH(1) by simp }
  { case 2
    show ?case
    proof (cases i)
      case 0
      show ?thesis unfolding 0 Let_def nth_Cons_0 by simp
    next
      case (Suc j)
      then have "j < length ps" using 2 by simp
      from Cons.IH(2) [OF this, of "Some p"] show ?thesis unfolding Suc Let_def by (cases j) simp_all
    qed }
qed simp_all

lemma map_apply_anomaly:
  assumes "\<And>p cue n. f (p\<lparr>tp_anomaly_cue := cue, tp_preceding_complaint_count := n\<rparr>) = f p"
  shows "map f (apply_anomaly_from previous ps) = map f ps"
  by (induction ps arbitrary: previous) (simp_all add: assms)

definition shown_between :: "trend_filters \<Rightarrow> date \<times> date \<Rightarrow> trend_complaint \<Rightarrow> bool" where
  "shown_between filters p = dated_between (displayed_start filters (fst p)) (displayed_end filters (snd p))"

lemma shown_between_range:
  "dated_between (displayed_start filters a) (displayed_end filters b) c \<Longrightarrow>
     shown_between filters p c \<longleftrightarrow> dated_between (fst p) (snd p) c"
  by (auto simp: shown_between_def dated_between_def displayed_start_def displayed_end_def
      split: option.splits)

lemma trend_period_of_sel:
  "tp_period_start (trend_period_of filters today dq cov p) = displayed_start filters (fst p)"
  "tp_period_end (trend_period_of filters today dq cov p) = displayed_end filters (snd p)"
  "tp_complaints (trend_period_of filters today dq cov p) =
     sort_key complaint_sort_key (filter (shown_between filters p) dq)"
  "tp_complaint_count (trend_period_of filters today dq cov p) = length (filter (shown_between filters p) dq)"
  "tp_comparable (trend_period_of filters today dq cov p) \<Longrightarrow>
     tp_period_end (trend_period_of filters today dq cov p) < today \<and>
     tp_coverage_state (trend_period_of filters today dq cov p) \<in> {COMPLETE_PERIOD, ZERO_QUALIFYING_RECORDS}"
  by (auto simp: trend_period_of_def shown_between_def Let_def split: prod.splits)

lemma coverage_total:
  assumes "\<forall>c \<in> set cs. pred_option valid_date (tc_complaint_date c)"
  shows "\<exists>cov. coverage_period_bounds cs grain = Inr cov"
proof (cases "List.map_filter tc_complaint_date cs")
  case (Cons d ds)
  have valid: "valid_date e" if "e \<in> set (d # ds)" for e
  proof -
    have "e \<in> set (List.map_filter tc_complaint_date cs)" using that Cons by simp
    then show ?thesis using assms by (auto simp: List.map_filter_def)
  qed
  have "foldl min d ds \<in> set (d # ds)" "foldl max d ds \<in> set (d # ds)" for d :: date and ds
    by (induction ds arbitrary: d) (auto simp: min_def max_def)
  with valid have "valid_date (foldl min d ds)" "valid_date (foldl max d ds)" by blast+
  with Cons show ?thesis by (simp add: coverage_period_bounds_def period_start_valid)
qed (simp add: coverage_period_bounds_def)

text \<open>The whole computation, in terms of the natural periods.\<close>

lemma build_trend_cases:
  assumes "inner_request filters today" and "\<forall>c \<in> set complaints. pred_option valid_date (tc_complaint_date c)"
  defines "ps \<equiv> map (\<lambda>k. period_of (tf_time_grain filters)
     (first_index filters today + int k * months_of (tf_time_grain filters))) [0..<shown_total filters today]"
    and "qualifying \<equiv> filter (\<lambda>c. base_filter_matches filters c \<and> qualifying_filter_matches filters c) complaints"
  obtains (empty) "shown_total filters today = 0"
      "build_facility_trend complaints filters today = Inl (IndexError ''list index out of range'')"
  | (built) dq cov r where "shown_total filters today \<noteq> 0" "build_facility_trend complaints filters today = Inr r"
      "dq = filter (dated_between (displayed_start filters (fst (hd ps))) (displayed_end filters (snd (last ps)))) qualifying"
      "tr_periods r = apply_anomaly_rules (map (trend_period_of filters today dq cov) ps)"
      "tr_dated_qualifying_complaint_count r = length dq"
proof -
  have q: "filter (qualifying_filter_matches filters) (filter (base_filter_matches filters) complaints) = qualifying"
    by (simp add: qualifying_def conj_commute)
  obtain cov where cov: "coverage_period_bounds (filter (base_filter_matches filters) complaints)
      (tf_time_grain filters) = Inr cov"
    using coverage_total [of "filter (base_filter_matches filters) complaints"] assms(2) by auto
  have ps: "periods_for_filters filters today = Inr ps"
    unfolding ps_def by (rule periods_for_filters_inner) (rule assms(1))
  show ?thesis
  proof (cases "shown_total filters today = 0")
    case True
    then have "ps = []" by (simp add: ps_def)
    with True show ?thesis by (intro empty) (simp_all add: build_facility_trend_def ps Let_def)
  next
    case False
    then have "ps \<noteq> []" by (simp add: ps_def)
    then obtain r where r: "build_facility_trend complaints filters today = Inr r"
      "tr_periods r = apply_anomaly_rules (map (trend_period_of filters today
         (filter (dated_between (displayed_start filters (fst (hd ps))) (displayed_end filters (snd (last ps)))) qualifying) cov) ps)"
      "tr_dated_qualifying_complaint_count r = length
         (filter (dated_between (displayed_start filters (fst (hd ps))) (displayed_end filters (snd (last ps)))) qualifying)"
      by (simp add: build_facility_trend_def ps q cov Let_def del: filter_filter)
    show ?thesis by (rule built [OF False r(1) refl r(2,3)])
  qed
qed

text \<open>The natural periods of a request whose month indexes are all in range.\<close>

definition shown_periods :: "string \<Rightarrow> int \<Rightarrow> nat \<Rightarrow> (date \<times> date) list" where
  "shown_periods g i n = map (\<lambda>k. period_of g (i + int k * months_of g)) [0..<n]"

lemma shown_partition:
  assumes v: "\<And>k. k \<le> n \<Longrightarrow> valid_date (first_of (i + int k * months_of g))" and "0 < n"
    and valid: "\<forall>c \<in> set cs. pred_option valid_date (tc_complaint_date c)"
    and range: "\<forall>c \<in> set cs. dated_between (displayed_start filters (fst (hd (shown_periods g i n))))
      (displayed_end filters (snd (last (shown_periods g i n)))) c"
  shows "mset (concat (map (\<lambda>p. filter (shown_between filters p) cs) (shown_periods g i n))) = mset cs"
proof -
  let ?i = "\<lambda>k. i + int k * months_of g"
  have "filter (shown_between filters p) cs = filter (dated_between (fst p) (snd p)) cs" for p
    using range by (intro filter_cong [OF refl]) (rule shown_between_range, blast)
  then have "mset (concat (map (\<lambda>p. filter (shown_between filters p) cs) (shown_periods g i n))) =
      mset (concat (map (\<lambda>k. filter (dated_between (first_of (?i k)) (last_of g (?i k))) cs) [0..<n]))"
    by (simp add: shown_periods_def period_of_def comp_def)
  also have "\<dots> = mset (filter (\<lambda>c. dated_from (first_of i) c \<and> dated_before (first_of (?i n)) c) cs)"
    using v valid by (rule periods_partition)
  also have "filter (\<lambda>c. dated_from (first_of i) c \<and> dated_before (first_of (?i n)) c) cs = cs"
  proof (rule filter_True, rule ballI)
    fix c assume c: "c \<in> set cs"
    have ends: "fst (hd (shown_periods g i n)) = first_of i" "snd (last (shown_periods g i n)) = last_of g (?i (n - 1))"
      using assms(2) by (simp_all add: shown_periods_def hd_map last_map period_of_def)
    have "dated_between (first_of i) (last_of g (?i (n - 1))) c"
      using range c unfolding ends
      by (auto simp: dated_between_def displayed_start_def displayed_end_def split: option.splits)
    moreover have step: "?i (n - 1) + months_of g = ?i n" using assms(2) by (cases n) (simp_all add: algebra_simps)
    moreover have v1: "valid_date (first_of (?i (n - 1)))" by (rule v) simp
    moreover have v2: "valid_date (first_of (?i (n - 1) + months_of g))" unfolding step by (rule v) simp
    moreover have "pred_option valid_date (tc_complaint_date c)" using c valid by simp
    ultimately show "dated_from (first_of i) c \<and> dated_before (first_of (?i n)) c"
      using dated_last [OF v1 v2] by (simp only: step simp_thms)
  qed
  finally show ?thesis .
qed

lemma shown_sorted:
  assumes v: "\<And>k. k \<le> n \<Longrightarrow> valid_date (first_of (i + int k * months_of g))"
  shows "sorted_wrt (\<lambda>p q. displayed_end filters (snd p) < displayed_start filters (fst q)) (shown_periods g i n)"
  unfolding sorted_wrt_iff_nth_less
proof (intro allI impI)
  let ?i = "\<lambda>k. i + int k * months_of g"
  fix k l assume kl: "k < l" "l < length (shown_periods g i n)"
  then have "l < n" by (simp add: shown_periods_def)
  then have v2: "valid_date (first_of (?i k))" "valid_date (first_of (?i k + months_of g))"
    using v [of k] v [of "Suc k"] kl(1) by (simp_all add: algebra_simps)
  note p = period_of_props [OF this]
  have "displayed_end filters (last_of g (?i k)) \<le> last_of g (?i k)" by (simp add: displayed_end_def)
  also have "last_of g (?i k) < first_of (?i k + months_of g)"
    using next_day_gap [OF p(2) p(2) p(3)] by simp
  also have "\<dots> \<le> first_of (?i l)"
    using kl(1) months_pos [of g] mult_right_mono [of "int k + 1" "int l" "months_of g"]
    by (simp add: first_of_mono algebra_simps)
  also have "\<dots> \<le> displayed_start filters (first_of (?i l))" by (simp add: displayed_start_def)
  finally show "displayed_end filters (snd (shown_periods g i n ! k)) < displayed_start filters (fst (shown_periods g i n ! l))"
    using kl(1) \<open>l < n\<close> by (simp add: shown_periods_def period_of_def)
qed

text \<open>What the anomaly rules leave of the periods.\<close>

lemma trend_parts:
  assumes built: "periods = apply_anomaly_rules (map (trend_period_of filters today dq cov) ps)"
  shows "map tp_period_start periods = map (\<lambda>p. displayed_start filters (fst p)) ps"
    "map tp_period_end periods = map (\<lambda>p. displayed_end filters (snd p)) ps"
    "map tp_complaints periods =
       map (\<lambda>p. sort_key complaint_sort_key (filter (shown_between filters p) dq)) ps"
    "\<forall>p \<in> set periods. tp_complaint_count p = length (tp_complaints p) \<and>
       (\<forall>c \<in> set (tp_complaints p). dated_between (tp_period_start p) (tp_period_end p) c)"
    "sorted_wrt (\<lambda>p q. displayed_end filters (snd p) < displayed_start filters (fst q)) ps \<Longrightarrow>
       sorted_wrt (\<lambda>p q. tp_period_end p < tp_period_start q) periods"
proof -
  let ?view = "\<lambda>p. (tp_period_start p, tp_period_end p, tp_complaints p, tp_complaint_count p)"
  have view: "map ?view periods = map (\<lambda>p. (displayed_start filters (fst p), displayed_end filters (snd p),
      sort_key complaint_sort_key (filter (shown_between filters p) dq),
      length (filter (shown_between filters p) dq))) ps"
    unfolding built apply_anomaly_rules_def by (subst map_apply_anomaly) (simp_all add: trend_period_of_sel)
  from arg_cong [OF view, of "map fst"] arg_cong [OF view, of "map (fst \<circ> snd)"]
    arg_cong [OF view, of "map (fst \<circ> snd \<circ> snd)"]
  show "map tp_period_start periods = map (\<lambda>p. displayed_start filters (fst p)) ps"
    "map tp_period_end periods = map (\<lambda>p. displayed_end filters (snd p)) ps"
    "map tp_complaints periods =
       map (\<lambda>p. sort_key complaint_sort_key (filter (shown_between filters p) dq)) ps"
    by (simp_all add: comp_def)
  show "\<forall>p \<in> set periods. tp_complaint_count p = length (tp_complaints p) \<and>
       (\<forall>c \<in> set (tp_complaints p). dated_between (tp_period_start p) (tp_period_end p) c)"
  proof
    fix p assume "p \<in> set periods"
    then have "?view p \<in> set (map ?view periods)" by simp
    then show "tp_complaint_count p = length (tp_complaints p) \<and>
       (\<forall>c \<in> set (tp_complaints p). dated_between (tp_period_start p) (tp_period_end p) c)"
      unfolding view by (auto simp: shown_between_def)
  qed
  assume "sorted_wrt (\<lambda>p q. displayed_end filters (snd p) < displayed_start filters (fst q)) ps"
  then have "sorted_wrt (\<lambda>a b. fst (snd a) < fst b) (map ?view periods)"
    unfolding view sorted_wrt_map by simp
  then show "sorted_wrt (\<lambda>p q. tp_period_end p < tp_period_start q) periods"
    unfolding sorted_wrt_map by simp
qed

text \<open>C18: a trend counts every complaint once. Between one and 24 periods are shown, in order and
  without overlap; the complaints listed in them are, as a multiset, exactly the given complaints that
  pass the filters and are dated between the start of the first period and the end of the last one;
  each is listed in the period of its date, every count is the number of the complaints listed, and the
  counts add up to the reported total.\<close>

theorem trend_counts_every_complaint_once:
  assumes "inner_request filters today"
    and "\<forall>c \<in> set complaints. pred_option valid_date (tc_complaint_date c)"
    and "build_facility_trend complaints filters today = Inr r"
  shows "tr_periods r \<noteq> [] \<and> length (tr_periods r) \<le> 24 \<and>
      sorted_wrt (\<lambda>p q. tp_period_end p < tp_period_start q) (tr_periods r) \<and>
      mset (concat (map tp_complaints (tr_periods r))) =
        mset (filter (\<lambda>c. base_filter_matches filters c \<and> qualifying_filter_matches filters c \<and>
           dated_between (tp_period_start (hd (tr_periods r))) (tp_period_end (last (tr_periods r))) c) complaints) \<and>
      (\<forall>p \<in> set (tr_periods r). tp_complaint_count p = length (tp_complaints p) \<and>
         (\<forall>c \<in> set (tp_complaints p). dated_between (tp_period_start p) (tp_period_end p) c)) \<and>
      sum_list (map tp_complaint_count (tr_periods r)) = tr_dated_qualifying_complaint_count r"
  using assms(1,2)
proof (cases rule: build_trend_cases)
  case empty
  with assms(3) show ?thesis by simp
next
  case (built dq cov r')
  let ?n = "shown_total filters today"
  define ps where "ps = shown_periods (tf_time_grain filters) (first_index filters today) ?n"
  have dq: "dq = filter (dated_between (displayed_start filters (fst (hd ps))) (displayed_end filters (snd (last ps))))
      (filter (\<lambda>c. base_filter_matches filters c \<and> qualifying_filter_matches filters c) complaints)"
    and r: "tr_periods r = apply_anomaly_rules (map (trend_period_of filters today dq cov) ps)"
      "tr_dated_qualifying_complaint_count r = length dq"
    using built assms(3) by (simp_all add: ps_def shown_periods_def)
  note parts = trend_parts [OF r(1)]
  have n: "0 < ?n" "?n \<le> 24" using built(1) period_total_bounds(2) [of filters] by (simp_all add: shown_total_def)
  have v: "valid_date (first_of (first_index filters today + int k * months_of (tf_time_grain filters)))" if "k \<le> ?n" for k
    using index_valid [OF assms(1), of k] that n by simp
  have len: "length (tr_periods r) = ?n" using arg_cong [OF parts(1), of length] by (simp add: ps_def shown_periods_def)
  then have ne: "tr_periods r \<noteq> []" "ps \<noteq> []" using n(1) by (auto simp: ps_def shown_periods_def)
  have ends: "tp_period_start (hd (tr_periods r)) = displayed_start filters (fst (hd ps))"
    "tp_period_end (last (tr_periods r)) = displayed_end filters (snd (last ps))"
    unfolding hd_map [OF ne(1), symmetric] last_map [OF ne(1), symmetric] parts(1,2) hd_map [OF ne(2)] last_map [OF ne(2)]
    by (rule refl)+
  have "mset (concat (map tp_complaints (tr_periods r))) =
      mset (concat (map (\<lambda>p. filter (shown_between filters p) dq) ps))"
    unfolding parts(3) by (simp add: mset_concat comp_def)
  also have "\<dots> = mset dq"
    unfolding ps_def using v n(1) by (rule shown_partition) (use assms(2) in \<open>simp_all add: dq ps_def\<close>)
  finally have all: "mset (concat (map tp_complaints (tr_periods r))) = mset dq" .
  have "sum_list (map tp_complaint_count (tr_periods r)) = length (concat (map tp_complaints (tr_periods r)))"
    using parts(4) by (simp add: length_concat comp_def cong: map_cong)
  also have "\<dots> = length dq" using all by (metis size_mset)
  finally have total: "sum_list (map tp_complaint_count (tr_periods r)) = tr_dated_qualifying_complaint_count r"
    by (simp add: r(2))
  have sorted: "sorted_wrt (\<lambda>p q. tp_period_end p < tp_period_start q) (tr_periods r)"
    by (rule parts(5)) (unfold ps_def, rule shown_sorted, rule v)
  have "filter (\<lambda>c. base_filter_matches filters c \<and> qualifying_filter_matches filters c \<and>
           dated_between (tp_period_start (hd (tr_periods r))) (tp_period_end (last (tr_periods r))) c) complaints = dq"
    unfolding dq ends by (simp add: conj_assoc)
  with ne(1) len n(2) sorted all parts(4) total show ?thesis by simp
qed

text \<open>C19: an anomaly cue is always justified. A period carries a cue only when it has a predecessor
  and both are comparable: over before today, fully displayed and covered by the data. The cue then
  agrees with the two counts, and the count shown as the preceding one is the predecessor's.\<close>

theorem anomaly_cues_are_justified:
  assumes "build_facility_trend complaints filters today = Inr r" and "i < length (tr_periods r)"
    and "tp_anomaly_cue (tr_periods r ! i) \<noteq> NO_ANOMALY_CUE"
  shows "0 < i \<and> tp_comparable (tr_periods r ! (i - 1)) \<and> tp_comparable (tr_periods r ! i) \<and>
      tp_period_end (tr_periods r ! i) < today \<and>
      tp_coverage_state (tr_periods r ! i) \<in> {COMPLETE_PERIOD, ZERO_QUALIFYING_RECORDS} \<and>
      tp_preceding_complaint_count (tr_periods r ! i) = Some (tp_complaint_count (tr_periods r ! (i - 1))) \<and>
      (let before = tp_complaint_count (tr_periods r ! (i - 1)); now = tp_complaint_count (tr_periods r ! i);
           cue = tp_anomaly_cue (tr_periods r ! i)
       in (cue = NEW_ACTIVITY \<and> before = 0 \<and> 3 \<le> now) \<or>
          (cue = INCREASED_ACTIVITY \<and> 0 < before \<and> 3 \<le> now \<and> 2 * before \<le> now) \<or>
          (cue = DECREASED_ACTIVITY \<and> 3 \<le> before \<and> 2 * now \<le> before))"
proof -
  from assms(1) obtain ps dq cov where r: "tr_periods r = apply_anomaly_from None (map (trend_period_of filters today dq cov) ps)"
    by (auto simp: build_facility_trend_def apply_anomaly_rules_def ebind_eq_Inr Let_def split: if_splits)
  let ?qs = "map (trend_period_of filters today dq cov) ps"
  have len: "i < length ?qs" using assms(2) by (simp add: r apply_anomaly_nth(1))
  note at_i = apply_anomaly_nth(2) [OF len, of None, folded r, unfolded Let_def]
  have pos: "0 < i" using assms(3) unfolding at_i by (cases i) simp_all
  then have "i - 1 < length ?qs" using len by simp
  note at_j = apply_anomaly_nth(2) [OF this, of None, folded r, unfolded Let_def]
  have q: "?qs ! i = trend_period_of filters today dq cov (ps ! i)" using len by simp
  have same: "tp_comparable (tr_periods r ! i) = tp_comparable (?qs ! i)"
    "tp_comparable (tr_periods r ! (i - 1)) = tp_comparable (?qs ! (i - 1))"
    "tp_complaint_count (tr_periods r ! i) = tp_complaint_count (?qs ! i)"
    "tp_complaint_count (tr_periods r ! (i - 1)) = tp_complaint_count (?qs ! (i - 1))"
    "tp_period_end (tr_periods r ! i) = tp_period_end (?qs ! i)"
    "tp_coverage_state (tr_periods r ! i) = tp_coverage_state (?qs ! i)"
    "tp_preceding_complaint_count (tr_periods r ! i) = Some (tp_complaint_count (?qs ! (i - 1)))"
    "tp_anomaly_cue (tr_periods r ! i) = anomaly_cue (?qs ! (i - 1)) (?qs ! i)"
    unfolding at_i at_j using pos by simp_all
  have "anomaly_cue (?qs ! (i - 1)) (?qs ! i) \<noteq> NO_ANOMALY_CUE" using assms(3) same(8) by simp
  then have cmp: "tp_comparable (?qs ! i)" "tp_comparable (?qs ! (i - 1))"
    and cue: "let before = tp_complaint_count (?qs ! (i - 1)); now = tp_complaint_count (?qs ! i);
        cue = anomaly_cue (?qs ! (i - 1)) (?qs ! i)
      in (cue = NEW_ACTIVITY \<and> before = 0 \<and> 3 \<le> now) \<or>
         (cue = INCREASED_ACTIVITY \<and> 0 < before \<and> 3 \<le> now \<and> 2 * before \<le> now) \<or>
         (cue = DECREASED_ACTIVITY \<and> 3 \<le> before \<and> 2 * now \<le> before)"
    unfolding anomaly_cue_def Let_def by (auto split: if_splits)
  from trend_period_of_sel(5) [OF cmp(1) [unfolded q]] pos cmp cue show ?thesis
    unfolding same Let_def q by simp
qed


section \<open>A sample trend\<close>

definition sample_complaint :: "string \<Rightarrow> date \<Rightarrow> trend_complaint" where
  "sample_complaint i d =
     \<lparr>tc_stable_complaint_id = i, tc_source_record_key = i, tc_complaint_control_number = i,
      tc_facility_number = ''1'', tc_facility_name = ''Home'', tc_facility_type = ''740'', tc_geography = ''Kern'',
      tc_complaint_date = Some d, tc_finding = ''Substantiated'', tc_substantiated = True,
      tc_serious_topics = [], tc_detail_href = [], tc_source_available = True\<rparr>"

definition sample_complaints :: "trend_complaint list" where
  "sample_complaints = [sample_complaint ''d'' (Date 2026 2 9), sample_complaint ''a'' (Date 2026 1 5),
     sample_complaint ''c'' (Date 2026 2 28), sample_complaint ''b'' (Date 2026 2 1)]"

definition sample_filters :: "date option \<Rightarrow> date option \<Rightarrow> trend_filters" where
  "sample_filters s e =
     \<lparr>tf_start_date = s, tf_end_date = e, tf_date_dimension = ''complaint_received_date'', tf_facility = '' home'',
      tf_facility_type = Several [], tf_geography = Single ''KERN'', tf_finding = Several [],
      tf_serious_topic = Several [], tf_time_grain = ''month'', tf_period_count = 12\<rparr>"

definition sample_trend :: "trend_result result" where
  "sample_trend = build_facility_trend sample_complaints (sample_filters (Some (Date 2026 1 1)) (Some (Date 2026 2 28)))
     (Date 2026 3 15)"

lemma sample_trend_parts:
  "map_sum (\<lambda>_. ()) (\<lambda>r. map (\<lambda>p. (tp_complaint_count p, tp_anomaly_cue p)) (tr_periods r)) sample_trend =
     Inr [(1, NO_ANOMALY_CUE), (3, INCREASED_ACTIVITY)]"
  by code_simp

lemma map_sum_InrD: "map_sum f g s = Inr x \<Longrightarrow> \<exists>r. s = Inr r \<and> g r = x"
  by (cases s) simp_all

lemma sample_request: "inner_request (sample_filters (Some (Date 2026 1 1)) (Some (Date 2026 2 28))) (Date 2026 3 15)"
  "\<forall>c \<in> set sample_complaints. pred_option valid_date (tc_complaint_date c)"
  by (simp_all add: inner_request_def sample_filters_def sample_complaints_def sample_complaint_def
      days_in_month_def is_leap_def)

lemma trend_counts_every_complaint_once_witness:
  "\<exists>r. sample_trend = Inr r \<and> sum_list (map tp_complaint_count (tr_periods r)) = 4 \<and>
     tr_dated_qualifying_complaint_count r = 4"
proof -
  obtain r where r: "sample_trend = Inr r" "map (\<lambda>p. (tp_complaint_count p, tp_anomaly_cue p)) (tr_periods r) =
      [(1, NO_ANOMALY_CUE), (3, INCREASED_ACTIVITY)]"
    by (rule exE [OF map_sum_InrD [OF sample_trend_parts]], erule conjE, rule that)
  from arg_cong [OF r(2), of "map fst"] have "map tp_complaint_count (tr_periods r) = [1, 3]" by (simp add: comp_def)
  with trend_counts_every_complaint_once [OF sample_request r(1) [unfolded sample_trend_def]] r(1)
  show ?thesis by auto
qed

lemma anomaly_cues_are_justified_witness:
  "\<exists>r. sample_trend = Inr r \<and> tp_comparable (tr_periods r ! 1) \<and> tp_period_end (tr_periods r ! 1) < Date 2026 3 15"
proof -
  obtain r where r: "sample_trend = Inr r" "map (\<lambda>p. (tp_complaint_count p, tp_anomaly_cue p)) (tr_periods r) =
      [(1, NO_ANOMALY_CUE), (3, INCREASED_ACTIVITY)]"
    by (rule exE [OF map_sum_InrD [OF sample_trend_parts]], erule conjE, rule that)
  have len: "1 < length (tr_periods r)" using arg_cong [OF r(2), of length] by simp
  have "tp_anomaly_cue (tr_periods r ! 1) = INCREASED_ACTIVITY"
    using arg_cong [OF r(2), of "\<lambda>xs. snd (xs ! 1)"] len by simp
  then have "tp_anomaly_cue (tr_periods r ! 1) \<noteq> NO_ANOMALY_CUE" by (simp add: INCREASED_ACTIVITY_def NO_ANOMALY_CUE_def)
  from anomaly_cues_are_justified [OF r(1) [unfolded sample_trend_def] len this] r(1) show ?thesis by auto
qed


end
