(* ===== verification/Hosted_Access.thy ===== *)
theory Hosted_Access imports Py_Formats
begin

text \<open>
  Who may do what in the hosted application (\<open>hosted_app/auth.py\<close>): the roles and their
  permissions, access scopes, authenticated actors and the permission check.
\<close>

section \<open>Roles, permissions and scopes\<close>

datatype tester_role = Admin | Tester_Reviewer | Read_Only_Tester | Developer_Operator | Feedback_Tester | System_Role

datatype permission =
    Source_Derived_Read | Reviewer_State_Read | Reviewer_State_Write | Correction_Propose | Correction_Decide
  | Export_Prepare | Export_Finalize | Feedback_Submit | Retrieval_Job_Trigger | Import_Reload
  | Reset_Destructive | User_Role_Admin | Audit_Read

datatype account_status = Active | Disabled | Revoked

datatype actor_category = Admin_Actor | Tester_Actor | Operator_Actor | System_Actor

datatype scope_type = Project | Corpus | Seeded_Corpus | Test_Project

datatype target_type =
    Record_List_Target | Record_Target | Reviewer_State_Target | Audit_Event_Target | Import_Batch_Target
  | Export_Packet_Target | Auth_Access_Target

fun permission_name :: "permission \<Rightarrow> string" where
  "permission_name Source_Derived_Read = ''source_derived_read''"
| "permission_name Reviewer_State_Read = ''reviewer_state_read''"
| "permission_name Reviewer_State_Write = ''reviewer_state_write''"
| "permission_name Correction_Propose = ''correction_propose''"
| "permission_name Correction_Decide = ''correction_decide''"
| "permission_name Export_Prepare = ''export_prepare''"
| "permission_name Export_Finalize = ''export_finalize''"
| "permission_name Feedback_Submit = ''feedback_submit''"
| "permission_name Retrieval_Job_Trigger = ''retrieval_job_trigger''"
| "permission_name Import_Reload = ''import_reload''"
| "permission_name Reset_Destructive = ''reset_destructive''"
| "permission_name User_Role_Admin = ''user_role_admin''"
| "permission_name Audit_Read = ''audit_read''"

fun role_permissions :: "tester_role \<Rightarrow> permission list" where
  "role_permissions Admin =
     [Source_Derived_Read, Reviewer_State_Read, Reviewer_State_Write, Correction_Propose, Correction_Decide,
      Export_Prepare, Export_Finalize, Feedback_Submit, Retrieval_Job_Trigger, Import_Reload,
      Reset_Destructive, User_Role_Admin, Audit_Read]"
| "role_permissions Tester_Reviewer =
     [Source_Derived_Read, Reviewer_State_Read, Reviewer_State_Write, Correction_Propose, Export_Prepare,
      Feedback_Submit, Retrieval_Job_Trigger]"
| "role_permissions Read_Only_Tester = [Source_Derived_Read, Reviewer_State_Read]"
| "role_permissions Developer_Operator = [Source_Derived_Read, Import_Reload, Audit_Read]"
| "role_permissions Feedback_Tester = [Feedback_Submit]"
| "role_permissions System_Role = [Source_Derived_Read, Import_Reload]"

record access_scope =
  scope_kind :: scope_type
  scope_id :: string

definition mk_scope :: "scope_type \<Rightarrow> string \<Rightarrow> access_scope result" where
  "mk_scope t i =
     ebind (guard (py_strip i \<noteq> []) (ValueError ''Hosted access scope ID must not be empty.'')) (\<lambda>_.
     Inr \<lparr>scope_kind = t, scope_id = i\<rparr>)"

definition scope_matches :: "access_scope \<Rightarrow> access_scope \<Rightarrow> bool" where
  "scope_matches s required \<longleftrightarrow> scope_kind s = scope_kind required \<and> scope_id s = scope_id required"

definition CCLD_RETRIEVAL_CORPUS_SCOPE :: access_scope where
  "CCLD_RETRIEVAL_CORPUS_SCOPE = \<lparr>scope_kind = Corpus, scope_id = ''ccld-retrieval-corpus''\<rparr>"

record authorization_target =
  target_kind :: target_type
  target_id :: string

definition mk_target :: "target_type \<Rightarrow> string \<Rightarrow> authorization_target result" where
  "mk_target t i =
     ebind (guard (py_strip i \<noteq> []) (ValueError ''Authorization target ID must not be empty.'')) (\<lambda>_.
     Inr \<lparr>target_kind = t, target_id = i\<rparr>)"

section \<open>Actors\<close>

record actor_audit_context =
  provider_subject :: string
  provider_issuer :: string
  display_name :: "string option"
  email :: "string option"
  actor_category :: actor_category
  account_status :: account_status
  actor_roles :: "tester_role list"
  actor_scopes :: "access_scope list"

text \<open>An authenticated actor has the fields of its audit context; \<open>__post_init__\<close> checks two of them.\<close>

type_synonym authenticated_actor = actor_audit_context

definition mk_actor :: "actor_audit_context \<Rightarrow> authenticated_actor result" where
  "mk_actor a =
     ebind (guard (py_strip (provider_subject a) \<noteq> [])
             (ValueError ''Authenticated actor provider subject must not be empty.'')) (\<lambda>_.
     ebind (guard (py_strip (provider_issuer a) \<noteq> [])
             (ValueError ''Authenticated actor provider issuer must not be empty.'')) (\<lambda>_.
     Inr a))"

definition actor_permissions :: "authenticated_actor \<Rightarrow> permission set" where
  "actor_permissions a = \<Union> (set (map (set \<circ> role_permissions) (actor_roles a)))"

definition has_permission :: "authenticated_actor \<Rightarrow> permission \<Rightarrow> bool" where
  "has_permission a p \<longleftrightarrow> p \<in> actor_permissions a"

definition has_scope :: "authenticated_actor \<Rightarrow> access_scope \<Rightarrow> bool" where
  "has_scope a required \<longleftrightarrow> list_ex (\<lambda>s. scope_matches s required) (actor_scopes a)"

definition audit_context :: "authenticated_actor \<Rightarrow> actor_audit_context" where
  "audit_context a =
     \<lparr>provider_subject = provider_subject a, provider_issuer = provider_issuer a,
      display_name = display_name a, email = email a, actor_category = actor_category a,
      account_status = account_status a, actor_roles = actor_roles a, actor_scopes = actor_scopes a\<rparr>"

section \<open>The permission check\<close>

record authorization_decision =
  decided_actor :: actor_audit_context
  decided_permission :: permission
  decided_scope :: access_scope
  decided_target :: authorization_target
  authorized_at :: string

definition require_active_actor :: "authenticated_actor option \<Rightarrow> authenticated_actor result" where
  "require_active_actor actor =
     (case actor of
        None \<Rightarrow> Inl (AuthenticationRequired ''Hosted tester request requires an authenticated actor.'')
      | Some a \<Rightarrow>
          if account_status a \<noteq> Active
          then Inl (AccountDisabled ''Hosted tester actor account is disabled or revoked.'')
          else Inr a)"

text \<open>The last argument is the current time, as \<open>datetime.now(UTC).isoformat()\<close> writes it.\<close>

definition require_permission ::
  "authenticated_actor option \<Rightarrow> permission \<Rightarrow> access_scope \<Rightarrow> authorization_target \<Rightarrow> string
     \<Rightarrow> authorization_decision result" where
  "require_permission actor p s target now =
     ebind (require_active_actor actor) (\<lambda>a.
     ebind (guard (has_permission a p)
             (RoleDenied (''Hosted tester role does not allow '' @ repr_str (permission_name p) @ ''.''))) (\<lambda>_.
     ebind (guard (has_scope a s)
             (ScopeDenied ''Hosted tester actor is not assigned to the requested project or corpus scope.'')) (\<lambda>_.
     Inr \<lparr>decided_actor = audit_context a, decided_permission = p, decided_scope = s,
          decided_target = target, authorized_at = now\<rparr>)))"

section \<open>Lemmas\<close>

lemma audit_context_id [simp]: "audit_context a = a"
  by (simp add: audit_context_def)

lemma scope_matches_eq [simp]: "scope_matches s t \<longleftrightarrow> s = t"
  by (cases s; cases t) (simp add: scope_matches_def)

lemma has_scope_iff [simp]: "has_scope a s \<longleftrightarrow> s \<in> set (actor_scopes a)"
  by (auto simp: has_scope_def list_ex_iff)

lemma has_permission_iff: "has_permission a p \<longleftrightarrow> (\<exists>r \<in> set (actor_roles a). p \<in> set (role_permissions r))"
  by (auto simp: has_permission_def actor_permissions_def)

lemma require_active_actor_Inr [simp]:
  "require_active_actor actor = Inr a \<longleftrightarrow> actor = Some a \<and> account_status a = Active"
  by (auto simp: require_active_actor_def split: option.splits if_splits)

lemma require_permission_Inr: "require_permission actor p s target now = Inr d \<longleftrightarrow>
    (\<exists>a. actor = Some a \<and> account_status a = Active \<and> has_permission a p \<and> has_scope a s \<and>
      d = \<lparr>decided_actor = a, decided_permission = p, decided_scope = s, decided_target = target,
           authorized_at = now\<rparr>)"
  by (auto simp: require_permission_def ebind_eq_Inr)

end
