(* ===== verification/Py_Base64.thy ===== *)
theory Py_Base64 imports Py_Formats
begin

text \<open>
  \<open>base64.urlsafe_b64decode\<close> as the program uses it: the decoder of \<open>binascii\<close> in its tolerant mode
  (characters outside the alphabet are skipped, a complete padding ends the text), and a writer of the
  unpadded URL-safe form that tokens use, with the proof that what it writes is read back.
\<close>

section \<open>Reading\<close>

definition base64_value :: "char \<Rightarrow> nat option" where
  "base64_value c =
     (if is_upper c then Some (ord c - 65)
      else if is_lower c then Some (ord c - 71)
      else if is_digit c then Some (ord c + 4)
      else if c = CHR ''+'' then Some 62
      else if c = CHR ''/'' then Some 63
      else None)"

text \<open>The position within the group of four, the bits left over and the number of padding characters.\<close>

fun a2b_base64 :: "nat \<Rightarrow> nat \<Rightarrow> nat \<Rightarrow> string \<Rightarrow> string option" where
  "a2b_base64 quad left pads [] = (if quad = 0 then Some [] else None)"
| "a2b_base64 quad left pads (c # cs) =
     (if c = CHR ''='' then
        (if quad \<ge> 2 then (if quad + pads + 1 \<ge> 4 then Some [] else a2b_base64 quad left (pads + 1) cs)
         else a2b_base64 quad left pads cs)
      else (case base64_value c of
          None \<Rightarrow> a2b_base64 quad left pads cs
        | Some v \<Rightarrow>
            if quad = 0 then a2b_base64 1 v 0 cs
            else if quad = 1 then map_option ((#) (char_of (left * 4 + v div 16))) (a2b_base64 2 (v mod 16) 0 cs)
            else if quad = 2 then map_option ((#) (char_of (left * 16 + v div 4))) (a2b_base64 3 (v mod 4) 0 cs)
            else map_option ((#) (char_of (left * 64 + v))) (a2b_base64 0 0 0 cs)))"

definition url_to_standard :: "char \<Rightarrow> char" where
  "url_to_standard c = (if c = CHR ''-'' then CHR ''+'' else if c = CHR ''_'' then CHR ''/'' else c)"

definition base64_padding :: "nat \<Rightarrow> string" where
  "base64_padding n = replicate ((4 - n mod 4) mod 4) (CHR ''='')"

section \<open>Writing\<close>

definition base64_char :: "nat \<Rightarrow> char" where
  "base64_char v =
     (if v < 26 then char_of (v + 65)
      else if v < 52 then char_of (v + 71)
      else if v < 62 then char_of (v - 4)
      else if v = 62 then CHR ''-'' else CHR ''_'')"

fun base64url_encode :: "string \<Rightarrow> string" where
  "base64url_encode [] = []"
| "base64url_encode [a] = [base64_char (ord a div 4), base64_char (ord a mod 4 * 16)]"
| "base64url_encode [a, b] =
     [base64_char (ord a div 4), base64_char (ord a mod 4 * 16 + ord b div 16), base64_char (ord b mod 16 * 4)]"
| "base64url_encode (a # b # c # s) =
     base64_char (ord a div 4) # base64_char (ord a mod 4 * 16 + ord b div 16)
       # base64_char (ord b mod 16 * 4 + ord c div 64) # base64_char (ord c mod 64) # base64url_encode s"

section \<open>Reading what was written\<close>

lemma char_eq_ord: "c = d \<longleftrightarrow> ord c = ord d" for c d :: char
  by simp

lemma base64_char_ord:
  assumes "v < 64"
  shows "ord (base64_char v) = (if v < 26 then v + 65 else if v < 52 then v + 71 else if v < 62 then v - 4
    else if v = 62 then 45 else 95)"
  using assms by (auto simp: base64_char_def of_char_of)

lemma base64_char_value:
  assumes "v < 64"
  shows "base64_value (url_to_standard (base64_char v)) = Some v" "url_to_standard (base64_char v) \<noteq> CHR ''=''"
    "ord (base64_char v) < 0x80"
proof -
  note o = base64_char_ord [OF assms]
  have std: "ord (url_to_standard (base64_char v)) = (if v = 62 then 43 else if v = 63 then 47 else ord (base64_char v))"
    using assms o by (cases "v = 63") (auto simp: url_to_standard_def char_eq_ord split: if_splits)
  show "ord (base64_char v) < 0x80" using assms by (auto simp: o)
  show "url_to_standard (base64_char v) \<noteq> CHR ''=''"
    unfolding char_eq_ord std using assms by (auto simp: o)
  show "base64_value (url_to_standard (base64_char v)) = Some v"
    unfolding base64_value_def is_upper_def is_lower_def is_digit_def Let_def char_eq_ord std using assms
    by (auto simp: o)
qed

lemma read_base64_char:
  assumes "v < 64"
  shows "a2b_base64 0 left pads (url_to_standard (base64_char v) # cs) = a2b_base64 1 v 0 cs"
    "a2b_base64 1 left pads (url_to_standard (base64_char v) # cs) =
       map_option ((#) (char_of (left * 4 + v div 16))) (a2b_base64 2 (v mod 16) 0 cs)"
    "a2b_base64 2 left pads (url_to_standard (base64_char v) # cs) =
       map_option ((#) (char_of (left * 16 + v div 4))) (a2b_base64 3 (v mod 4) 0 cs)"
    "a2b_base64 3 left pads (url_to_standard (base64_char v) # cs) =
       map_option ((#) (char_of (left * 64 + v))) (a2b_base64 0 0 0 cs)"
  using base64_char_value [OF assms] by simp_all

lemma sextets:
  fixes a b c :: nat
  assumes "a < 256" and "b < 256" and "c < 256"
  shows "a div 4 < 64" "a mod 4 * 16 + b div 16 < 64" "b mod 16 * 4 + c div 64 < 64" "c mod 64 < 64"
    "a mod 4 * 16 < 64" "b mod 16 * 4 < 64"
    "a div 4 * 4 + (a mod 4 * 16 + b div 16) div 16 = a" "(a mod 4 * 16 + b div 16) mod 16 * 16 + (b mod 16 * 4 + c div 64) div 4 = b"
    "(b mod 16 * 4 + c div 64) mod 4 * 64 + c mod 64 = c"
    "a div 4 * 4 + (a mod 4 * 16) div 16 = a" "(a mod 4 * 16 + b div 16) mod 16 * 16 + (b mod 16 * 4) div 4 = b"
proof -
  have q: "b div 16 < 16" "c div 64 < 4" "a mod 4 < 4" "b mod 16 < 16" using assms by auto
  show "a div 4 < 64" "a mod 4 * 16 + b div 16 < 64" "b mod 16 * 4 + c div 64 < 64" "c mod 64 < 64"
    "a mod 4 * 16 < 64" "b mod 16 * 4 < 64" using assms(1) q by auto
  have "(a mod 4 * 16 + b div 16) div 16 = a mod 4" "(a mod 4 * 16 + b div 16) mod 16 = b div 16"
    "(b mod 16 * 4 + c div 64) div 4 = b mod 16" "(b mod 16 * 4 + c div 64) mod 4 = c div 64"
    using q by simp_all
  then show "a div 4 * 4 + (a mod 4 * 16 + b div 16) div 16 = a"
    "(a mod 4 * 16 + b div 16) mod 16 * 16 + (b mod 16 * 4 + c div 64) div 4 = b"
    "(b mod 16 * 4 + c div 64) mod 4 * 64 + c mod 64 = c"
    "a div 4 * 4 + (a mod 4 * 16) div 16 = a" "(a mod 4 * 16 + b div 16) mod 16 * 16 + (b mod 16 * 4) div 4 = b"
    by simp_all
qed

lemma read_padding: "a2b_base64 2 left 0 ''=='' = Some []" "a2b_base64 3 left 0 ''='' = Some []"
  by simp_all

lemma paddings: "base64_padding 0 = []" "base64_padding 2 = ''==''" "base64_padding 3 = ''=''"
    "base64_padding (n + 4) = base64_padding n"
  by (simp_all add: base64_padding_def numeral_2_eq_2)

lemma read_encoded:
  "a2b_base64 0 left pads (map url_to_standard (base64url_encode s) @ base64_padding (length (base64url_encode s))) = Some s"
proof (induction s arbitrary: left pads rule: base64url_encode.induct)
  case 1
  show ?case by (simp add: paddings)
next
  case (2 a)
  note b = sextets [of "ord a" "ord a" "ord a", OF nat_of_char_less_256 nat_of_char_less_256 nat_of_char_less_256]
  have len: "length (base64url_encode [a]) = 2" by simp
  show ?case
    unfolding len paddings unfolding base64url_encode.simps list.map append.simps
      read_base64_char(1) [OF b(1)] read_base64_char(2) [OF b(5)] read_padding b(10)
    by simp
next
  case (3 a b)
  note b = sextets [of "ord a" "ord b" "ord b", OF nat_of_char_less_256 nat_of_char_less_256 nat_of_char_less_256]
  have len: "length (base64url_encode [a, b]) = 3" by simp
  show ?case
    unfolding len paddings unfolding base64url_encode.simps list.map append.simps
      read_base64_char(1) [OF b(1)] read_base64_char(2) [OF b(2)] read_base64_char(3) [OF b(6)] read_padding b
    by simp
next
  case (4 a b c s)
  note b = sextets [of "ord a" "ord b" "ord c", OF nat_of_char_less_256 nat_of_char_less_256 nat_of_char_less_256]
  have len: "length (base64url_encode (a # b # c # s)) = length (base64url_encode s) + 4" by simp
  show ?case
    unfolding len paddings unfolding base64url_encode.simps list.map append.simps
      read_base64_char(1) [OF b(1)] read_base64_char(2) [OF b(2)] read_base64_char(3) [OF b(3)]
      read_base64_char(4) [OF b(4)] 4 b
    by simp
qed

end
