(* ===== verification/Cloudflare_Access.thy ===== *)
theory Cloudflare_Access imports Hosted_Access Py_Base64
begin

text \<open>
  Authentication (\<open>hosted_app/auth.py\<close>): the configuration read from the environment, the decoding and
  the checks of a Cloudflare Access assertion, the cache of signing keys, and the actors that result.
  The RSA signature check, the JSON parser, the key endpoint and the clock are fields of the environment.
\<close>

section \<open>The environment\<close>

text \<open>Times are microseconds since the epoch. An RSA key is given by its exponent and modulus.\<close>

record auth_env = pyenv +
  json_loads_bytes :: "string \<Rightarrow> pyval option"
  rsa_key_valid :: "int \<Rightarrow> int \<Rightarrow> bool"
  rsa_verify :: "int \<Rightarrow> int \<Rightarrow> string \<Rightarrow> string \<Rightarrow> bool"
  fetch_url :: "string \<Rightarrow> string result"
  clock :: int

type_synonym environ = "string \<Rightarrow> string option"

definition AUTH_PROVIDER_CLASS_ENV :: string where
  "AUTH_PROVIDER_CLASS_ENV = ''CCLD_HOSTED_TESTER_AUTH_PROVIDER_CLASS''"
definition AUTH_MODE_ENV :: string where "AUTH_MODE_ENV = ''CCLD_HOSTED_TESTER_AUTH_MODE''"
definition LOCAL_DEV_AUTH_ENV :: string where "LOCAL_DEV_AUTH_ENV = ''CCLD_HOSTED_TESTER_LOCAL_DEV_AUTH''"
definition OIDC_ISSUER_ENV :: string where "OIDC_ISSUER_ENV = ''CCLD_HOSTED_TESTER_OIDC_ISSUER''"
definition OIDC_CLIENT_ID_ENV :: string where "OIDC_CLIENT_ID_ENV = ''CCLD_HOSTED_TESTER_OIDC_CLIENT_ID''"
definition OIDC_CALLBACK_PATH_ENV :: string where
  "OIDC_CALLBACK_PATH_ENV = ''CCLD_HOSTED_TESTER_OIDC_CALLBACK_PATH''"
definition OIDC_SCOPES_ENV :: string where "OIDC_SCOPES_ENV = ''CCLD_HOSTED_TESTER_OIDC_SCOPES''"
definition CLOUDFLARE_ACCESS_TEAM_DOMAIN_ENV :: string where
  "CLOUDFLARE_ACCESS_TEAM_DOMAIN_ENV = ''CCLD_CLOUDFLARE_ACCESS_TEAM_DOMAIN''"
definition CLOUDFLARE_ACCESS_AUD_ENV :: string where
  "CLOUDFLARE_ACCESS_AUD_ENV = ''CCLD_CLOUDFLARE_ACCESS_AUD''"
definition CLOUDFLARE_ACCESS_ALLOWED_EMAIL_DOMAINS_ENV :: string where
  "CLOUDFLARE_ACCESS_ALLOWED_EMAIL_DOMAINS_ENV = ''CCLD_CLOUDFLARE_ACCESS_ALLOWED_EMAIL_DOMAINS''"
definition CLOUDFLARE_ACCESS_ALLOWED_EMAILS_ENV :: string where
  "CLOUDFLARE_ACCESS_ALLOWED_EMAILS_ENV = ''CCLD_CLOUDFLARE_ACCESS_ALLOWED_EMAILS''"
definition OPERATOR_COVERAGE_ALLOWED_EMAILS_ENV :: string where
  "OPERATOR_COVERAGE_ALLOWED_EMAILS_ENV = ''CCLD_OPERATOR_COVERAGE_ALLOWED_EMAILS''"
definition CLOUDFLARE_ACCESS_JWKS_CACHE_SECONDS_ENV :: string where
  "CLOUDFLARE_ACCESS_JWKS_CACHE_SECONDS_ENV = ''CCLD_CLOUDFLARE_ACCESS_JWKS_CACHE_SECONDS''"
definition CLOUDFLARE_ACCESS_ASSERTION_HEADER :: string where
  "CLOUDFLARE_ACCESS_ASSERTION_HEADER = ''Cf-Access-Jwt-Assertion''"
definition CLOUDFLARE_ACCESS_DEFAULT_JWKS_CACHE_SECONDS :: int where
  "CLOUDFLARE_ACCESS_DEFAULT_JWKS_CACHE_SECONDS = 300"
definition MANAGED_OIDC_OAUTH2_PROVIDER_CLASS :: string where
  "MANAGED_OIDC_OAUTH2_PROVIDER_CLASS = ''managed-oidc-oauth2''"
definition CLOUDFLARE_ACCESS_PROVIDER_CLASS :: string where
  "CLOUDFLARE_ACCESS_PROVIDER_CLASS = ''cloudflare-access''"
definition LOCAL_DEV_AUTH_ENABLED_VALUE :: string where "LOCAL_DEV_AUTH_ENABLED_VALUE = ''enabled''"

datatype auth_mode = Production | Local_Dev

section \<open>Configuration values\<close>

definition env_get :: "environ \<Rightarrow> string \<Rightarrow> string" where
  "env_get environ name = (case environ name of None \<Rightarrow> [] | Some v \<Rightarrow> v)"

definition optional_config_value :: "environ \<Rightarrow> string \<Rightarrow> string option" where
  "optional_config_value environ name =
     (let v = py_strip (env_get environ name) in if v = [] then None else Some v)"

definition reject_secret_like_config :: "string \<Rightarrow> string \<Rightarrow> unit result" where
  "reject_secret_like_config name v =
     guard (\<not> list_ex (\<lambda>marker. py_in marker (py_casefold v))
         [''client_secret'', ''cookie'', ''password'', ''private_key'', ''refresh_token'', ''secret'', ''token''])
       (AuthConfigError (name @ '' must not contain secret-like data.''))"

text \<open>Later occurrences of a value are dropped.\<close>

fun keep_first :: "string list \<Rightarrow> string list \<Rightarrow> string list" where
  "keep_first acc [] = acc"
| "keep_first acc (v # vs) = keep_first (if v \<noteq> [] \<and> v \<notin> set acc then acc @ [v] else acc) vs"

definition normalized_config_list :: "string option \<Rightarrow> string list" where
  "normalized_config_list raw =
     (case raw of None \<Rightarrow> []
      | Some r \<Rightarrow> keep_first [] (map (\<lambda>v. py_casefold (py_strip v))
          (split_on (CHR '','') (map (\<lambda>c. if c = CHR '';'' then CHR '','' else c) r))))"

definition jwks_cache_seconds_of :: "string option \<Rightarrow> int result" where
  "jwks_cache_seconds_of raw =
     (case raw of
        None \<Rightarrow> Inr CLOUDFLARE_ACCESS_DEFAULT_JWKS_CACHE_SECONDS
      | Some r \<Rightarrow>
          (case py_int r of
             None \<Rightarrow> Inl (AuthConfigError (CLOUDFLARE_ACCESS_JWKS_CACHE_SECONDS_ENV @ '' must be an integer.''))
           | Some v \<Rightarrow>
               if v < 0 \<or> v > 3600
               then Inl (AuthConfigError (CLOUDFLARE_ACCESS_JWKS_CACHE_SECONDS_ENV @ '' must be between 0 and 3600.''))
               else Inr v))"

definition rstrip_slashes :: "string \<Rightarrow> string" where
  "rstrip_slashes s = rev (dropWhile (\<lambda>c. c = CHR ''/'') (rev s))"

text \<open>\<open>urlparse\<close> cuts the parameters, what follows a semicolon in the last segment, off the path.\<close>

definition urlparse_path :: "string \<Rightarrow> string" where
  "urlparse_path path =
     (let segment = rev (takeWhile (\<lambda>c. c \<noteq> CHR ''/'') (rev path));
          before = rev (dropWhile (\<lambda>c. c \<noteq> CHR ''/'') (rev path))
      in before @ takeWhile (\<lambda>c. c \<noteq> CHR '';'') segment)"

definition cloudflare_access_base_url :: "string \<Rightarrow> string result" where
  "cloudflare_access_base_url team_domain =
     (let raw = rstrip_slashes (py_strip team_domain);
          candidate = (if py_in ''://'' raw then raw else ''https://'' @ raw)
      in ebind (urlsplit candidate) (\<lambda>parsed.
         ebind (guard (url_scheme parsed = ''https'' \<and> url_netloc parsed \<noteq> [] \<and>
                       urlparse_path (url_path parsed) \<in> {[], ''/''})
                 (AuthConfigError (CLOUDFLARE_ACCESS_TEAM_DOMAIN_ENV @ '' must be an HTTPS team domain.''))) (\<lambda>_.
         ebind (guard (url_query parsed = [] \<and> url_fragment parsed = [])
                 (AuthConfigError (CLOUDFLARE_ACCESS_TEAM_DOMAIN_ENV @ '' must not include query or fragment.''))) (\<lambda>_.
         Inr (''https://'' @ url_netloc parsed)))))"

record oidc_config =
  oidc_issuer :: "string option"
  oidc_client_id :: "string option"
  oidc_callback_path :: "string option"
  oidc_scopes :: "string list"

record cloudflare_config =
  team_domain :: "string option"
  cf_aud :: "string option"
  allowed_email_domains :: "string list"
  allowed_emails :: "string list"
  jwks_cache_seconds :: int

record auth_runtime_config =
  rt_mode :: auth_mode
  rt_provider_class :: "string option"
  rt_oidc :: oidc_config
  rt_cloudflare_access :: cloudflare_config
  rt_local_dev_auth_enabled :: bool

definition truthy_text :: "string option \<Rightarrow> bool" where
  "truthy_text v = (case v of None \<Rightarrow> False | Some s \<Rightarrow> s \<noteq> [])"

definition cloudflare_configured :: "cloudflare_config \<Rightarrow> bool" where
  "cloudflare_configured c \<longleftrightarrow> truthy_text (team_domain c) \<and> truthy_text (cf_aud c) \<and>
     (allowed_email_domains c \<noteq> [] \<or> allowed_emails c \<noteq> [])"

definition cloudflare_issuer :: "cloudflare_config \<Rightarrow> string option result" where
  "cloudflare_issuer c =
     (case team_domain c of None \<Rightarrow> Inr None
      | Some d \<Rightarrow> ebind (cloudflare_access_base_url d) (\<lambda>u. Inr (Some u)))"

definition cloudflare_jwks_url :: "cloudflare_config \<Rightarrow> string option result" where
  "cloudflare_jwks_url c =
     ebind (cloudflare_issuer c) (\<lambda>i. Inr (map_option (\<lambda>u. u @ ''/cdn-cgi/access/certs'') i))"

definition local_dev_actor_allowed :: "auth_runtime_config \<Rightarrow> bool" where
  "local_dev_actor_allowed c \<longleftrightarrow> rt_mode c = Local_Dev \<and> rt_local_dev_auth_enabled c"

definition oidc_configured :: "oidc_config \<Rightarrow> bool" where
  "oidc_configured c \<longleftrightarrow> truthy_text (oidc_issuer c) \<and> truthy_text (oidc_client_id c) \<and> truthy_text (oidc_callback_path c)"

definition or_unset :: "string option \<Rightarrow> string" where
  "or_unset v = (case v of None \<Rightarrow> ''<unset>'' | Some s \<Rightarrow> if s = [] then ''<unset>'' else s)"

fun auth_mode_name :: "auth_mode \<Rightarrow> string" where
  "auth_mode_name Production = ''production''"
| "auth_mode_name Local_Dev = ''local-dev''"

definition oidc_safe_summary :: "oidc_config \<Rightarrow> pydict" where
  "oidc_safe_summary c =
     [(''issuer_configured'', PBool (oidc_issuer c \<noteq> None)), (''client_id_configured'', PBool (oidc_client_id c \<noteq> None)),
      (''callback_path'', PStr (or_unset (oidc_callback_path c))), (''scopes'', PList (map PStr (oidc_scopes c)))]"

definition cloudflare_safe_summary :: "cloudflare_config \<Rightarrow> pydict" where
  "cloudflare_safe_summary c =
     [(''team_domain_configured'', PBool (team_domain c \<noteq> None)), (''aud_configured'', PBool (cf_aud c \<noteq> None)),
      (''allowed_email_domain_count'', PInt (int (length (allowed_email_domains c)))),
      (''allowed_exact_email_count'', PInt (int (length (allowed_emails c)))),
      (''jwks_cache_seconds'', PInt (jwks_cache_seconds c)),
      (''assertion_header'', PStr CLOUDFLARE_ACCESS_ASSERTION_HEADER)]"

definition runtime_safe_summary :: "auth_runtime_config \<Rightarrow> pydict" where
  "runtime_safe_summary c =
     [(''mode'', PStr (auth_mode_name (rt_mode c))), (''provider_class'', PStr (or_unset (rt_provider_class c))),
      (''oidc'', PDict (oidc_safe_summary (rt_oidc c))),
      (''cloudflare_access'', PDict (cloudflare_safe_summary (rt_cloudflare_access c))),
      (''local_dev_auth_enabled'', PBool (rt_local_dev_auth_enabled c)),
      (''local_dev_actor_allowed'', PBool (local_dev_actor_allowed c)), (''custom_password_storage'', PBool False),
      (''real_oidc_flow_implemented'', PBool False), (''sessions_or_cookies_implemented'', PBool False),
      (''cloudflare_access_jwt_bridge_implemented'', PBool True)]"

definition validate_auth_provider_class :: "string \<Rightarrow> string result" where
  "validate_auth_provider_class raw =
     (let normalized = py_casefold (py_strip raw) in
      ebind (guard (normalized \<in> {MANAGED_OIDC_OAUTH2_PROVIDER_CLASS, CLOUDFLARE_ACCESS_PROVIDER_CLASS})
        (AuthConfigError (AUTH_PROVIDER_CLASS_ENV @ '' must be '' @ repr_str MANAGED_OIDC_OAUTH2_PROVIDER_CLASS
           @ '' or '' @ repr_str CLOUDFLARE_ACCESS_PROVIDER_CLASS @ ''.''))) (\<lambda>_. Inr normalized))"

definition load_hosted_auth_config :: "environ \<Rightarrow> bool \<Rightarrow> string option result" where
  "load_hosted_auth_config environ require_provider_class =
     (let raw = py_strip (env_get environ AUTH_PROVIDER_CLASS_ENV) in
      if raw = [] then
        (if require_provider_class
         then Inl (AuthConfigError (''Set '' @ AUTH_PROVIDER_CLASS_ENV @ '' to ''
                @ MANAGED_OIDC_OAUTH2_PROVIDER_CLASS @ ''.''))
         else Inr None)
      else ebind (validate_auth_provider_class raw) (\<lambda>p. Inr (Some p)))"

definition auth_mode_of :: "string \<Rightarrow> auth_mode result" where
  "auth_mode_of raw =
     (let n = py_casefold (py_strip raw); normalized = (if n = [] then ''production'' else n) in
      if normalized = ''production'' then Inr Production
      else if normalized = ''local-dev'' then Inr Local_Dev
      else Inl (AuthConfigError (AUTH_MODE_ENV @ '' must be 'production' or 'local-dev'.'')))"

definition reject_secrets :: "(string \<times> string option) list \<Rightarrow> unit result" where
  "reject_secrets values =
     foldM_err (\<lambda>_ nv. case snd nv of None \<Rightarrow> Inr () | Some v \<Rightarrow> reject_secret_like_config (fst nv) v) () values"

definition oidc_runtime_config :: "environ \<Rightarrow> oidc_config result" where
  "oidc_runtime_config environ =
     (let issuer = optional_config_value environ OIDC_ISSUER_ENV;
          client_id = optional_config_value environ OIDC_CLIENT_ID_ENV;
          callback = optional_config_value environ OIDC_CALLBACK_PATH_ENV;
          scopes = py_split (case optional_config_value environ OIDC_SCOPES_ENV of None \<Rightarrow> [] | Some s \<Rightarrow> s)
      in ebind (guard (case callback of None \<Rightarrow> True | Some p \<Rightarrow> py_startswith p ''/'')
           (AuthConfigError (OIDC_CALLBACK_PATH_ENV @ '' must be a path placeholder.''))) (\<lambda>_.
         ebind (reject_secrets [(OIDC_CLIENT_ID_ENV, client_id), (OIDC_CALLBACK_PATH_ENV, callback),
             (OIDC_SCOPES_ENV, if scopes = [] then None else Some (py_join '' '' scopes))]) (\<lambda>_.
         Inr \<lparr>oidc_issuer = issuer, oidc_client_id = client_id, oidc_callback_path = callback,
              oidc_scopes = scopes\<rparr>)))"

definition nonempty_text :: "string \<Rightarrow> string option" where
  "nonempty_text s = (if s = [] then None else Some s)"

definition cloudflare_access_runtime_config :: "environ \<Rightarrow> cloudflare_config result" where
  "cloudflare_access_runtime_config environ =
     (let domain = optional_config_value environ CLOUDFLARE_ACCESS_TEAM_DOMAIN_ENV;
          aud = optional_config_value environ CLOUDFLARE_ACCESS_AUD_ENV;
          domains = normalized_config_list (optional_config_value environ CLOUDFLARE_ACCESS_ALLOWED_EMAIL_DOMAINS_ENV);
          emails = normalized_config_list (optional_config_value environ CLOUDFLARE_ACCESS_ALLOWED_EMAILS_ENV)
      in ebind (jwks_cache_seconds_of (optional_config_value environ CLOUDFLARE_ACCESS_JWKS_CACHE_SECONDS_ENV)) (\<lambda>secs.
         ebind (reject_secrets [(CLOUDFLARE_ACCESS_AUD_ENV, aud),
             (CLOUDFLARE_ACCESS_ALLOWED_EMAIL_DOMAINS_ENV, nonempty_text (py_join '','' domains)),
             (CLOUDFLARE_ACCESS_ALLOWED_EMAILS_ENV, nonempty_text (py_join '','' emails))]) (\<lambda>_.
         ebind (case domain of None \<Rightarrow> Inr [] | Some d \<Rightarrow> cloudflare_access_base_url d) (\<lambda>_.
         Inr \<lparr>team_domain = domain, cf_aud = aud, allowed_email_domains = domains, allowed_emails = emails,
              jwks_cache_seconds = secs\<rparr>))))"

definition load_hosted_auth_runtime_config :: "environ \<Rightarrow> auth_runtime_config result" where
  "load_hosted_auth_runtime_config environ =
     ebind (auth_mode_of (env_get environ AUTH_MODE_ENV)) (\<lambda>mode.
     ebind (load_hosted_auth_config environ False) (\<lambda>provider.
     (let enabled = (py_casefold (py_strip (env_get environ LOCAL_DEV_AUTH_ENV)) = LOCAL_DEV_AUTH_ENABLED_VALUE) in
      ebind (guard (\<not> (mode = Production \<and> enabled))
        (AuthConfigError (LOCAL_DEV_AUTH_ENV @ '' must not be enabled when '' @ AUTH_MODE_ENV @ '' is production.''))) (\<lambda>_.
      ebind (oidc_runtime_config environ) (\<lambda>oidc.
      ebind (cloudflare_access_runtime_config environ) (\<lambda>cf.
      Inr \<lparr>rt_mode = mode, rt_provider_class = provider, rt_oidc = oidc, rt_cloudflare_access = cf,
           rt_local_dev_auth_enabled = enabled\<rparr>))))))"

text \<open>\<open>rpartition("@")\<close>: the last separator splits; without one everything is the third part.\<close>

definition rpartition_at :: "string \<Rightarrow> string \<times> bool \<times> string" where
  "rpartition_at s =
     (let domain = rev (takeWhile (\<lambda>c. c \<noteq> CHR ''@'') (rev s)) in
      if CHR ''@'' \<in> set s then (take (length s - length domain - 1) s, True, domain) else ([], False, s))"

definition is_exact_email :: "string \<Rightarrow> bool" where
  "is_exact_email e =
     (let (local_part, separator, domain) = rpartition_at e
      in separator \<and> local_part \<noteq> [] \<and> domain \<noteq> [] \<and> \<not> list_ex is_space e)"

definition load_operator_coverage_allowed_emails :: "environ \<Rightarrow> string list result" where
  "load_operator_coverage_allowed_emails environ =
     (let values = normalized_config_list (optional_config_value environ OPERATOR_COVERAGE_ALLOWED_EMAILS_ENV) in
      ebind (guard (list_all is_exact_email values)
        (AuthConfigError (OPERATOR_COVERAGE_ALLOWED_EMAILS_ENV @ '' must contain exact email addresses.''))) (\<lambda>_.
      Inr values))"

end
