(* ===== verification/Cloudflare_Tokens.thy ===== *)
theory Cloudflare_Tokens imports Cloudflare_Access "HOL-Library.AList"
begin

text \<open>
  The check of a Cloudflare Access assertion (\<open>hosted_app/auth.py\<close>): decoding the token, the cache of
  signing keys, which is explicit state, the claims, and the two actors a request can become.
\<close>

section \<open>Decoding an assertion\<close>

definition NOT_ACCEPTED :: py_error where
  "NOT_ACCEPTED = CloudflareAuthError ''Cloudflare Access assertion was not accepted.'' 403"

text \<open>A failure of \<open>encode("ascii")\<close> and of the decoder are both a \<open>ValueError\<close>.\<close>

definition base64url_decode :: "string \<Rightarrow> string result" where
  "base64url_decode value =
     (let padded = value @ base64_padding (length value) in
      ebind (guard (list_all (\<lambda>c. ord c < 0x80) padded) (ValueError ''ordinal not in range(128)'')) (\<lambda>_.
      (case a2b_base64 0 0 0 (map url_to_standard padded) of
         None \<Rightarrow> Inl (ValueError ''Incorrect padding'')
       | Some bytes \<Rightarrow> Inr bytes)))"

definition parsed_json :: "('a auth_env_scheme) \<Rightarrow> string \<Rightarrow> pyval result" where
  "parsed_json env content =
     (case json_loads_bytes env content of None \<Rightarrow> Inl (ValueError ''JSONDecodeError'') | Some v \<Rightarrow> Inr v)"

text \<open>\<open>except (ValueError, json.JSONDecodeError)\<close>.\<close>

definition reraise_value_error :: "py_error \<Rightarrow> 'a result \<Rightarrow> 'a result" where
  "reraise_value_error e r = (case r of Inl (ValueError _) \<Rightarrow> Inl e | _ \<Rightarrow> r)"

definition jwt_parts :: "('a auth_env_scheme) \<Rightarrow> string \<Rightarrow> string \<Rightarrow> string \<Rightarrow> (pyval \<times> pyval \<times> string) result" where
  "jwt_parts env h c s =
     ebind (base64url_decode h) (\<lambda>hb.
     ebind (parsed_json env hb) (\<lambda>header.
     ebind (base64url_decode c) (\<lambda>cb.
     ebind (parsed_json env cb) (\<lambda>claims.
     ebind (base64url_decode s) (\<lambda>signature.
     Inr (header, claims, signature))))))"

definition decode_unsigned_jwt ::
  "('a auth_env_scheme) \<Rightarrow> string \<Rightarrow> (pydict \<times> pydict \<times> string \<times> string) result" where
  "decode_unsigned_jwt env token =
     (case split_on (CHR ''.'') token of
        [h, c, s] \<Rightarrow>
          (if h \<noteq> [] \<and> c \<noteq> [] \<and> s \<noteq> [] then
             ebind (reraise_value_error NOT_ACCEPTED (jwt_parts env h c s)) (\<lambda>(header, claims, signature).
             (case (header, claims) of
                (PDict hdr, PDict cl) \<Rightarrow> Inr (hdr, cl, h @ ''.'' @ c, signature)
              | _ \<Rightarrow> Inl NOT_ACCEPTED))
           else Inl NOT_ACCEPTED)
      | _ \<Rightarrow> Inl NOT_ACCEPTED)"

section \<open>Signing keys\<close>

text \<open>The process-wide cache: for a URL the time of the fetch and the keys.\<close>

type_synonym jwks_cache = "(string \<times> (int \<times> pydict)) list"

type_synonym jwks_fetcher = "string \<Rightarrow> pyval result"

definition microseconds :: "int \<Rightarrow> int" where
  "microseconds seconds = seconds * 1000000"

definition JWKS_NOT_ACCEPTED :: py_error where
  "JWKS_NOT_ACCEPTED = CloudflareAuthError ''Cloudflare Access JWKS was not accepted.'' 403"

definition cached_jwks :: "jwks_cache \<Rightarrow> string \<Rightarrow> int \<Rightarrow> int \<Rightarrow> pydict option" where
  "cached_jwks cache url seconds now =
     (case map_of cache url of
        None \<Rightarrow> None
      | Some (cached_at, jwks) \<Rightarrow>
          if seconds > 0 \<and> now - cached_at \<le> microseconds seconds then Some jwks else None)"

definition load_jwks :: "('a auth_env_scheme) \<Rightarrow> jwks_fetcher option \<Rightarrow> string \<Rightarrow> pyval result" where
  "load_jwks env fetcher url =
     (case fetcher of
        Some f \<Rightarrow> f url
      | None \<Rightarrow>
          ebind (fetch_url env url) (\<lambda>content.
          ebind (guard (utf8_valid content) (ValueError ''UnicodeDecodeError'')) (\<lambda>_.
          (case json_loads env content of None \<Rightarrow> Inl (ValueError ''JSONDecodeError'') | Some v \<Rightarrow> Inr v))))"

definition fetch_cloudflare_access_jwks ::
  "('a auth_env_scheme) \<Rightarrow> jwks_cache \<Rightarrow> string \<Rightarrow> int \<Rightarrow> jwks_fetcher option \<Rightarrow> jwks_cache \<times> pydict result" where
  "fetch_cloudflare_access_jwks env cache url seconds fetcher =
     (case (if fetcher = None then cached_jwks cache url seconds (clock env) else None) of
        Some jwks \<Rightarrow> (cache, Inr jwks)
      | None \<Rightarrow>
          (case load_jwks env fetcher url of
             Inl e \<Rightarrow> (cache, Inl e)
           | Inr (PDict jwks) \<Rightarrow>
               (if fetcher = None \<and> seconds > 0 then AList.update url (clock env, jwks) cache else cache, Inr jwks)
           | Inr _ \<Rightarrow> (cache, Inl JWKS_NOT_ACCEPTED)))"

definition unsigned_int_of_bytes :: "string \<Rightarrow> int" where
  "unsigned_int_of_bytes bytes = foldl (\<lambda>n c. n * 256 + int (ord c)) 0 bytes"

definition unsigned_int_from_base64url :: "string \<Rightarrow> int result" where
  "unsigned_int_from_base64url value = ebind (base64url_decode value) (\<lambda>b. Inr (unsigned_int_of_bytes b))"

text \<open>A key the loop does not skip: its exponent and modulus texts.\<close>

definition rsa_key_texts :: "string \<Rightarrow> pyval \<Rightarrow> (string \<times> string) option" where
  "rsa_key_texts kid key =
     (case key of
        PDict d \<Rightarrow>
          (if py_get d ''kid'' = PStr kid \<and> py_get d ''kty'' = PStr ''RSA'' then
             (case (py_get d ''n'', py_get d ''e'') of
                (PStr modulus, PStr exponent) \<Rightarrow> Some (exponent, modulus)
              | _ \<Rightarrow> None)
           else None)
      | _ \<Rightarrow> None)"

fun first_rsa_key :: "('a auth_env_scheme) \<Rightarrow> string \<Rightarrow> pyval list \<Rightarrow> (int \<times> int) result" where
  "first_rsa_key env kid [] = Inl NOT_ACCEPTED"
| "first_rsa_key env kid (key # keys) =
     (case rsa_key_texts kid key of
        None \<Rightarrow> first_rsa_key env kid keys
      | Some (exponent, modulus) \<Rightarrow>
          ebind (unsigned_int_from_base64url exponent) (\<lambda>e.
          ebind (unsigned_int_from_base64url modulus) (\<lambda>n.
          ebind (guard (rsa_key_valid env e n) (ValueError ''Invalid RSA public numbers'')) (\<lambda>_.
          Inr (e, n)))))"

definition public_key_for_kid :: "('a auth_env_scheme) \<Rightarrow> pydict \<Rightarrow> string \<Rightarrow> (int \<times> int) result" where
  "public_key_for_kid env jwks kid =
     (case py_get jwks ''keys'' of
        PList keys \<Rightarrow> first_rsa_key env kid keys
      | _ \<Rightarrow> Inl JWKS_NOT_ACCEPTED)"

section \<open>Claims\<close>

definition MISSING_CLAIM :: py_error where
  "MISSING_CLAIM = CloudflareAuthError ''Cloudflare Access assertion is missing a required claim.'' 403"

definition required_string_claim :: "pydict \<Rightarrow> string \<Rightarrow> string result" where
  "required_string_claim claims name =
     (case py_get claims name of
        PStr v \<Rightarrow> (if py_strip v \<noteq> [] then Inr (py_strip v) else Inl MISSING_CLAIM)
      | _ \<Rightarrow> Inl MISSING_CLAIM)"

definition audience_accepted :: "pydict \<Rightarrow> string \<Rightarrow> bool" where
  "audience_accepted claims expected =
     (case py_get claims ''aud'' of
        PStr a \<Rightarrow> a = expected
      | PList vs \<Rightarrow> list_ex (\<lambda>v. py_eq v (PStr expected)) vs
      | _ \<Rightarrow> False)"

definition require_audience :: "pydict \<Rightarrow> string option \<Rightarrow> unit result" where
  "require_audience claims expected =
     (case expected of
        None \<Rightarrow> Inl (CloudflareAuthError ''Cloudflare Access authentication is missing the audience tag.'' 403)
      | Some a \<Rightarrow> guard (audience_accepted claims a)
          (CloudflareAuthError ''Cloudflare Access assertion audience was not accepted.'' 403))"

text \<open>\<open>isinstance(value, int)\<close> holds of booleans too; \<open>int()\<close> of a float cuts towards zero.\<close>

definition int_instance :: "pyval \<Rightarrow> int option" where
  "int_instance v = (case v of PInt i \<Rightarrow> Some i | PBool b \<Rightarrow> Some (if b then 1 else 0) | _ \<Rightarrow> None)"

definition whole_seconds :: "int \<Rightarrow> int" where
  "whole_seconds t = (if t < 0 then - ((- t) div 1000000) else t div 1000000)"

definition required_int_claim :: "pydict \<Rightarrow> string \<Rightarrow> int result" where
  "required_int_claim claims name =
     (case int_instance (py_get claims name) of None \<Rightarrow> Inl MISSING_CLAIM | Some i \<Rightarrow> Inr i)"

definition require_time_claims :: "pydict \<Rightarrow> int \<Rightarrow> unit result" where
  "require_time_claims claims now =
     ebind (required_int_claim claims ''exp'') (\<lambda>expires.
     ebind (guard (expires > whole_seconds now)
             (CloudflareAuthError ''Cloudflare Access assertion has expired.'' 403)) (\<lambda>_.
     if py_get claims ''nbf'' = PNone then Inr ()
     else ebind (required_int_claim claims ''nbf'') (\<lambda>nbf.
       guard (nbf \<le> whole_seconds now)
         (CloudflareAuthError ''Cloudflare Access assertion is not valid yet.'' 403))))"

definition cloudflare_email_allowed :: "string \<Rightarrow> cloudflare_config \<Rightarrow> bool" where
  "cloudflare_email_allowed e config =
     (if e \<in> set (allowed_emails config) then True
      else (let (local_part, separator, domain) = rpartition_at e in
            separator \<and> domain \<noteq> [] \<and> domain \<in> set (allowed_email_domains config)))"

section \<open>Authentication\<close>

definition assertion_from_headers :: "(string \<times> string) list \<Rightarrow> string option" where
  "assertion_from_headers headers =
     (case find (\<lambda>kv. py_casefold (fst kv) = py_casefold CLOUDFLARE_ACCESS_ASSERTION_HEADER) headers of
        None \<Rightarrow> None
      | Some (key, value) \<Rightarrow> if py_strip value = [] then None else Some (py_strip value))"

text \<open>Everything before the keys are needed: the claims, the signed text, the signature, the key's name
  and the address of the keys.\<close>

definition assertion_request ::
  "('a auth_env_scheme) \<Rightarrow> string \<Rightarrow> cloudflare_config \<Rightarrow> (pydict \<times> string \<times> string \<times> string \<times> string) result" where
  "assertion_request env token config =
     ebind (decode_unsigned_jwt env token) (\<lambda>(header, claims, signing_input, signature).
     ebind (guard (py_eq (py_get header ''alg'') (PStr ''RS256'')) NOT_ACCEPTED) (\<lambda>_.
     ebind (case py_get header ''kid'' of
              PStr k \<Rightarrow> if py_strip k \<noteq> [] then Inr k else Inl NOT_ACCEPTED
            | _ \<Rightarrow> Inl NOT_ACCEPTED) (\<lambda>kid.
     ebind (cloudflare_jwks_url config) (\<lambda>url.
     (case url of
        None \<Rightarrow> Inl (CloudflareAuthError ''Cloudflare Access authentication is missing the team domain.'' 403)
      | Some u \<Rightarrow> Inr (claims, signing_input, signature, kid, u))))))"

definition tester_actor :: "('a auth_env_scheme) \<Rightarrow> string \<Rightarrow> string \<Rightarrow> access_scope \<Rightarrow> authenticated_actor result" where
  "tester_actor env issuer address scope =
     (let actor_hash = take 16 (sha256_hex env address) in
      mk_actor \<lparr>provider_subject = ''cloudflare-access-email-sha256:'' @ actor_hash, provider_issuer = issuer,
        display_name = Some (''Cloudflare Access tester '' @ actor_hash), email = Some address,
        actor_category = Tester_Actor, account_status = Active, actor_roles = [Feedback_Tester],
        actor_scopes = [scope]\<rparr>)"

definition accept_claims ::
  "('a auth_env_scheme) \<Rightarrow> pydict \<Rightarrow> cloudflare_config \<Rightarrow> access_scope \<Rightarrow> int \<Rightarrow> authenticated_actor result" where
  "accept_claims env claims config scope now =
     ebind (required_string_claim claims ''iss'') (\<lambda>issuer.
     ebind (cloudflare_issuer config) (\<lambda>expected.
     ebind (guard (expected = Some issuer)
             (CloudflareAuthError ''Cloudflare Access assertion issuer was not accepted.'' 403)) (\<lambda>_.
     ebind (require_audience claims (cf_aud config)) (\<lambda>_.
     ebind (require_time_claims claims now) (\<lambda>_.
     ebind (required_string_claim claims ''email'') (\<lambda>raw.
     (let address = py_casefold (py_strip raw) in
      ebind (guard (cloudflare_email_allowed address config)
        (CloudflareAuthError ''Cloudflare Access email is not allowed for this RecordsTracker pilot.'' 403)) (\<lambda>_.
      tester_actor env issuer address scope))))))))"

text \<open>\<open>now\<close> is the caller's time, or None for the clock.\<close>

definition authenticate_cloudflare_access_token ::
  "('a auth_env_scheme) \<Rightarrow> jwks_cache \<Rightarrow> string \<Rightarrow> cloudflare_config \<Rightarrow> access_scope \<Rightarrow> int option
     \<Rightarrow> jwks_fetcher option \<Rightarrow> jwks_cache \<times> authenticated_actor result" where
  "authenticate_cloudflare_access_token env cache token config scope now fetcher =
     (case assertion_request env token config of
        Inl e \<Rightarrow> (cache, Inl e)
      | Inr (claims, signing_input, signature, kid, url) \<Rightarrow>
          (let (cache', fetched) = fetch_cloudflare_access_jwks env cache url (jwks_cache_seconds config) fetcher
           in (cache',
               ebind fetched (\<lambda>jwks.
               ebind (public_key_for_kid env jwks kid) (\<lambda>(e, n).
               ebind (guard (rsa_verify env e n signature signing_input) NOT_ACCEPTED) (\<lambda>_.
               accept_claims env claims config scope (case now of None \<Rightarrow> clock env | Some t \<Rightarrow> t)))))))"

definition authenticate_cloudflare_access_request ::
  "('a auth_env_scheme) \<Rightarrow> jwks_cache \<Rightarrow> (string \<times> string) list \<Rightarrow> cloudflare_config \<Rightarrow> access_scope \<Rightarrow> int option
     \<Rightarrow> jwks_fetcher option \<Rightarrow> jwks_cache \<times> authenticated_actor result" where
  "authenticate_cloudflare_access_request env cache headers config scope now fetcher =
     (if \<not> cloudflare_configured config then
        (cache, Inl (CloudflareAuthError (''Cloudflare Access authentication is not fully configured. ''
          @ ''Set the team domain, audience tag, and tester email allowlist.'') 403))
      else (case assertion_from_headers headers of
          None \<Rightarrow> (cache, Inl (CloudflareAuthError (''Cloudflare Access assertion is required. Reach ''
            @ ''RecordsTracker through the Cloudflare Access protected hostname.'') 401))
        | Some token \<Rightarrow> authenticate_cloudflare_access_token env cache token config scope now fetcher))"

definition authenticate_cloudflare_access_operator_request ::
  "('a auth_env_scheme) \<Rightarrow> jwks_cache \<Rightarrow> (string \<times> string) list \<Rightarrow> cloudflare_config \<Rightarrow> access_scope \<Rightarrow> string list
     \<Rightarrow> int option \<Rightarrow> jwks_fetcher option \<Rightarrow> jwks_cache \<times> authenticated_actor result" where
  "authenticate_cloudflare_access_operator_request env cache headers config scope operator_emails now fetcher =
     (let (cache', r) = authenticate_cloudflare_access_request env cache headers config scope now fetcher
      in (cache',
          ebind r (\<lambda>actor.
          ebind (guard (case email actor of None \<Rightarrow> False
                 | Some e \<Rightarrow> e \<in> set (map (\<lambda>a. py_casefold (py_strip a)) operator_emails))
            (CloudflareAuthError ''Cloudflare Access identity is not authorized for operator source coverage.'' 403)) (\<lambda>_.
          mk_actor (actor\<lparr>actor_category := Operator_Actor, account_status := Active,
            actor_roles := [Developer_Operator], actor_scopes := [scope]\<rparr>)))))"

section \<open>Lemmas\<close>

lemma reraise_value_error_Inr [simp]: "reraise_value_error e r = Inr x \<longleftrightarrow> r = Inr x"
  by (auto simp: reraise_value_error_def split: sum.splits py_error.splits)

lemma mk_actor_Inr: "mk_actor a = Inr b \<longleftrightarrow>
    b = a \<and> py_strip (provider_subject a) \<noteq> [] \<and> py_strip (provider_issuer a) \<noteq> []"
  by (auto simp: mk_actor_def ebind_eq_Inr)

lemma required_string_claim_Inr:
  "required_string_claim claims name = Inr v \<longleftrightarrow> (\<exists>raw. py_get claims name = PStr raw \<and> v = py_strip raw \<and> v \<noteq> [])"
  by (auto simp: required_string_claim_def split: pyval.splits)

lemma require_audience_Inr:
  "require_audience claims expected = Inr u \<longleftrightarrow> (\<exists>a. expected = Some a \<and> audience_accepted claims a)"
  by (auto simp: require_audience_def split: option.splits)

text \<open>The time window of a token.\<close>

definition time_claims_hold :: "pydict \<Rightarrow> int \<Rightarrow> bool" where
  "time_claims_hold claims now \<longleftrightarrow>
     (case int_instance (py_get claims ''exp'') of None \<Rightarrow> False | Some e \<Rightarrow> whole_seconds now < e) \<and>
     (py_get claims ''nbf'' = PNone \<or>
      (case int_instance (py_get claims ''nbf'') of None \<Rightarrow> False | Some b \<Rightarrow> b \<le> whole_seconds now))"

lemma require_time_claims_Inr: "require_time_claims claims now = Inr u \<longleftrightarrow> time_claims_hold claims now"
  by (auto simp: require_time_claims_def time_claims_hold_def required_int_claim_def ebind_eq_Inr split: option.splits)

lemma accept_claims_Inr: "accept_claims env claims config scope now = Inr actor \<Longrightarrow>
    \<exists>issuer aud raw. cloudflare_issuer config = Inr (Some issuer) \<and> cf_aud config = Some aud \<and>
      (\<exists>i. py_get claims ''iss'' = PStr i \<and> py_strip i = issuer) \<and> audience_accepted claims aud \<and>
      time_claims_hold claims now \<and> py_get claims ''email'' = PStr raw \<and>
      cloudflare_email_allowed (py_casefold (py_strip raw)) config \<and>
      tester_actor env issuer (py_casefold (py_strip raw)) scope = Inr actor"
  by (auto simp: accept_claims_def Let_def ebind_eq_Inr required_string_claim_Inr require_audience_Inr
      require_time_claims_Inr)

lemma tester_actor_Inr: "tester_actor env issuer address scope = Inr actor \<Longrightarrow>
    provider_issuer actor = issuer \<and> email actor = Some address \<and> actor_category actor = Tester_Actor \<and>
    account_status actor = Active \<and> actor_roles actor = [Feedback_Tester] \<and> actor_scopes actor = [scope]"
  by (auto simp: tester_actor_def Let_def mk_actor_Inr)

text \<open>A token whose signature is valid under one of the keys.\<close>

definition signed_by :: "('a auth_env_scheme) \<Rightarrow> pydict \<Rightarrow> string \<Rightarrow> string \<Rightarrow> string \<Rightarrow> bool" where
  "signed_by env jwks kid signing_input signature \<longleftrightarrow>
     (\<exists>keys key exponent modulus eb nb. py_get jwks ''keys'' = PList keys \<and> key \<in> set keys \<and>
        rsa_key_texts kid key = Some (exponent, modulus) \<and>
        base64url_decode exponent = Inr eb \<and> base64url_decode modulus = Inr nb \<and>
        rsa_key_valid env (unsigned_int_of_bytes eb) (unsigned_int_of_bytes nb) \<and>
        rsa_verify env (unsigned_int_of_bytes eb) (unsigned_int_of_bytes nb) signature signing_input)"

lemma first_rsa_key_Inr: "first_rsa_key env kid keys = Inr (e, n) \<Longrightarrow>
    \<exists>key \<in> set keys. \<exists>exponent modulus eb nb. rsa_key_texts kid key = Some (exponent, modulus) \<and>
      base64url_decode exponent = Inr eb \<and> base64url_decode modulus = Inr nb \<and>
      e = unsigned_int_of_bytes eb \<and> n = unsigned_int_of_bytes nb \<and> rsa_key_valid env e n"
proof (induction keys)
  case (Cons key keys)
  show ?case
  proof (cases "rsa_key_texts kid key")
    case None
    with Cons.prems have "first_rsa_key env kid keys = Inr (e, n)" by simp
    from Cons.IH [OF this] show ?thesis by (metis list.set_intros(2))
  next
    case (Some p)
    obtain exponent modulus where p: "p = (exponent, modulus)" by (cases p)
    from Cons.prems Some show ?thesis unfolding p
      by (intro bexI [of _ key]) (auto simp: ebind_eq_Inr unsigned_int_from_base64url_def)
  qed
qed simp

lemma public_key_signed_by:
  assumes "public_key_for_kid env jwks kid = Inr (e, n)" and "rsa_verify env e n signature signing_input"
  shows "signed_by env jwks kid signing_input signature"
proof -
  from assms(1) obtain keys where keys: "py_get jwks ''keys'' = PList keys" "first_rsa_key env kid keys = Inr (e, n)"
    by (auto simp: public_key_for_kid_def split: pyval.splits)
  from first_rsa_key_Inr [OF keys(2)] keys(1) assms(2) show ?thesis
    unfolding signed_by_def by blast
qed

lemma case_PStr_Inr:
  "(case v of PStr k \<Rightarrow> f k | _ \<Rightarrow> Inl e) = Inr x \<longleftrightarrow> (\<exists>k. v = PStr k \<and> f k = Inr x)"
  by (cases v) simp_all

lemma case_Some_Inr:
  "(case v of None \<Rightarrow> Inl e | Some u \<Rightarrow> f u) = Inr x \<longleftrightarrow> (\<exists>u. v = Some u \<and> f u = Inr x)"
  by (cases v) simp_all

lemma assertion_request_Inr: "assertion_request env token config = Inr (claims, signing_input, signature, kid, url) \<Longrightarrow>
    \<exists>header. decode_unsigned_jwt env token = Inr (header, claims, signing_input, signature) \<and>
      py_get header ''alg'' = PStr ''RS256'' \<and> py_get header ''kid'' = PStr kid \<and> py_strip kid \<noteq> [] \<and>
      cloudflare_jwks_url config = Inr (Some url)"
  by (auto simp: assertion_request_def ebind_eq_Inr case_PStr_Inr case_Some_Inr simp del: py_eq.simps split: if_splits)

lemma authenticate_token_Inr:
  assumes "authenticate_cloudflare_access_token env cache token config scope now fetcher = (cache', Inr actor)"
  obtains header claims signing_input signature kid url jwks where
    "decode_unsigned_jwt env token = Inr (header, claims, signing_input, signature)"
    "py_get header ''alg'' = PStr ''RS256''" "py_get header ''kid'' = PStr kid"
    "cloudflare_jwks_url config = Inr (Some url)"
    "fetch_cloudflare_access_jwks env cache url (jwks_cache_seconds config) fetcher = (cache', Inr jwks)"
    "signed_by env jwks kid signing_input signature"
    "accept_claims env claims config scope (case now of None \<Rightarrow> clock env | Some t \<Rightarrow> t) = Inr actor"
proof (cases "assertion_request env token config")
  case (Inl e)
  with assms show ?thesis by (simp add: authenticate_cloudflare_access_token_def)
next
  case (Inr q)
  obtain claims signing_input signature kid url where q: "q = (claims, signing_input, signature, kid, url)"
    by (cases q)
  obtain c fetched where f: "fetch_cloudflare_access_jwks env cache url (jwks_cache_seconds config) fetcher = (c, fetched)"
    by fastforce
  from assms Inr q f obtain jwks e n where "c = cache'" "fetched = Inr jwks" "public_key_for_kid env jwks kid = Inr (e, n)"
    "rsa_verify env e n signature signing_input"
    "accept_claims env claims config scope (case now of None \<Rightarrow> clock env | Some t \<Rightarrow> t) = Inr actor"
    by (auto simp: authenticate_cloudflare_access_token_def ebind_eq_Inr)
  with assertion_request_Inr [OF Inr [unfolded q]] f public_key_signed_by show ?thesis
    by (metis that)
qed

lemma authenticate_request_Inr:
  "authenticate_cloudflare_access_request env cache headers config scope now fetcher = (cache', Inr actor) \<longleftrightarrow>
     cloudflare_configured config \<and> (\<exists>token. assertion_from_headers headers = Some token \<and>
       authenticate_cloudflare_access_token env cache token config scope now fetcher = (cache', Inr actor))"
  by (auto simp: authenticate_cloudflare_access_request_def split: option.splits if_splits)

end
