(* ===== verification/Access_Properties.thy ===== *)
theory Access_Properties imports Cloudflare_Tokens
begin

text \<open>
  What the authentication and authorisation of the hosted application guarantee.
\<close>

section \<open>Accepted assertions\<close>

lemma feedback_permissions: "actor_roles a = [Feedback_Tester] \<Longrightarrow> has_permission a p \<longleftrightarrow> p = Feedback_Submit"
  by (auto simp: has_permission_iff)

lemma operator_permissions:
  "actor_roles a = [Developer_Operator] \<Longrightarrow> has_permission a p \<longleftrightarrow> p \<in> {Source_Derived_Read, Import_Reload, Audit_Read}"
  by (auto simp: has_permission_iff)

text \<open>C21: A request becomes an actor only when Cloudflare Access is configured, the assertion header holds
  a token that names RS256 and a key of the team's key set, the signature over its first two parts is valid
  under that key, the issuer is the configured team, the audience is the configured tag, the token has not
  expired and is already valid, and its e-mail is on the allowlist. The actor may then submit feedback in
  the requested scope and nothing else.\<close>

theorem accepted_assertion_is_genuine:
  assumes "authenticate_cloudflare_access_request env cache headers config scope now fetcher = (cache', Inr actor)"
  shows "(\<exists>token header claims signing_input signature kid url jwks issuer aud.
      cloudflare_configured config \<and> assertion_from_headers headers = Some token \<and>
      decode_unsigned_jwt env token = Inr (header, claims, signing_input, signature) \<and>
      py_get header ''alg'' = PStr ''RS256'' \<and> py_get header ''kid'' = PStr kid \<and>
      cloudflare_jwks_url config = Inr (Some url) \<and>
      fetch_cloudflare_access_jwks env cache url (jwks_cache_seconds config) fetcher = (cache', Inr jwks) \<and>
      signed_by env jwks kid signing_input signature \<and>
      cloudflare_issuer config = Inr (Some issuer) \<and> provider_issuer actor = issuer \<and>
      (\<exists>i. py_get claims ''iss'' = PStr i \<and> py_strip i = issuer) \<and>
      cf_aud config = Some aud \<and> audience_accepted claims aud \<and>
      time_claims_hold claims (case now of None \<Rightarrow> clock env | Some t \<Rightarrow> t) \<and>
      (\<exists>raw. py_get claims ''email'' = PStr raw \<and> email actor = Some (py_casefold (py_strip raw)) \<and>
         cloudflare_email_allowed (py_casefold (py_strip raw)) config)) \<and>
    (\<forall>p. has_permission actor p \<longleftrightarrow> p = Feedback_Submit) \<and> (\<forall>s. has_scope actor s \<longleftrightarrow> s = scope)"
proof -
  from assms obtain token where t: "cloudflare_configured config" "assertion_from_headers headers = Some token"
    "authenticate_cloudflare_access_token env cache token config scope now fetcher = (cache', Inr actor)"
    by (auto simp: authenticate_request_Inr)
  from t(3) obtain header claims signing_input signature kid url jwks where d:
    "decode_unsigned_jwt env token = Inr (header, claims, signing_input, signature)"
    "py_get header ''alg'' = PStr ''RS256''" "py_get header ''kid'' = PStr kid"
    "cloudflare_jwks_url config = Inr (Some url)"
    "fetch_cloudflare_access_jwks env cache url (jwks_cache_seconds config) fetcher = (cache', Inr jwks)"
    "signed_by env jwks kid signing_input signature"
    "accept_claims env claims config scope (case now of None \<Rightarrow> clock env | Some t \<Rightarrow> t) = Inr actor"
    by (rule authenticate_token_Inr)
  from accept_claims_Inr [OF d(7)] obtain issuer aud raw i where a:
    "cloudflare_issuer config = Inr (Some issuer)" "cf_aud config = Some aud" "py_get claims ''iss'' = PStr i"
    "py_strip i = issuer" "audience_accepted claims aud"
    "time_claims_hold claims (case now of None \<Rightarrow> clock env | Some t \<Rightarrow> t)" "py_get claims ''email'' = PStr raw"
    "cloudflare_email_allowed (py_casefold (py_strip raw)) config"
    "tester_actor env issuer (py_casefold (py_strip raw)) scope = Inr actor" by blast
  note act = tester_actor_Inr [OF a(9)]
  have perms: "\<forall>p. has_permission actor p \<longleftrightarrow> p = Feedback_Submit" "\<forall>s. has_scope actor s \<longleftrightarrow> s = scope"
    using act by (auto simp: feedback_permissions)
  have iss: "\<exists>i. py_get claims ''iss'' = PStr i \<and> py_strip i = issuer" "provider_issuer actor = issuer"
    "\<exists>raw. py_get claims ''email'' = PStr raw \<and> email actor = Some (py_casefold (py_strip raw)) \<and>
       cloudflare_email_allowed (py_casefold (py_strip raw)) config"
    using a act by auto
  from t(1,2) d(1-6) a(1,2,5,6) iss perms show ?thesis by blast
qed

definition sample_jwks :: pydict where
  "sample_jwks = [(''keys'', PList [PNone, PDict [(''kid'', PStr ''k''), (''kty'', PStr ''RSA''), (''n'', PStr ''wQ''),
     (''e'', PStr ''Aw'')]])]"

definition sample_auth_env :: auth_env where
  "sample_auth_env = \<lparr>json_loads = (\<lambda>s. if s = ''keys'' then Some (PDict sample_jwks) else None),
     sha256_hex = (\<lambda>s. ''0123456789abcdef0123''), float_repr = (\<lambda>_. ''0.0''), read_bytes = (\<lambda>_. None),
     resolve_path = (\<lambda>p. p), iso_datetime_year = (\<lambda>_. None),
     json_loads_bytes = (\<lambda>s. if s = ''h'' then Some (PDict [(''alg'', PStr ''RS256''), (''kid'', PStr ''k'')])
       else if s = ''c'' then Some (PDict [(''iss'', PStr ''https://team.example''), (''aud'', PList [PStr ''tag'']),
          (''exp'', PInt 1000), (''email'', PStr ''Ada@Example.org'')])
       else None),
     rsa_key_valid = (\<lambda>e n. e = 3 \<and> n = 193),
     rsa_verify = (\<lambda>e n sig inp. e = 3 \<and> n = 193 \<and> sig = ''s'' \<and> inp = ''aA.Yw''),
     fetch_url = (\<lambda>u. if u = ''https://team.example/cdn-cgi/access/certs'' then Inr ''keys'' else Inl (OSError u)),
     clock = 999000000\<rparr>"

definition sample_cloudflare_config :: cloudflare_config where
  "sample_cloudflare_config = \<lparr>team_domain = Some ''team.example'', cf_aud = Some ''tag'',
     allowed_email_domains = [''example.org''], allowed_emails = [], jwks_cache_seconds = 300\<rparr>"

definition sample_scope :: access_scope where
  "sample_scope = \<lparr>scope_kind = Corpus, scope_id = ''batch''\<rparr>"

definition sample_tester :: authenticated_actor where
  "sample_tester = \<lparr>provider_subject = ''cloudflare-access-email-sha256:0123456789abcdef'',
     provider_issuer = ''https://team.example'', display_name = Some ''Cloudflare Access tester 0123456789abcdef'',
     email = Some ''ada@example.org'', actor_category = Tester_Actor, account_status = Active,
     actor_roles = [Feedback_Tester], actor_scopes = [sample_scope]\<rparr>"

definition access_headers :: "(string \<times> string) list" where
  "access_headers = [(''Host'', ''x''), (''CF-Access-Jwt-Assertion'', '' aA.Yw.cw '')]"

definition sample_cache :: jwks_cache where
  "sample_cache = [(''https://team.example/cdn-cgi/access/certs'', (999000000, sample_jwks))]"

lemma sample_authenticated: "authenticate_cloudflare_access_request sample_auth_env [] access_headers sample_cloudflare_config
    sample_scope None None = (sample_cache, Inr sample_tester)"
  by code_simp

theorem accepted_assertion_is_genuine_witness:
  "(\<exists>token. assertion_from_headers access_headers = Some token) \<and>
   has_permission sample_tester Feedback_Submit \<and> \<not> has_permission sample_tester Source_Derived_Read"
proof (intro conjI)
  note c = accepted_assertion_is_genuine [OF sample_authenticated]
  from c show "\<exists>token. assertion_from_headers access_headers = Some token" by blast
  from c show "has_permission sample_tester Feedback_Submit" "\<not> has_permission sample_tester Source_Derived_Read"
    by blast+
qed

text \<open>C22: The operator actor exists only for a request that passes every check of the tester and whose
  e-mail is in the operators' allowlist; it may read source-derived records and audit events and reload
  imports, in the requested scope, and nothing else. Anyone else who passes the checks is refused with
  status 403.\<close>

theorem operator_is_allowlisted:
  assumes "authenticate_cloudflare_access_operator_request env cache headers config scope operators now fetcher = (cache', r)"
    and "allowed = set (map (\<lambda>a. py_casefold (py_strip a)) operators)"
  shows "(\<forall>actor. r = Inr actor \<longrightarrow> (\<exists>tester e.
        authenticate_cloudflare_access_request env cache headers config scope now fetcher = (cache', Inr tester) \<and>
        email tester = Some e \<and> email actor = Some e \<and> e \<in> allowed \<and>
        (\<forall>p. has_permission actor p \<longleftrightarrow> p \<in> {Source_Derived_Read, Import_Reload, Audit_Read}) \<and>
        (\<forall>s. has_scope actor s \<longleftrightarrow> s = scope))) \<and>
    (\<forall>tester e. authenticate_cloudflare_access_request env cache headers config scope now fetcher = (cache', Inr tester) \<and>
      email tester = Some e \<and> e \<notin> allowed \<longrightarrow>
      r = Inl (CloudflareAuthError ''Cloudflare Access identity is not authorized for operator source coverage.'' 403))"
proof (intro conjI allI impI)
  obtain c t where q: "authenticate_cloudflare_access_request env cache headers config scope now fetcher = (c, t)"
    by fastforce
  with assms(1) have c: "c = cache'" by (simp add: authenticate_cloudflare_access_operator_request_def)
  fix actor assume "r = Inr actor"
  with assms q obtain tester e where t: "t = Inr tester" "email tester = Some e" "e \<in> allowed"
    "actor = tester\<lparr>actor_category := Operator_Actor, account_status := Active,
       actor_roles := [Developer_Operator], actor_scopes := [scope]\<rparr>"
    by (auto simp: authenticate_cloudflare_access_operator_request_def ebind_eq_Inr mk_actor_Inr split: option.splits)
  then have roles: "actor_roles actor = [Developer_Operator]" and "email actor = Some e" "actor_scopes actor = [scope]"
    by simp_all
  then show "\<exists>tester e.
        authenticate_cloudflare_access_request env cache headers config scope now fetcher = (cache', Inr tester) \<and>
        email tester = Some e \<and> email actor = Some e \<and> e \<in> allowed \<and>
        (\<forall>p. has_permission actor p \<longleftrightarrow> p \<in> {Source_Derived_Read, Import_Reload, Audit_Read}) \<and>
        (\<forall>s. has_scope actor s \<longleftrightarrow> s = scope)" using q c t operator_permissions [OF roles] by auto
next
  fix tester e
  assume "authenticate_cloudflare_access_request env cache headers config scope now fetcher = (cache', Inr tester) \<and>
      email tester = Some e \<and> e \<notin> allowed"
  then show "r = Inl (CloudflareAuthError ''Cloudflare Access identity is not authorized for operator source coverage.'' 403)"
    using assms by (auto simp: authenticate_cloudflare_access_operator_request_def)
qed

theorem operator_is_allowlisted_witness:
  "(\<exists>tester e. authenticate_cloudflare_access_request sample_auth_env [] access_headers sample_cloudflare_config sample_scope None None
     = (sample_cache, Inr tester) \<and> email tester = Some e) \<and>
   snd (authenticate_cloudflare_access_operator_request sample_auth_env [] access_headers sample_cloudflare_config sample_scope
     [''bob@example.org''] None None) =
   Inl (CloudflareAuthError ''Cloudflare Access identity is not authorized for operator source coverage.'' 403)"
proof (rule conjI)
  have ok: "authenticate_cloudflare_access_operator_request sample_auth_env [] access_headers sample_cloudflare_config sample_scope
     ['' Ada@Example.org''] None None = (sample_cache, Inr (sample_tester\<lparr>actor_category := Operator_Actor,
       actor_roles := [Developer_Operator]\<rparr>))"
    by code_simp
  from operator_is_allowlisted [OF ok refl]
  show "\<exists>tester e. authenticate_cloudflare_access_request sample_auth_env [] access_headers sample_cloudflare_config sample_scope None None
     = (sample_cache, Inr tester) \<and> email tester = Some e" by blast
  obtain c r where q: "authenticate_cloudflare_access_operator_request sample_auth_env [] access_headers sample_cloudflare_config
      sample_scope [''bob@example.org''] None None = (c, r)" by fastforce
  have c: "c = sample_cache" using q sample_authenticated by (simp add: authenticate_cloudflare_access_operator_request_def)
  have e: "email sample_tester = Some ''ada@example.org''" by (simp add: sample_tester_def)
  have n: "''ada@example.org'' \<notin> set (map (\<lambda>a. py_casefold (py_strip a)) [''bob@example.org''])" by code_simp
  from operator_is_allowlisted [OF q refl] sample_authenticated [folded c] e n q
  show "snd (authenticate_cloudflare_access_operator_request sample_auth_env [] access_headers sample_cloudflare_config sample_scope
     [''bob@example.org''] None None) =
   Inl (CloudflareAuthError ''Cloudflare Access identity is not authorized for operator source coverage.'' 403)" by auto
qed

section \<open>The age of signing keys\<close>

text \<open>A fetch of a running application: its environment, the address and the configured cache seconds.\<close>

type_synonym jwks_fetch = "auth_env \<times> string \<times> int"

definition after_fetches :: "jwks_fetch list \<Rightarrow> jwks_cache" where
  "after_fetches fetches =
     foldl (\<lambda>cache (env, url, seconds). fst (fetch_cloudflare_access_jwks env cache url seconds None)) [] fetches"

lemma cached_jwks_Some: "cached_jwks cache url seconds now = Some jwks \<Longrightarrow>
    0 < seconds \<and> (\<exists>t. map_of cache url = Some (t, jwks) \<and> now - t \<le> microseconds seconds)"
  by (auto simp: cached_jwks_def split: option.splits if_splits)

lemma fetch_jwks_cases:
  assumes "fetch_cloudflare_access_jwks env cache url seconds None = (cache', r)"
  shows "cache' = cache \<or> (\<exists>jwks. load_jwks env None url = Inr (PDict jwks) \<and> cache' = AList.update url (clock env, jwks) cache)"
    and "r = Inr jwks \<Longrightarrow> cached_jwks cache url seconds (clock env) = Some jwks \<or> load_jwks env None url = Inr (PDict jwks)"
  using assms by (auto simp: fetch_cloudflare_access_jwks_def split: option.splits sum.splits pyval.splits if_splits)

definition genuine_cache :: "jwks_fetch list \<Rightarrow> jwks_cache \<Rightarrow> bool" where
  "genuine_cache fetches cache \<longleftrightarrow> (\<forall>url t jwks. map_of cache url = Some (t, jwks) \<longrightarrow>
     (\<exists>env seconds. (env, url, seconds) \<in> set fetches \<and> clock env = t \<and> load_jwks env None url = Inr (PDict jwks)))"

lemma genuine_after_fetches: "genuine_cache fetches (after_fetches fetches)"
proof (induction fetches rule: rev_induct)
  case Nil
  then show ?case by (simp add: genuine_cache_def after_fetches_def)
next
  case (snoc call fetches)
  obtain env url seconds where call: "call = (env, url, seconds)" by (cases call)
  obtain cache' r where f: "fetch_cloudflare_access_jwks env (after_fetches fetches) url seconds None = (cache', r)"
    by fastforce
  then have a: "after_fetches (fetches @ [call]) = cache'" by (simp add: after_fetches_def call)
  from snoc have older: "genuine_cache (fetches @ [call]) (after_fetches fetches)"
    by (fastforce simp: genuine_cache_def)
  from fetch_jwks_cases(1) [OF f] show ?case unfolding a
  proof
    assume "cache' = after_fetches fetches"
    with older show "genuine_cache (fetches @ [call]) cache'" by simp
  next
    assume "\<exists>jwks. load_jwks env None url = Inr (PDict jwks) \<and>
      cache' = AList.update url (clock env, jwks) (after_fetches fetches)"
    with older show "genuine_cache (fetches @ [call]) cache'"
      by (fastforce simp: genuine_cache_def AList.update_conv call split: if_splits)
  qed
qed

lemma jwks_cache_seconds_bounds: "jwks_cache_seconds_of raw = Inr v \<Longrightarrow> 0 \<le> v \<and> v \<le> 3600"
  by (auto simp: jwks_cache_seconds_of_def CLOUDFLARE_ACCESS_DEFAULT_JWKS_CACHE_SECONDS_def
      split: option.splits if_splits)

lemma runtime_config_parts:
  assumes "load_hosted_auth_runtime_config environ = Inr config"
  shows "auth_mode_of (env_get environ AUTH_MODE_ENV) = Inr (rt_mode config)"
    "oidc_runtime_config environ = Inr (rt_oidc config)"
    "cloudflare_access_runtime_config environ = Inr (rt_cloudflare_access config)"
    "\<not> (rt_mode config = Production \<and> rt_local_dev_auth_enabled config)"
  using assms by (auto simp: load_hosted_auth_runtime_config_def Let_def ebind_eq_Inr)

lemma cloudflare_config_parts:
  assumes "cloudflare_access_runtime_config environ = Inr c"
  shows "0 \<le> jwks_cache_seconds c \<and> jwks_cache_seconds c \<le> 3600"
    "\<exists>u. (case team_domain c of None \<Rightarrow> Inr [] | Some d \<Rightarrow> cloudflare_access_base_url d) = Inr u"
    "reject_secrets [(CLOUDFLARE_ACCESS_AUD_ENV, cf_aud c),
             (CLOUDFLARE_ACCESS_ALLOWED_EMAIL_DOMAINS_ENV, nonempty_text (py_join '','' (allowed_email_domains c))),
             (CLOUDFLARE_ACCESS_ALLOWED_EMAILS_ENV, nonempty_text (py_join '','' (allowed_emails c)))] = Inr ()"
  using assms by (auto simp: cloudflare_access_runtime_config_def Let_def ebind_eq_Inr dest: jwks_cache_seconds_bounds)

text \<open>C23: The signing keys a request is checked with are never older than an hour: under a loaded
  configuration, the keys a fetch returns were read from the same address by this fetch or by an earlier
  one at most the configured number of seconds, and so at most 3600 seconds, before; with a cache time of
  zero they were read by this fetch.\<close>

theorem signing_keys_are_fresh:
  assumes "load_hosted_auth_runtime_config environ = Inr config"
    and "seconds = jwks_cache_seconds (rt_cloudflare_access config)"
    and "fetch_cloudflare_access_jwks env (after_fetches fetches) url seconds None = (cache', Inr jwks)"
  shows "(\<exists>env' seconds'. (env', url, seconds') \<in> set ((env, url, seconds) # fetches) \<and>
      load_jwks env' None url = Inr (PDict jwks) \<and>
      clock env - clock env' \<le> microseconds seconds \<and> microseconds seconds \<le> 3600 * 1000000) \<and>
    (seconds = 0 \<longrightarrow> load_jwks env None url = Inr (PDict jwks))"
proof -
  have b: "0 \<le> seconds" "microseconds seconds \<le> 3600 * 1000000"
    using cloudflare_config_parts(1) [OF runtime_config_parts(3) [OF assms(1)]] assms(2)
    by (simp_all add: microseconds_def)
  from fetch_jwks_cases(2) [OF assms(3) refl] show ?thesis
  proof
    assume "cached_jwks (after_fetches fetches) url seconds (clock env) = Some jwks"
    from cached_jwks_Some [OF this] obtain t where t: "map_of (after_fetches fetches) url = Some (t, jwks)"
      "clock env - t \<le> microseconds seconds" and "0 < seconds" by blast
    with genuine_after_fetches [of fetches] show ?thesis using b(2) by (fastforce simp: genuine_cache_def)
  next
    assume "load_jwks env None url = Inr (PDict jwks)"
    then show ?thesis using b by (auto intro!: exI [of _ env] exI [of _ seconds] simp: microseconds_def)
  qed
qed

definition sample_environ :: environ where
  "sample_environ = map_of [(CLOUDFLARE_ACCESS_TEAM_DOMAIN_ENV, '' https://team.example/ ''), (CLOUDFLARE_ACCESS_AUD_ENV, ''tag''),
     (CLOUDFLARE_ACCESS_ALLOWED_EMAIL_DOMAINS_ENV, ''Example.org; example.org''),
     (CLOUDFLARE_ACCESS_JWKS_CACHE_SECONDS_ENV, ''60'')]"

definition sample_runtime_config :: auth_runtime_config where
  "sample_runtime_config = \<lparr>rt_mode = Production, rt_provider_class = None,
     rt_oidc = \<lparr>oidc_issuer = None, oidc_client_id = None, oidc_callback_path = None, oidc_scopes = []\<rparr>,
     rt_cloudflare_access = \<lparr>team_domain = Some ''https://team.example/'', cf_aud = Some ''tag'',
       allowed_email_domains = [''example.org''], allowed_emails = [], jwks_cache_seconds = 60\<rparr>,
     rt_local_dev_auth_enabled = False\<rparr>"

lemma sample_config_loads: "load_hosted_auth_runtime_config sample_environ = Inr sample_runtime_config"
  by code_simp

text \<open>The keys fetched at 999 seconds answer a request 60 seconds later, when the endpoint is gone.\<close>

theorem signing_keys_are_fresh_witness:
  "let later = sample_auth_env\<lparr>clock := 1059000000, fetch_url := \<lambda>u. Inl (OSError u)\<rparr>;
       url = ''https://team.example/cdn-cgi/access/certs'' in
   \<exists>env' seconds'. (env', url, seconds') \<in> set [(later, url, 60), (sample_auth_env, url, 60)] \<and>
     load_jwks env' None url = Inr (PDict sample_jwks) \<and> clock later - clock env' \<le> 60 * 1000000"
proof -
  let ?later = "sample_auth_env\<lparr>clock := 1059000000, fetch_url := \<lambda>u. Inl (OSError u)\<rparr>"
  let ?url = "''https://team.example/cdn-cgi/access/certs''"
  have s: "(60::int) = jwks_cache_seconds (rt_cloudflare_access sample_runtime_config)"
    by (simp add: sample_runtime_config_def)
  have f: "fetch_cloudflare_access_jwks ?later (after_fetches [(sample_auth_env, ?url, 60)]) ?url 60 None
      = (sample_cache, Inr sample_jwks)" by code_simp
  from signing_keys_are_fresh [OF sample_config_loads s f]
  show ?thesis by (auto simp: Let_def microseconds_def)
qed

section \<open>Configuration\<close>

definition SECRET_MARKERS :: "string list" where
  "SECRET_MARKERS = [''client_secret'', ''cookie'', ''password'', ''private_key'', ''refresh_token'', ''secret'', ''token'']"

definition holds_secret :: "string \<Rightarrow> bool" where
  "holds_secret v \<longleftrightarrow> list_ex (\<lambda>marker. py_in marker (py_casefold v)) SECRET_MARKERS"

lemma reject_secret_Inr: "reject_secret_like_config name v = Inr u \<longleftrightarrow> \<not> holds_secret v"
  by (simp add: reject_secret_like_config_def holds_secret_def SECRET_MARKERS_def)

lemma reject_secrets_Inr: "reject_secrets values = Inr u \<longleftrightarrow> (\<forall>(n, v) \<in> set values. \<forall>s. v = Some s \<longrightarrow> \<not> holds_secret s)"
  unfolding reject_secrets_def
  by (induction "values") (auto simp: ebind_eq_Inr reject_secret_Inr split: option.splits)

lemma py_in_sublist: "py_in p s \<longleftrightarrow> sublist p s"
  unfolding py_in_def list_ex_iff sublist_def prefix_def set_suffixes_eq suffix_def
  by blast

lemma sublist_join: "x \<in> set xs \<Longrightarrow> sublist p x \<Longrightarrow> sublist p (py_join sep xs)"
proof (induction sep xs rule: py_join.induct)
  case (3 sep a b zs)
  then consider "x = a" | "sublist p (py_join sep (b # zs))" by auto
  then show ?case
    by cases (use 3(3) in \<open>auto simp: sublist_append\<close>)
qed auto

lemma py_casefold_join: "py_casefold (py_join sep xs) = py_join (py_casefold sep) (map py_casefold xs)"
  by (induction sep xs rule: py_join.induct) (simp_all add: py_casefold_def)

lemma holds_secret_join: "x \<in> set xs \<Longrightarrow> holds_secret x \<Longrightarrow> holds_secret (py_join sep xs)"
  unfolding holds_secret_def list_ex_iff py_casefold_join py_in_sublist
  using sublist_join [of "py_casefold x" "map py_casefold xs"] by auto

lemma no_secret_nil: "\<not> holds_secret []"
  by code_simp

lemma no_secret_in_list:
  assumes "\<And>s. nonempty_text (py_join sep xs) = Some s \<Longrightarrow> \<not> holds_secret s" and "x \<in> set xs"
  shows "\<not> holds_secret x"
  using assms(1) [of "py_join sep xs"] holds_secret_join [OF assms(2), of sep] no_secret_nil
  by (cases "py_join sep xs = []") (auto simp: nonempty_text_def)

lemma oidc_config_parts:
  assumes "oidc_runtime_config environ = Inr c"
  shows "reject_secrets [(OIDC_CLIENT_ID_ENV, oidc_client_id c), (OIDC_CALLBACK_PATH_ENV, oidc_callback_path c),
             (OIDC_SCOPES_ENV, if oidc_scopes c = [] then None else Some (py_join '' '' (oidc_scopes c)))] = Inr ()"
    "oidc_callback_path c = Some p \<Longrightarrow> py_startswith p ''/''"
  using assms by (auto simp: oidc_runtime_config_def Let_def ebind_eq_Inr)

definition config_texts :: "auth_runtime_config \<Rightarrow> string set" where
  "config_texts config =
     set_option (oidc_client_id (rt_oidc config)) \<union> set_option (oidc_callback_path (rt_oidc config)) \<union>
     set (oidc_scopes (rt_oidc config)) \<union> set_option (cf_aud (rt_cloudflare_access config)) \<union>
     set (allowed_email_domains (rt_cloudflare_access config)) \<union> set (allowed_emails (rt_cloudflare_access config))"

lemma runtime_config_no_secret:
  assumes "load_hosted_auth_runtime_config environ = Inr config" and "x \<in> config_texts config"
  shows "\<not> holds_secret x"
proof -
  note p = runtime_config_parts [OF assms(1)]
  have o: "\<And>s. oidc_client_id (rt_oidc config) = Some s \<Longrightarrow> \<not> holds_secret s"
    "\<And>s. oidc_callback_path (rt_oidc config) = Some s \<Longrightarrow> \<not> holds_secret s"
    "\<And>s. nonempty_text (py_join '' '' (oidc_scopes (rt_oidc config))) = Some s \<Longrightarrow> \<not> holds_secret s"
    using oidc_config_parts(1) [OF p(2)]
    by (auto simp: reject_secrets_Inr nonempty_text_def split: if_splits)
  have c: "\<And>s. cf_aud (rt_cloudflare_access config) = Some s \<Longrightarrow> \<not> holds_secret s"
    "\<And>s. nonempty_text (py_join '','' (allowed_email_domains (rt_cloudflare_access config))) = Some s \<Longrightarrow> \<not> holds_secret s"
    "\<And>s. nonempty_text (py_join '','' (allowed_emails (rt_cloudflare_access config))) = Some s \<Longrightarrow> \<not> holds_secret s"
    using cloudflare_config_parts(3) [OF p(3)] by (auto simp: reject_secrets_Inr)
  from assms(2) show ?thesis unfolding config_texts_def
    using o(1,2) c(1) no_secret_in_list [OF o(3)] no_secret_in_list [OF c(2)] no_secret_in_list [OF c(3)] by auto
qed



section \<open>Reading a token\<close>

lemma base64_char_not_dot: "v < 64 \<Longrightarrow> base64_char v \<noteq> CHR ''.''"
  unfolding char_eq_ord by (auto simp: base64_char_ord)

lemma list_all_base64url:
  assumes P: "\<And>v. v < 64 \<Longrightarrow> P (base64_char v)"
  shows "list_all P (base64url_encode s)"
proof (induction s rule: base64url_encode.induct)
  case (2 a)
  note b = sextets [of "ord a" "ord a" "ord a", OF nat_of_char_less_256 nat_of_char_less_256 nat_of_char_less_256]
  show ?case unfolding base64url_encode.simps list.pred_inject using b(1,5) by (intro conjI P) simp_all
next
  case (3 a b)
  note b = sextets [of "ord a" "ord b" "ord b", OF nat_of_char_less_256 nat_of_char_less_256 nat_of_char_less_256]
  show ?case unfolding base64url_encode.simps list.pred_inject using b(1,2,6) by (intro conjI P) simp_all
next
  case (4 a b c s)
  note b = sextets [of "ord a" "ord b" "ord c", OF nat_of_char_less_256 nat_of_char_less_256 nat_of_char_less_256]
  show ?case unfolding base64url_encode.simps list.pred_inject using b(1,2,3,4) 4 by (intro conjI P) simp_all
qed simp

lemma base64url_chars: "c \<in> set (base64url_encode s) \<Longrightarrow> c \<noteq> CHR ''.'' \<and> ord c < 0x80"
  using list_all_base64url [of "\<lambda>c. c \<noteq> CHR ''.'' \<and> ord c < 0x80" s] base64_char_value(3) base64_char_not_dot
  by (simp add: list_all_iff)

lemma base64url_decode_encode: "base64url_decode (base64url_encode s) = Inr s"
proof -
  have p: "map url_to_standard (base64_padding n) = base64_padding n" for n
    by (simp add: base64_padding_def url_to_standard_def)
  have "list_all (\<lambda>c. ord c < 0x80) (base64url_encode s @ base64_padding (length (base64url_encode s)))"
    using base64url_chars by (auto simp: list_all_iff base64_padding_def)
  then show ?thesis by (simp add: base64url_decode_def read_encoded p del: list_all_append)
qed

lemma base64url_encode_Nil [simp]: "base64url_encode s = [] \<longleftrightarrow> s = []"
  by (cases s rule: base64url_encode.cases) simp_all

text \<open>A token whose three parts are the unpadded URL-safe base64 of a header object, a claims object and
  a signature is read back as exactly these, and the signed text is the first two parts as they were sent.\<close>

theorem token_round_trip:
  assumes "json_loads_bytes env h = Some (PDict header)" and "json_loads_bytes env c = Some (PDict claims)"
    and "h \<noteq> []" and "c \<noteq> []" and "s \<noteq> []"
  shows "decode_unsigned_jwt env (base64url_encode h @ ''.'' @ base64url_encode c @ ''.'' @ base64url_encode s) =
    Inr (header, claims, base64url_encode h @ ''.'' @ base64url_encode c, s)"
proof -
  have n: "CHR ''.'' \<notin> set (base64url_encode x)" for x using base64url_chars by auto
  have "split_on (CHR ''.'') (base64url_encode h @ ''.'' @ base64url_encode c @ ''.'' @ base64url_encode s) =
      [base64url_encode h, base64url_encode c, base64url_encode s]"
    by (simp add: split_on_join [OF n] split_on_none [OF n])
  with assms show ?thesis
    by (simp add: decode_unsigned_jwt_def jwt_parts_def base64url_decode_encode parsed_json_def reraise_value_error_def)
qed

theorem token_round_trip_witness:
  "decode_unsigned_jwt sample_auth_env ''aA.Yw.cw'' =
     Inr ([(''alg'', PStr ''RS256''), (''kid'', PStr ''k'')],
       [(''iss'', PStr ''https://team.example''), (''aud'', PList [PStr ''tag'']), (''exp'', PInt 1000),
        (''email'', PStr ''Ada@Example.org'')], ''aA.Yw'', ''s'')"
proof -
  have e: "base64url_encode ''h'' @ ''.'' @ base64url_encode ''c'' @ ''.'' @ base64url_encode ''s'' = ''aA.Yw.cw''"
    "base64url_encode ''h'' @ ''.'' @ base64url_encode ''c'' = ''aA.Yw''" by code_simp+
  have j: "json_loads_bytes sample_auth_env ''h'' = Some (PDict [(''alg'', PStr ''RS256''), (''kid'', PStr ''k'')])"
    "json_loads_bytes sample_auth_env ''c'' = Some (PDict [(''iss'', PStr ''https://team.example''),
       (''aud'', PList [PStr ''tag'']), (''exp'', PInt 1000), (''email'', PStr ''Ada@Example.org'')])"
    by (simp_all add: sample_auth_env_def)
  have "(''h'' :: string) \<noteq> []" "(''c'' :: string) \<noteq> []" "(''s'' :: string) \<noteq> []" by simp_all
  from token_round_trip [OF j this] show ?thesis unfolding e .
qed

end
