(* ===== verification/Seeded_Artifact.thy ===== *)
theory Seeded_Artifact imports Store_Interfaces Py_Formats
begin

text \<open>
  The seeded corpus artifact (\<open>hosted_app/seeded_import.py\<close>): parsing and validating it, and flattening its
  normalized records into source-derived records of six entity types.
\<close>

section \<open>Values read from an artifact\<close>

definition field_message :: "string \<Rightarrow> string \<Rightarrow> string \<Rightarrow> py_error" where
  "field_message before name after = ValueError (before @ repr_str name @ after)"

fun filled_str :: "pyval \<Rightarrow> bool" where
  "filled_str (PStr s) = (py_strip s \<noteq> [])"
| "filled_str _ = False"

definition required_field :: "py_error \<Rightarrow> pydict \<Rightarrow> string \<Rightarrow> string result" where
  "required_field e data name =
     (case py_get data name of
        PStr s \<Rightarrow> (if py_strip s \<noteq> [] then Inr s else Inl e)
      | _ \<Rightarrow> Inl e)"

definition optional_field :: "py_error \<Rightarrow> pydict \<Rightarrow> string \<Rightarrow> string option result" where
  "optional_field e data name =
     (case py_get data name of PNone \<Rightarrow> Inr None | PStr s \<Rightarrow> Inr (Some s) | _ \<Rightarrow> Inl e)"

definition artifact_required_str :: "pydict \<Rightarrow> string \<Rightarrow> string result" where
  "artifact_required_str data name =
     required_field (field_message ''Seeded corpus artifact must include string field '' name ''.'') data name"

definition artifact_optional_str :: "pydict \<Rightarrow> string \<Rightarrow> string option result" where
  "artifact_optional_str data name =
     optional_field (field_message ''Seeded corpus artifact field '' name '' must be a string.'') data name"

definition required_str_from_mapping :: "pydict \<Rightarrow> string \<Rightarrow> string result" where
  "required_str_from_mapping data name =
     required_field (field_message ''Source-derived record must include string field '' name ''.'') data name"

definition optional_str_from_mapping :: "pydict \<Rightarrow> string \<Rightarrow> string option result" where
  "optional_str_from_mapping data name =
     optional_field (field_message ''Source-derived record field '' name '' must be a string.'') data name"

definition string_item :: "string \<Rightarrow> pyval \<Rightarrow> string result" where
  "string_item name v =
     (case v of PStr s \<Rightarrow> Inr s
      | _ \<Rightarrow> Inl (ValueError (''Seeded corpus artifact '' @ name @ '' must contain strings.'')))"

text \<open>A field that is missing is the empty list, one that is null is an error.\<close>

definition string_tuple :: "pydict \<Rightarrow> string \<Rightarrow> string list result" where
  "string_tuple data name =
     (case map_of data name of
        None \<Rightarrow> Inr []
      | Some (PList vs) \<Rightarrow> mapM_err (string_item name) vs
      | Some _ \<Rightarrow> Inl (ValueError (''Seeded corpus artifact '' @ name @ '' must be a list of strings.'')))"

definition is_int :: "pyval \<Rightarrow> bool" where
  "is_int v = (case v of PInt _ \<Rightarrow> True | PBool _ \<Rightarrow> True | _ \<Rightarrow> False)"

definition artifact_record_counts :: "pyval \<Rightarrow> pydict result" where
  "artifact_record_counts v =
     (case v of
        PDict d \<Rightarrow>
          ebind (guard (list_all (\<lambda>kv. is_int (snd kv)) d)
            (ValueError ''Seeded corpus artifact record_counts must map strings to integers.'')) (\<lambda>_. Inr d)
      | _ \<Rightarrow> Inl (ValueError ''Seeded corpus artifact must include record_counts.''))"

definition mapping_item :: "py_error \<Rightarrow> pyval \<Rightarrow> pydict result" where
  "mapping_item e v = (case v of PDict d \<Rightarrow> Inr d | _ \<Rightarrow> Inl e)"

definition record_tuple :: "pyval \<Rightarrow> pydict list result" where
  "record_tuple v =
     (case v of
        PList vs \<Rightarrow>
          ebind (mapM_err (mapping_item (ValueError ''Seeded corpus artifact records must contain objects.'')) vs) (\<lambda>records.
          ebind (guard (records \<noteq> []) (ValueError ''Seeded corpus artifact must include at least one record.'')) (\<lambda>_.
          Inr records))
      | _ \<Rightarrow> Inl (ValueError ''Seeded corpus artifact must include records as a list.''))"

definition mapping_sequence :: "pyval \<Rightarrow> string \<Rightarrow> pydict list result" where
  "mapping_sequence v name =
     (case v of
        PNone \<Rightarrow> Inr []
      | PList vs \<Rightarrow> mapM_err (mapping_item (field_message ''Seeded corpus record field '' name '' must contain objects.'')) vs
      | _ \<Rightarrow> Inl (field_message ''Seeded corpus record field '' name '' must be a list.''))"

definition required_mapping :: "pydict \<Rightarrow> string \<Rightarrow> pydict result" where
  "required_mapping data name =
     mapping_item (field_message ''Seeded corpus record must include object field '' name ''.'') (py_get data name)"

definition optional_mapping :: "pydict \<Rightarrow> string \<Rightarrow> pydict option result" where
  "optional_mapping data name =
     (case py_get data name of
        PNone \<Rightarrow> Inr None
      | PDict d \<Rightarrow> Inr (Some d)
      | _ \<Rightarrow> Inl (field_message ''Seeded corpus record field '' name '' must be an object.''))"

definition is_lower_hex :: "char \<Rightarrow> bool" where
  "is_lower_hex c \<longleftrightarrow> is_digit c \<or> (97 \<le> ord c \<and> ord c \<le> 102)"

definition is_raw_sha256 :: "string \<Rightarrow> bool" where
  "is_raw_sha256 s \<longleftrightarrow> length s = 64 \<and> list_all is_lower_hex s"

definition validated_raw_sha256 :: "pydict \<Rightarrow> string result" where
  "validated_raw_sha256 data =
     ebind (required_str_from_mapping data ''raw_sha256'') (\<lambda>h.
     ebind (guard (is_raw_sha256 h) (ValueError ''Source-derived record raw_sha256 must be lowercase SHA-256 hex.'')) (\<lambda>_.
     Inr h))"

section \<open>The artifact\<close>

datatype entity_type =
  Facility_Entity | Document_Entity | Complaint_Entity | Allegation_Entity | Event_Entity | Audit_Entity

definition SOURCE_DERIVED_ENTITY_TYPES :: "entity_type list" where
  "SOURCE_DERIVED_ENTITY_TYPES =
     [Facility_Entity, Document_Entity, Complaint_Entity, Allegation_Entity, Event_Entity, Audit_Entity]"

fun entity_name :: "entity_type \<Rightarrow> string" where
  "entity_name Facility_Entity = ''facility''"
| "entity_name Document_Entity = ''source_document''"
| "entity_name Complaint_Entity = ''complaint''"
| "entity_name Allegation_Entity = ''allegation''"
| "entity_name Event_Entity = ''event''"
| "entity_name Audit_Entity = ''extraction_audit''"

fun ENTITY_ID_FIELDS :: "entity_type \<Rightarrow> string" where
  "ENTITY_ID_FIELDS Facility_Entity = ''facility_id''"
| "ENTITY_ID_FIELDS Document_Entity = ''document_id''"
| "ENTITY_ID_FIELDS Complaint_Entity = ''complaint_id''"
| "ENTITY_ID_FIELDS Allegation_Entity = ''allegation_id''"
| "ENTITY_ID_FIELDS Event_Entity = ''event_id''"
| "ENTITY_ID_FIELDS Audit_Entity = ''audit_id''"

record corpus_artifact =
  art_batch_id :: string
  art_imported_at :: string
  art_identity :: string
  art_pipeline_version :: "string option"
  art_validation_status :: string
  art_raw_hash_status :: string
  art_record_counts :: pydict
  art_warnings :: "string list"
  art_errors :: "string list"
  art_records :: "pydict list"

definition parse_seeded_corpus_artifact :: "pydict \<Rightarrow> corpus_artifact result" where
  "parse_seeded_corpus_artifact data =
     ebind (artifact_required_str data ''validation_status'') (\<lambda>validation.
     ebind (guard (validation = ''validated'')
       (ValueError ''Seeded corpus artifact validation_status must be 'validated'.'')) (\<lambda>_.
     ebind (artifact_required_str data ''raw_hash_validation_status'') (\<lambda>raw_hash.
     ebind (guard (raw_hash = ''validated'')
       (ValueError ''Seeded corpus artifact raw_hash_validation_status must be 'validated'.'')) (\<lambda>_.
     ebind (string_tuple data ''errors'') (\<lambda>errors.
     ebind (guard (errors = []) (ValueError ''Seeded corpus artifact must not contain validation errors.'')) (\<lambda>_.
     ebind (artifact_required_str data ''import_batch_id'') (\<lambda>batch_id.
     ebind (artifact_required_str data ''imported_at'') (\<lambda>imported_at.
     ebind (artifact_required_str data ''source_artifact_identity'') (\<lambda>identity.
     ebind (artifact_optional_str data ''source_pipeline_version'') (\<lambda>version.
     ebind (artifact_record_counts (py_get data ''record_counts'')) (\<lambda>counts.
     ebind (string_tuple data ''warnings'') (\<lambda>warnings.
     ebind (record_tuple (py_get data ''records'')) (\<lambda>records.
     Inr \<lparr>art_batch_id = batch_id, art_imported_at = imported_at, art_identity = identity,
          art_pipeline_version = version, art_validation_status = validation, art_raw_hash_status = raw_hash,
          art_record_counts = counts, art_warnings = warnings, art_errors = errors,
          art_records = records\<rparr>)))))))))))))"

definition load_seeded_corpus_artifact :: "('a pyenv_scheme) \<Rightarrow> string list \<Rightarrow> corpus_artifact result" where
  "load_seeded_corpus_artifact env path =
     (case read_bytes env path of
        None \<Rightarrow> Inl (OSError ''No such file or directory'')
      | Some content \<Rightarrow>
          ebind (guard (utf8_valid content) (ValueError ''UnicodeDecodeError'')) (\<lambda>_.
          (case json_loads env content of
             None \<Rightarrow> Inl (ValueError ''JSONDecodeError'')
           | Some (PDict d) \<Rightarrow> parse_seeded_corpus_artifact d
           | Some _ \<Rightarrow> Inl (ValueError ''Seeded corpus artifact must be a JSON object.''))))"

section \<open>Source-derived records\<close>

record seeded_record =
  sr_entity :: entity_type
  sr_stable_id :: string
  sr_batch_id :: string
  sr_document_id :: string
  sr_facility_id :: "string option"
  sr_source_url :: string
  sr_raw_sha256 :: string
  sr_raw_path :: "string option"
  sr_connector_name :: string
  sr_connector_version :: string
  sr_retrieved_at :: string
  sr_original_values :: pydict
  sr_traceability :: pydict

definition record_key :: "entity_type \<Rightarrow> string \<Rightarrow> string" where
  "record_key t i = entity_name t @ '':'' @ i"

definition source_record_key :: "seeded_record \<Rightarrow> string" where
  "source_record_key r = record_key (sr_entity r) (sr_stable_id r)"

definition opt_pstr :: "string option \<Rightarrow> pyval" where
  "opt_pstr v = (case v of None \<Rightarrow> PNone | Some s \<Rightarrow> PStr s)"

definition seeded_source_traceability :: "pydict \<Rightarrow> pydict result" where
  "seeded_source_traceability doc =
     ebind (required_str_from_mapping doc ''document_id'') (\<lambda>document_id.
     ebind (required_str_from_mapping doc ''source_url'') (\<lambda>url.
     ebind (validated_raw_sha256 doc) (\<lambda>h.
     ebind (optional_str_from_mapping doc ''raw_path'') (\<lambda>path.
     ebind (required_str_from_mapping doc ''connector_name'') (\<lambda>name.
     ebind (required_str_from_mapping doc ''connector_version'') (\<lambda>version.
     ebind (required_str_from_mapping doc ''retrieved_at'') (\<lambda>retrieved.
     Inr [(''source_document_id'', PStr document_id), (''source_url'', PStr url), (''raw_sha256'', PStr h),
          (''raw_path'', opt_pstr path), (''connector_name'', PStr name), (''connector_version'', PStr version),
          (''retrieved_at'', PStr retrieved), (''report_index'', py_get doc ''report_index''),
          (''document_type'', py_get doc ''document_type'')])))))))"

definition mk_seeded_record ::
  "corpus_artifact \<Rightarrow> entity_type \<Rightarrow> pydict \<Rightarrow> pydict \<Rightarrow> string \<Rightarrow> string option \<Rightarrow> seeded_record result" where
  "mk_seeded_record art t original trace document_id facility =
     ebind (required_str_from_mapping original (ENTITY_ID_FIELDS t)) (\<lambda>stable_id.
     ebind (required_str_from_mapping trace ''source_url'') (\<lambda>url.
     ebind (validated_raw_sha256 trace) (\<lambda>h.
     ebind (optional_str_from_mapping trace ''raw_path'') (\<lambda>path.
     ebind (required_str_from_mapping trace ''connector_name'') (\<lambda>name.
     ebind (required_str_from_mapping trace ''connector_version'') (\<lambda>version.
     ebind (required_str_from_mapping trace ''retrieved_at'') (\<lambda>retrieved.
     Inr \<lparr>sr_entity = t, sr_stable_id = stable_id, sr_batch_id = art_batch_id art, sr_document_id = document_id,
          sr_facility_id = facility, sr_source_url = url, sr_raw_sha256 = h, sr_raw_path = path,
          sr_connector_name = name, sr_connector_version = version, sr_retrieved_at = retrieved,
          sr_original_values = original,
          sr_traceability = py_set trace ''source_artifact_identity'' (PStr (art_identity art))\<rparr>)))))))"

definition flatten_facility :: "corpus_artifact \<Rightarrow> pydict \<Rightarrow> pydict \<Rightarrow> pydict \<Rightarrow> seeded_record list result" where
  "flatten_facility art rec doc trace =
     ebind (optional_mapping rec ''facility'') (\<lambda>facility.
     (case facility of
        None \<Rightarrow> Inr []
      | Some f \<Rightarrow>
          ebind (optional_mapping rec ''hosted_refresh'') (\<lambda>refresh.
          ebind (required_str_from_mapping doc ''document_id'') (\<lambda>document_id.
          ebind (required_str_from_mapping f ''facility_id'') (\<lambda>facility_id.
          ebind (mk_seeded_record art Facility_Entity f
                  (case refresh of None \<Rightarrow> trace | Some c \<Rightarrow> py_set trace ''hosted_refresh'' (PDict c))
                  document_id (Some facility_id)) (\<lambda>r.
          Inr [r]))))))"

definition flatten_document :: "corpus_artifact \<Rightarrow> pydict \<Rightarrow> pydict \<Rightarrow> seeded_record list result" where
  "flatten_document art doc trace =
     ebind (required_str_from_mapping doc ''document_id'') (\<lambda>document_id.
     ebind (optional_str_from_mapping doc ''facility_id'') (\<lambda>facility_id.
     ebind (mk_seeded_record art Document_Entity doc trace document_id facility_id) (\<lambda>r. Inr [r])))"

text \<open>The loop over the allegations or the events of a complaint.\<close>

definition flatten_children ::
  "corpus_artifact \<Rightarrow> pydict \<Rightarrow> pydict \<Rightarrow> string \<Rightarrow> pydict \<Rightarrow> entity_type \<Rightarrow> string \<Rightarrow> seeded_record list result" where
  "flatten_children art rec complaint document_id trace t name =
     ebind (mapping_sequence (py_get rec name) name) (\<lambda>children.
     mapM_err (\<lambda>child.
       ebind (optional_str_from_mapping complaint ''facility_id'') (\<lambda>facility_id.
       mk_seeded_record art t child trace document_id facility_id)) children)"

definition flatten_complaint :: "corpus_artifact \<Rightarrow> pydict \<Rightarrow> pydict option \<Rightarrow> pydict \<Rightarrow> seeded_record list result" where
  "flatten_complaint art rec complaint trace =
     (case complaint of
        None \<Rightarrow> Inr []
      | Some c \<Rightarrow>
          ebind (required_str_from_mapping c ''document_id'') (\<lambda>document_id.
          ebind (optional_str_from_mapping c ''facility_id'') (\<lambda>facility_id.
          ebind (mk_seeded_record art Complaint_Entity c trace document_id facility_id) (\<lambda>r.
          ebind (flatten_children art rec c document_id trace Allegation_Entity ''allegations'') (\<lambda>allegations.
          ebind (flatten_children art rec c document_id trace Event_Entity ''events'') (\<lambda>events.
          Inr (r # allegations @ events)))))))"

definition flatten_audits :: "corpus_artifact \<Rightarrow> pydict \<Rightarrow> pydict \<Rightarrow> pydict \<Rightarrow> seeded_record list result" where
  "flatten_audits art rec doc trace =
     ebind (mapping_sequence (py_get rec ''extraction_audit'') ''extraction_audit'') (\<lambda>audits.
     mapM_err (\<lambda>audit.
       ebind (required_str_from_mapping audit ''document_id'') (\<lambda>document_id.
       ebind (optional_str_from_mapping doc ''facility_id'') (\<lambda>facility_id.
       mk_seeded_record art Audit_Entity audit trace document_id facility_id))) audits)"

definition flatten_normalized_record :: "corpus_artifact \<Rightarrow> pydict \<Rightarrow> seeded_record list result" where
  "flatten_normalized_record art rec =
     ebind (required_mapping rec ''source_document'') (\<lambda>doc.
     ebind (seeded_source_traceability doc) (\<lambda>trace.
     ebind (optional_mapping rec ''complaint'') (\<lambda>complaint.
     ebind (flatten_facility art rec doc trace) (\<lambda>facility.
     ebind (flatten_document art doc trace) (\<lambda>document.
     ebind (flatten_complaint art rec complaint trace) (\<lambda>complaints.
     ebind (flatten_audits art rec doc trace) (\<lambda>audits.
     Inr (facility @ document @ complaints @ audits))))))))"

definition flatten_seeded_corpus_records :: "corpus_artifact \<Rightarrow> seeded_record list result" where
  "flatten_seeded_corpus_records art =
     ebind (mapM_err (flatten_normalized_record art) (art_records art)) (\<lambda>parts. Inr (concat parts))"

end
