(* ===== verification/Seeded_Import.thy ===== *)
theory Seeded_Import imports Seeded_Artifact
begin

text \<open>
  The import of an artifact (\<open>hosted_app/seeded_import.py\<close>): the two tables, the merge of a refresh into a
  stored row that keeps filled values and records governed conflicts, and the import itself.
\<close>

section \<open>Stored rows\<close>

record batch_row =
  ib_batch_id :: string
  ib_imported_at :: string
  ib_identity :: string
  ib_pipeline_version :: "string option"
  ib_validation_status :: string
  ib_raw_hash_status :: string
  ib_record_counts :: pydict
  ib_warnings :: "string list"
  ib_errors :: "string list"

record source_row =
  row_key :: string
  row_entity :: entity_type
  row_stable_id :: string
  row_batch_id :: string
  row_document_id :: string
  row_facility_id :: "string option"
  row_source_url :: string
  row_raw_sha256 :: string
  row_raw_path :: "string option"
  row_connector_name :: string
  row_connector_version :: string
  row_retrieved_at :: string
  row_agency_name :: "string option"
  row_deficiency_texts :: "string list option"
  row_narrative :: "string option"
  row_report_contact :: "string option"
  row_original_values :: pydict
  row_traceability :: pydict

record import_db =
  import_batches :: "batch_row list"
  source_rows :: "source_row list"

section \<open>Blank values\<close>

definition FACILITY_CANONICAL_FIELDS :: "string list" where
  "FACILITY_CANONICAL_FIELDS =
     [''facility_id'', ''source_id'', ''external_facility_number'', ''facility_name'', ''facility_type'',
      ''licensee_name'', ''county'', ''status'', ''capacity'', ''regional_office'']"

definition COMPLAINT_REFRESH_FIELDS :: "string list" where
  "COMPLAINT_REFRESH_FIELDS =
     [''agency_name'', ''deficiency_texts'', ''investigation_findings_narrative'', ''complaint_report_contact'',
      ''complaint_control_number'', ''complaint_received_date'', ''first_investigation_activity_date'', ''visit_date'',
      ''report_date'', ''date_signed'', ''finding'', ''days_received_to_first_activity'', ''days_received_to_visit'',
      ''days_received_to_report'', ''days_report_to_signed'', ''review_delay_over_30_days'',
      ''review_delay_over_60_days'', ''review_delay_over_90_days'', ''review_delay_over_120_days'',
      ''missing_first_activity_date'', ''report_date_used_as_proxy'']"

definition FINGERPRINTED_COMPLAINT_REFRESH_FIELDS :: "string list" where
  "FINGERPRINTED_COMPLAINT_REFRESH_FIELDS =
     [''agency_name'', ''deficiency_texts'', ''investigation_findings_narrative'', ''complaint_report_contact'']"

definition rstrip_dots :: "string \<Rightarrow> string" where
  "rstrip_dots s = rev (dropWhile (\<lambda>c. c = CHR ''.'') (rev s))"

definition canonical_historical_text :: "pyval \<Rightarrow> bool \<Rightarrow> string option" where
  "canonical_historical_text v contact =
     (case v of
        PStr s \<Rightarrow>
          (let normalized = rstrip_dots (py_casefold (collapse_spaces s));
               placeholders = [''n/a'', ''na'', ''not available'', ''unavailable''] @ (if contact then [''see faqs''] else [])
           in if normalized \<noteq> [] \<and> normalized \<notin> set placeholders then Some s else None)
      | _ \<Rightarrow> None)"

definition is_blank_refresh_value :: "pyval \<Rightarrow> bool" where
  "is_blank_refresh_value v =
     (case v of PNone \<Rightarrow> True | PStr s \<Rightarrow> py_strip s = [] | PList xs \<Rightarrow> xs = [] | _ \<Rightarrow> False)"

definition is_blank_refresh_field_value :: "string \<Rightarrow> pyval \<Rightarrow> bool" where
  "is_blank_refresh_field_value name v =
     (if name = ''deficiency_texts'' then \<not> (case v of PList xs \<Rightarrow> list_ex filled_str xs | _ \<Rightarrow> False)
      else if name \<in> {''agency_name'', ''investigation_findings_narrative'', ''complaint_report_contact''}
      then canonical_historical_text v (name = ''complaint_report_contact'') = None
      else is_blank_refresh_value v)"

section \<open>Merging a refresh into a stored row\<close>

text \<open>\<open>json.dumps\<close> with \<open>ensure_ascii=True\<close>: text outside printable ASCII is written as escapes of its
  code points, those beyond the basic plane as surrogate pairs.\<close>

definition json_u_escape :: "nat \<Rightarrow> string" where
  "json_u_escape n = [CHR 0x5C, CHR ''u''] @ hex2 (char_of (n div 256)) @ hex2 (char_of n)"

definition code_point_escape :: "nat \<Rightarrow> string" where
  "code_point_escape n =
     (if n < 0x10000 then json_u_escape n
      else json_u_escape (0xD800 + (n - 0x10000) div 0x400) @ json_u_escape (0xDC00 + (n - 0x10000) mod 0x400))"

fun ascii_escapes :: "string \<Rightarrow> string" where
  "ascii_escapes [] = []"
| "ascii_escapes (a # s) =
     (if ord a < 0x7F then json_char a @ ascii_escapes s
      else if ord a = 0x7F then json_u_escape 0x7F @ ascii_escapes s
      else if ord a < 0xE0 then
        (case s of b # s' \<Rightarrow> code_point_escape ((ord a - 0xC0) * 64 + (ord b - 0x80)) @ ascii_escapes s' | _ \<Rightarrow> [])
      else if ord a < 0xF0 then
        (case s of b # c # s' \<Rightarrow>
            code_point_escape ((ord a - 0xE0) * 4096 + (ord b - 0x80) * 64 + (ord c - 0x80)) @ ascii_escapes s'
          | _ \<Rightarrow> [])
      else
        (case s of b # c # d # s' \<Rightarrow>
            code_point_escape ((ord a - 0xF0) * 262144 + (ord b - 0x80) * 4096 + (ord c - 0x80) * 64 + (ord d - 0x80))
              @ ascii_escapes s'
          | _ \<Rightarrow> []))"

definition ascii_json_string :: "string \<Rightarrow> string" where
  "ascii_json_string s = [CHR 0x22] @ ascii_escapes s @ [CHR 0x22]"

fun ascii_json :: "('a pyenv_scheme) \<Rightarrow> pyval \<Rightarrow> string" where
  "ascii_json env PNone = ''null''"
| "ascii_json env (PBool b) = (if b then ''true'' else ''false'')"
| "ascii_json env (PInt i) = show_int i"
| "ascii_json env (PFloat r) = float_repr env r"
| "ascii_json env (PStr s) = ascii_json_string s"
| "ascii_json env (PList xs) = ''['' @ py_join '','' (map (ascii_json env) xs) @ '']''"
| "ascii_json env (PDict d) =
     ''{'' @ py_join '',''
       (map (\<lambda>kt. ascii_json_string (fst kt) @ '':'' @ snd kt)
         (sort_key fst (map (\<lambda>kv. (fst kv, ascii_json env (snd kv))) d))) @ ''}''"

definition value_fingerprint :: "('a pyenv_scheme) \<Rightarrow> pyval \<Rightarrow> string" where
  "value_fingerprint env v = sha256_hex env (ascii_json env v)"

definition value_count :: "string \<Rightarrow> pyval \<Rightarrow> pydict" where
  "value_count name v = (case v of PList xs \<Rightarrow> [(name, PInt (int (length xs)))] | _ \<Rightarrow> [])"

definition refresh_conflict :: "('a pyenv_scheme) \<Rightarrow> string \<Rightarrow> pyval \<Rightarrow> pyval \<Rightarrow> pyval" where
  "refresh_conflict env name previous incoming = PDict (
     [(''field_name'', PStr name), (''resolution'', PStr ''incoming_governed_source_precedence'')] @
     (if name \<notin> set FINGERPRINTED_COMPLAINT_REFRESH_FIELDS
      then [(''previous_value'', previous), (''incoming_value'', incoming)]
      else [(''previous_value_sha256'', PStr (value_fingerprint env previous)),
            (''incoming_value_sha256'', PStr (value_fingerprint env incoming))]
           @ value_count ''previous_value_count'' previous @ value_count ''incoming_value_count'' incoming))"

definition conflict_fields :: "entity_type \<Rightarrow> string list" where
  "conflict_fields t =
     (case t of Facility_Entity \<Rightarrow> FACILITY_CANONICAL_FIELDS | Complaint_Entity \<Rightarrow> COMPLAINT_REFRESH_FIELDS | _ \<Rightarrow> [])"

text \<open>A filled value that stays, and a filled governed value that another one replaces.\<close>

definition keeps_value :: "pydict \<Rightarrow> string \<Rightarrow> pyval \<Rightarrow> bool" where
  "keeps_value merged name v \<longleftrightarrow> is_blank_refresh_field_value name v \<and>
     (case map_of merged name of None \<Rightarrow> False | Some old \<Rightarrow> \<not> is_blank_refresh_field_value name old)"

definition conflict_of :: "('a pyenv_scheme) \<Rightarrow> entity_type \<Rightarrow> pydict \<Rightarrow> string \<Rightarrow> pyval \<Rightarrow> pyval list" where
  "conflict_of env t merged name v =
     (case map_of merged name of
        None \<Rightarrow> []
      | Some old \<Rightarrow>
          if name \<in> set (conflict_fields t) \<and> \<not> is_blank_refresh_field_value name old \<and>
             \<not> is_blank_refresh_field_value name v \<and> \<not> py_eq old v
          then [refresh_conflict env name old v] else [])"

fun merge_source_original_values ::
  "('a pyenv_scheme) \<Rightarrow> entity_type \<Rightarrow> pydict \<Rightarrow> pydict \<Rightarrow> pydict \<times> pyval list" where
  "merge_source_original_values env t merged [] = (merged, [])"
| "merge_source_original_values env t merged ((name, v) # incoming) =
     (if keeps_value merged name v then merge_source_original_values env t merged incoming
      else (let (result, conflicts) = merge_source_original_values env t (py_set merged name v) incoming
            in (result, conflict_of env t merged name v @ conflicts)))"

fun merge_trace_values :: "pydict \<Rightarrow> pydict \<Rightarrow> pydict" where
  "merge_trace_values merged [] = merged"
| "merge_trace_values merged ((name, v) # incoming) =
     (if is_blank_refresh_value v \<and> name \<in> fst ` set merged then merge_trace_values merged incoming
      else merge_trace_values (py_set merged name v) incoming)"

fun append_conflicts :: "pyval list \<Rightarrow> pyval list \<Rightarrow> pyval list" where
  "append_conflicts rows [] = rows"
| "append_conflicts rows (c # cs) = append_conflicts (if list_ex (\<lambda>r. py_eq r c) rows then rows else rows @ [c]) cs"

definition merge_source_traceability :: "pydict \<Rightarrow> pydict \<Rightarrow> pyval list \<Rightarrow> pydict" where
  "merge_source_traceability existing incoming conflicts =
     (let merged = merge_trace_values existing incoming;
          prior = (case py_get merged ''refresh_conflicts'' of PList rows \<Rightarrow> rows | _ \<Rightarrow> []);
          rows = append_conflicts prior conflicts
      in if rows \<noteq> [] then py_set merged ''refresh_conflicts'' (PList rows) else merged)"

section \<open>The write of one record\<close>

text \<open>The four columns of a complaint; other entities leave them alone.\<close>

definition nonblank_texts :: "pyval list \<Rightarrow> string list" where
  "nonblank_texts xs = concat (map (\<lambda>v. case v of PStr s \<Rightarrow> if py_strip s \<noteq> [] then [s] else [] | _ \<Rightarrow> []) xs)"

definition normalized_deficiencies :: "pyval \<Rightarrow> string list option" where
  "normalized_deficiencies v =
     (case v of PList xs \<Rightarrow> (if nonblank_texts xs = [] then None else Some (nonblank_texts xs)) | _ \<Rightarrow> None)"

definition set_complaint_columns :: "entity_type \<Rightarrow> pydict \<Rightarrow> source_row \<Rightarrow> source_row" where
  "set_complaint_columns t vals row =
     (if t \<noteq> Complaint_Entity then row
      else row\<lparr>row_agency_name := canonical_historical_text (py_get vals ''agency_name'') False,
               row_deficiency_texts := normalized_deficiencies (py_get vals ''deficiency_texts''),
               row_narrative := canonical_historical_text (py_get vals ''investigation_findings_narrative'') False,
               row_report_contact := canonical_historical_text (py_get vals ''complaint_report_contact'') True\<rparr>)"

definition existing_document_batch_id :: "import_db \<Rightarrow> string \<Rightarrow> string \<Rightarrow> string" where
  "existing_document_batch_id db document_id fallback =
     (case find (\<lambda>r. row_entity r = Document_Entity \<and> row_stable_id r = document_id) (source_rows db) of
        None \<Rightarrow> fallback
      | Some r \<Rightarrow> row_batch_id r)"

text \<open>The columns that come from the record as they are, over the four columns of the row \<open>base\<close>.\<close>

definition record_columns :: "seeded_record \<Rightarrow> source_row \<Rightarrow> source_row" where
  "record_columns r base = base\<lparr>
     row_key := source_record_key r, row_entity := sr_entity r, row_stable_id := sr_stable_id r,
     row_batch_id := sr_batch_id r, row_document_id := sr_document_id r, row_facility_id := sr_facility_id r,
     row_source_url := sr_source_url r, row_raw_sha256 := sr_raw_sha256 r, row_raw_path := sr_raw_path r,
     row_connector_name := sr_connector_name r, row_connector_version := sr_connector_version r,
     row_retrieved_at := sr_retrieved_at r, row_original_values := sr_original_values r,
     row_traceability := sr_traceability r\<rparr>"

definition null_row :: source_row where
  "null_row = \<lparr>row_key = [], row_entity = Facility_Entity, row_stable_id = [], row_batch_id = [], row_document_id = [],
     row_facility_id = None, row_source_url = [], row_raw_sha256 = [], row_raw_path = None, row_connector_name = [],
     row_connector_version = [], row_retrieved_at = [], row_agency_name = None, row_deficiency_texts = None,
     row_narrative = None, row_report_contact = None, row_original_values = [], row_traceability = []\<rparr>"

definition prepared_source_record_values ::
  "('a pyenv_scheme) \<Rightarrow> import_db \<Rightarrow> seeded_record \<Rightarrow> source_row option \<Rightarrow> bool \<Rightarrow> source_row \<times> pyval list" where
  "prepared_source_record_values env db r existing preserve =
     (case existing of
        None \<Rightarrow>
          (let row = set_complaint_columns (sr_entity r) (sr_original_values r) (record_columns r null_row)
           in (if preserve
               then row\<lparr>row_batch_id := existing_document_batch_id db (sr_document_id r) (sr_batch_id r)\<rparr> else row, []))
      | Some old \<Rightarrow>
          (let row = record_columns r old;
               row = (if preserve then row\<lparr>row_batch_id := row_batch_id old\<rparr> else row);
               (merged, conflicts) =
                 merge_source_original_values env (sr_entity r) (row_original_values old) (sr_original_values r);
               row = set_complaint_columns (sr_entity r) merged (row\<lparr>row_original_values := merged\<rparr>)
           in (row\<lparr>row_traceability := merge_source_traceability (row_traceability old) (sr_traceability r) conflicts\<rparr>,
               conflicts)))"

text \<open>Python's equality of the compared columns; the four text columns are compared only where they are
  written, and are the old ones elsewhere.\<close>

definition same_row :: "source_row \<Rightarrow> source_row \<Rightarrow> bool" where
  "same_row old new \<longleftrightarrow>
     old\<lparr>row_original_values := [], row_traceability := []\<rparr> = new\<lparr>row_original_values := [], row_traceability := []\<rparr> \<and>
     py_eq (PDict (row_original_values old)) (PDict (row_original_values new)) \<and>
     py_eq (PDict (row_traceability old)) (PDict (row_traceability new))"

datatype write_operation = Inserted | Updated | Unchanged

definition upsert_source_record ::
  "('a pyenv_scheme) \<Rightarrow> bool \<Rightarrow> import_db \<Rightarrow> seeded_record \<Rightarrow> import_db \<times> write_operation \<times> nat" where
  "upsert_source_record env preserve db r =
     (let existing = tbl_find row_key (source_rows db) (source_record_key r);
          (row, conflicts) = prepared_source_record_values env db r existing preserve
      in case existing of
           None \<Rightarrow> (db\<lparr>source_rows := source_rows db @ [row]\<rparr>, Inserted, 0)
         | Some old \<Rightarrow>
             if same_row old row then (db, Unchanged, length conflicts)
             else (db\<lparr>source_rows := tbl_update row_key (source_record_key r) (\<lambda>_. row) (source_rows db)\<rparr>,
                   Updated, length conflicts))"

section \<open>The import\<close>

definition batch_values :: "corpus_artifact \<Rightarrow> batch_row" where
  "batch_values art =
     \<lparr>ib_batch_id = art_batch_id art, ib_imported_at = art_imported_at art, ib_identity = art_identity art,
      ib_pipeline_version = art_pipeline_version art, ib_validation_status = art_validation_status art,
      ib_raw_hash_status = art_raw_hash_status art, ib_record_counts = art_record_counts art,
      ib_warnings = art_warnings art, ib_errors = art_errors art\<rparr>"

definition upsert_batch :: "import_db \<Rightarrow> corpus_artifact \<Rightarrow> import_db" where
  "upsert_batch db art =
     (case tbl_find ib_batch_id (import_batches db) (art_batch_id art) of
        None \<Rightarrow> db\<lparr>import_batches := import_batches db @ [batch_values art]\<rparr>
      | Some _ \<Rightarrow> db\<lparr>import_batches := tbl_update ib_batch_id (art_batch_id art) (\<lambda>_. batch_values art) (import_batches db)\<rparr>)"

text \<open>The index of the last record with a key, as the dictionary comprehension leaves it.\<close>

fun last_index :: "string \<Rightarrow> nat \<Rightarrow> seeded_record list \<Rightarrow> nat option" where
  "last_index k i [] = None"
| "last_index k i (r # rs) =
     (case last_index k (i + 1) rs of
        Some j \<Rightarrow> Some j
      | None \<Rightarrow> if source_record_key r = k then Some i else None)"

definition deduplicate_source_record_projections :: "seeded_record list \<Rightarrow> seeded_record list" where
  "deduplicate_source_record_projections rs =
     map snd (filter (\<lambda>(i, r). last_index (source_record_key r) 0 rs = Some i) (enumerate 0 rs))"

record import_counts =
  n_inserted :: nat
  n_updated :: nat
  n_unchanged :: nat
  n_conflicted :: nat

definition count_write :: "import_counts \<Rightarrow> write_operation \<Rightarrow> nat \<Rightarrow> import_counts" where
  "count_write c operation conflicts =
     (let c = c\<lparr>n_conflicted := n_conflicted c + conflicts\<rparr> in
      case operation of
        Inserted \<Rightarrow> c\<lparr>n_inserted := n_inserted c + 1\<rparr>
      | Updated \<Rightarrow> c\<lparr>n_updated := n_updated c + 1\<rparr>
      | Unchanged \<Rightarrow> c\<lparr>n_unchanged := n_unchanged c + 1\<rparr>)"

fun write_records ::
  "('a pyenv_scheme) \<Rightarrow> bool \<Rightarrow> import_db \<Rightarrow> import_counts \<Rightarrow> seeded_record list \<Rightarrow> import_db \<times> import_counts" where
  "write_records env preserve db c [] = (db, c)"
| "write_records env preserve db c (r # rs) =
     (let (db', operation, conflicts) = upsert_source_record env preserve db r
      in write_records env preserve db' (count_write c operation conflicts) rs)"

fun unique_counts :: "string list \<Rightarrow> (entity_type \<times> nat) list \<Rightarrow> seeded_record list \<Rightarrow> (entity_type \<times> nat) list" where
  "unique_counts seen counts [] = counts"
| "unique_counts seen counts (r # rs) =
     (if source_record_key r \<in> set seen then unique_counts seen counts rs
      else unique_counts (source_record_key r # seen) (counter_incr counts (sr_entity r)) rs)"

definition unique_persisted_counts_by_entity :: "seeded_record list \<Rightarrow> (entity_type \<times> nat) list" where
  "unique_persisted_counts_by_entity rs = unique_counts [] (map (\<lambda>t. (t, 0)) SOURCE_DERIVED_ENTITY_TYPES) rs"

record import_result =
  res_batch_id :: string
  res_imported_count :: nat
  res_counts_by_entity :: "(entity_type \<times> nat) list"
  res_reviewer_state_written :: bool
  res_inserted :: nat
  res_updated :: nat
  res_unchanged :: nat
  res_conflicted :: nat

definition import_seeded_corpus_artifact ::
  "('a pyenv_scheme) \<Rightarrow> import_db \<Rightarrow> corpus_artifact \<Rightarrow> bool \<Rightarrow> (import_db \<times> import_result) result" where
  "import_seeded_corpus_artifact env db art preserve =
     ebind (flatten_seeded_corpus_records art) (\<lambda>flattened.
     (let records = deduplicate_source_record_projections flattened;
          (db', counts) = write_records env preserve (upsert_batch db art)
            \<lparr>n_inserted = 0, n_updated = 0, n_unchanged = 0, n_conflicted = 0\<rparr> records;
          by_entity = unique_persisted_counts_by_entity records
      in Inr (db', \<lparr>res_batch_id = art_batch_id art, res_imported_count = sum_list (map snd by_entity),
           res_counts_by_entity = by_entity, res_reviewer_state_written = False, res_inserted = n_inserted counts,
           res_updated = n_updated counts, res_unchanged = n_unchanged counts, res_conflicted = n_conflicted counts\<rparr>)))"

end
