(* ===== verification/Seeded_Refresh.thy ===== *)
theory Seeded_Refresh imports Seeded_Import
begin

text \<open>
  Lemmas on the refresh of stored rows: what a merge keeps, that a second merge of the same values changes
  nothing, and what one write does to the table.
\<close>

section \<open>Dictionaries\<close>

lemma py_set_same: "map_of d k = Some v \<Longrightarrow> py_set d k v = d"
  by (induction d k v rule: py_set.induct) (auto split: if_splits)

lemma keys_py_set: "fst ` set (py_set d k v) = insert k (fst ` set d)"
  by (induction d k v rule: py_set.induct) auto

lemma distinct_py_set: "distinct (map fst d) \<Longrightarrow> distinct (map fst (py_set d k v))"
proof (induction d k v rule: py_set.induct)
  case (2 x w d k v)
  then show ?case using keys_py_set [of d k v] by (auto simp flip: set_map)
qed simp

lemma values_py_set: "kv \<in> set (py_set d k v) \<Longrightarrow> kv \<in> set d \<or> kv = (k, v)"
  by (induction d k v rule: py_set.induct) (auto split: if_splits)

lemma wf_py_set: "wf_pyval (PDict d) \<Longrightarrow> wf_pyval v \<Longrightarrow> wf_pyval (PDict (py_set d k v))"
  using values_py_set [of _ d k v] distinct_py_set [of d k v] by fastforce

lemma wf_map_of: "wf_pyval (PDict d) \<Longrightarrow> map_of d k = Some v \<Longrightarrow> wf_pyval v"
  by (auto dest: map_of_SomeD)

lemma wf_py_get: "wf_pyval (PDict d) \<Longrightarrow> wf_pyval (py_get d k)"
  by (auto simp: py_get_def split: option.splits dest: map_of_SomeD)

lemma in_keys_map_of: "k \<in> fst ` set d \<longleftrightarrow> (\<exists>v. map_of d k = Some v)"
  by (metis domIff dom_map_of_conv_image_fst not_None_eq)

lemma py_eq_PDict_map_of: "py_eq (PDict d) (PDict e) \<Longrightarrow> map_of d k = Some v \<Longrightarrow> \<exists>w. map_of e k = Some w \<and> py_eq v w"
  by (force dest: map_of_SomeD split: option.splits)

section \<open>Merging the values\<close>

text \<open>What a merge has done with one incoming entry.\<close>

definition absorbed :: "pydict \<Rightarrow> string \<times> pyval \<Rightarrow> bool" where
  "absorbed m kv \<longleftrightarrow> keeps_value m (fst kv) (snd kv) \<or> map_of m (fst kv) = Some (snd kv)"

lemma merge_values_frame:
  "k \<notin> fst ` set inc \<Longrightarrow> map_of (fst (merge_source_original_values env t m inc)) k = map_of m k"
  by (induction env t m inc rule: merge_source_original_values.induct)
    (auto simp: map_of_py_set Let_def case_prod_unfold split: if_splits)

lemma absorbed_cong: "map_of m (fst kv) = map_of n (fst kv) \<Longrightarrow> absorbed m kv = absorbed n kv"
  by (simp add: absorbed_def keeps_value_def)

lemma merge_values_absorbed:
  "distinct (map fst inc) \<Longrightarrow> kv \<in> set inc \<Longrightarrow> absorbed (fst (merge_source_original_values env t m inc)) kv"
proof (induction env t m inc rule: merge_source_original_values.induct)
  case (2 env t m name v inc)
  let ?next = "if keeps_value m name v then m else py_set m name v"
  have eq: "fst (merge_source_original_values env t m ((name, v) # inc)) =
      fst (merge_source_original_values env t ?next inc)"
    by (simp add: Let_def case_prod_unfold)
  show ?case
  proof (cases "kv \<in> set inc")
    case True
    with 2 show ?thesis unfolding eq by (cases "keeps_value m name v") auto
  next
    case False
    with 2 have kv: "kv = (name, v)" by simp
    have "map_of (fst (merge_source_original_values env t ?next inc)) name = map_of ?next name"
      by (rule merge_values_frame) (use "2.prems" in auto)
    moreover have "absorbed ?next (name, v)"
      by (auto simp: absorbed_def keeps_value_def map_of_py_set)
    ultimately show ?thesis unfolding eq kv by (subst absorbed_cong) simp_all
  qed
qed simp

lemma merge_absorbed:
  assumes "\<And>kv. kv \<in> set inc \<Longrightarrow> absorbed m kv" and "\<And>kv. kv \<in> set inc \<Longrightarrow> wf_pyval (snd kv)"
  shows "merge_source_original_values env t m inc = (m, [])"
  using assms
proof (induction inc)
  case (Cons kv inc)
  obtain k v where kv: "kv = (k, v)" by (cases kv)
  have IH: "merge_source_original_values env t m inc = (m, [])" using Cons by simp
  show ?case
  proof (cases "keeps_value m k v")
    case True
    with IH show ?thesis by (simp add: kv)
  next
    case False
    with Cons.prems(1) [of kv] have m: "map_of m k = Some v" by (auto simp: absorbed_def kv)
    have "py_eq v v" using Cons.prems(2) [of kv] by (simp add: kv py_eq_refl)
    then have "conflict_of env t m k v = []" by (simp add: conflict_of_def m)
    with False IH show ?thesis by (simp add: kv py_set_same [OF m])
  qed
qed simp

lemma merge_values_wf:
  "wf_pyval (PDict m) \<Longrightarrow> (\<And>kv. kv \<in> set inc \<Longrightarrow> wf_pyval (snd kv)) \<Longrightarrow>
    wf_pyval (PDict (fst (merge_source_original_values env t m inc)))"
proof (induction env t m inc rule: merge_source_original_values.induct)
  case (2 env t m name v inc)
  have w: "wf_pyval v" "\<And>kv. kv \<in> set inc \<Longrightarrow> wf_pyval (snd kv)" using 2(4) by fastforce+
  show ?case
  proof (cases "keeps_value m name v")
    case True
    with 2(1) [OF True 2(3) w(2)] show ?thesis by simp
  next
    case False
    with 2(2) [OF False wf_py_set [OF 2(3) w(1)] w(2)] show ?thesis by (simp add: Let_def case_prod_unfold)
  qed
qed simp

text \<open>A filled value is replaced by a filled value or stays, and a governed replacement is reported.\<close>

lemma merge_values_filled:
  assumes "distinct (map fst inc)" and "map_of m f = Some v" and "\<not> is_blank_refresh_field_value f v"
  shows "\<exists>w. map_of (fst (merge_source_original_values env t m inc)) f = Some w \<and>
    \<not> is_blank_refresh_field_value f w \<and>
    (w = v \<or> py_eq v w \<or> f \<notin> set (conflict_fields t) \<or>
      refresh_conflict env f v w \<in> set (snd (merge_source_original_values env t m inc)))"
  using assms
proof (induction env t m inc rule: merge_source_original_values.induct)
  case (2 env t m name x inc)
  show ?case
  proof (cases "keeps_value m name x")
    case True
    with 2 show ?thesis by simp
  next
    case k: False
    show ?thesis
    proof (cases "name = f")
      case False
      then have "map_of (py_set m name x) f = Some v" using 2 by (simp add: map_of_py_set)
      with 2(2) [OF k] 2(3,5) obtain w where
        "map_of (fst (merge_source_original_values env t (py_set m name x) inc)) f = Some w"
        "\<not> is_blank_refresh_field_value f w"
        "w = v \<or> py_eq v w \<or> f \<notin> set (conflict_fields t) \<or>
          refresh_conflict env f v w \<in> set (snd (merge_source_original_values env t (py_set m name x) inc))" by auto
      with k show ?thesis by (auto simp: Let_def case_prod_unfold)
    next
      case True
      have "map_of (fst (merge_source_original_values env t (py_set m name x) inc)) f = Some x"
        using 2(3) True by (subst merge_values_frame) (auto simp: map_of_py_set)
      moreover from k 2(4,5) True have "\<not> is_blank_refresh_field_value f x" by (simp add: keeps_value_def)
      moreover have "py_eq v x \<or> f \<notin> set (conflict_fields t) \<or> refresh_conflict env f v x \<in> set (conflict_of env t m name x)"
        using True 2(4,5) calculation(2) by (simp add: conflict_of_def)
      ultimately show ?thesis using k by (auto simp: Let_def case_prod_unfold)
    qed
  qed
qed (simp)

lemma wf_refresh_conflict: "wf_pyval u \<Longrightarrow> wf_pyval v \<Longrightarrow> wf_pyval (refresh_conflict env f u v)"
  by (auto simp: refresh_conflict_def value_count_def split: pyval.splits)

lemma conflicts_wf:
  "wf_pyval (PDict m) \<Longrightarrow> (\<And>kv. kv \<in> set inc \<Longrightarrow> wf_pyval (snd kv)) \<Longrightarrow>
    c \<in> set (snd (merge_source_original_values env t m inc)) \<Longrightarrow> wf_pyval c"
proof (induction env t m inc rule: merge_source_original_values.induct)
  case (2 env t m name v inc)
  have w: "wf_pyval v" "\<And>kv. kv \<in> set inc \<Longrightarrow> wf_pyval (snd kv)" using 2(4) by fastforce+
  show ?case
  proof (cases "keeps_value m name v")
    case True
    with 2(1) [OF True 2(3) w(2)] 2(5) show ?thesis by simp
  next
    case False
    from 2(5) False consider "c \<in> set (conflict_of env t m name v)"
      | "c \<in> set (snd (merge_source_original_values env t (py_set m name v) inc))"
      by (auto simp: Let_def case_prod_unfold)
    then show ?thesis
    proof cases
      case 1
      then show ?thesis using w(1) wf_map_of [OF 2(3)]
        by (auto simp: conflict_of_def wf_refresh_conflict split: option.splits if_splits)
    next
      case 2
      from "2.IH"(2) [OF False wf_py_set [OF "2.prems"(1) w(1)] w(2) 2] show ?thesis .
    qed
  qed
qed simp

section \<open>Merging the traceability\<close>

definition traced :: "pydict \<Rightarrow> string \<times> pyval \<Rightarrow> bool" where
  "traced m kv \<longleftrightarrow> (is_blank_refresh_value (snd kv) \<and> fst kv \<in> fst ` set m) \<or> map_of m (fst kv) = Some (snd kv)"

lemma merge_trace_frame: "k \<notin> fst ` set inc \<Longrightarrow> map_of (merge_trace_values m inc) k = map_of m k"
  by (induction m inc rule: merge_trace_values.induct) (auto simp: map_of_py_set)

lemma traced_cong: "map_of m (fst kv) = map_of n (fst kv) \<Longrightarrow> traced m kv = traced n kv"
  by (simp add: traced_def in_keys_map_of)

lemma merge_trace_traced:
  "distinct (map fst inc) \<Longrightarrow> kv \<in> set inc \<Longrightarrow> traced (merge_trace_values m inc) kv"
proof (induction m inc rule: merge_trace_values.induct)
  case (2 m name v inc)
  let ?next = "if is_blank_refresh_value v \<and> name \<in> fst ` set m then m else py_set m name v"
  have eq: "merge_trace_values m ((name, v) # inc) = merge_trace_values ?next inc" by simp
  show ?case
  proof (cases "kv \<in> set inc")
    case True
    with 2 show ?thesis unfolding eq by (cases "is_blank_refresh_value v \<and> name \<in> fst ` set m") auto
  next
    case False
    with 2 have kv: "kv = (name, v)" by simp
    have "map_of (merge_trace_values ?next inc) name = map_of ?next name"
      by (rule merge_trace_frame) (use "2.prems" in auto)
    moreover have "traced ?next (name, v)" by (auto simp: traced_def map_of_py_set)
    ultimately show ?thesis unfolding eq kv by (subst traced_cong) simp_all
  qed
qed simp

lemma merge_trace_again: "(\<And>kv. kv \<in> set inc \<Longrightarrow> traced m kv) \<Longrightarrow> merge_trace_values m inc = m"
proof (induction inc)
  case (Cons kv inc)
  have "traced m kv" "merge_trace_values m inc = m" using Cons by simp_all
  then show ?case by (cases kv) (auto simp: traced_def py_set_same)
qed simp

lemma merge_trace_wf:
  "wf_pyval (PDict m) \<Longrightarrow> (\<And>kv. kv \<in> set inc \<Longrightarrow> wf_pyval (snd kv)) \<Longrightarrow> wf_pyval (PDict (merge_trace_values m inc))"
proof (induction m inc rule: merge_trace_values.induct)
  case (2 m name v inc)
  have w: "wf_pyval v" "\<And>kv. kv \<in> set inc \<Longrightarrow> wf_pyval (snd kv)" using 2(4) by fastforce+
  show ?case
  proof (cases "is_blank_refresh_value v \<and> name \<in> fst ` set m")
    case True
    with 2(1) [OF True 2(3) w(2)] show ?thesis by simp
  next
    case False
    with 2(2) [OF False wf_py_set [OF 2(3) w(1)] w(2)] show ?thesis unfolding merge_trace_values.simps if_not_P [OF False] by blast
  qed
qed simp

lemma append_conflicts_prior: "c \<in> set rows \<Longrightarrow> c \<in> set (append_conflicts rows cs)"
  by (induction rows cs rule: append_conflicts.induct) auto

lemma append_conflicts_source: "c \<in> set (append_conflicts rows cs) \<Longrightarrow> c \<in> set rows \<or> c \<in> set cs"
  by (induction rows cs rule: append_conflicts.induct) (auto split: if_splits)

lemma append_conflicts_member:
  "c \<in> set cs \<Longrightarrow> wf_pyval c \<Longrightarrow> \<exists>d \<in> set (append_conflicts rows cs). py_eq d c"
proof (induction rows cs rule: append_conflicts.induct)
  case (2 rows x cs)
  let ?next = "if list_ex (\<lambda>r. py_eq r x) rows then rows else rows @ [x]"
  show ?case
  proof (cases "c = x")
    case True
    have "\<exists>d \<in> set ?next. py_eq d c" using True 2(3) py_eq_refl by (auto simp: list_ex_iff)
    then obtain d where "d \<in> set ?next" "py_eq d c" by blast
    then show ?thesis using append_conflicts_prior [of d ?next cs] by (intro bexI [of _ d]) simp_all
  qed (use 2 in auto)
qed simp

definition prior_conflicts :: "pydict \<Rightarrow> pyval list" where
  "prior_conflicts trace = (case py_get trace ''refresh_conflicts'' of PList rows \<Rightarrow> rows | _ \<Rightarrow> [])"

lemma merge_source_traceability_eq:
  "merge_source_traceability old inc cs =
     (let merged = merge_trace_values old inc; rows = append_conflicts (prior_conflicts merged) cs
      in if rows \<noteq> [] then py_set merged ''refresh_conflicts'' (PList rows) else merged)"
  by (simp add: merge_source_traceability_def prior_conflicts_def)

lemma prior_conflicts_some: "prior_conflicts d \<noteq> [] \<Longrightarrow> map_of d ''refresh_conflicts'' = Some (PList (prior_conflicts d))"
  by (auto simp: prior_conflicts_def py_get_def split: option.splits pyval.splits)

lemma prior_conflicts_merged:
  "prior_conflicts (merge_source_traceability old inc cs) = append_conflicts (prior_conflicts (merge_trace_values old inc)) cs"
proof -
  let ?rows = "append_conflicts (prior_conflicts (merge_trace_values old inc)) cs"
  have "prior_conflicts (merge_trace_values old inc) = []" if "?rows = []"
    using append_conflicts_prior [of _ "prior_conflicts (merge_trace_values old inc)" cs] that
    by (cases "prior_conflicts (merge_trace_values old inc)") auto
  moreover have "prior_conflicts (py_set d ''refresh_conflicts'' (PList rows)) = rows" for d rows
    by (simp add: prior_conflicts_def)
  ultimately show ?thesis by (simp add: merge_source_traceability_eq Let_def)
qed

lemma traceability_again:
  assumes "distinct (map fst inc)" and "''refresh_conflicts'' \<notin> fst ` set inc"
  shows "merge_source_traceability (merge_source_traceability old inc cs) inc [] = merge_source_traceability old inc cs"
proof -
  let ?t = "merge_source_traceability old inc cs"
  have "traced ?t kv" if "kv \<in> set inc" for kv
  proof -
    from that assms(2) have "fst kv \<noteq> ''refresh_conflicts''" by force
    then have "map_of ?t (fst kv) = map_of (merge_trace_values old inc) (fst kv)"
      by (simp add: merge_source_traceability_eq Let_def map_of_py_set)
    then show ?thesis using merge_trace_traced [OF assms(1) that] traced_cong by metis
  qed
  then have "merge_trace_values ?t inc = ?t" by (rule merge_trace_again)
  then show ?thesis
    using prior_conflicts_some [of ?t] by (simp add: merge_source_traceability_eq [of ?t] Let_def py_set_same)
qed

lemma traceability_fresh:
  assumes "''refresh_conflicts'' \<notin> fst ` set inc" and "distinct (map fst inc)"
  shows "merge_source_traceability inc inc [] = inc"
proof -
  have "merge_trace_values inc inc = inc"
    by (rule merge_trace_again) (use assms(2) in \<open>auto simp: traced_def\<close>)
  moreover have "prior_conflicts inc = []" using assms(1) prior_conflicts_some [of inc] by (force dest: map_of_SomeD)
  ultimately show ?thesis by (simp add: merge_source_traceability_eq Let_def)
qed

lemma traceability_wf:
  assumes "wf_pyval (PDict old)" and "wf_pyval (PDict inc)" and "\<And>c. c \<in> set cs \<Longrightarrow> wf_pyval c"
  shows "wf_pyval (PDict (merge_source_traceability old inc cs))"
proof -
  have m: "wf_pyval (PDict (merge_trace_values old inc))" by (rule merge_trace_wf) (use assms in auto)
  have "wf_pyval (PList (prior_conflicts (merge_trace_values old inc)))"
  proof (cases "prior_conflicts (merge_trace_values old inc) = []")
    case False
    show ?thesis by (rule wf_map_of [OF m prior_conflicts_some [OF False]])
  qed simp
  then have "wf_pyval (PList (append_conflicts (prior_conflicts (merge_trace_values old inc)) cs))"
    using append_conflicts_source [of _ "prior_conflicts (merge_trace_values old inc)" cs] assms(3)
    by (auto simp: list_all_iff)
  with m show ?thesis by (simp add: merge_source_traceability_eq Let_def wf_py_set del: wf_pyval.simps)
qed

section \<open>One record\<close>

definition wf_record :: "seeded_record \<Rightarrow> bool" where
  "wf_record r \<longleftrightarrow> wf_pyval (PDict (sr_original_values r)) \<and> wf_pyval (PDict (sr_traceability r)) \<and>
     ''refresh_conflicts'' \<notin> fst ` set (sr_traceability r)"

definition wf_row :: "source_row \<Rightarrow> bool" where
  "wf_row row \<longleftrightarrow> row_key row = record_key (row_entity row) (row_stable_id row) \<and>
     wf_pyval (PDict (row_original_values row)) \<and> wf_pyval (PDict (row_traceability row))"

lemma prepared_identity:
  assumes "prepared_source_record_values env db r existing preserve = (new, cs)"
  shows "row_key new = source_record_key r" "row_entity new = sr_entity r" "row_stable_id new = sr_stable_id r"
  using assms
  by (auto simp: prepared_source_record_values_def set_complaint_columns_def record_columns_def case_prod_unfold Let_def
      split: option.splits if_splits)

lemma prepared_values:
  assumes "prepared_source_record_values env db r (Some old) preserve = (new, cs)"
  shows "row_original_values new =
      fst (merge_source_original_values env (sr_entity r) (row_original_values old) (sr_original_values r))"
    "cs = snd (merge_source_original_values env (sr_entity r) (row_original_values old) (sr_original_values r))"
    "row_traceability new = merge_source_traceability (row_traceability old) (sr_traceability r) cs"
    "row_batch_id new = (if preserve then row_batch_id old else sr_batch_id r)"
  using assms
  by (auto simp: prepared_source_record_values_def set_complaint_columns_def record_columns_def case_prod_unfold Let_def
      split: option.splits if_splits)

lemma prepared_again:
  assumes "prepared_source_record_values env db r (Some old) preserve = (new, cs)" and "wf_record r"
  shows "prepared_source_record_values env db' r (Some new) preserve = (new, [])"
proof -
  have inc: "distinct (map fst (sr_original_values r))" "\<And>kv. kv \<in> set (sr_original_values r) \<Longrightarrow> wf_pyval (snd kv)"
    "distinct (map fst (sr_traceability r))" "''refresh_conflicts'' \<notin> fst ` set (sr_traceability r)"
    using assms(2) by (auto simp: wf_record_def)
  note v = prepared_values [OF assms(1)]
  have m: "merge_source_original_values env (sr_entity r) (row_original_values new) (sr_original_values r) =
      (row_original_values new, [])"
    unfolding v(1) by (rule merge_absorbed [OF merge_values_absorbed [OF inc(1)] inc(2)])
  have t: "merge_source_traceability (row_traceability new) (sr_traceability r) [] = row_traceability new"
    unfolding v(3) by (rule traceability_again [OF inc(3,4)])
  show ?thesis
    using assms(1) m t unfolding prepared_source_record_values_def
    by (auto simp: set_complaint_columns_def record_columns_def case_prod_unfold Let_def v)
qed

lemma tbl_find_replace: "key row = k \<Longrightarrow> tbl_find key (tbl_update key k (\<lambda>_. row) rows) j =
    (if j = k then map_option (\<lambda>_. row) (tbl_find key rows k) else tbl_find key rows j)"
  unfolding tbl_find_def tbl_update_def by (induction rows) auto

lemma map_key_replace: "key row = k \<Longrightarrow> map key (tbl_update key k (\<lambda>_. row) rows) = map key rows"
  by (simp add: tbl_update_def)

lemma same_row_refl: "wf_row row \<Longrightarrow> same_row row row"
  unfolding same_row_def wf_row_def by (simp add: py_eq_refl del: py_eq.simps wf_pyval.simps)

lemma prepared_fresh:
  assumes "prepared_source_record_values env db r None preserve = (new, cs)" and "wf_record r"
  shows "prepared_source_record_values env db' r (Some new) preserve = (new, [])"
    "row_original_values new = sr_original_values r" "row_traceability new = sr_traceability r" "cs = []"
    "row_batch_id new = (if preserve then existing_document_batch_id db (sr_document_id r) (sr_batch_id r) else sr_batch_id r)"
proof -
  have inc: "distinct (map fst (sr_original_values r))" "\<And>kv. kv \<in> set (sr_original_values r) \<Longrightarrow> wf_pyval (snd kv)"
    "distinct (map fst (sr_traceability r))" "''refresh_conflicts'' \<notin> fst ` set (sr_traceability r)"
    using assms(2) by (auto simp: wf_record_def)
  show v: "row_original_values new = sr_original_values r" "row_traceability new = sr_traceability r" "cs = []"
    "row_batch_id new = (if preserve then existing_document_batch_id db (sr_document_id r) (sr_batch_id r) else sr_batch_id r)"
    using assms(1)
    by (auto simp: prepared_source_record_values_def set_complaint_columns_def record_columns_def Let_def split: if_splits)
  have m: "merge_source_original_values env (sr_entity r) (sr_original_values r) (sr_original_values r) =
      (sr_original_values r, [])"
    by (rule merge_absorbed) (use inc in \<open>auto simp: absorbed_def\<close>)
  show "prepared_source_record_values env db' r (Some new) preserve = (new, [])"
    using assms(1) m traceability_fresh [OF inc(4,3)] unfolding prepared_source_record_values_def
    by (auto simp: set_complaint_columns_def record_columns_def case_prod_unfold Let_def v)
qed

lemma prepared_wf:
  assumes "prepared_source_record_values env db r existing preserve = (new, cs)" and "wf_record r"
    and "\<And>old. existing = Some old \<Longrightarrow> wf_row old"
  shows "wf_row new"
proof (cases existing)
  case None
  with assms show ?thesis using prepared_identity [OF assms(1)] prepared_fresh(2,3) [of env db r preserve new cs]
    by (simp add: wf_row_def wf_record_def source_record_key_def)
next
  case (Some old)
  note v = prepared_values [OF assms(1) [unfolded Some]]
  have o: "wf_pyval (PDict (row_original_values old))" "wf_pyval (PDict (row_traceability old))"
    using assms(3) [OF Some] by (simp_all add: wf_row_def)
  have r: "\<And>kv. kv \<in> set (sr_original_values r) \<Longrightarrow> wf_pyval (snd kv)" "wf_pyval (PDict (sr_traceability r))"
    using assms(2) by (auto simp: wf_record_def)
  have c: "\<And>c. c \<in> set cs \<Longrightarrow> wf_pyval c" unfolding v(2) by (rule conflicts_wf [OF o(1) r(1)])
  show ?thesis
    using prepared_identity [OF assms(1)] merge_values_wf [OF o(1) r(1)] traceability_wf [OF o(2) r(2) c]
    by (simp add: wf_row_def source_record_key_def v(1,3) del: wf_pyval.simps)
qed

text \<open>A row that another write of the same record would leave as it is, with no conflict.\<close>

definition settled :: "('a pyenv_scheme) \<Rightarrow> bool \<Rightarrow> import_db \<Rightarrow> seeded_record \<Rightarrow> bool" where
  "settled env preserve db r \<longleftrightarrow> (\<exists>row. tbl_find row_key (source_rows db) (source_record_key r) = Some row \<and>
     (\<exists>new. (\<forall>db'. prepared_source_record_values env db' r (Some row) preserve = (new, [])) \<and> same_row row new))"

definition db_inv :: "import_db \<Rightarrow> bool" where
  "db_inv db \<longleftrightarrow> distinct (map row_key (source_rows db)) \<and> distinct (map ib_batch_id (import_batches db)) \<and>
     (\<forall>row \<in> set (source_rows db). wf_row row \<and> row_batch_id row \<in> ib_batch_id ` set (import_batches db))"

lemma prepared_Some_db: "prepared_source_record_values env db r (Some old) preserve =
    prepared_source_record_values env db' r (Some old) preserve"
  by (simp add: prepared_source_record_values_def)

lemma unchanged_no_conflict:
  assumes "prepared_source_record_values env db r (Some old) preserve = (new, cs)" and "same_row old new"
    and "wf_record r"
  shows "cs = []"
proof (rule ccontr)
  assume "cs \<noteq> []"
  have eq: "py_eq (PDict (row_original_values old)) (PDict (row_original_values new))"
    using assms(2) by (simp add: same_row_def)
  have d: "distinct (map fst (sr_original_values r))" using assms(3) by (simp add: wf_record_def)
  have "snd (merge_source_original_values env t m inc) = []"
    if "distinct (map fst inc)" "\<And>k v. k \<in> fst ` set inc \<Longrightarrow> map_of m k = Some v \<Longrightarrow>
      \<exists>w. map_of (fst (merge_source_original_values env t m inc)) k = Some w \<and> py_eq v w" for t m inc
    using that
  proof (induction env t m inc rule: merge_source_original_values.induct)
    case (2 env t m name v inc)
    show ?case
    proof (cases "keeps_value m name v")
      case True
      with 2 show ?thesis by (simp add: Let_def)
    next
      case False
      let ?m = "py_set m name v"
      have keep: "map_of (fst (merge_source_original_values env t ?m inc)) name = Some v"
        using 2(3) by (subst merge_values_frame) (auto simp: map_of_py_set)
      have "conflict_of env t m name v = []"
      proof (cases "map_of m name")
        case (Some old)
        from 2(4) [of name old] Some False keep have "py_eq old v" by (simp add: Let_def case_prod_unfold)
        with Some show ?thesis by (simp add: conflict_of_def)
      qed (simp add: conflict_of_def)
      moreover have "snd (merge_source_original_values env t ?m inc) = []"
      proof (rule 2(2) [OF False])
        fix k w assume k: "k \<in> fst ` set inc" "map_of ?m k = Some w"
        with 2(3) have "k \<noteq> name" by auto
        with k 2(4) [of k w] False show "\<exists>u. map_of (fst (merge_source_original_values env t ?m inc)) k = Some u \<and> py_eq w u"
          by (simp add: map_of_py_set Let_def case_prod_unfold)
      qed (use 2(3) in simp)
      ultimately show ?thesis using False by (simp add: Let_def case_prod_unfold)
    qed
  qed simp
  from this [OF d] py_eq_PDict_map_of [OF eq] \<open>cs \<noteq> []\<close> show False
    by (simp add: prepared_values [OF assms(1)])
qed

text \<open>One write: its row, its frame, and what a second one finds.\<close>

lemma upsert_source_record_ok:
  assumes "db_inv db" and "wf_record r" and "sr_batch_id r \<in> ib_batch_id ` set (import_batches db)"
    and "upsert_source_record env preserve db r = (db', operation, n)"
  shows "db_inv db'" "import_batches db' = import_batches db"
    "k \<noteq> source_record_key r \<Longrightarrow> tbl_find row_key (source_rows db') k = tbl_find row_key (source_rows db) k"
    "row_key ` set (source_rows db') = insert (source_record_key r) (row_key ` set (source_rows db))"
    "settled env preserve db' r"
    "settled env preserve db r \<Longrightarrow> db' = db \<and> operation = Unchanged \<and> n = 0"
proof -
  let ?k = "source_record_key r" and ?rows = "source_rows db"
  obtain new cs where p: "prepared_source_record_values env db r (tbl_find row_key ?rows ?k) preserve = (new, cs)"
    by fastforce
  note id = prepared_identity [OF p]
  have wf_old: "wf_row old" "row_batch_id old \<in> ib_batch_id ` set (import_batches db)" "old \<in> set ?rows" "row_key old = ?k"
    if "tbl_find row_key ?rows ?k = Some old" for old
    using tbl_find_SomeD [OF that] assms(1) by (auto simp: db_inv_def)
  have wf: "wf_row new" by (rule prepared_wf [OF p assms(2) wf_old(1)])
  show settled_now: "db' = db \<and> operation = Unchanged \<and> n = 0" if "settled env preserve db r"
    using that assms(4) by (auto simp: settled_def upsert_source_record_def Let_def)
  consider (fresh) "tbl_find row_key ?rows ?k = None" "db' = db\<lparr>source_rows := ?rows @ [new]\<rparr>"
    | (same) old where "tbl_find row_key ?rows ?k = Some old" "same_row old new" "db' = db"
    | (changed) old where "tbl_find row_key ?rows ?k = Some old"
        "db' = db\<lparr>source_rows := tbl_update row_key ?k (\<lambda>_. new) ?rows\<rparr>"
    using assms(4) p by (auto simp: upsert_source_record_def Let_def split: option.splits if_splits)
  then have "db_inv db' \<and> import_batches db' = import_batches db \<and>
      (k \<noteq> ?k \<longrightarrow> tbl_find row_key (source_rows db') k = tbl_find row_key ?rows k) \<and>
      row_key ` set (source_rows db') = insert ?k (row_key ` set ?rows) \<and> settled env preserve db' r"
  proof cases
    case fresh
    note f = prepared_fresh [OF p [unfolded fresh(1)] assms(2)]
    have batch: "row_batch_id new \<in> ib_batch_id ` set (import_batches db)"
      using assms(1,3) f(5) by (auto simp: existing_document_batch_id_def db_inv_def find_Some_iff split: option.splits)
    have "?k \<notin> row_key ` set ?rows" using fresh(1) by (simp add: tbl_find_None_iff)
    with assms(1) wf batch id(1) have "db_inv db'" by (simp add: fresh(2) db_inv_def image_iff)
    moreover have "settled env preserve db' r"
      using f(1) same_row_refl [OF wf] by (simp add: settled_def fresh tbl_find_append id(1))
    ultimately show ?thesis by (simp add: fresh tbl_find_append id(1) split: option.splits)
  next
    case same
    have cs: "cs = []" by (rule unchanged_no_conflict [OF p [unfolded same(1)] same(2) assms(2)])
    have "settled env preserve db r"
      using p same cs prepared_Some_db [of env _ r old preserve db] by (auto simp: settled_def)
    moreover have "insert ?k (row_key ` set ?rows) = row_key ` set ?rows" using wf_old(3,4) [OF same(1)] by force
    ultimately show ?thesis using assms(1) by (simp add: same)
  next
    case changed
    note again = prepared_again [OF p [unfolded changed(1)] assms(2)]
    have batch: "row_batch_id new \<in> ib_batch_id ` set (import_batches db)"
      using assms(3) wf_old(2) [OF changed(1)] prepared_values(4) [OF p [unfolded changed(1)]] by simp
    have keys: "map row_key (source_rows db') = map row_key ?rows" by (simp add: changed(2) map_key_replace id(1))
    then have "row_key ` set (source_rows db') = row_key ` set ?rows" by (metis list.set_map)
    moreover have "insert ?k (row_key ` set ?rows) = row_key ` set ?rows" using wf_old(3,4) [OF changed(1)] by force
    moreover have "distinct (map row_key (source_rows db'))" using assms(1) unfolding keys by (simp add: db_inv_def)
    then have "db_inv db'" unfolding db_inv_def
      by (rule conjI) (use assms(1) wf batch in \<open>auto simp: db_inv_def changed(2) tbl_update_def\<close>)
    moreover have "settled env preserve db' r"
      using again same_row_refl [OF wf] changed(1) by (simp add: settled_def changed(2) tbl_find_replace id(1))
    ultimately show ?thesis by (simp add: changed(2) tbl_find_replace id(1))
  qed
  then show "db_inv db'" "import_batches db' = import_batches db"
    "k \<noteq> ?k \<Longrightarrow> tbl_find row_key (source_rows db') k = tbl_find row_key ?rows k"
    "row_key ` set (source_rows db') = insert ?k (row_key ` set ?rows)" "settled env preserve db' r" by blast+
qed

end
