(* ===== verification/Seeded_Writes.thy ===== *)
theory Seeded_Writes imports Seeded_Refresh
begin

text \<open>
  Lemmas on the import as a whole: which projection of an identity is written, what a run of writes does to
  the table, the counts and the batch row, and what flattening returns.
\<close>

section \<open>Keys\<close>

lemma record_key_inject: "record_key t i = record_key u j \<longleftrightarrow> t = u \<and> i = j"
  by (cases t; cases u) (auto simp: record_key_def)

text \<open>The reference for the removal of earlier projections: a record stays when no later one has its key.\<close>

fun keep_last :: "seeded_record list \<Rightarrow> seeded_record list" where
  "keep_last [] = []"
| "keep_last (r # rs) = (if source_record_key r \<in> source_record_key ` set rs then keep_last rs else r # keep_last rs)"

lemma last_index_None: "last_index k i rs = None \<longleftrightarrow> k \<notin> source_record_key ` set rs"
  by (induction k i rs rule: last_index.induct) (auto split: option.splits)

lemma last_index_le: "last_index k i rs = Some j \<Longrightarrow> i \<le> j"
  by (induction k i rs arbitrary: j rule: last_index.induct) (force split: option.splits if_splits)+

lemma deduplicate_from:
  "map snd (filter (\<lambda>(i, r). last_index (source_record_key r) n rs = Some i) (enumerate n rs)) = keep_last rs"
proof (induction rs arbitrary: n)
  case (Cons r rs)
  have rest: "filter (\<lambda>(i, x). last_index (source_record_key x) n (r # rs) = Some i) (enumerate (Suc n) rs) =
      filter (\<lambda>(i, x). last_index (source_record_key x) (Suc n) rs = Some i) (enumerate (Suc n) rs)"
  proof (rule filter_cong [OF refl])
    fix p assume "p \<in> set (enumerate (Suc n) rs)"
    then have "snd p \<in> set rs" by (metis imageI list.set_map map_snd_enumerate)
    then obtain i x where p: "p = (i, x)" "x \<in> set rs" by (cases p) auto
    then have "last_index (source_record_key x) (Suc n) rs \<noteq> None" by (simp add: last_index_None)
    then show "(case p of (i, x) \<Rightarrow> last_index (source_record_key x) n (r # rs) = Some i) =
        (case p of (i, x) \<Rightarrow> last_index (source_record_key x) (Suc n) rs = Some i)" by (auto simp: p)
  qed
  have "last_index (source_record_key r) n (r # rs) = Some n \<longleftrightarrow> source_record_key r \<notin> source_record_key ` set rs"
    using last_index_None [of "source_record_key r" "Suc n" rs] last_index_le [of "source_record_key r" "Suc n" rs]
    by (force split: option.splits)
  then show ?case using Cons.IH [of "Suc n"] rest by (simp del: last_index.simps)
qed simp

lemma deduplicate_keep_last: "deduplicate_source_record_projections rs = keep_last rs"
  unfolding deduplicate_source_record_projections_def by (rule deduplicate_from)

lemma keys_keep_last: "map source_record_key (keep_last rs) = remdups (map source_record_key rs)"
  by (induction rs) auto

lemma set_keep_last: "set (keep_last rs) \<subseteq> set rs"
  by (induction rs) auto

lemma keep_last_keys: "source_record_key ` set (keep_last rs) = source_record_key ` set rs"
  by (metis keys_keep_last set_map set_remdups)

lemma keep_last_distinct: "distinct (map source_record_key (keep_last rs))"
  by (simp add: keys_keep_last)

lemma length_keep_last: "length (keep_last rs) = card (source_record_key ` set rs)"
  by (metis keep_last_distinct keep_last_keys distinct_card length_map set_map)

section \<open>Writing the records\<close>

lemma settled_cong: "tbl_find row_key (source_rows db) (source_record_key r) =
    tbl_find row_key (source_rows db') (source_record_key r) \<Longrightarrow> settled env preserve db r = settled env preserve db' r"
  by (simp add: settled_def)

definition writable :: "import_db \<Rightarrow> seeded_record list \<Rightarrow> bool" where
  "writable db rs \<longleftrightarrow> distinct (map source_record_key rs) \<and>
     (\<forall>r \<in> set rs. wf_record r \<and> sr_batch_id r \<in> ib_batch_id ` set (import_batches db))"

abbreviation counted :: "import_counts \<Rightarrow> nat" where
  "counted c \<equiv> n_inserted c + n_updated c + n_unchanged c"

lemma write_records_ok:
  assumes "db_inv db" and "writable db rs" and "write_records env preserve db c rs = (db', c')"
  shows "db_inv db'" "import_batches db' = import_batches db"
    "k \<notin> source_record_key ` set rs \<Longrightarrow> tbl_find row_key (source_rows db') k = tbl_find row_key (source_rows db) k"
    "row_key ` set (source_rows db') = source_record_key ` set rs \<union> row_key ` set (source_rows db)"
    "\<forall>r \<in> set rs. settled env preserve db' r" "counted c' = counted c + length rs"
    "\<forall>r \<in> set rs. settled env preserve db r \<Longrightarrow> db' = db \<and> c' = c\<lparr>n_unchanged := n_unchanged c + length rs\<rparr>"
proof -
  have "db_inv db' \<and> import_batches db' = import_batches db \<and>
    (\<forall>k. k \<notin> source_record_key ` set rs \<longrightarrow> tbl_find row_key (source_rows db') k = tbl_find row_key (source_rows db) k) \<and>
    row_key ` set (source_rows db') = source_record_key ` set rs \<union> row_key ` set (source_rows db) \<and>
    (\<forall>r \<in> set rs. settled env preserve db' r) \<and> counted c' = counted c + length rs \<and>
    ((\<forall>r \<in> set rs. settled env preserve db r) \<longrightarrow> db' = db \<and> c' = c\<lparr>n_unchanged := n_unchanged c + length rs\<rparr>)"
    using assms
  proof (induction env preserve db c rs rule: write_records.induct)
    case (2 env preserve db c r rs)
    obtain db1 op n where u: "upsert_source_record env preserve db r = (db1, op, n)" by (cases "upsert_source_record env preserve db r")
    have r: "wf_record r" "sr_batch_id r \<in> ib_batch_id ` set (import_batches db)"
      "source_record_key r \<notin> source_record_key ` set rs"
      using "2.prems"(2) by (auto simp: writable_def)
    note ok = upsert_source_record_ok [OF "2.prems"(1) r(1,2) u]
    have w: "writable db1 rs" using "2.prems"(2) ok(2) by (simp add: writable_def)
    have rest: "write_records env preserve db1 (count_write c op n) rs = (db', c')" using "2.prems"(3) u by simp
    note IH = "2.IH" [OF u [symmetric] refl refl ok(1) w rest]
    have kept: "tbl_find row_key (source_rows db') (source_record_key r) = tbl_find row_key (source_rows db1) (source_record_key r)"
      using IH r(3) by blast
    have "settled env preserve db' r" using ok(5) settled_cong [OF kept] by blast
    moreover have "counted (count_write c op n) = counted c + 1" by (cases op) (simp_all add: count_write_def Let_def)
    moreover have "db' = db \<and> c' = c\<lparr>n_unchanged := n_unchanged c + length (r # rs)\<rparr>"
      if s: "\<forall>x \<in> set (r # rs). settled env preserve db x"
    proof -
      from ok(6) s have "db1 = db" "op = Unchanged" "n = 0" by simp_all
      with IH s show ?thesis by (simp add: count_write_def Let_def)
    qed
    ultimately show ?case using IH ok(2,3,4) by auto
  qed simp
  then show "db_inv db'" "import_batches db' = import_batches db"
    "k \<notin> source_record_key ` set rs \<Longrightarrow> tbl_find row_key (source_rows db') k = tbl_find row_key (source_rows db) k"
    "row_key ` set (source_rows db') = source_record_key ` set rs \<union> row_key ` set (source_rows db)"
    "\<forall>r \<in> set rs. settled env preserve db' r" "counted c' = counted c + length rs"
    "\<forall>r \<in> set rs. settled env preserve db r \<Longrightarrow> db' = db \<and> c' = c\<lparr>n_unchanged := n_unchanged c + length rs\<rparr>"
    by blast+
qed

text \<open>A filled value of a stored row, and the report of its replacement.\<close>

definition value_survives :: "('a pyenv_scheme) \<Rightarrow> source_row \<Rightarrow> source_row \<Rightarrow> string \<Rightarrow> pyval \<Rightarrow> bool" where
  "value_survives env old new f v \<longleftrightarrow> (\<exists>w. map_of (row_original_values new) f = Some w \<and>
     \<not> is_blank_refresh_field_value f w \<and>
     (w = v \<or> py_eq v w \<or> f \<notin> set (conflict_fields (row_entity old)) \<or>
      (\<exists>c \<in> set (prior_conflicts (row_traceability new)). py_eq c (refresh_conflict env f v w))))"

lemma value_survives_refl:
  "map_of (row_original_values row) f = Some v \<Longrightarrow> \<not> is_blank_refresh_field_value f v \<Longrightarrow> value_survives env row row f v"
  by (auto simp: value_survives_def)

lemma prepared_value_survives:
  assumes "prepared_source_record_values env db r (Some old) preserve = (new, cs)"
    and "wf_row old" and "row_key old = source_record_key r" and "wf_record r"
    and "map_of (row_original_values old) f = Some v" and "\<not> is_blank_refresh_field_value f v"
  shows "value_survives env old new f v"
proof -
  note vals = prepared_values [OF assms(1)]
  have entity: "row_entity old = sr_entity r" using assms(2,3) by (simp add: wf_row_def source_record_key_def record_key_inject)
  have inc: "distinct (map fst (sr_original_values r))" "\<And>kv. kv \<in> set (sr_original_values r) \<Longrightarrow> wf_pyval (snd kv)"
    using assms(4) by (auto simp: wf_record_def)
  from merge_values_filled [OF inc(1) assms(5,6)] obtain w where w:
    "map_of (row_original_values new) f = Some w" "\<not> is_blank_refresh_field_value f w"
    "w = v \<or> py_eq v w \<or> f \<notin> set (conflict_fields (sr_entity r)) \<or> refresh_conflict env f v w \<in> set cs"
    unfolding vals(1,2) by blast
  have "\<exists>c \<in> set (prior_conflicts (row_traceability new)). py_eq c (refresh_conflict env f v w)"
    if "refresh_conflict env f v w \<in> set cs"
    unfolding vals(3) prior_conflicts_merged
    by (rule append_conflicts_member [OF that])
      (use conflicts_wf [OF _ inc(2)] that vals(2) assms(2) in \<open>auto simp: wf_row_def simp del: wf_pyval.simps\<close>)
  with w show ?thesis unfolding value_survives_def entity by blast
qed

text \<open>A row that was there is found again: as it was, or as the one record of its key prepared it.\<close>

definition row_evolves :: "('a pyenv_scheme) \<Rightarrow> bool \<Rightarrow> seeded_record list \<Rightarrow> source_row \<Rightarrow> source_row \<Rightarrow> bool" where
  "row_evolves env preserve rs old new \<longleftrightarrow> new = old \<or>
     (\<exists>db r cs. r \<in> set rs \<and> source_record_key r = row_key old \<and>
        prepared_source_record_values env db r (Some old) preserve = (new, cs))"

lemma upsert_row_evolves:
  assumes "upsert_source_record env preserve db r = (db', operation, n)"
    and "tbl_find row_key (source_rows db) (source_record_key r) = Some old"
  shows "\<exists>new. tbl_find row_key (source_rows db') (source_record_key r) = Some new \<and> row_evolves env preserve [r] old new"
proof -
  obtain new cs where p: "prepared_source_record_values env db r (Some old) preserve = (new, cs)" by fastforce
  note id = prepared_identity [OF p] and key = tbl_find_SomeD [OF assms(2)]
  show ?thesis
  proof (cases "same_row old new")
    case True
    with assms p have "db' = db" by (simp add: upsert_source_record_def)
    with assms(2) show ?thesis by (simp add: row_evolves_def)
  next
    case False
    with assms p have "db' = db\<lparr>source_rows := tbl_update row_key (source_record_key r) (\<lambda>_. new) (source_rows db)\<rparr>"
      by (simp add: upsert_source_record_def)
    with p assms(2) id(1) key show ?thesis by (auto simp: tbl_find_replace row_evolves_def)
  qed
qed

lemma write_records_row_evolves:
  assumes "db_inv db" and "writable db rs" and "write_records env preserve db c rs = (db', c')"
    and "tbl_find row_key (source_rows db) k = Some old"
  shows "\<exists>new. tbl_find row_key (source_rows db') k = Some new \<and> row_evolves env preserve rs old new"
  using assms
proof (induction env preserve db c rs rule: write_records.induct)
  case (1 env preserve db c)
  then show ?case by (simp add: row_evolves_def)
next
  case (2 env preserve db c r rs)
  obtain db1 op n where u: "upsert_source_record env preserve db r = (db1, op, n)" by (cases "upsert_source_record env preserve db r")
  have r: "wf_record r" "sr_batch_id r \<in> ib_batch_id ` set (import_batches db)"
    "source_record_key r \<notin> source_record_key ` set rs"
    using "2.prems"(2) by (auto simp: writable_def)
  note ok = upsert_source_record_ok [OF "2.prems"(1) r(1,2) u]
  have w: "writable db1 rs" using "2.prems"(2) ok(2) by (simp add: writable_def)
  have rest: "write_records env preserve db1 (count_write c op n) rs = (db', c')" using "2.prems"(3) u by simp
  show ?case
  proof (cases "k = source_record_key r")
    case True
    with write_records_ok(3) [OF ok(1) w rest, of k] r(3)
    have "tbl_find row_key (source_rows db') k = tbl_find row_key (source_rows db1) k" by simp
    with upsert_row_evolves [OF u, of old] "2.prems"(4) True show ?thesis by (auto simp: row_evolves_def)
  next
    case False
    then have "tbl_find row_key (source_rows db1) k = Some old" using ok(3) "2.prems"(4) by simp
    from "2.IH" [OF u [symmetric] refl refl ok(1) w rest this] show ?thesis by (auto simp: row_evolves_def)
  qed
qed

section \<open>Counting\<close>

lemma counter_incr_sum: "sum_list (map snd (counter_incr c k)) = sum_list (map snd c) + 1"
  by (induction c k rule: counter_incr.induct) auto

lemma unique_counts_sum: "sum_list (map snd (unique_counts seen counts rs)) =
    sum_list (map snd counts) + card (source_record_key ` set rs - set seen)"
proof (induction seen counts rs rule: unique_counts.induct)
  case (2 seen counts r rs)
  show ?case
  proof (cases "source_record_key r \<in> set seen")
    case True
    with 2 show ?thesis by (simp add: insert_absorb insert_Diff_if)
  next
    case False
    have "source_record_key ` set (r # rs) - set seen =
        insert (source_record_key r) (source_record_key ` set rs - set (source_record_key r # seen))"
      using False by auto
    with 2 False show ?thesis by (simp add: counter_incr_sum)
  qed
qed simp

lemma unique_persisted_counts_sum:
  "sum_list (map snd (unique_persisted_counts_by_entity rs)) = card (source_record_key ` set rs)"
  unfolding unique_persisted_counts_by_entity_def unique_counts_sum
  by (simp add: SOURCE_DERIVED_ENTITY_TYPES_def)

section \<open>The batch row\<close>

lemma upsert_batch_ok:
  assumes "db_inv db"
  shows "db_inv (upsert_batch db art)" "source_rows (upsert_batch db art) = source_rows db"
    "tbl_find ib_batch_id (import_batches (upsert_batch db art)) k =
       (if k = art_batch_id art then Some (batch_values art) else tbl_find ib_batch_id (import_batches db) k)"
    "ib_batch_id ` set (import_batches (upsert_batch db art)) = insert (art_batch_id art) (ib_batch_id ` set (import_batches db))"
proof -
  have key: "ib_batch_id (batch_values art) = art_batch_id art" by (simp add: batch_values_def)
  have keys: "map ib_batch_id (tbl_update ib_batch_id (art_batch_id art) (\<lambda>_. batch_values art) (import_batches db)) =
      map ib_batch_id (import_batches db)" by (rule map_key_replace) (rule key)
  then have set_keys: "ib_batch_id ` set (tbl_update ib_batch_id (art_batch_id art) (\<lambda>_. batch_values art) (import_batches db)) =
      ib_batch_id ` set (import_batches db)" by (metis list.set_map)
  show rows: "source_rows (upsert_batch db art) = source_rows db" by (simp add: upsert_batch_def split: option.splits)
  show ids: "ib_batch_id ` set (import_batches (upsert_batch db art)) = insert (art_batch_id art) (ib_batch_id ` set (import_batches db))"
  proof (cases "tbl_find ib_batch_id (import_batches db) (art_batch_id art)")
    case None
    then show ?thesis by (simp add: upsert_batch_def key)
  next
    case (Some row)
    with tbl_find_SomeD [OF Some] have "art_batch_id art \<in> ib_batch_id ` set (import_batches db)" by force
    with Some show ?thesis by (simp add: upsert_batch_def set_keys insert_absorb)
  qed
  show "tbl_find ib_batch_id (import_batches (upsert_batch db art)) k =
       (if k = art_batch_id art then Some (batch_values art) else tbl_find ib_batch_id (import_batches db) k)"
    by (simp add: upsert_batch_def tbl_find_append tbl_find_replace key split: option.splits)
  have "distinct (map ib_batch_id (import_batches (upsert_batch db art)))"
  proof (cases "tbl_find ib_batch_id (import_batches db) (art_batch_id art)")
    case None
    then have "art_batch_id art \<notin> ib_batch_id ` set (import_batches db)" by (simp add: tbl_find_None_iff)
    with None assms show ?thesis by (simp add: upsert_batch_def db_inv_def key)
  next
    case (Some row)
    with assms show ?thesis by (simp add: upsert_batch_def db_inv_def keys)
  qed
  with assms ids rows show "db_inv (upsert_batch db art)" by (auto simp: db_inv_def)
qed

lemma upsert_batch_again: "upsert_batch (upsert_batch db art) art = upsert_batch db art"
proof -
  have key: "ib_batch_id (batch_values art) = art_batch_id art" by (simp add: batch_values_def)
  have none: "tbl_find ib_batch_id (import_batches db) (art_batch_id art) = None \<Longrightarrow>
      tbl_update ib_batch_id (art_batch_id art) (\<lambda>_. batch_values art) (import_batches db) = import_batches db"
    by (auto simp: tbl_find_None_iff tbl_update_def image_iff intro!: map_idI)
  have twice: "tbl_update ib_batch_id (art_batch_id art) (\<lambda>_. batch_values art)
      (tbl_update ib_batch_id (art_batch_id art) (\<lambda>_. batch_values art) rows) =
    tbl_update ib_batch_id (art_batch_id art) (\<lambda>_. batch_values art) rows" for rows
    by (simp add: tbl_update_def key)
  have snoc: "tbl_update ib_batch_id (art_batch_id art) (\<lambda>_. batch_values art) (rows @ [batch_values art]) =
    tbl_update ib_batch_id (art_batch_id art) (\<lambda>_. batch_values art) rows @ [batch_values art]" for rows
    by (simp add: tbl_update_def)
  show ?thesis
    by (cases "tbl_find ib_batch_id (import_batches db) (art_batch_id art)")
      (simp_all add: upsert_batch_def tbl_find_append tbl_find_replace key twice snoc none)
qed

section \<open>What flattening returns\<close>

lemma required_field_Inr: "required_field e data name = Inr s \<longleftrightarrow> py_get data name = PStr s \<and> py_strip s \<noteq> []"
  by (auto simp: required_field_def split: pyval.splits)

lemma required_str_from_mapping_Inr:
  "required_str_from_mapping data name = Inr s \<longleftrightarrow> py_get data name = PStr s \<and> py_strip s \<noteq> []"
  by (simp add: required_str_from_mapping_def required_field_Inr)

lemma validated_raw_sha256_Inr:
  "validated_raw_sha256 data = Inr h \<longleftrightarrow> py_get data ''raw_sha256'' = PStr h \<and> py_strip h \<noteq> [] \<and> is_raw_sha256 h"
  by (auto simp: validated_raw_sha256_def ebind_eq_Inr required_str_from_mapping_Inr)

lemma mapping_item_Inr: "mapping_item e v = Inr d \<longleftrightarrow> v = PDict d"
  by (auto simp: mapping_item_def split: pyval.splits)

lemma optional_mapping_Inr: "optional_mapping data name = Inr (Some d) \<longleftrightarrow> py_get data name = PDict d"
  by (auto simp: optional_mapping_def split: pyval.splits)

lemma mapping_sequence_item:
  "mapping_sequence v name = Inr ds \<Longrightarrow> d \<in> set ds \<Longrightarrow> wf_pyval v \<Longrightarrow> wf_pyval (PDict d)"
  by (auto simp: mapping_sequence_def list_all_iff mapping_item_Inr simp del: wf_pyval.simps(2)
      dest!: mapM_err_set split: pyval.splits)

text \<open>The traceability a record is given: that of its document, for a facility with the refresh context.\<close>

definition document_trace :: "pydict \<Rightarrow> pydict \<Rightarrow> bool" where
  "document_trace rec trace \<longleftrightarrow> (\<exists>doc base. py_get rec ''source_document'' = PDict doc \<and>
     seeded_source_traceability doc = Inr base \<and>
     (trace = base \<or> (\<exists>c. py_get rec ''hosted_refresh'' = PDict c \<and> trace = py_set base ''hosted_refresh'' (PDict c))))"

definition flattens_to :: "corpus_artifact \<Rightarrow> pydict \<Rightarrow> seeded_record \<Rightarrow> bool" where
  "flattens_to art rec r \<longleftrightarrow> (\<exists>t original trace document_id facility.
     mk_seeded_record art t original trace document_id facility = Inr r \<and> py_strip document_id \<noteq> [] \<and>
     document_trace rec trace \<and> (wf_pyval (PDict rec) \<longrightarrow> wf_pyval (PDict original)))"

lemma wf_get_dict: "py_get rec k = PDict d \<Longrightarrow> wf_pyval (PDict rec) \<Longrightarrow> wf_pyval (PDict d)"
  using wf_py_get [of rec k] by simp

lemma flatten_facility_record:
  assumes "flatten_facility art rec doc trace = Inr facility" and "r \<in> set facility"
  shows "\<exists>f refresh document_id facility_id. py_get rec ''facility'' = PDict f \<and>
      optional_mapping rec ''hosted_refresh'' = Inr refresh \<and> py_strip document_id \<noteq> [] \<and>
      mk_seeded_record art Facility_Entity f
         (case refresh of None \<Rightarrow> trace | Some c \<Rightarrow> py_set trace ''hosted_refresh'' (PDict c))
         document_id (Some facility_id) = Inr r"
proof -
  from assms obtain f where f: "optional_mapping rec ''facility'' = Inr (Some f)"
    by (auto simp: flatten_facility_def ebind_eq_Inr split: option.splits)
  with assms show ?thesis
    by (auto simp: flatten_facility_def ebind_eq_Inr optional_mapping_Inr required_str_from_mapping_Inr) blast
qed

lemma flatten_normalized_record_cases:
  assumes "flatten_normalized_record art rec = Inr rs" and "r \<in> set rs"
  shows "flattens_to art rec r"
proof -
  from assms(1) obtain doc trace complaint facility document complaints audits where p:
    "py_get rec ''source_document'' = PDict doc" "seeded_source_traceability doc = Inr trace"
    "optional_mapping rec ''complaint'' = Inr complaint" "flatten_facility art rec doc trace = Inr facility"
    "flatten_document art doc trace = Inr document" "flatten_complaint art rec complaint trace = Inr complaints"
    "flatten_audits art rec doc trace = Inr audits" "rs = facility @ document @ complaints @ audits"
    by (auto simp: flatten_normalized_record_def ebind_eq_Inr required_mapping_def mapping_item_Inr)
  have base: "document_trace rec trace" using p(1,2) by (auto simp: document_trace_def)
  from assms(2) p(8) consider "r \<in> set facility" | "r \<in> set document" | "r \<in> set complaints" | "r \<in> set audits" by auto
  then show ?thesis
  proof cases
    case 1
    from flatten_facility_record [OF p(4) 1] obtain f refresh document_id facility_id where f: "py_get rec ''facility'' = PDict f"
      "optional_mapping rec ''hosted_refresh'' = Inr refresh" "py_strip document_id \<noteq> []"
      "mk_seeded_record art Facility_Entity f
         (case refresh of None \<Rightarrow> trace | Some c \<Rightarrow> py_set trace ''hosted_refresh'' (PDict c))
         document_id (Some facility_id) = Inr r" by blast
    have "document_trace rec (case refresh of None \<Rightarrow> trace | Some c \<Rightarrow> py_set trace ''hosted_refresh'' (PDict c))"
      using p(1,2) f(2) by (cases refresh) (auto simp: document_trace_def optional_mapping_Inr)
    with f show ?thesis unfolding flattens_to_def using wf_get_dict by blast
  next
    case 2
    then obtain document_id facility_id where "py_strip document_id \<noteq> []"
      "mk_seeded_record art Document_Entity doc trace document_id facility_id = Inr r"
      using p(5) by (auto simp: flatten_document_def ebind_eq_Inr required_str_from_mapping_Inr)
    with base p(1) show ?thesis unfolding flattens_to_def using wf_get_dict by blast
  next
    case 3
    then obtain c document_id facility_id x allegations events where c: "complaint = Some c"
      "py_strip document_id \<noteq> []" "mk_seeded_record art Complaint_Entity c trace document_id facility_id = Inr x"
      "flatten_children art rec c document_id trace Allegation_Entity ''allegations'' = Inr allegations"
      "flatten_children art rec c document_id trace Event_Entity ''events'' = Inr events"
      "r = x \<or> r \<in> set allegations \<or> r \<in> set events"
      using p(6) by (auto simp: flatten_complaint_def ebind_eq_Inr required_str_from_mapping_Inr split: option.splits)
    have child: "flattens_to art rec y"
      if "flatten_children art rec c document_id trace t name = Inr ys" "y \<in> set ys" for t name ys y
    proof -
      from that(1) obtain children where ch: "mapping_sequence (py_get rec name) name = Inr children"
        "mapM_err (\<lambda>child. ebind (optional_str_from_mapping c ''facility_id'') (\<lambda>facility_id.
           mk_seeded_record art t child trace document_id facility_id)) children = Inr ys"
        by (auto simp: flatten_children_def ebind_eq_Inr)
      from mapM_err_set [OF ch(2) that(2)] obtain child facility_id where "child \<in> set children"
        "mk_seeded_record art t child trace document_id facility_id = Inr y" by (auto simp: ebind_eq_Inr)
      with c(2) base mapping_sequence_item [OF ch(1)] wf_py_get [of rec name] show ?thesis
        unfolding flattens_to_def by blast
    qed
    have "py_get rec ''complaint'' = PDict c" using p(3) c(1) by (simp add: optional_mapping_Inr)
    with c(2,3) base have "flattens_to art rec x" unfolding flattens_to_def using wf_get_dict by blast
    with c child show ?thesis by blast
  next
    case 4
    from p(7) obtain items where it: "mapping_sequence (py_get rec ''extraction_audit'') ''extraction_audit'' = Inr items"
      "mapM_err (\<lambda>audit. ebind (required_str_from_mapping audit ''document_id'') (\<lambda>document_id.
         ebind (optional_str_from_mapping doc ''facility_id'') (\<lambda>facility_id.
         mk_seeded_record art Audit_Entity audit trace document_id facility_id))) items = Inr audits"
      by (auto simp: flatten_audits_def ebind_eq_Inr)
    from mapM_err_set [OF it(2) 4] obtain audit document_id facility_id where "audit \<in> set items"
      "py_strip document_id \<noteq> []" "mk_seeded_record art Audit_Entity audit trace document_id facility_id = Inr r"
      by (auto simp: ebind_eq_Inr required_str_from_mapping_Inr)
    with base mapping_sequence_item [OF it(1)] wf_py_get [of rec "''extraction_audit''"] show ?thesis
      unfolding flattens_to_def by blast
  qed
qed

lemma flatten_seeded_cases:
  assumes "flatten_seeded_corpus_records art = Inr rs" and "r \<in> set rs"
  obtains rec where "rec \<in> set (art_records art)" "flattens_to art rec r"
proof -
  from assms(1) obtain parts where parts: "mapM_err (flatten_normalized_record art) (art_records art) = Inr parts"
    "rs = concat parts" by (auto simp: flatten_seeded_corpus_records_def ebind_eq_Inr)
  from assms(2) parts(2) obtain part where "part \<in> set parts" "r \<in> set part" by auto
  with mapM_err_set [OF parts(1)] flatten_normalized_record_cases that show thesis by blast
qed

definition sound_record :: "corpus_artifact \<Rightarrow> seeded_record \<Rightarrow> bool" where
  "sound_record art r \<longleftrightarrow> sr_batch_id r = art_batch_id art \<and>
     py_get (sr_original_values r) (ENTITY_ID_FIELDS (sr_entity r)) = PStr (sr_stable_id r) \<and>
     py_get (sr_traceability r) ''source_url'' = PStr (sr_source_url r) \<and>
     py_get (sr_traceability r) ''raw_sha256'' = PStr (sr_raw_sha256 r) \<and> is_raw_sha256 (sr_raw_sha256 r) \<and>
     py_get (sr_traceability r) ''source_artifact_identity'' = PStr (art_identity art) \<and>
     list_all (\<lambda>s. py_strip s \<noteq> []) [sr_stable_id r, sr_document_id r, sr_source_url r, sr_connector_name r,
       sr_connector_version r, sr_retrieved_at r]"

lemma mk_seeded_record_Inr:
  assumes "mk_seeded_record art t original trace document_id facility = Inr r"
  shows "sr_original_values r = original" "sr_entity r = t" "sr_batch_id r = art_batch_id art"
    "sr_document_id r = document_id" "py_strip document_id \<noteq> [] \<Longrightarrow> sound_record art r"
    "sr_traceability r = py_set trace ''source_artifact_identity'' (PStr (art_identity art))"
  using assms
  by (auto simp: mk_seeded_record_def sound_record_def ebind_eq_Inr required_str_from_mapping_Inr validated_raw_sha256_Inr)

lemma seeded_trace_shape: "seeded_source_traceability doc = Inr base \<Longrightarrow>
    map fst base = [''source_document_id'', ''source_url'', ''raw_sha256'', ''raw_path'', ''connector_name'',
      ''connector_version'', ''retrieved_at'', ''report_index'', ''document_type''] \<and>
    (wf_pyval (PDict doc) \<longrightarrow> (\<forall>kv \<in> set base. wf_pyval (snd kv)))"
  using wf_py_get [of doc]
  by (auto simp: seeded_source_traceability_def ebind_eq_Inr opt_pstr_def simp del: wf_pyval.simps(2) split: option.splits)

lemma document_trace_wf:
  assumes "document_trace rec trace" and "wf_pyval (PDict rec)"
  shows "wf_pyval (PDict trace)" "''refresh_conflicts'' \<notin> fst ` set trace"
proof -
  from assms(1) obtain doc base where d: "py_get rec ''source_document'' = PDict doc"
    "seeded_source_traceability doc = Inr base"
    "trace = base \<or> (\<exists>c. py_get rec ''hosted_refresh'' = PDict c \<and> trace = py_set base ''hosted_refresh'' (PDict c))"
    by (auto simp: document_trace_def)
  note shape = seeded_trace_shape [OF d(2)]
  have base: "wf_pyval (PDict base)" using shape wf_get_dict [OF d(1) assms(2)] by simp
  from shape have "fst ` set base = set [''source_document_id'', ''source_url'', ''raw_sha256'', ''raw_path'',
      ''connector_name'', ''connector_version'', ''retrieved_at'', ''report_index'', ''document_type'']"
    by (metis list.set_map)
  then have keys: "''refresh_conflicts'' \<notin> fst ` set base" by simp
  from d(3) base show "wf_pyval (PDict trace)" using wf_py_set wf_get_dict [OF _ assms(2)] by blast
  from d(3) show "''refresh_conflicts'' \<notin> fst ` set trace"
  proof
    assume "trace = base"
    with keys show ?thesis by simp
  next
    assume "\<exists>c. py_get rec ''hosted_refresh'' = PDict c \<and> trace = py_set base ''hosted_refresh'' (PDict c)"
    then obtain c where "trace = py_set base ''hosted_refresh'' (PDict c)" by blast
    with keys show ?thesis by (simp add: keys_py_set)
  qed
qed

definition wf_artifact :: "corpus_artifact \<Rightarrow> bool" where
  "wf_artifact art \<longleftrightarrow> (\<forall>rec \<in> set (art_records art). wf_pyval (PDict rec))"

lemma flattens_to_sound: "flattens_to art rec r \<Longrightarrow> sound_record art r"
  using mk_seeded_record_Inr(5) by (auto simp: flattens_to_def)

lemma flattens_to_wf:
  assumes "flattens_to art rec r" and "wf_pyval (PDict rec)"
  shows "wf_record r"
proof -
  from assms obtain t original trace document_id facility where
    r: "mk_seeded_record art t original trace document_id facility = Inr r" "document_trace rec trace"
      "wf_pyval (PDict original)" by (auto simp: flattens_to_def)
  note trace = document_trace_wf [OF r(2) assms(2)]
  have "wf_pyval (PDict (py_set trace ''source_artifact_identity'' (PStr (art_identity art))))"
    by (rule wf_py_set [OF trace(1)]) simp
  with r(3) trace(2) mk_seeded_record_Inr [OF r(1)] show ?thesis
    by (simp add: wf_record_def keys_py_set del: wf_pyval.simps)
qed

lemma flatten_wf:
  assumes "flatten_seeded_corpus_records art = Inr rs" and "wf_artifact art" and "r \<in> set rs"
  shows "wf_record r" "sr_batch_id r = art_batch_id art"
proof -
  from flatten_seeded_cases [OF assms(1,3)] obtain rec where "rec \<in> set (art_records art)" "flattens_to art rec r" .
  with assms(2) flattens_to_wf flattens_to_sound show "wf_record r" "sr_batch_id r = art_batch_id art"
    by (auto simp: wf_artifact_def sound_record_def)
qed

end
