(* ===== verification/Seeded_Properties.thy ===== *)
theory Seeded_Properties imports Seeded_Writes
begin

text \<open>
  What an import of a seeded corpus artifact guarantees.
\<close>

lemma import_parts:
  assumes "import_seeded_corpus_artifact env db art preserve = Inr (db', res)"
  obtains flattened c where "flatten_seeded_corpus_records art = Inr flattened"
    "write_records env preserve (upsert_batch db art) \<lparr>n_inserted = 0, n_updated = 0, n_unchanged = 0, n_conflicted = 0\<rparr>
       (keep_last flattened) = (db', c)"
    "res_imported_count res = card (source_record_key ` set flattened)"
    "res_inserted res = n_inserted c" "res_updated res = n_updated c" "res_unchanged res = n_unchanged c"
    "res_conflicted res = n_conflicted c"
proof -
  from assms obtain flattened where f: "flatten_seeded_corpus_records art = Inr flattened"
    by (auto simp: import_seeded_corpus_artifact_def ebind_eq_Inr)
  obtain db1 c where w: "write_records env preserve (upsert_batch db art)
      \<lparr>n_inserted = 0, n_updated = 0, n_unchanged = 0, n_conflicted = 0\<rparr> (keep_last flattened) = (db1, c)"
    by fastforce
  from assms have "db1 = db'" "res_imported_count res = card (source_record_key ` set flattened)"
    "res_inserted res = n_inserted c" "res_updated res = n_updated c" "res_unchanged res = n_unchanged c"
    "res_conflicted res = n_conflicted c"
    by (auto simp: import_seeded_corpus_artifact_def f w Let_def deduplicate_keep_last unique_persisted_counts_sum
        keep_last_keys)
  with f w that show thesis by blast
qed

lemma case_InrD: "(case r of Inl _ \<Rightarrow> False | Inr x \<Rightarrow> P x) \<Longrightarrow> \<exists>x. r = Inr x \<and> P x"
  by (cases r) simp_all

lemma import_total: "flatten_seeded_corpus_records art = Inr flattened \<Longrightarrow>
    \<exists>db' res. import_seeded_corpus_artifact env db art preserve = Inr (db', res)"
  by (simp add: import_seeded_corpus_artifact_def Let_def case_prod_unfold)

lemma import_writable:
  assumes "flatten_seeded_corpus_records art = Inr flattened" and "wf_artifact art" and "db_inv db"
  shows "writable (upsert_batch db art) (keep_last flattened)"
  using flatten_wf [OF assms(1,2)] set_keep_last [of flattened] upsert_batch_ok(4) [OF assms(3)]
  by (auto simp: writable_def keep_last_distinct)

section \<open>The import\<close>

text \<open>C29: An import of an artifact whose objects have distinct keys keeps the tables well formed (keys of
  rows are unique and spell entity type and source id, every row belongs to a stored batch), stores the batch
  as the artifact gives it, and touches exactly the identities of the artifact: each has a row afterwards,
  every other row is unchanged, the writes are counted once per identity as inserted, updated or unchanged,
  and with batches preserved no row that was there changes its batch.\<close>

theorem import_is_complete:
  assumes "db_inv db" and "wf_artifact art"
    and "import_seeded_corpus_artifact env db art preserve = Inr (db', res)"
    and "flatten_seeded_corpus_records art = Inr flattened"
  shows "db_inv db' \<and>
    tbl_find ib_batch_id (import_batches db') (art_batch_id art) = Some (batch_values art) \<and>
    row_key ` set (source_rows db') = source_record_key ` set flattened \<union> row_key ` set (source_rows db) \<and>
    (\<forall>k. k \<notin> source_record_key ` set flattened \<longrightarrow>
       tbl_find row_key (source_rows db') k = tbl_find row_key (source_rows db) k) \<and>
    res_imported_count res = card (source_record_key ` set flattened) \<and>
    res_inserted res + res_updated res + res_unchanged res = res_imported_count res \<and>
    (preserve \<longrightarrow> (\<forall>k old new. tbl_find row_key (source_rows db) k = Some old \<longrightarrow>
       tbl_find row_key (source_rows db') k = Some new \<longrightarrow> row_batch_id new = row_batch_id old))"
proof -
  from import_parts [OF assms(3)] assms(4) obtain c where
    p: "write_records env preserve (upsert_batch db art) \<lparr>n_inserted = 0, n_updated = 0, n_unchanged = 0, n_conflicted = 0\<rparr>
       (keep_last flattened) = (db', c)"
    "res_imported_count res = card (source_record_key ` set flattened)"
    "res_inserted res = n_inserted c" "res_updated res = n_updated c" "res_unchanged res = n_unchanged c" by auto
  note batch = upsert_batch_ok [OF assms(1), of art] and w = import_writable [OF assms(4,2,1)]
  note ok = write_records_ok [OF batch(1) w p(1)]
  have kept: "row_batch_id new = row_batch_id old"
    if "preserve" "tbl_find row_key (source_rows db) k = Some old" "tbl_find row_key (source_rows db') k = Some new" for k old new
    using write_records_row_evolves [OF batch(1) w p(1), of k old] that batch(2)
    by (auto simp: row_evolves_def dest: prepared_values(4))
  show ?thesis
    using ok batch(2,3) p(2-) kept by (simp add: keep_last_keys length_keep_last)
qed

definition sample_hash :: string where
  "sample_hash = replicate 64 (CHR ''a'')"

definition sample_import_env :: pyenv where
  "sample_import_env = \<lparr>json_loads = (\<lambda>_. None), sha256_hex = (\<lambda>_. sample_hash), float_repr = (\<lambda>_. ''0.0''),
     read_bytes = (\<lambda>_. None), resolve_path = (\<lambda>p. p), iso_datetime_year = (\<lambda>_. None)\<rparr>"

definition sample_document :: "string \<Rightarrow> pydict" where
  "sample_document i = [(''document_id'', PStr i), (''source_url'', PStr ''https://x''), (''raw_sha256'', PStr sample_hash),
     (''connector_name'', PStr ''c''), (''connector_version'', PStr ''1''), (''retrieved_at'', PStr ''2026'')]"

definition sample_normalized :: "string \<Rightarrow> string \<Rightarrow> string \<Rightarrow> pydict" where
  "sample_normalized i name county =
     [(''source_document'', PDict (sample_document i)),
      (''facility'', PDict [(''facility_id'', PStr ''f''), (''facility_name'', PStr name), (''county'', PStr county)])]"

definition seeded_sample :: "string \<Rightarrow> pydict list \<Rightarrow> corpus_artifact" where
  "seeded_sample batch rs = \<lparr>art_batch_id = batch, art_imported_at = ''2026'', art_identity = ''a'', art_pipeline_version = None,
     art_validation_status = ''validated'', art_raw_hash_status = ''validated'', art_record_counts = [], art_warnings = [],
     art_errors = [], art_records = rs\<rparr>"

definition imported :: "(import_db \<times> import_result) result \<Rightarrow> import_db" where
  "imported r = (case r of Inr (db, _) \<Rightarrow> db | Inl _ \<Rightarrow> \<lparr>import_batches = [], source_rows = []\<rparr>)"

definition seeded_db :: import_db where
  "seeded_db = imported (import_seeded_corpus_artifact sample_import_env \<lparr>import_batches = [], source_rows = []\<rparr>
     (seeded_sample ''b1'' [sample_normalized ''d1'' ''Oak House'' ''Kern'']) False)"

text \<open>The second artifact: another name, no county, a document of its own.\<close>

definition second_artifact :: corpus_artifact where
  "second_artifact = seeded_sample ''b2'' [sample_normalized ''d2'' ''Elm House'' '' '']"

lemma seeded_db_inv: "db_inv seeded_db"
  by code_simp

lemma second_artifact_wf: "wf_artifact second_artifact"
  by code_simp

lemma second_import:
  obtains db' res flattened where
    "import_seeded_corpus_artifact sample_import_env seeded_db second_artifact True = Inr (db', res)"
    "flatten_seeded_corpus_records second_artifact = Inr flattened"
    "map source_record_key flattened = [''facility:f'', ''source_document:d2'']"
proof -
  have ev: "case flatten_seeded_corpus_records second_artifact of
      Inl _ \<Rightarrow> False | Inr rs \<Rightarrow> map source_record_key rs = [''facility:f'', ''source_document:d2'']" by code_simp
  obtain rs where rs: "flatten_seeded_corpus_records second_artifact = Inr rs"
    "map source_record_key rs = [''facility:f'', ''source_document:d2'']"
    by (rule exE [OF case_InrD [OF ev]], erule conjE, rule that)
  from import_total [OF rs(1)] obtain db' res where
    "import_seeded_corpus_artifact sample_import_env seeded_db second_artifact True = Inr (db', res)" by blast
  from that [OF this rs] show thesis .
qed

theorem import_is_complete_witness:
  "\<exists>db' res. import_seeded_corpus_artifact sample_import_env seeded_db second_artifact True = Inr (db', res) \<and>
     db_inv db' \<and> res_imported_count res = 2 \<and>
     tbl_find row_key (source_rows db') ''source_document:d1'' = tbl_find row_key (source_rows seeded_db) ''source_document:d1''"
proof -
  obtain db' res flattened where i:
    "import_seeded_corpus_artifact sample_import_env seeded_db second_artifact True = Inr (db', res)"
    "flatten_seeded_corpus_records second_artifact = Inr flattened"
    "map source_record_key flattened = [''facility:f'', ''source_document:d2'']" by (rule second_import)
  have keys: "source_record_key ` set flattened = set [''facility:f'', ''source_document:d2'']"
    unfolding i(3) [symmetric] by simp
  from import_is_complete [OF seeded_db_inv second_artifact_wf i(1,2)] have
    "db_inv db'" "res_imported_count res = 2"
    "tbl_find row_key (source_rows db') ''source_document:d1'' = tbl_find row_key (source_rows seeded_db) ''source_document:d1''"
    unfolding keys by auto
  with i(1) show ?thesis by blast
qed

text \<open>C30: A refresh never loses a filled value: a field of a stored row that holds a value which is not blank
  (for the four observation fields: not a placeholder either) still holds a filled value after any import.
  Where a governed field of a facility or a complaint was replaced by a different value, the row's
  traceability lists a conflict that names the field and both values, or their fingerprints.\<close>

theorem filled_values_survive:
  assumes "db_inv db" and "wf_artifact art"
    and "import_seeded_corpus_artifact env db art preserve = Inr (db', res)"
    and "tbl_find row_key (source_rows db) k = Some old"
    and "map_of (row_original_values old) f = Some v" and "\<not> is_blank_refresh_field_value f v"
  shows "\<exists>new w. tbl_find row_key (source_rows db') k = Some new \<and>
    map_of (row_original_values new) f = Some w \<and> \<not> is_blank_refresh_field_value f w \<and>
    (w \<noteq> v \<and> \<not> py_eq v w \<and> f \<in> set (conflict_fields (row_entity old)) \<longrightarrow>
      (\<exists>c \<in> set (prior_conflicts (row_traceability new)). py_eq c (refresh_conflict env f v w)))"
proof -
  from import_parts [OF assms(3)] obtain flattened c where p: "flatten_seeded_corpus_records art = Inr flattened"
    "write_records env preserve (upsert_batch db art) \<lparr>n_inserted = 0, n_updated = 0, n_unchanged = 0, n_conflicted = 0\<rparr>
       (keep_last flattened) = (db', c)" by blast
  note batch = upsert_batch_ok [OF assms(1), of art] and w = import_writable [OF p(1) assms(2,1)]
  have old: "wf_row old" "row_key old = k" using tbl_find_SomeD [OF assms(4)] assms(1) by (auto simp: db_inv_def)
  from write_records_row_evolves [OF batch(1) w p(2), of k old] assms(4) batch(2)
  obtain new where new: "tbl_find row_key (source_rows db') k = Some new"
    "row_evolves env preserve (keep_last flattened) old new" by auto
  have "value_survives env old new f v"
    using new(2) value_survives_refl [OF assms(5,6)] prepared_value_survives [OF _ old(1) _ _ assms(5,6)] w
    by (fastforce simp: row_evolves_def writable_def)
  with new(1) show ?thesis unfolding value_survives_def by blast
qed

text \<open>The county survives the blank one; the changed name is reported.\<close>

theorem filled_values_survive_witness:
  "\<exists>db' res new. import_seeded_corpus_artifact sample_import_env seeded_db second_artifact True = Inr (db', res) \<and>
     tbl_find row_key (source_rows db') ''facility:f'' = Some new \<and>
     \<not> is_blank_refresh_field_value ''county'' (py_get (row_original_values new) ''county'')"
proof -
  obtain db' res flattened where i:
    "import_seeded_corpus_artifact sample_import_env seeded_db second_artifact True = Inr (db', res)"
    "flatten_seeded_corpus_records second_artifact = Inr flattened" by (rule second_import)
  have "case tbl_find row_key (source_rows seeded_db) ''facility:f'' of
      Some row \<Rightarrow> map_of (row_original_values row) ''county'' = Some (PStr ''Kern'') | None \<Rightarrow> False" by code_simp
  then obtain old where old: "tbl_find row_key (source_rows seeded_db) ''facility:f'' = Some old"
    "map_of (row_original_values old) ''county'' = Some (PStr ''Kern'')" by (auto split: option.splits)
  have "\<not> is_blank_refresh_field_value ''county'' (PStr ''Kern'')" by code_simp
  from filled_values_survive [OF seeded_db_inv second_artifact_wf i(1) old this] i(1) show ?thesis
    by (auto simp: py_get_def)
qed

text \<open>C31: Importing the same artifact a second time is a no-op: the tables stay as the first import left
  them, every identity counts as unchanged and no conflict is found.\<close>

theorem reimport_changes_nothing:
  assumes "db_inv db" and "wf_artifact art"
    and "import_seeded_corpus_artifact env db art preserve = Inr (db', res)"
  shows "\<exists>res'. import_seeded_corpus_artifact env db' art preserve = Inr (db', res') \<and>
    res_unchanged res' = res_imported_count res \<and> res_inserted res' = 0 \<and> res_updated res' = 0 \<and>
    res_conflicted res' = 0 \<and> res_counts_by_entity res' = res_counts_by_entity res"
proof -
  let ?zero = "\<lparr>n_inserted = 0, n_updated = 0, n_unchanged = 0, n_conflicted = 0\<rparr>"
  from import_parts [OF assms(3)] obtain flattened c where p: "flatten_seeded_corpus_records art = Inr flattened"
    "write_records env preserve (upsert_batch db art) ?zero (keep_last flattened) = (db', c)" by blast
  note batch = upsert_batch_ok [OF assms(1), of art] and w = import_writable [OF p(1) assms(2,1)]
  note ok = write_records_ok [OF batch(1) w p(2)]
  have same: "upsert_batch db' art = db'"
  proof -
    have "upsert_batch db' art = db'\<lparr>import_batches := import_batches (upsert_batch (upsert_batch db art) art)\<rparr>"
      using ok(2) by (simp add: upsert_batch_def split: option.splits)
    then show ?thesis using ok(2) by (simp add: upsert_batch_again)
  qed
  obtain db2 c2 where again: "write_records env preserve db' ?zero (keep_last flattened) = (db2, c2)" by fastforce
  have "writable db' (keep_last flattened)" using w ok(2) by (simp add: writable_def)
  from write_records_ok(7) [OF ok(1) this again ok(5)]
  have second: "db2 = db'" "c2 = ?zero\<lparr>n_unchanged := length (keep_last flattened)\<rparr>" by auto
  have res: "res_imported_count res = length (keep_last flattened)"
    "res_counts_by_entity res = unique_persisted_counts_by_entity (keep_last flattened)"
    using assms(3) p by (auto simp: import_seeded_corpus_artifact_def Let_def deduplicate_keep_last
        unique_persisted_counts_sum keep_last_keys length_keep_last)
  show ?thesis
    by (simp add: import_seeded_corpus_artifact_def p(1) Let_def deduplicate_keep_last same again second res)
qed

theorem reimport_changes_nothing_witness:
  "\<exists>db' res res'. import_seeded_corpus_artifact sample_import_env seeded_db second_artifact True = Inr (db', res) \<and>
     import_seeded_corpus_artifact sample_import_env db' second_artifact True = Inr (db', res') \<and>
     res_unchanged res' = res_imported_count res"
proof -
  obtain db' res flattened where i:
    "import_seeded_corpus_artifact sample_import_env seeded_db second_artifact True = Inr (db', res)"
    "flatten_seeded_corpus_records second_artifact = Inr flattened" by (rule second_import)
  from reimport_changes_nothing [OF seeded_db_inv second_artifact_wf i(1)] i(1) show ?thesis by blast
qed

section \<open>Projections of one identity\<close>

text \<open>Keeping only the last projection is not the same as writing them all in turn: when an earlier
  projection fills a field that the last one leaves blank, replaying keeps the value and the import does not.\<close>

definition projection :: "string \<Rightarrow> seeded_record" where
  "projection county = \<lparr>sr_entity = Facility_Entity, sr_stable_id = ''f'', sr_batch_id = ''b'', sr_document_id = ''d'',
     sr_facility_id = Some ''f'', sr_source_url = ''u'', sr_raw_sha256 = ''h'', sr_raw_path = None, sr_connector_name = ''c'',
     sr_connector_version = ''1'', sr_retrieved_at = ''t'', sr_original_values = [(''county'', PStr county)],
     sr_traceability = []\<rparr>"

definition stored_county :: "seeded_record list \<Rightarrow> pyval" where
  "stored_county rs =
     (case source_rows (fst (write_records sample_import_env False \<lparr>import_batches = [], source_rows = []\<rparr>
         \<lparr>n_inserted = 0, n_updated = 0, n_unchanged = 0, n_conflicted = 0\<rparr> rs)) of
        [row] \<Rightarrow> py_get (row_original_values row) ''county''
      | _ \<Rightarrow> PNone)"

lemma deduplication_is_not_replay:
  "stored_county [projection ''Kern'', projection []] = PStr ''Kern'' \<and>
   stored_county (deduplicate_source_record_projections [projection ''Kern'', projection []]) = PStr []"
  by (rule conjI) code_simp+

text \<open>C32: Removing intermediate projections by the indices of last occurrences is the same as dropping each
  record that a later record with its key follows: the keys that stay are those of the input, each once, in
  the order of their last occurrences. It is not the same as writing every projection in turn: for a facility
  whose county only an earlier projection fills, replaying stores the county and the import a blank.\<close>

theorem deduplication_keeps_the_last:
  "deduplicate_source_record_projections rs = keep_last rs \<and>
   map source_record_key (deduplicate_source_record_projections rs) = remdups (map source_record_key rs) \<and>
   stored_county [projection ''Kern'', projection []] = PStr ''Kern'' \<and>
   stored_county (deduplicate_source_record_projections [projection ''Kern'', projection []]) = PStr []"
  by (intro conjI deduplicate_keep_last deduplication_is_not_replay [THEN conjunct1] deduplication_is_not_replay [THEN conjunct2])
    (simp add: deduplicate_keep_last keys_keep_last)

text \<open>C33: Parsing accepts only validated artifacts without errors and with records, and every source-derived
  record flattening makes of an artifact is well typed: its batch is the artifact's, its stable id is the id
  field of its original values, its hash is 64 lower-case hexadecimal digits, its source, connector and
  retrieval time are filled, and its traceability carries the source, the hash and the artifact's identity.\<close>

theorem flattened_records_are_sound:
  assumes "parse_seeded_corpus_artifact data = Inr art" and "flatten_seeded_corpus_records art = Inr rs"
  shows "art_validation_status art = ''validated'' \<and> art_raw_hash_status art = ''validated'' \<and>
    art_errors art = [] \<and> art_records art \<noteq> [] \<and> (\<forall>r \<in> set rs. sound_record art r)"
proof -
  have "sound_record art r" if "r \<in> set rs" for r
    using flatten_seeded_cases [OF assms(2) that] flattens_to_sound by blast
  moreover have "art_validation_status art = ''validated'' \<and> art_raw_hash_status art = ''validated'' \<and>
    art_errors art = [] \<and> art_records art \<noteq> []"
    using assms(1) by (auto simp: parse_seeded_corpus_artifact_def ebind_eq_Inr record_tuple_def split: pyval.splits)
  ultimately show ?thesis by blast
qed

definition sample_data :: pydict where
  "sample_data = [(''validation_status'', PStr ''validated''), (''raw_hash_validation_status'', PStr ''validated''),
     (''import_batch_id'', PStr ''b1''), (''imported_at'', PStr ''2026''), (''source_artifact_identity'', PStr ''a''),
     (''record_counts'', PDict [(''facility'', PInt 1)]),
     (''records'', PList [PDict (sample_normalized ''d1'' ''Oak House'' ''Kern'')])]"

theorem flattened_records_are_sound_witness:
  "\<exists>art rs. parse_seeded_corpus_artifact sample_data = Inr art \<and> flatten_seeded_corpus_records art = Inr rs \<and>
     length rs = 2 \<and> (\<forall>r \<in> set rs. sound_record art r)"
proof -
  have "case parse_seeded_corpus_artifact sample_data of Inl _ \<Rightarrow> False | Inr art \<Rightarrow>
      (case flatten_seeded_corpus_records art of Inl _ \<Rightarrow> False | Inr rs \<Rightarrow> length rs = 2)" by code_simp
  then obtain art rs where a: "parse_seeded_corpus_artifact sample_data = Inr art"
    "flatten_seeded_corpus_records art = Inr rs" "length rs = 2" by (auto split: sum.splits)
  from flattened_records_are_sound [OF a(1,2)] a show ?thesis by blast
qed

end
