(* ===== verification/Py_World.thy ===== *)
theory Py_World imports Py_Date Py_Formats
begin

text \<open>
  The outside world of the parts that fetch, store and time things: steps over an explicit world that may raise, the requests sent, the files written and the clock, and the rules of Hoare logic for such steps.
\<close>

section \<open>Steps\<close>

text \<open>A step takes the world and returns the world it leaves with a result; an exception keeps the effects
  that happened before it.\<close>

type_synonym ('w, 'a) io = "'w \<Rightarrow> 'w \<times> 'a result"

definition io_return :: "'a \<Rightarrow> ('w, 'a) io" where
  "io_return x w = (w, Inr x)"

definition io_raise :: "py_error \<Rightarrow> ('w, 'a) io" where
  "io_raise e w = (w, Inl e)"

definition io_lift :: "'a result \<Rightarrow> ('w, 'a) io" where
  "io_lift r w = (w, r)"

definition io_bind :: "('w, 'a) io \<Rightarrow> ('a \<Rightarrow> ('w, 'b) io) \<Rightarrow> ('w, 'b) io" where
  "io_bind m f w = (case m w of (w', Inl e) \<Rightarrow> (w', Inl e) | (w', Inr x) \<Rightarrow> f x w')"

text \<open>\<open>try: ... except ...\<close>: the handler sees the error, the continuation the value.\<close>

definition io_try :: "('w, 'a) io \<Rightarrow> (py_error + 'a \<Rightarrow> ('w, 'b) io) \<Rightarrow> ('w, 'b) io" where
  "io_try m f w = (case m w of (w', r) \<Rightarrow> f r w')"

section \<open>The world\<close>

text \<open>The requests sent so far (the address and the time-out of each, the latest last), the number of clock
  readings so far, and the files.\<close>

record web_world =
  sent_requests :: "(string \<times> int) list"
  clock_ticks :: nat
  stored_files :: "(string list \<times> string) list"

text \<open>What the program relies on: the answer of the network to a request, which may depend on the requests
  before it; the readings of the clock; the files that were there before, see \<open>read_bytes\<close>, and whether a
  path can be written; the date parser of \<open>dateutil\<close>. A reading of the clock is given by the texts the
  program takes of it: \<open>isoformat\<close> with and without microseconds and the digits of
  \<open>%Y%m%d%H%M%S%f\<close>.\<close>

record moment =
  iso_text :: string
  iso_seconds :: string
  stamp_digits :: string

record web_env = pyenv +
  respond :: "(string \<times> int) list \<Rightarrow> string \<Rightarrow> string result"
  now_at :: "nat \<Rightarrow> moment"
  writable_path :: "string list \<Rightarrow> bool"
  dateutil_parse :: "string \<Rightarrow> date result"

definition read_clock :: "('e web_env_scheme) \<Rightarrow> ('w web_world_scheme, moment) io" where
  "read_clock env w = (w\<lparr>clock_ticks := clock_ticks w + 1\<rparr>, Inr (now_at env (clock_ticks w)))"

definition send_request :: "('e web_env_scheme) \<Rightarrow> string \<Rightarrow> int \<Rightarrow> ('w web_world_scheme, string) io" where
  "send_request env url timeout w =
     (w\<lparr>sent_requests := sent_requests w @ [(url, timeout)]\<rparr>, respond env (sent_requests w) url)"

definition write_file :: "('e web_env_scheme) \<Rightarrow> string list \<Rightarrow> string \<Rightarrow> ('w web_world_scheme, unit) io" where
  "write_file env path content w =
     (if writable_path env path
      then (w\<lparr>stored_files := (path, content) # filter (\<lambda>f. fst f \<noteq> path) (stored_files w)\<rparr>, Inr ())
      else (w, Inl (OSError ''Permission denied'')))"

definition read_file_bytes :: "('e web_env_scheme) \<Rightarrow> string list \<Rightarrow> ('w web_world_scheme, string) io" where
  "read_file_bytes env path w =
     (w, case map_of (stored_files w) path of
           Some content \<Rightarrow> Inr content
         | None \<Rightarrow> (case read_bytes env path of
               Some content \<Rightarrow> Inr content
             | None \<Rightarrow> Inl (OSError ''No such file or directory'')))"

section \<open>Rules\<close>

text \<open>From a world in \<open>P\<close>, a step ends in a world and with a result related by \<open>Q\<close>.\<close>

definition io_triple :: "('w \<Rightarrow> bool) \<Rightarrow> ('w, 'a) io \<Rightarrow> ('a result \<Rightarrow> 'w \<Rightarrow> bool) \<Rightarrow> bool" where
  "io_triple P m Q \<longleftrightarrow> (\<forall>w. P w \<longrightarrow> (case m w of (w', r) \<Rightarrow> Q r w'))"

text \<open>A step preserves \<open>I\<close>, whether it raises or not.\<close>

abbreviation io_keeps :: "('w \<Rightarrow> bool) \<Rightarrow> ('w, 'a) io \<Rightarrow> bool" where
  "io_keeps I m \<equiv> io_triple I m (\<lambda>_. I)"

lemma io_tripleI: "(\<And>w w' r. P w \<Longrightarrow> m w = (w', r) \<Longrightarrow> Q r w') \<Longrightarrow> io_triple P m Q"
  by (auto simp: io_triple_def split: prod.splits)

lemma io_tripleD: "io_triple P m Q \<Longrightarrow> P w \<Longrightarrow> m w = (w', r) \<Longrightarrow> Q r w'"
  by (auto simp: io_triple_def split: prod.splits)

lemma io_conseq: "io_triple P' m Q' \<Longrightarrow> (\<And>w. P w \<Longrightarrow> P' w) \<Longrightarrow> (\<And>r w. Q' r w \<Longrightarrow> Q r w) \<Longrightarrow> io_triple P m Q"
  by (fastforce simp: io_triple_def split: prod.splits)

lemma io_return_triple: "io_triple (Q (Inr x)) (io_return x) Q"
  by (simp add: io_triple_def io_return_def)

lemma io_raise_triple: "io_triple (Q (Inl e)) (io_raise e) Q"
  by (simp add: io_triple_def io_raise_def)

lemma io_lift_triple: "io_triple (Q r) (io_lift r) Q"
  by (simp add: io_triple_def io_lift_def)

lemma io_bind_triple:
  assumes "io_triple P m (\<lambda>r. case r of Inl e \<Rightarrow> Q (Inl e) | Inr x \<Rightarrow> R x)" and "\<And>x. io_triple (R x) (f x) Q"
  shows "io_triple P (io_bind m f) Q"
proof (rule io_tripleI)
  fix w w' r assume w: "P w" and run: "io_bind m f w = (w', r)"
  obtain w1 r1 where m: "m w = (w1, r1)" by fastforce
  note mid = io_tripleD [OF assms(1) w m]
  show "Q r w'"
  proof (cases r1)
    case (Inl e)
    with run m mid show ?thesis by (simp add: io_bind_def)
  next
    case (Inr x)
    with run m have "f x w1 = (w', r)" by (simp add: io_bind_def)
    with io_tripleD [OF assms(2) _ this] mid Inr show ?thesis by simp
  qed
qed

lemma io_try_triple:
  assumes "io_triple P m R" and "\<And>r. io_triple (R r) (f r) Q"
  shows "io_triple P (io_try m f) Q"
proof (rule io_tripleI)
  fix w w' r assume w: "P w" and run: "io_try m f w = (w', r)"
  obtain w1 r1 where m: "m w = (w1, r1)" by fastforce
  from run m have "f r1 w1 = (w', r)" by (simp add: io_try_def)
  from io_tripleD [OF assms(2) io_tripleD [OF assms(1) w m] this] show "Q r w'" .
qed

lemma io_keeps_return [intro]: "io_keeps I (io_return x)"
  and io_keeps_raise [intro]: "io_keeps I (io_raise e)"
  and io_keeps_lift [intro]: "io_keeps I (io_lift r)"
  by (simp_all add: io_triple_def io_return_def io_raise_def io_lift_def)

lemma io_keeps_bind [intro]:
  assumes "io_keeps I m" and "\<And>x. io_keeps I (f x)"
  shows "io_keeps I (io_bind m f)"
  by (rule io_bind_triple [where R = "\<lambda>_. I"]) (use assms in \<open>simp_all add: sum.case_eq_if\<close>)

lemma io_keeps_try [intro]:
  assumes "io_keeps I m" and "\<And>r. io_keeps I (f r)"
  shows "io_keeps I (io_try m f)"
  by (rule io_try_triple [where R = "\<lambda>_. I"]) (rule assms)+

lemma io_bind_eq_Inr: "io_bind m f w = (w', Inr y) \<longleftrightarrow> (\<exists>w1 x. m w = (w1, Inr x) \<and> f x w1 = (w', Inr y))"
  by (auto simp: io_bind_def split: prod.splits sum.splits)

lemma io_run_simps [simp]:
  "io_return x w = (w, Inr x)"
  "io_raise e w = (w, Inl e)"
  "io_lift r w = (w, r)"
  by (simp_all add: io_return_def io_raise_def io_lift_def)

lemma fst_io_bind: "fst (io_bind m f w) = (case m w of (w1, Inl e) \<Rightarrow> w1 | (w1, Inr x) \<Rightarrow> fst (f x w1))"
  by (simp add: io_bind_def split: prod.splits sum.splits)

end
