(* ===== verification/Report_Text.thy ===== *)
theory Report_Text imports Py_World
begin

text \<open>
  Text patterns of the report connector, written out for the regular expressions it uses, with address queries.
\<close>

section \<open>Stripping and finding\<close>

text \<open>\<open>value.strip(" .:-")\<close>.\<close>

definition is_label_char :: "char \<Rightarrow> bool" where
  "is_label_char c \<longleftrightarrow> c \<in> {CHR '' '', CHR ''.'', CHR '':'', CHR ''-''}"

definition strip_chars :: "(char \<Rightarrow> bool) \<Rightarrow> string \<Rightarrow> string" where
  "strip_chars p s = rev (dropWhile p (rev (dropWhile p s)))"

definition strip_label :: "string \<Rightarrow> string" where
  "strip_label s = strip_chars is_label_char s"

text \<open>\<open>value.find(sub)\<close>, None where Python answers -1.\<close>

fun py_find :: "string \<Rightarrow> string \<Rightarrow> nat option" where
  "py_find sub [] = (if sub = [] then Some 0 else None)"
| "py_find sub (c # cs) = (if prefix sub (c # cs) then Some 0 else map_option Suc (py_find sub cs))"

text \<open>\<open>re.sub(r"\s+", " ", value)\<close>; the flag says that the character before was white space.\<close>

fun sub_spaces :: "bool \<Rightarrow> string \<Rightarrow> string" where
  "sub_spaces b [] = []"
| "sub_spaces b (c # cs) =
     (if is_space c then (if b then sub_spaces True cs else CHR '' '' # sub_spaces True cs)
      else c # sub_spaces False cs)"

definition clean_text :: "string \<Rightarrow> string" where
  "clean_text v = py_strip (sub_spaces False v)"

text \<open>\<open>splitlines()\<close>; the accumulator is the current line, reversed.\<close>

definition is_line_end :: "char \<Rightarrow> bool" where
  "is_line_end c \<longleftrightarrow> ord c \<in> {10, 11, 12, 13, 28, 29, 30}"

fun split_lines :: "string \<Rightarrow> string \<Rightarrow> string list" where
  "split_lines acc [] = (if acc = [] then [] else [rev acc])"
| "split_lines acc (c # cs) =
     (if is_line_end c then
        rev acc # (case cs of
            [] \<Rightarrow> []
          | d # ds \<Rightarrow> if c = CHR 0x0D \<and> d = CHR 0x0A then split_lines [] ds else split_lines [] (d # ds))
      else split_lines (c # acc) cs)"

definition py_splitlines :: "string \<Rightarrow> string list" where
  "py_splitlines s = split_lines [] s"

text \<open>A file read in text mode: every line end is a line feed.\<close>

fun universal_newlines :: "string \<Rightarrow> string" where
  "universal_newlines [] = []"
| "universal_newlines (c # cs) =
     (if c = CHR 0x0D then
        CHR 0x0A # (case cs of
            [] \<Rightarrow> []
          | d # ds \<Rightarrow> if d = CHR 0x0A then universal_newlines ds else universal_newlines (d # ds))
      else c # universal_newlines cs)"

section \<open>Patterns\<close>

definition is_word_char :: "char \<Rightarrow> bool" where
  "is_word_char c \<longleftrightarrow> is_alpha c \<or> is_digit c \<or> c = CHR ''_''"

definition word_ends :: "string \<Rightarrow> bool" where
  "word_ends s \<longleftrightarrow> s = [] \<or> \<not> is_word_char (hd s)"

text \<open>A text that starts with the character, and what follows it.\<close>

definition after_char :: "char \<Rightarrow> string \<Rightarrow> string option" where
  "after_char c s = (if s \<noteq> [] \<and> hd s = c then Some (tl s) else None)"

text \<open>\<open>\d{1,2}/\d{1,2}/\d{2,4}\b\<close> at the head of a text. A run of digits that is longer than the pattern
  allows is followed by a digit, so only whole runs match.\<close>

definition date_token_at :: "string \<Rightarrow> string option" where
  "date_token_at s =
     (let m = takeWhile is_digit s in
      if length m \<notin> {1, 2} then None
      else case after_char (CHR ''/'') (dropWhile is_digit s) of
        None \<Rightarrow> None
      | Some s1 \<Rightarrow>
          (let d = takeWhile is_digit s1 in
           if length d \<notin> {1, 2} then None
           else case after_char (CHR ''/'') (dropWhile is_digit s1) of
             None \<Rightarrow> None
           | Some s2 \<Rightarrow>
               (let y = takeWhile is_digit s2 in
                if length y \<in> {2, 3, 4} \<and> word_ends (dropWhile is_digit s2)
                then Some (m @ ''/'' @ d @ ''/'' @ y) else None)))"

text \<open>\<open>SOURCE_DATE_TOKEN_RE.findall\<close>: the flag says that the character before is part of a word, the number
  how many characters the last match still covers.\<close>

fun find_date_tokens :: "bool \<Rightarrow> nat \<Rightarrow> string \<Rightarrow> string list" where
  "find_date_tokens word skip [] = []"
| "find_date_tokens word skip (c # cs) =
     (if skip > 0 then find_date_tokens (is_word_char c) (skip - 1) cs
      else case (if word then None else date_token_at (c # cs)) of
        None \<Rightarrow> find_date_tokens (is_word_char c) 0 cs
      | Some t \<Rightarrow> t # find_date_tokens (is_word_char c) (length t - 1) cs)"

definition source_date_tokens :: "string \<Rightarrow> string list" where
  "source_date_tokens s = find_date_tokens False 0 s"

definition source_date_token :: "string \<Rightarrow> string option" where
  "source_date_token s = (case source_date_tokens s of [] \<Rightarrow> None | t # ts \<Rightarrow> Some t)"

text \<open>\<open>re.search(r"\bphrase\b", value, re.IGNORECASE).group(0)\<close>.\<close>

fun find_phrase :: "string \<Rightarrow> bool \<Rightarrow> string \<Rightarrow> string option" where
  "find_phrase phrase word [] = None"
| "find_phrase phrase word (c # cs) =
     (if \<not> word \<and> prefix (py_casefold phrase) (py_casefold (c # cs)) \<and> word_ends (drop (length phrase) (c # cs))
      then Some (take (length phrase) (c # cs))
      else find_phrase phrase (is_word_char c) cs)"

definition ACTIVITY_CUES :: "string list" where
  "ACTIVITY_CUES = [''conducted'', ''interviewed'', ''performed'', ''reviewed'', ''visited'', ''inspected'', ''investigated'']"

definition has_activity_cue :: "string \<Rightarrow> bool" where
  "has_activity_cue line \<longleftrightarrow> list_ex (\<lambda>w. find_phrase w False line \<noteq> None) ACTIVITY_CUES"

text \<open>\<open>re.split(r"(?<=[.!?])\s+", line, maxsplit=1)[0]\<close>.\<close>

fun first_sentence :: "bool \<Rightarrow> string \<Rightarrow> string" where
  "first_sentence ended [] = []"
| "first_sentence ended (c # cs) =
     (if ended \<and> is_space c then [] else c # first_sentence (c \<in> {CHR ''.'', CHR ''!'', CHR ''?''}) cs)"

text \<open>What follows the numbered prefix of an allegation, None when the line has none.\<close>

definition after_number_prefix :: "string \<Rightarrow> string option" where
  "after_number_prefix line =
     (let s1 = py_lstrip line;
          s2 = (if prefix ''allegation'' (py_casefold s1) then py_lstrip (drop 10 s1) else s1);
          s3 = py_lstrip (dropWhile is_digit s2)
      in if takeWhile is_digit s2 = [] then None
         else if s3 = [] then Some []
         else if hd s3 \<in> {CHR ''.'', CHR '')'', CHR ''-'', CHR '':''} then Some (py_lstrip (tl s3))
         else None)"

text \<open>\<open>re.sub(r"^(?:\d+\s+){2,}", "", value)\<close>: the number of leading groups and what follows them.\<close>

definition number_group :: "string \<Rightarrow> string option" where
  "number_group s =
     (let r = dropWhile is_digit s in
      if takeWhile is_digit s \<noteq> [] \<and> r \<noteq> [] \<and> is_space (hd r) then Some (py_lstrip r) else None)"

lemma number_group_shorter: "number_group s = Some t \<Longrightarrow> length t < length s"
proof -
  assume "number_group s = Some t"
  then have t: "t = dropWhile is_space (dropWhile is_digit s)" and "takeWhile is_digit s \<noteq> []"
    by (auto simp: number_group_def py_lstrip_def Let_def split: if_splits)
  then have "length (dropWhile is_digit s) < length s"
    by (metis length_append length_greater_0_conv less_add_same_cancel2 takeWhile_dropWhile_id)
  with t show ?thesis using length_dropWhile_le [of is_space "dropWhile is_digit s"] by simp
qed

function number_groups :: "string \<Rightarrow> nat \<times> string" where
  "number_groups s =
     (case number_group s of
        None \<Rightarrow> (0, s)
      | Some t \<Rightarrow> (let (n, u) = number_groups t in (n + 1, u)))"
  by auto
termination by (relation "measure length") (auto intro: number_group_shorter)

declare number_groups.simps [simp del]

definition without_number_groups :: "string \<Rightarrow> string" where
  "without_number_groups s = (let (n, rest) = number_groups s in if n \<ge> 2 then rest else s)"

text \<open>\<open>^finding\s*[-:]\s*(.+)$\<close>, ignoring case; white space at the end of the line is given back to the group.\<close>

definition inline_labeled_finding :: "string \<Rightarrow> string option" where
  "inline_labeled_finding line =
     (if prefix ''finding'' (py_casefold line) then
        (let s = py_lstrip (drop 7 line) in
         if s \<noteq> [] \<and> hd s \<in> {CHR ''-'', CHR '':''} then
           (let v = py_lstrip (tl s) in
            if v \<noteq> [] then Some v else if tl s \<noteq> [] then Some [last (tl s)] else None)
         else None)
      else None)"

text \<open>The runs of other characters become underscores: \<open>re.sub(r"[^a-z0-9]+", "_", value)\<close>.\<close>

fun underscored :: "bool \<Rightarrow> string \<Rightarrow> string" where
  "underscored b [] = []"
| "underscored b (c # cs) =
     (if is_lower c \<or> is_digit c then c # underscored False cs
      else if b then underscored True cs else CHR ''_'' # underscored True cs)"

section \<open>Queries of addresses\<close>

text \<open>\<open>quote_plus\<close>, as \<open>urlencode\<close> uses it.\<close>

definition is_unreserved :: "char \<Rightarrow> bool" where
  "is_unreserved c \<longleftrightarrow> is_alpha c \<or> is_digit c \<or> c \<in> {CHR ''_'', CHR ''.'', CHR ''-'', CHR ''~''}"

definition upper_hex_digit :: "nat \<Rightarrow> char" where
  "upper_hex_digit n = (if n < 10 then char_of (48 + n) else char_of (55 + n))"

definition quote_char :: "char \<Rightarrow> string" where
  "quote_char c =
     (if is_unreserved c then [c] else if c = CHR '' '' then ''+''
      else [CHR ''%'', upper_hex_digit (ord c div 16), upper_hex_digit (ord c mod 16)])"

definition quote_plus :: "string \<Rightarrow> string" where
  "quote_plus s = concat (map quote_char s)"

definition urlencode :: "(string \<times> string) list \<Rightarrow> string" where
  "urlencode ps = py_join ''&'' (map (\<lambda>(k, v). quote_plus k @ ''='' @ quote_plus v) ps)"

text \<open>\<open>parse_qs(query).get(name, [None])[0]\<close>: the first value of the name that is not blank.\<close>

definition first_query_value :: "string \<Rightarrow> string \<Rightarrow> string option" where
  "first_query_value query name =
     map_option snd (find (\<lambda>(k, v). k = name \<and> v \<noteq> []) (parse_qsl query))"

section \<open>Lemmas\<close>

lemma dropWhile_snoc_space: "is_space c \<Longrightarrow> dropWhile is_space (c # s) = dropWhile is_space s"
  by simp

lemma py_lstrip_le: "length (py_lstrip s) \<le> length s"
  by (simp add: py_lstrip_def length_dropWhile_le)

text \<open>Cleaning a text is the idiom \<open>" ".join(value.split())\<close>.\<close>

definition rstrip_spaces :: "string \<Rightarrow> string" where
  "rstrip_spaces s = rev (dropWhile is_space (rev s))"

lemma dropWhile_append_keep: "dropWhile p s \<noteq> [] \<Longrightarrow> dropWhile p (s @ t) = dropWhile p s @ t"
  by (induction s) auto

lemma rstrip_append: "rstrip_spaces t \<noteq> [] \<Longrightarrow> rstrip_spaces (s @ t) = s @ rstrip_spaces t"
  by (simp add: rstrip_spaces_def dropWhile_append_keep)

lemma rstrip_append_Nil: "rstrip_spaces t = [] \<Longrightarrow> rstrip_spaces (s @ t) = rstrip_spaces s"
  by (simp add: rstrip_spaces_def dropWhile_append)

lemma rstrip_nonspace: "list_all (\<lambda>c. \<not> is_space c) s \<Longrightarrow> rstrip_spaces s = s"
  by (cases s rule: rev_cases) (auto simp: rstrip_spaces_def)

lemma split_runs_words_Nil: "py_join '' '' (split_runs [] s) = [] \<Longrightarrow> split_runs [] s = []"
  by (cases "split_runs [] s") (use split_runs_words [of _ "[]" s] in \<open>auto simp: neq_Nil_conv elim!: py_join.elims\<close>)

lemma py_join_Cons: "py_join sep (x # xs) = (if xs = [] then x else x @ sep @ py_join sep xs)"
  by (cases xs) simp_all

lemma is_space_blank [simp]: "is_space (CHR '' '')"
  by (simp add: is_space_def)

lemma rstrip_sub_spaces:
  "rstrip_spaces (sub_spaces True s) = py_join '' '' (split_runs [] s)"
  "acc \<noteq> [] \<Longrightarrow> list_all (\<lambda>c. \<not> is_space c) acc \<Longrightarrow>
     rstrip_spaces (rev acc @ sub_spaces False s) = py_join '' '' (split_runs acc s)"
proof (induction s arbitrary: acc)
  case Nil
  { case 1 then show ?case by (simp add: rstrip_spaces_def) }
  { case 2 then show ?case by (simp add: rstrip_nonspace) }
next
  case (Cons c s)
  { case 1 show ?case
    proof (cases "is_space c")
      case False
      with Cons(2) [of "[c]"] show ?thesis by simp
    qed (use Cons(1) in simp) }
  { case 2 show ?case
    proof (cases "is_space c")
      case True
      note IH = Cons(1)
      show ?thesis
      proof (cases "split_runs [] s = []")
        case Nil: True
        with IH have e: "rstrip_spaces (sub_spaces True s) = []" by simp
        have "rstrip_spaces (CHR '' '' # sub_spaces True s) = []"
          using rstrip_append_Nil [OF e, of "[CHR '' '']"] by (simp add: rstrip_spaces_def)
        from rstrip_append_Nil [OF this, of "rev acc"] show ?thesis
          using True Nil 2 by (simp add: rstrip_nonspace list_all_iff)
      next
        case nn: False
        with IH split_runs_words_Nil have e: "rstrip_spaces (sub_spaces True s) \<noteq> []" by metis
        show ?thesis using True nn IH 2 rstrip_append [OF e, of "rev acc @ [CHR '' '']"]
          by (simp add: py_join_Cons)
      qed
    next
      case False
      with Cons(2) [of "c # acc"] 2 show ?thesis by simp
    qed }
qed

lemma lstrip_sub_spaces: "dropWhile is_space (sub_spaces b s) = sub_spaces True s"
proof (induction s arbitrary: b)
  case (Cons c s)
  then show ?case by auto
qed simp

lemma clean_text_collapse: "clean_text v = collapse_spaces v"
  using rstrip_sub_spaces(1) [of v]
  by (simp add: clean_text_def py_strip_def collapse_spaces_def py_split_def lstrip_sub_spaces rstrip_spaces_def)

lemma clean_text_idem [simp]: "clean_text (clean_text v) = clean_text v"
  by (simp add: clean_text_collapse)

text \<open>What is written into a query is read back.\<close>

lemma hex_value_upper: "n < 16 \<Longrightarrow> hex_value (upper_hex_digit n) = Some n"
  by (simp add: hex_value_def upper_hex_digit_def is_digit_def)

lemma ord_nibbles: "ord c div 16 < 16" "ord c mod 16 < 16"
  using nat_of_char_less_256 [of c] by linarith simp

lemma unquote_quote_char: "unquote_plus (quote_char c @ s) = c # unquote_plus s"
proof (cases "is_unreserved c")
  case True
  then have "c \<noteq> CHR ''+''" "c \<noteq> CHR ''%''" by (auto simp: is_unreserved_def is_alpha_def is_upper_def is_lower_def is_digit_def)
  with True show ?thesis by (simp add: quote_char_def)
next
  case False
  with False show ?thesis by (simp add: quote_char_def hex_value_upper ord_nibbles)
qed

lemma unquote_quote [simp]: "unquote_plus (quote_plus s) = s"
  using unquote_quote_char by (induction s) (simp_all add: quote_plus_def)

lemma upper_hex_unreserved: "n < 16 \<Longrightarrow> is_unreserved (upper_hex_digit n)"
  by (simp add: is_unreserved_def is_alpha_def is_upper_def upper_hex_digit_def is_digit_def)

lemma quote_plus_chars: "c \<in> set (quote_plus s) \<Longrightarrow> is_unreserved c \<or> c = CHR ''+'' \<or> c = CHR ''%''"
proof (induction s)
  case (Cons d s)
  have "c \<in> set (quote_char d) \<Longrightarrow> is_unreserved c \<or> c = CHR ''+'' \<or> c = CHR ''%''"
    by (auto simp: quote_char_def upper_hex_unreserved ord_nibbles split: if_splits)
  with Cons show ?case by (auto simp: quote_plus_def)
qed (simp add: quote_plus_def)

lemma quote_plus_no [simp]:
  "CHR ''='' \<notin> set (quote_plus s)" "CHR ''&'' \<notin> set (quote_plus s)" "CHR ''#'' \<notin> set (quote_plus s)"
  "CHR ''?'' \<notin> set (quote_plus s)"
  using quote_plus_chars [of _ s]
  by (force simp: is_unreserved_def is_alpha_def is_upper_def is_lower_def is_digit_def)+

lemma split_first_at: "d \<notin> set a \<Longrightarrow> split_first d (a @ d # s) = (a, s)"
  by (induction a) (auto simp: split_first_def)

end
