(* ===== verification/Facility_Projection.thy ===== *)
theory Facility_Projection imports Report_Text
begin

text \<open>
  The shared projection of a facility's identity (\<open>hosted_app/facility_identity_projection.py\<close>): fields, sources and states, the normalization of values, the selection of one observation per field, and candidates built from the rows of a source. The normalized values that are compared are texts and integers.
\<close>

section \<open>Fields, sources and states\<close>

datatype projection_field =
    Facility_Name | Public_Facility_Id | Facility_Type | Facility_Status | Full_Address | City_Field | State_Field
  | Zip_Field | County_Field | Capacity_Field | Administrator_Field | Licensee_Field | Telephone_Field
  | Regional_Office_Field | Closed_Date_Field | Contact_Field | Canonical_Internal_Identity

definition PUBLIC_FACILITY_FIELDS :: "projection_field list" where
  "PUBLIC_FACILITY_FIELDS =
     [Facility_Name, Public_Facility_Id, Facility_Type, Facility_Status, Full_Address, City_Field, State_Field,
      Zip_Field, County_Field, Capacity_Field, Administrator_Field, Licensee_Field, Telephone_Field,
      Regional_Office_Field, Closed_Date_Field, Contact_Field]"

fun field_value :: "projection_field \<Rightarrow> string" where
  "field_value Facility_Name = ''facility_name''"
| "field_value Public_Facility_Id = ''public_facility_id''"
| "field_value Facility_Type = ''facility_type''"
| "field_value Facility_Status = ''status''"
| "field_value Full_Address = ''full_address''"
| "field_value City_Field = ''city''"
| "field_value State_Field = ''state''"
| "field_value Zip_Field = ''zip''"
| "field_value County_Field = ''county''"
| "field_value Capacity_Field = ''capacity''"
| "field_value Administrator_Field = ''administrator''"
| "field_value Licensee_Field = ''licensee''"
| "field_value Telephone_Field = ''telephone''"
| "field_value Regional_Office_Field = ''regional_office''"
| "field_value Closed_Date_Field = ''closed_date''"
| "field_value Contact_Field = ''contact''"
| "field_value Canonical_Internal_Identity = ''canonical_internal_identity''"

datatype value_state =
    Populated | Blank_Value | Absent_Value | Unavailable | Unresolved_Raw_Code | Conflicting | Internal_Only
  | Invalid_Value | Extraction_Failed_Value

datatype value_context =
    Current_Reference | Supplementary_Reference | Historical_Reference | Historical_Complaint | Internal_Context

datatype facility_source =
    Transparency_Current | Transparency_Prior_Accepted | Arcgis_Supplement | Program_Reference
  | Complaint_Linked_Facility

fun source_value :: "facility_source \<Rightarrow> string" where
  "source_value Transparency_Current = ''transparencyapi_current''"
| "source_value Transparency_Prior_Accepted = ''transparencyapi_prior_accepted''"
| "source_value Arcgis_Supplement = ''arcgis_supplement''"
| "source_value Program_Reference = ''program_reference''"
| "source_value Complaint_Linked_Facility = ''complaint_linked_facility''"

definition DEFAULT_FIELD_PRECEDENCE :: "facility_source list" where
  "DEFAULT_FIELD_PRECEDENCE =
     [Transparency_Current, Transparency_Prior_Accepted, Arcgis_Supplement, Program_Reference,
      Complaint_Linked_Facility]"

fun context_for_source_kind :: "facility_source \<Rightarrow> value_context" where
  "context_for_source_kind Transparency_Current = Current_Reference"
| "context_for_source_kind Arcgis_Supplement = Supplementary_Reference"
| "context_for_source_kind Transparency_Prior_Accepted = Historical_Reference"
| "context_for_source_kind Program_Reference = Historical_Reference"
| "context_for_source_kind Complaint_Linked_Facility = Historical_Complaint"

section \<open>Observations\<close>

record source_identity =
  id_kind :: facility_source
  id_row :: string
  id_snapshot :: string
  id_field :: string

record value_alternative =
  alt_raw :: pyval
  alt_normalized :: pyval
  alt_state :: value_state
  alt_identity :: source_identity
  alt_observed_at :: "string option"
  alt_context :: value_context

record field_result =
  fr_field :: projection_field
  fr_display :: pyval
  fr_normalized :: pyval
  fr_state :: value_state
  fr_identity :: "source_identity option"
  fr_observed_at :: "string option"
  fr_conflict :: bool
  fr_alternatives :: "value_alternative list"
  fr_context :: "value_context option"
  fr_unavailable :: "facility_source list"

text \<open>The mappings of a candidate from fields to values, names of source fields, states and raw values.\<close>

record projection_candidate =
  pc_kind :: facility_source
  pc_row :: string
  pc_snapshot :: string
  pc_observed_at :: "string option"
  pc_context :: value_context
  pc_values :: "projection_field \<Rightarrow> pyval option"
  pc_present :: "projection_field \<Rightarrow> bool"
  pc_source_fields :: "projection_field \<Rightarrow> string option"
  pc_internal_identity :: "string option"
  pc_states :: "projection_field \<Rightarrow> value_state option"
  pc_raw_values :: "projection_field \<Rightarrow> pyval option"

record source_availability =
  av_transparency :: bool
  av_arcgis :: bool
  av_reference :: bool
  av_complaints :: bool

definition unavailable_sources :: "source_availability \<Rightarrow> facility_source list" where
  "unavailable_sources a =
     (if av_transparency a then [] else [Transparency_Current]) @ (if av_arcgis a then [] else [Arcgis_Supplement])
     @ (if av_reference a then [] else [Program_Reference])
     @ (if av_complaints a then [] else [Complaint_Linked_Facility])"

section \<open>Values\<close>

text \<open>\<open>_clean_text\<close> and \<open>_optional_text\<close> on any value.\<close>

definition projection_text :: "('a pyenv_scheme) \<Rightarrow> pyval \<Rightarrow> string" where
  "projection_text env v = (case v of PNone \<Rightarrow> [] | _ \<Rightarrow> clean_text (py_str env v))"

definition projection_optional_text :: "('a pyenv_scheme) \<Rightarrow> pyval \<Rightarrow> string option" where
  "projection_optional_text env v = (let t = projection_text env v in if t = [] then None else Some t)"

definition normalize_capacity :: "('a pyenv_scheme) \<Rightarrow> pyval \<Rightarrow> pyval \<times> value_state" where
  "normalize_capacity env raw =
     (case raw of
        PBool _ \<Rightarrow> (PNone, Invalid_Value)
      | PInt i \<Rightarrow> (PInt i, Populated)
      | _ \<Rightarrow>
          (let c = filter (\<lambda>x. x \<noteq> CHR '','') (projection_text env raw) in
           if c = [] then (PNone, Blank_Value)
           else if py_isdigit c then (PInt (int (digits_value c)), Populated)
           else (PNone, Invalid_Value)))"

definition normalize_value :: "('a pyenv_scheme) \<Rightarrow> projection_field \<Rightarrow> pyval \<Rightarrow> pyval \<times> value_state" where
  "normalize_value env field raw =
     (if raw = PNone then (PNone, Blank_Value)
      else if field = Capacity_Field then normalize_capacity env raw
      else (let t = projection_text env raw in
            if t = [] then (PNone, Blank_Value)
            else if field = Public_Facility_Id
            then (if py_isdigit t then (PStr t, Populated) else (PNone, Invalid_Value))
            else if field \<in> {Facility_Type, Facility_Status} \<and> py_isdigit t
            then (PStr (py_casefold t), Unresolved_Raw_Code)
            else (PStr (py_casefold t), Populated)))"

definition observation_value :: "('a pyenv_scheme) \<Rightarrow> projection_field \<Rightarrow> pyval \<Rightarrow> pyval" where
  "observation_value env field raw =
     (case raw of
        PNone \<Rightarrow> PNone
      | PInt i \<Rightarrow> if field = Capacity_Field then PInt i else PStr (projection_text env raw)
      | PBool b \<Rightarrow> if field = Capacity_Field then PBool b else PStr (projection_text env raw)
      | _ \<Rightarrow> PStr (projection_text env raw))"

definition alternative_of ::
  "('a pyenv_scheme) \<Rightarrow> projection_field \<Rightarrow> projection_candidate \<Rightarrow> value_alternative option" where
  "alternative_of env field c =
     (if \<not> pc_present c field then None
      else (let v = (case pc_values c field of None \<Rightarrow> PNone | Some v \<Rightarrow> v);
                raw = (case pc_raw_values c field of None \<Rightarrow> v | Some r \<Rightarrow> r);
                (normalized, state) =
                  (case pc_states c field of
                     None \<Rightarrow> normalize_value env field v
                   | Some Populated \<Rightarrow> normalize_value env field v
                   | Some Unresolved_Raw_Code \<Rightarrow> (fst (normalize_value env field v), Unresolved_Raw_Code)
                   | Some s \<Rightarrow> (PNone, s))
            in Some \<lparr>alt_raw = observation_value env field raw, alt_normalized = normalized, alt_state = state,
                 alt_identity = \<lparr>id_kind = pc_kind c, id_row = pc_row c, id_snapshot = pc_snapshot c,
                   id_field = (case pc_source_fields c field of None \<Rightarrow> field_value field | Some f \<Rightarrow> f)\<rparr>,
                 alt_observed_at = pc_observed_at c, alt_context = pc_context c\<rparr>))"

section \<open>Selection\<close>

definition observation_time :: "value_alternative \<Rightarrow> string" where
  "observation_time a = (case alt_observed_at a of None \<Rightarrow> [] | Some t \<Rightarrow> t)"

definition alternative_sort_key :: "('a pyenv_scheme) \<Rightarrow> value_alternative \<Rightarrow> string list" where
  "alternative_sort_key env a =
     [source_value (id_kind (alt_identity a)), observation_time a, id_snapshot (alt_identity a), id_row (alt_identity a),
      py_repr env (alt_normalized a)]"

definition is_populated :: "value_alternative \<Rightarrow> bool" where
  "is_populated a \<longleftrightarrow> alt_normalized a \<noteq> PNone \<and> alt_state a \<in> {Populated, Unresolved_Raw_Code}"

definition distinct_values :: "value_alternative list \<Rightarrow> pyval list" where
  "distinct_values as = remdups (map alt_normalized as)"

definition newest_alternatives :: "value_alternative list \<Rightarrow> value_alternative list" where
  "newest_alternatives as = filter (\<lambda>a. \<forall>b \<in> set as. observation_time b \<le> observation_time a) as"

definition of_source :: "facility_source \<Rightarrow> value_alternative list \<Rightarrow> value_alternative list" where
  "of_source kind as = filter (\<lambda>a. id_kind (alt_identity a) = kind) as"

text \<open>The first source of the precedence that has a value decides; its newest values must agree.\<close>

fun select_from :: "('a pyenv_scheme) \<Rightarrow> value_alternative list \<Rightarrow> facility_source list \<Rightarrow> value_alternative option" where
  "select_from env as [] = None"
| "select_from env as (kind # kinds) =
     (if of_source kind as = [] then select_from env as kinds
      else (let newest = newest_alternatives (of_source kind as) in
            if length (distinct_values newest) = 1
            then Some (hd (sort_key (alternative_sort_key env) newest)) else None))"

definition select_alternative :: "('a pyenv_scheme) \<Rightarrow> value_alternative list \<Rightarrow> value_alternative option" where
  "select_alternative env as = select_from env as DEFAULT_FIELD_PRECEDENCE"

definition selected_display_value :: "projection_field \<Rightarrow> value_alternative \<Rightarrow> pyval" where
  "selected_display_value field a = (if field = Capacity_Field then alt_normalized a else alt_raw a)"

definition field_alternatives ::
  "('a pyenv_scheme) \<Rightarrow> projection_field \<Rightarrow> projection_candidate list \<Rightarrow> value_alternative list" where
  "field_alternatives env field candidates =
     sort_key (alternative_sort_key env) (List.map_filter (alternative_of env field) candidates)"

definition has_state :: "value_alternative list \<Rightarrow> value_state \<Rightarrow> bool" where
  "has_state as s \<longleftrightarrow> list_ex (\<lambda>a. alt_state a = s) as"

definition field_state ::
  "value_alternative list \<Rightarrow> bool \<Rightarrow> value_alternative option \<Rightarrow> facility_source list \<Rightarrow> value_state" where
  "field_state as conflict selected unavailable =
     (if conflict then Conflicting
      else case selected of
          Some a \<Rightarrow> if alt_state a = Unresolved_Raw_Code then Unresolved_Raw_Code else Populated
        | None \<Rightarrow>
            if has_state as Extraction_Failed_Value then Extraction_Failed_Value
            else if has_state as Invalid_Value then Invalid_Value
            else if has_state as Unavailable then Unavailable
            else if has_state as Blank_Value then Blank_Value
            else if unavailable \<noteq> [] then Unavailable
            else Absent_Value)"

definition project_field ::
  "('a pyenv_scheme) \<Rightarrow> projection_field \<Rightarrow> projection_candidate list \<Rightarrow> source_availability \<Rightarrow> field_result" where
  "project_field env field candidates availability =
     (let alternatives = field_alternatives env field candidates;
          unavailable = unavailable_sources availability;
          populated = filter is_populated alternatives;
          conflict = (length (distinct_values populated) > 1);
          selected = select_alternative env populated
      in \<lparr>fr_field = field,
          fr_display = (case selected of None \<Rightarrow> PNone | Some a \<Rightarrow> selected_display_value field a),
          fr_normalized = (case selected of None \<Rightarrow> PNone | Some a \<Rightarrow> alt_normalized a),
          fr_state = field_state alternatives conflict selected unavailable,
          fr_identity = map_option alt_identity selected,
          fr_observed_at = (case selected of None \<Rightarrow> None | Some a \<Rightarrow> alt_observed_at a),
          fr_conflict = conflict, fr_alternatives = alternatives,
          fr_context = map_option alt_context selected, fr_unavailable = unavailable\<rparr>)"

definition internal_alternative :: "projection_candidate \<Rightarrow> value_alternative option" where
  "internal_alternative c =
     (case pc_internal_identity c of
        None \<Rightarrow> None
      | Some i \<Rightarrow>
          if i = [] then None
          else Some \<lparr>alt_raw = PStr i, alt_normalized = PStr i, alt_state = Internal_Only,
            alt_identity = \<lparr>id_kind = pc_kind c, id_row = pc_row c, id_snapshot = pc_snapshot c,
              id_field = ''canonical_internal_identity''\<rparr>,
            alt_observed_at = pc_observed_at c, alt_context = Internal_Context\<rparr>)"

definition project_internal_identity :: "('a pyenv_scheme) \<Rightarrow> projection_candidate list \<Rightarrow> field_result" where
  "project_internal_identity env candidates =
     (let alternatives = sort_key (alternative_sort_key env) (List.map_filter internal_alternative candidates);
          selected = (if length (distinct_values alternatives) = 1 then Some (hd alternatives) else None)
      in \<lparr>fr_field = Canonical_Internal_Identity, fr_display = PNone,
          fr_normalized = (case selected of None \<Rightarrow> PNone | Some a \<Rightarrow> alt_normalized a), fr_state = Internal_Only,
          fr_identity = map_option alt_identity selected,
          fr_observed_at = (case selected of None \<Rightarrow> None | Some a \<Rightarrow> alt_observed_at a),
          fr_conflict = (length (distinct_values alternatives) > 1), fr_alternatives = alternatives,
          fr_context = Some Internal_Context, fr_unavailable = []\<rparr>)"

section \<open>The projection\<close>

record identity_projection =
  ip_facility_id :: string
  ip_fields :: "projection_field \<Rightarrow> field_result option"
  ip_internal :: field_result
  ip_ineligible_excluded :: bool

definition projection_field_of :: "identity_projection \<Rightarrow> projection_field \<Rightarrow> field_result result" where
  "projection_field_of p field =
     (if field = Canonical_Internal_Identity then Inr (ip_internal p)
      else case ip_fields p field of None \<Rightarrow> Inl (KeyError (field_value field)) | Some r \<Rightarrow> Inr r)"

definition validated_public_facility_id :: "('a pyenv_scheme) \<Rightarrow> pyval \<Rightarrow> string result" where
  "validated_public_facility_id env v =
     (let t = projection_text env v in
      if t = [] \<or> \<not> py_isdigit t then Inl (ValueError ''public_facility_id must contain digits only.'') else Inr t)"

definition matches_public_facility_id :: "('a pyenv_scheme) \<Rightarrow> string \<Rightarrow> projection_candidate \<Rightarrow> bool" where
  "matches_public_facility_id env facility_id c \<longleftrightarrow>
     projection_text env (case pc_values c Public_Facility_Id of None \<Rightarrow> PNone | Some v \<Rightarrow> v) = facility_id"

definition project_facility_identity ::
  "('a pyenv_scheme) \<Rightarrow> pyval \<Rightarrow> projection_candidate list \<Rightarrow> source_availability \<Rightarrow> bool \<Rightarrow> identity_projection result" where
  "project_facility_identity env public_id candidates availability excluded =
     ebind (validated_public_facility_id env public_id) (\<lambda>facility_id.
     (let eligible = filter (matches_public_facility_id env facility_id) candidates in
      Inr \<lparr>ip_facility_id = facility_id,
           ip_fields = (\<lambda>field. if field \<in> set PUBLIC_FACILITY_FIELDS
              then Some (project_field env field eligible availability) else None),
           ip_internal = project_internal_identity env eligible, ip_ineligible_excluded = excluded\<rparr>))"

section \<open>Names of the fields in the sources\<close>

fun REFERENCE_FIELD_ALIASES :: "projection_field \<Rightarrow> string list" where
  "REFERENCE_FIELD_ALIASES Facility_Name = [''Facility Name'', ''NAME'']"
| "REFERENCE_FIELD_ALIASES Public_Facility_Id = [''Facility Number'', ''FAC_NBR'']"
| "REFERENCE_FIELD_ALIASES Facility_Type = [''Facility Type'', ''FAC_TYPE_DESC'']"
| "REFERENCE_FIELD_ALIASES Facility_Status = [''Facility Status'', ''STATUS'']"
| "REFERENCE_FIELD_ALIASES Full_Address = [''Facility Address'', ''RES_STREET_ADDR'', ''ADDRESS'']"
| "REFERENCE_FIELD_ALIASES City_Field = [''Facility City'', ''RES_CITY'', ''CITY'']"
| "REFERENCE_FIELD_ALIASES State_Field = [''Facility State'', ''RES_STATE'', ''STATE'']"
| "REFERENCE_FIELD_ALIASES Zip_Field = [''Facility Zip'', ''RES_ZIP_CODE'', ''ZIP'']"
| "REFERENCE_FIELD_ALIASES County_Field = [''County Name'', ''COUNTY'']"
| "REFERENCE_FIELD_ALIASES Capacity_Field = [''Facility Capacity'', ''CAPACITY'']"
| "REFERENCE_FIELD_ALIASES Administrator_Field = [''Facility Administrator'', ''ADMINISTRATOR'']"
| "REFERENCE_FIELD_ALIASES Licensee_Field = [''Licensee'', ''LICENSEE'']"
| "REFERENCE_FIELD_ALIASES Telephone_Field = [''Facility Telephone Number'', ''FAC_PHONE_NBR'', ''PHONE'']"
| "REFERENCE_FIELD_ALIASES Regional_Office_Field = [''Regional Office'', ''FAC_DO_DESC'']"
| "REFERENCE_FIELD_ALIASES Closed_Date_Field = [''Closed Date'', ''CLOSED_DATE'']"
| "REFERENCE_FIELD_ALIASES Contact_Field = [''CONTACT'', ''Contact'']"
| "REFERENCE_FIELD_ALIASES Canonical_Internal_Identity = []"

fun REFERENCE_TYPED_COLUMNS :: "projection_field \<Rightarrow> string" where
  "REFERENCE_TYPED_COLUMNS Facility_Name = ''facility_name''"
| "REFERENCE_TYPED_COLUMNS Public_Facility_Id = ''facility_number''"
| "REFERENCE_TYPED_COLUMNS Facility_Type = ''facility_type''"
| "REFERENCE_TYPED_COLUMNS Facility_Status = ''status''"
| "REFERENCE_TYPED_COLUMNS Full_Address = ''address''"
| "REFERENCE_TYPED_COLUMNS City_Field = ''city''"
| "REFERENCE_TYPED_COLUMNS State_Field = ''state''"
| "REFERENCE_TYPED_COLUMNS Zip_Field = ''zip''"
| "REFERENCE_TYPED_COLUMNS County_Field = ''county''"
| "REFERENCE_TYPED_COLUMNS Capacity_Field = ''capacity''"
| "REFERENCE_TYPED_COLUMNS Administrator_Field = ''facility_administrator''"
| "REFERENCE_TYPED_COLUMNS Licensee_Field = ''licensee_name''"
| "REFERENCE_TYPED_COLUMNS Telephone_Field = ''telephone''"
| "REFERENCE_TYPED_COLUMNS Regional_Office_Field = ''regional_office''"
| "REFERENCE_TYPED_COLUMNS Closed_Date_Field = ''closed_date''"
| "REFERENCE_TYPED_COLUMNS Contact_Field = ''contact''"
| "REFERENCE_TYPED_COLUMNS Canonical_Internal_Identity = []"

fun CANONICAL_FIELD_ALIASES :: "projection_field \<Rightarrow> string list" where
  "CANONICAL_FIELD_ALIASES Facility_Name = [''facility_name'', ''name'']"
| "CANONICAL_FIELD_ALIASES Public_Facility_Id = [''external_facility_number'', ''facility_number'', ''license_number'']"
| "CANONICAL_FIELD_ALIASES Facility_Type = [''facility_type'', ''facility_type_description'', ''type'']"
| "CANONICAL_FIELD_ALIASES Facility_Status = [''status'', ''facility_status'']"
| "CANONICAL_FIELD_ALIASES Full_Address = [''full_address'', ''facility_address'', ''address'', ''res_street_addr'']"
| "CANONICAL_FIELD_ALIASES City_Field = [''city'', ''facility_city'']"
| "CANONICAL_FIELD_ALIASES State_Field = [''state'', ''facility_state'']"
| "CANONICAL_FIELD_ALIASES Zip_Field = [''zip'', ''zip_code'', ''facility_zip'']"
| "CANONICAL_FIELD_ALIASES County_Field = [''county'', ''county_name'']"
| "CANONICAL_FIELD_ALIASES Capacity_Field = [''capacity'', ''facility_capacity'']"
| "CANONICAL_FIELD_ALIASES Administrator_Field = [''facility_administrator'', ''administrator'']"
| "CANONICAL_FIELD_ALIASES Licensee_Field = [''licensee_name'', ''licensee'']"
| "CANONICAL_FIELD_ALIASES Telephone_Field = [''telephone'', ''facility_telephone_number'', ''phone'']"
| "CANONICAL_FIELD_ALIASES Regional_Office_Field = [''regional_office'', ''fac_do_desc'']"
| "CANONICAL_FIELD_ALIASES Closed_Date_Field = [''closed_date'']"
| "CANONICAL_FIELD_ALIASES Contact_Field = [''contact'']"
| "CANONICAL_FIELD_ALIASES Canonical_Internal_Identity = []"

section \<open>Candidates from a mapping of values\<close>

definition normalized_key :: "string \<Rightarrow> string" where
  "normalized_key s = filter (\<lambda>c. is_lower c \<or> is_digit c) (py_casefold s)"

text \<open>Keys that normalize alike: the last one of the mapping is found.\<close>

definition key_of_alias :: "pydict \<Rightarrow> string \<Rightarrow> string option" where
  "key_of_alias d alias = map_of (rev (map (\<lambda>k. (normalized_key k, k)) (map fst d))) (normalized_key alias)"

fun present_alias_value :: "pydict \<Rightarrow> string list \<Rightarrow> (string \<times> pyval) option" where
  "present_alias_value d [] = None"
| "present_alias_value d (alias # aliases) =
     (case key_of_alias d alias of
        Some k \<Rightarrow> Some (k, py_get d k)
      | None \<Rightarrow> present_alias_value d aliases)"

definition field_aliases :: "facility_source \<Rightarrow> projection_field \<Rightarrow> string list" where
  "field_aliases kind field =
     (if kind = Program_Reference then REFERENCE_TYPED_COLUMNS field # REFERENCE_FIELD_ALIASES field
      else CANONICAL_FIELD_ALIASES field)"

definition value_of_field :: "pydict \<Rightarrow> facility_source \<Rightarrow> projection_field \<Rightarrow> (string \<times> pyval) option" where
  "value_of_field d kind field =
     (if field \<in> set PUBLIC_FACILITY_FIELDS then present_alias_value d (field_aliases kind field) else None)"

definition optional_clean_text :: "string option \<Rightarrow> string option" where
  "optional_clean_text v =
     (case v of None \<Rightarrow> None | Some s \<Rightarrow> if clean_text s = [] then None else Some (clean_text s))"

definition facility_projection_candidate_from_values ::
  "pydict \<Rightarrow> facility_source \<Rightarrow> string \<Rightarrow> string \<Rightarrow> string option \<Rightarrow> string option \<Rightarrow> projection_candidate" where
  "facility_projection_candidate_from_values d kind row snapshot observed_at internal_identity =
     \<lparr>pc_kind = kind, pc_row = clean_text row, pc_snapshot = clean_text snapshot,
      pc_observed_at = optional_clean_text observed_at, pc_context = context_for_source_kind kind,
      pc_values = (\<lambda>field. map_option snd (value_of_field d kind field)),
      pc_present = (\<lambda>field. value_of_field d kind field \<noteq> None),
      pc_source_fields = (\<lambda>field. map_option fst (value_of_field d kind field)),
      pc_internal_identity = internal_identity, pc_states = (\<lambda>_. None), pc_raw_values = (\<lambda>_. None)\<rparr>"

end
