(* ===== verification/Facility_Selection.thy ===== *)
theory Facility_Selection imports Facility_Projection
begin

text \<open>
  What the selection of the projection computes: the governing observation, conflicts, states, and its independence of the order of the candidates.
\<close>

section \<open>Selection by precedence\<close>

definition precedence_rank :: "facility_source list \<Rightarrow> facility_source \<Rightarrow> nat" where
  "precedence_rank kinds k = length (takeWhile (\<lambda>x. x \<noteq> k) kinds)"

lemma precedence_rank_simps [simp]:
  "precedence_rank [] k = 0"
  "precedence_rank (x # kinds) k = (if x = k then 0 else Suc (precedence_rank kinds k))"
  by (simp_all add: precedence_rank_def)

abbreviation alt_kind :: "value_alternative \<Rightarrow> facility_source" where
  "alt_kind a \<equiv> id_kind (alt_identity a)"

lemma set_of_source [simp]: "set (of_source kind as) = {a \<in> set as. alt_kind a = kind}"
  by (simp add: of_source_def)

lemma of_source_Nil: "of_source kind as = [] \<longleftrightarrow> (\<forall>a \<in> set as. alt_kind a \<noteq> kind)"
  by (simp add: of_source_def filter_empty_conv)

lemma set_newest: "set (newest_alternatives as) = {a \<in> set as. \<forall>b \<in> set as. observation_time b \<le> observation_time a}"
  by (simp add: newest_alternatives_def)

lemma newest_nonempty: "as \<noteq> [] \<Longrightarrow> newest_alternatives as \<noteq> []"
proof -
  assume "as \<noteq> []"
  then have "Max (observation_time ` set as) \<in> observation_time ` set as" by simp
  then obtain a where "a \<in> set as" "observation_time a = Max (observation_time ` set as)" by force
  then have "a \<in> set (newest_alternatives as)" by (simp add: set_newest)
  then show ?thesis by fastforce
qed

lemma one_distinct_value:
  "length (distinct_values as) = 1 \<longleftrightarrow> as \<noteq> [] \<and> (\<forall>a \<in> set as. \<forall>b \<in> set as. alt_normalized a = alt_normalized b)"
proof -
  have "length (distinct_values as) = card (alt_normalized ` set as)"
    by (simp add: distinct_values_def length_remdups_card_conv)
  also have "\<dots> = 1 \<longleftrightarrow> as \<noteq> [] \<and> (\<forall>a \<in> set as. \<forall>b \<in> set as. alt_normalized a = alt_normalized b)"
  proof
    assume "card (alt_normalized ` set as) = 1"
    then obtain v where v: "alt_normalized ` set as = {v}" by (metis card_1_singletonE)
    then have "a \<in> set as \<Longrightarrow> alt_normalized a = v" for a by blast
    with v show "as \<noteq> [] \<and> (\<forall>a \<in> set as. \<forall>b \<in> set as. alt_normalized a = alt_normalized b)" by force
  next
    assume r: "as \<noteq> [] \<and> (\<forall>a \<in> set as. \<forall>b \<in> set as. alt_normalized a = alt_normalized b)"
    then have "hd as \<in> set as" by simp
    with r have "alt_normalized ` set as = {alt_normalized (hd as)}" by blast
    then show "card (alt_normalized ` set as) = 1" by simp
  qed
  finally show ?thesis .
qed

lemma several_distinct_values:
  "length (distinct_values as) > 1 \<longleftrightarrow> (\<exists>a \<in> set as. \<exists>b \<in> set as. alt_normalized a \<noteq> alt_normalized b)"
proof (cases "as = []")
  case False
  then have "length (distinct_values as) > 1 \<longleftrightarrow> length (distinct_values as) \<noteq> 1"
    by (cases "length (distinct_values as)") (auto simp: distinct_values_def)
  with False show ?thesis unfolding one_distinct_value by simp
qed (simp add: distinct_values_def)

text \<open>The first element of a stable sort: no key is smaller.\<close>

lemma hd_sort_key:
  assumes "xs \<noteq> []"
  shows "hd (sort_key f xs) \<in> set xs" "\<forall>x \<in> set xs. f (hd (sort_key f xs)) \<le> f x"
proof -
  from assms obtain y ys where s: "sort_key f xs = y # ys" by (metis list.exhaust set_sort set_empty)
  then have "set xs = insert y (set ys)" by (metis list.simps(15) set_sort)
  moreover have "\<forall>x \<in> set ys. f y \<le> f x" using sorted_sort_key [of f xs] by (simp add: s)
  ultimately show "hd (sort_key f xs) \<in> set xs" "\<forall>x \<in> set xs. f (hd (sort_key f xs)) \<le> f x" by (auto simp: s)
qed

text \<open>What the code selects: an alternative of the first source with a value, no older than the others of its
  source, and agreeing with those as new as it.\<close>

definition governs :: "facility_source list \<Rightarrow> value_alternative set \<Rightarrow> value_alternative \<Rightarrow> bool" where
  "governs kinds as a \<longleftrightarrow> a \<in> as \<and>
     (\<forall>b \<in> as. precedence_rank kinds (alt_kind a) \<le> precedence_rank kinds (alt_kind b) \<and>
        (alt_kind b = alt_kind a \<longrightarrow> observation_time b \<le> observation_time a \<and>
           (observation_time b = observation_time a \<longrightarrow> alt_normalized b = alt_normalized a)))"

lemma governs_skip:
  assumes "\<forall>b \<in> as. alt_kind b \<noteq> kind"
  shows "governs (kind # kinds) as a \<longleftrightarrow> governs kinds as a"
  using assms by (auto simp: governs_def)

lemma governs_first:
  assumes "a \<in> as" "alt_kind a = kind"
  shows "governs (kind # kinds) as a \<longleftrightarrow>
    (\<forall>b \<in> as. alt_kind b = kind \<longrightarrow> observation_time b \<le> observation_time a \<and>
       (observation_time b = observation_time a \<longrightarrow> alt_normalized b = alt_normalized a))"
  using assms by (simp add: governs_def)

lemma select_from_Some:
  assumes "select_from env as kinds = Some a"
  shows "governs kinds (set as) a \<and> (\<forall>b \<in> set as. alt_kind b = alt_kind a \<and> observation_time b = observation_time a
       \<longrightarrow> alternative_sort_key env a \<le> alternative_sort_key env b)"
  using assms
proof (induction kinds)
  case (Cons kind kinds)
  let ?newest = "newest_alternatives (of_source kind as)"
  show ?case
  proof (cases "of_source kind as = []")
    case True
    then have "\<forall>b \<in> set as. alt_kind b \<noteq> kind" by (simp add: of_source_Nil)
    with True Cons show ?thesis by (simp add: governs_skip)
  next
    case False
    then have one: "length (distinct_values ?newest) = 1" and a: "a = hd (sort_key (alternative_sort_key env) ?newest)"
      using Cons.prems by (simp_all add: Let_def split: if_splits)
    note m = hd_sort_key [OF newest_nonempty [OF False], of "alternative_sort_key env", folded a]
    from m(1) have n: "a \<in> set as" "alt_kind a = kind" "\<And>b. b \<in> set as \<Longrightarrow> alt_kind b = kind \<Longrightarrow> observation_time b \<le> observation_time a"
      by (simp_all add: set_newest)
    have new: "b \<in> set ?newest" if "b \<in> set as" "alt_kind b = kind" "observation_time b = observation_time a" for b
      using that n(3) by (simp add: set_newest)
    have agree: "alt_normalized b = alt_normalized a" if "b \<in> set ?newest" for b
      using one that m(1) unfolding one_distinct_value by blast
    have "governs (kind # kinds) (set as) a"
      unfolding governs_first [OF n(1,2)] using n(3) agree [OF new] by blast
    moreover have "alternative_sort_key env a \<le> alternative_sort_key env b"
      if "b \<in> set as" "alt_kind b = alt_kind a" "observation_time b = observation_time a" for b
    proof (rule bspec [OF m(2) new])
      show "alt_kind b = kind" using that(2) n(2) by (rule trans)
    qed (fact that)+
    ultimately show ?thesis by blast
  qed
qed simp

lemma select_from_None:
  assumes "select_from env as kinds = None" and "\<forall>b \<in> set as. alt_kind b \<in> set kinds"
  shows "\<not> governs kinds (set as) a"
  using assms
proof (induction kinds)
  case (Cons kind kinds)
  let ?newest = "newest_alternatives (of_source kind as)"
  show ?case
  proof (cases "of_source kind as = []")
    case True
    then have "\<forall>b \<in> set as. alt_kind b \<noteq> kind" by (simp add: of_source_Nil)
    with True Cons show ?thesis by (simp add: governs_skip)
  next
    case False
    then have "length (distinct_values ?newest) \<noteq> 1" using Cons.prems(1) by (simp add: Let_def split: if_splits)
    then obtain b c where "b \<in> set ?newest" "c \<in> set ?newest" and bc: "alt_normalized b \<noteq> alt_normalized c"
      using newest_nonempty [OF False] unfolding one_distinct_value by blast
    then have b: "b \<in> set as" "alt_kind b = kind" and c: "c \<in> set as" "alt_kind c = kind"
      and bc': "observation_time b \<le> observation_time c" "observation_time c \<le> observation_time b"
      and top: "\<And>d. d \<in> set as \<Longrightarrow> alt_kind d = kind \<Longrightarrow> observation_time d \<le> observation_time b"
      by (simp_all add: set_newest)
    show ?thesis
    proof
      assume g: "governs (kind # kinds) (set as) a"
      then have a: "a \<in> set as" and "precedence_rank (kind # kinds) (alt_kind a) \<le> precedence_rank (kind # kinds) (alt_kind b)"
        using b(1) by (simp_all add: governs_def)
      then have k: "alt_kind a = kind" using b(2) by (simp split: if_splits)
      from g have g: "d \<in> set as \<Longrightarrow> alt_kind d = kind \<Longrightarrow> observation_time d \<le> observation_time a \<and>
          (observation_time d = observation_time a \<longrightarrow> alt_normalized d = alt_normalized a)" for d
        unfolding governs_first [OF a k] by simp
      from g [OF b] g [OF c] top [OF a k] bc' have "alt_normalized b = alt_normalized c" by auto
      with bc show False by simp
    qed
  qed
qed (simp add: governs_def)

lemma governs_agree:
  assumes "governs kinds as a" "governs kinds as b" "\<forall>c \<in> as. alt_kind c \<in> set kinds"
  shows "alt_kind a = alt_kind b" "observation_time a = observation_time b" "alt_normalized a = alt_normalized b"
proof -
  have inj: "k \<in> set kinds \<Longrightarrow> precedence_rank kinds k = precedence_rank kinds k' \<Longrightarrow> k = k'" for k k'
    by (induction kinds) (auto split: if_splits)
  note a = assms(1) [unfolded governs_def] and b = assms(2) [unfolded governs_def]
  have "precedence_rank kinds (alt_kind a) = precedence_rank kinds (alt_kind b)"
    using bspec [OF conjunct2 [OF a] conjunct1 [OF b]] bspec [OF conjunct2 [OF b] conjunct1 [OF a]] by linarith
  then show k: "alt_kind a = alt_kind b" using assms(3) conjunct1 [OF a] by (blast intro: inj)
  show o: "observation_time a = observation_time b"
    using bspec [OF conjunct2 [OF a] conjunct1 [OF b]] bspec [OF conjunct2 [OF b] conjunct1 [OF a]] k by (simp add: antisym)
  show "alt_normalized a = alt_normalized b"
    using bspec [OF conjunct2 [OF a] conjunct1 [OF b]] k o by simp
qed

lemma kinds_known [simp]: "k \<in> set DEFAULT_FIELD_PRECEDENCE"
  by (cases k) (simp_all add: DEFAULT_FIELD_PRECEDENCE_def)

lemma select_alternative_governs:
  "select_alternative env as = Some a \<Longrightarrow> governs DEFAULT_FIELD_PRECEDENCE (set as) a"
  "select_alternative env as = None \<Longrightarrow> \<not> governs DEFAULT_FIELD_PRECEDENCE (set as) b"
  using select_from_Some [of env as DEFAULT_FIELD_PRECEDENCE a] select_from_None [of env as DEFAULT_FIELD_PRECEDENCE b]
  by (simp_all add: select_alternative_def)

section \<open>A projected field\<close>

definition field_observations ::
  "('a pyenv_scheme) \<Rightarrow> projection_field \<Rightarrow> projection_candidate list \<Rightarrow> value_alternative set" where
  "field_observations env field cs = {a. \<exists>c \<in> set cs. alternative_of env field c = Some a}"

definition populated_observations ::
  "('a pyenv_scheme) \<Rightarrow> projection_field \<Rightarrow> projection_candidate list \<Rightarrow> value_alternative set" where
  "populated_observations env field cs = {a \<in> field_observations env field cs. is_populated a}"

lemma set_field_alternatives [simp]: "set (field_alternatives env field cs) = field_observations env field cs"
  by (auto simp: field_alternatives_def field_observations_def List.map_filter_def)
    (metis (mono_tags, lifting) imageI mem_Collect_eq option.sel option.simps(3))

lemma set_populated [simp]: "set (filter is_populated (field_alternatives env field cs)) = populated_observations env field cs"
  by (simp add: populated_observations_def)

lemma project_field_conflict:
  "fr_conflict (project_field env field cs av) \<longleftrightarrow>
     (\<exists>a \<in> populated_observations env field cs. \<exists>b \<in> populated_observations env field cs. alt_normalized a \<noteq> alt_normalized b)"
  unfolding project_field_def Let_def field_result.select_convs several_distinct_values set_populated ..

definition selected_of :: "('a pyenv_scheme) \<Rightarrow> projection_field \<Rightarrow> projection_candidate list \<Rightarrow> value_alternative option" where
  "selected_of env field cs = select_alternative env (filter is_populated (field_alternatives env field cs))"

lemma project_field_selected:
  "fr_display (project_field env field cs av) = (case selected_of env field cs of None \<Rightarrow> PNone | Some a \<Rightarrow> selected_display_value field a)"
  "fr_normalized (project_field env field cs av) = (case selected_of env field cs of None \<Rightarrow> PNone | Some a \<Rightarrow> alt_normalized a)"
  "fr_identity (project_field env field cs av) = map_option alt_identity (selected_of env field cs)"
  "fr_alternatives (project_field env field cs av) = field_alternatives env field cs"
  "fr_unavailable (project_field env field cs av) = unavailable_sources av"
  "fr_state (project_field env field cs av) = field_state (field_alternatives env field cs)
     (fr_conflict (project_field env field cs av)) (selected_of env field cs) (unavailable_sources av)"
  by (simp_all add: project_field_def Let_def selected_of_def)

lemma selected_of_governs:
  "selected_of env field cs = Some a \<Longrightarrow> governs DEFAULT_FIELD_PRECEDENCE (populated_observations env field cs) a"
  "selected_of env field cs = None \<Longrightarrow> \<not> governs DEFAULT_FIELD_PRECEDENCE (populated_observations env field cs) b"
  using select_alternative_governs [of env "filter is_populated (field_alternatives env field cs)"]
  unfolding selected_of_def set_populated by blast+

text \<open>Values that agree are decided: then the selection only fails when there is none.\<close>

lemma agreeing_values_govern:
  assumes "as \<noteq> {}" "finite as" "\<forall>a \<in> as. \<forall>b \<in> as. alt_normalized a = alt_normalized b"
  shows "\<exists>a. governs kinds as a"
proof -
  let ?r = "\<lambda>a. precedence_rank kinds (alt_kind a)"
  define best where "best = {a \<in> as. ?r a = Min (?r ` as)}"
  have "Min (?r ` as) \<in> ?r ` as" using assms by simp
  then have "best \<noteq> {}" by (auto simp: best_def)
  then have "Max (observation_time ` best) \<in> observation_time ` best" using assms(2) by (simp add: best_def)
  then obtain a where a: "a \<in> best" "observation_time a = Max (observation_time ` best)" by (metis imageE)
  have fin: "finite (observation_time ` best)" using assms(2) by (simp add: best_def)
  have "?r a \<le> ?r b" if "b \<in> as" for b using a(1) that assms(2) by (simp add: best_def)
  moreover have "observation_time b \<le> observation_time a" if "b \<in> as" "alt_kind b = alt_kind a" for b
  proof -
    have "b \<in> best" using a(1) that by (simp add: best_def)
    then show ?thesis unfolding a(2) using fin by (intro Max_ge imageI)
  qed
  moreover have "a \<in> as" using a(1) by (simp add: best_def)
  ultimately have "governs kinds as a" using assms(3) unfolding governs_def by blast
  then show ?thesis ..
qed

lemma finite_populated [simp]: "finite (populated_observations env field cs)"
  by (metis List.finite_set set_populated)

lemma project_field_states:
  "fr_state (project_field env field cs av) = Conflicting \<longleftrightarrow> fr_conflict (project_field env field cs av)"
  "fr_state (project_field env field cs av) = Absent_Value \<Longrightarrow>
     populated_observations env field cs = {} \<and> unavailable_sources av = []"
proof -
  let ?r = "project_field env field cs av"
  show "fr_state ?r = Conflicting \<longleftrightarrow> fr_conflict ?r"
    by (simp add: project_field_selected field_state_def split: option.split)
  assume s: "fr_state ?r = Absent_Value"
  then have c: "\<not> fr_conflict ?r" and n: "selected_of env field cs = None" "unavailable_sources av = []"
    by (simp_all add: project_field_selected(6) field_state_def split: if_splits option.splits)
  from c have "\<forall>a \<in> populated_observations env field cs. \<forall>b \<in> populated_observations env field cs. alt_normalized a = alt_normalized b"
    unfolding project_field_conflict by blast
  with agreeing_values_govern [of "populated_observations env field cs" DEFAULT_FIELD_PRECEDENCE] selected_of_governs(2) [OF n(1)] n(2)
  show "populated_observations env field cs = {} \<and> unavailable_sources av = []" by fastforce
qed

section \<open>The order of the candidates\<close>

lemma field_alternatives_keys:
  assumes "mset cs = mset cs'"
  shows "map (alternative_sort_key env) (field_alternatives env field cs) = map (alternative_sort_key env) (field_alternatives env field cs')"
    (is "?l = ?r")
proof -
  have sorted: "map (alternative_sort_key env) (field_alternatives env field ds)
      = sort (map (alternative_sort_key env) (List.map_filter (alternative_of env field) ds))" for ds
  proof -
    have "sorted (map (alternative_sort_key env) (field_alternatives env field ds))" by (simp add: field_alternatives_def)
    then show ?thesis
      by (intro properties_for_sort [symmetric]) (simp_all only: field_alternatives_def mset_map mset_sort)
  qed
  have "mset (List.map_filter (alternative_of env field) cs) = mset (List.map_filter (alternative_of env field) cs')"
    using assms by (simp add: List.map_filter_def mset_map mset_filter)
  then show ?thesis unfolding sorted
    by (intro properties_for_sort) (simp_all add: mset_map)
qed

lemma observations_cong:
  assumes "mset cs = mset cs'"
  shows "field_observations env field cs = field_observations env field cs'"
    "populated_observations env field cs = populated_observations env field cs'"
proof -
  show "field_observations env field cs = field_observations env field cs'"
    using mset_eq_setD [OF assms] by (simp add: field_observations_def)
  then show "populated_observations env field cs = populated_observations env field cs'"
    by (simp add: populated_observations_def)
qed

definition identity_key :: "source_identity \<Rightarrow> facility_source \<times> string \<times> string" where
  "identity_key i = (id_kind i, id_snapshot i, id_row i)"

lemma selected_of_least:
  assumes "selected_of env field cs = Some a" "b \<in> populated_observations env field cs"
    "alt_kind b = alt_kind a" "observation_time b = observation_time a"
  shows "alternative_sort_key env a \<le> alternative_sort_key env b"
  using select_from_Some [of env "filter is_populated (field_alternatives env field cs)" DEFAULT_FIELD_PRECEDENCE a] assms
  unfolding set_populated selected_of_def select_alternative_def by blast

lemma source_value_inject: "source_value a = source_value b \<Longrightarrow> a = b"
  by (cases a; cases b) simp_all

lemma selected_of_cong:
  assumes "mset cs = mset cs'"
  shows "map_option (\<lambda>a. (alternative_sort_key env a, alt_normalized a)) (selected_of env field cs) =
    map_option (\<lambda>a. (alternative_sort_key env a, alt_normalized a)) (selected_of env field cs')"
proof (cases "selected_of env field cs")
  case None
  with selected_of_governs [of env field] observations_cong(2) [OF assms, of env field] show ?thesis
    by (cases "selected_of env field cs'") (simp, metis)
next
  case (Some a)
  note ga = selected_of_governs(1) [OF Some]
  with selected_of_governs(2) [of env field cs'] observations_cong(2) [OF assms, of env field] obtain b where
    b: "selected_of env field cs' = Some b" by fastforce
  note gb = selected_of_governs(1) [OF b, folded observations_cong(2) [OF assms(1)]]
  note agree = governs_agree [OF ga gb ballI [OF kinds_known]]
  from ga gb have mem: "a \<in> populated_observations env field cs" "b \<in> populated_observations env field cs"
    by (simp_all add: governs_def)
  have "alternative_sort_key env a \<le> alternative_sort_key env b"
    using selected_of_least [OF Some mem(2)] agree by simp
  moreover have "alternative_sort_key env b \<le> alternative_sort_key env a"
    using selected_of_least [OF b, folded observations_cong(2) [OF assms(1)], OF mem(1)] agree by simp
  ultimately show ?thesis using Some b agree(3) by simp
qed

lemma char_lower_digit: "is_digit (char_lower c) = is_digit c"
proof (cases "is_upper c")
  case True
  then have "65 \<le> (of_char c :: nat)" "(of_char c :: nat) \<le> 90" by (simp_all add: is_upper_def Let_def)
  then have "\<not> is_digit (char_of (of_char c + 32 :: nat))" "\<not> is_digit c" by (simp_all add: is_digit_def Let_def)
  then show ?thesis using True by (simp add: char_lower_def)
qed (simp add: char_lower_def)

lemma casefold_isdigit: "list_all is_digit (py_casefold s) = list_all is_digit s"
  by (induction s) (simp_all add: py_casefold_def char_lower_digit)

lemma field_state_cong:
  assumes "has_state as = has_state as'"
    and "map_option (\<lambda>a. alt_state a = Unresolved_Raw_Code) s = map_option (\<lambda>a. alt_state a = Unresolved_Raw_Code) s'"
  shows "field_state as c s u = field_state as' c s' u"
  using assms(2) by (cases s; cases s') (simp_all add: field_state_def assms(1))

lemma py_casefold_Nil: "py_casefold s = [] \<longleftrightarrow> s = []"
  by (simp add: py_casefold_def)

lemma unresolved_value:
  "normalize_value env field v = (n, s) \<Longrightarrow> n \<noteq> PNone \<Longrightarrow>
     s = Unresolved_Raw_Code \<longleftrightarrow> field \<in> {Facility_Type, Facility_Status} \<and> (\<exists>t. n = PStr t \<and> py_isdigit t)"
  by (auto simp: normalize_value_def normalize_capacity_def Let_def py_isdigit_def casefold_isdigit py_casefold_Nil split: if_splits pyval.splits)

lemma unresolved_observation:
  assumes "a \<in> populated_observations env field cs" "\<forall>c \<in> set cs. pc_states c field \<noteq> Some Unresolved_Raw_Code"
  shows "alt_state a = Unresolved_Raw_Code \<longleftrightarrow>
    field \<in> {Facility_Type, Facility_Status} \<and> (\<exists>t. alt_normalized a = PStr t \<and> py_isdigit t)"
proof -
  from assms(1) obtain c where c: "c \<in> set cs" "alternative_of env field c = Some a" "alt_normalized a \<noteq> PNone"
    by (auto simp: populated_observations_def field_observations_def is_populated_def)
  from c(1) assms(2) have s: "pc_states c field \<noteq> Some Unresolved_Raw_Code" by blast
  obtain v where "normalize_value env field v = (alt_normalized a, alt_state a)"
    using c(2,3) s
    by (auto simp: alternative_of_def Let_def split: if_splits option.splits value_state.splits prod.splits)
  from unresolved_value [OF this c(3)] show ?thesis .
qed

lemma project_field_cong:
  assumes "mset cs = mset cs'" and "\<forall>c \<in> set cs. pc_states c field \<noteq> Some Unresolved_Raw_Code"
  shows "fr_state (project_field env field cs av) = fr_state (project_field env field cs' av)"
    "fr_conflict (project_field env field cs av) = fr_conflict (project_field env field cs' av)"
    "fr_normalized (project_field env field cs av) = fr_normalized (project_field env field cs' av)"
    "map_option identity_key (fr_identity (project_field env field cs av)) = map_option identity_key (fr_identity (project_field env field cs' av))"
proof -
  show c: "fr_conflict (project_field env field cs av) = fr_conflict (project_field env field cs' av)"
    unfolding project_field_conflict observations_cong(2) [OF assms(1)] ..
  note sel = selected_of_cong [OF assms(1), of env field]
  show "fr_normalized (project_field env field cs av) = fr_normalized (project_field env field cs' av)"
    using sel by (cases "selected_of env field cs"; cases "selected_of env field cs'") (simp_all add: project_field_selected)
  show "map_option identity_key (fr_identity (project_field env field cs av)) = map_option identity_key (fr_identity (project_field env field cs' av))"
    using sel by (cases "selected_of env field cs"; cases "selected_of env field cs'")
      (auto simp: project_field_selected identity_key_def alternative_sort_key_def dest: source_value_inject)
  have has: "has_state (field_alternatives env field cs) = has_state (field_alternatives env field cs')"
    unfolding has_state_def list_ex_iff set_field_alternatives observations_cong(1) [OF assms(1)] ..
  have st: "(alt_state a = Unresolved_Raw_Code) = (alt_state b = Unresolved_Raw_Code)"
    if "selected_of env field cs = Some a" "selected_of env field cs' = Some b" for a b
  proof -
    from that sel have eq: "alt_normalized a = alt_normalized b" by simp
    have m: "a \<in> populated_observations env field cs" "b \<in> populated_observations env field cs"
      using selected_of_governs(1) [OF that(1)] selected_of_governs(1) [OF that(2), folded observations_cong(2) [OF assms(1)]]
      by (simp_all add: governs_def)
    show ?thesis unfolding unresolved_observation [OF m(1) assms(2)] unresolved_observation [OF m(2) assms(2)] eq ..
  qed
  have raw: "map_option (\<lambda>a. alt_state a = Unresolved_Raw_Code) (selected_of env field cs) =
     map_option (\<lambda>a. alt_state a = Unresolved_Raw_Code) (selected_of env field cs')"
  proof (cases "selected_of env field cs")
    case None
    with sel show ?thesis by simp
  next
    case (Some a)
    with sel obtain b where b: "selected_of env field cs' = Some b" by (cases "selected_of env field cs'") auto
    show ?thesis unfolding Some b option.map st [OF Some b] ..
  qed
  show "fr_state (project_field env field cs av) = fr_state (project_field env field cs' av)"
    unfolding project_field_selected(6) c by (rule field_state_cong [OF has raw])
qed

end
