(* ===== verification/Facility_Properties.thy ===== *)
theory Facility_Properties imports Facility_Selection
begin

text \<open>
  The properties of the facility identity projection.
\<close>

section \<open>Properties\<close>

text \<open>The candidates of a facility: those whose public number is the requested one.\<close>

definition facility_candidates :: "('a pyenv_scheme) \<Rightarrow> pyval \<Rightarrow> projection_candidate list \<Rightarrow> projection_candidate list" where
  "facility_candidates env public_id cs = filter (matches_public_facility_id env (projection_text env public_id)) cs"

lemma project_facility_identity_Inr:
  assumes "project_facility_identity env public_id cs av excluded = Inr p" "field \<in> set PUBLIC_FACILITY_FIELDS"
  shows "projection_field_of p field = Inr (project_field env field (facility_candidates env public_id cs) av)"
proof -
  have "field \<noteq> Canonical_Internal_Identity" using assms(2) by (auto simp: PUBLIC_FACILITY_FIELDS_def)
  with assms show ?thesis
    by (auto simp: project_facility_identity_def validated_public_facility_id_def Let_def projection_field_of_def
        facility_candidates_def ebind_eq_Inr split: if_splits)
qed



section \<open>An example\<close>

definition example_pyenv :: pyenv where
  "example_pyenv = \<lparr>json_loads = (\<lambda>_. None), sha256_hex = (\<lambda>_. []), float_repr = (\<lambda>_. []), read_bytes = (\<lambda>_. None),
     resolve_path = (\<lambda>p. p), iso_datetime_year = (\<lambda>_. None)\<rparr>"

definition example_candidates :: "projection_candidate list" where
  "example_candidates =
     [facility_projection_candidate_from_values [(''facility_number'', PStr ''157806098''), (''status'', PStr ''Closed'')]
        Program_Reference ''row'' ''snapshot'' (Some ''2026-01-01'') None,
      facility_projection_candidate_from_values [(''external_facility_number'', PStr ''157806098''), (''status'', PStr ''LICENSED'')]
        Complaint_Linked_Facility ''complaint'' ''batch'' None None]"

definition everything_available :: source_availability where
  "everything_available = \<lparr>av_transparency = True, av_arcgis = True, av_reference = True, av_complaints = True\<rparr>"

lemma example_projection:
  "\<exists>p. project_facility_identity example_pyenv (PStr ''157806098'') example_candidates everything_available False = Inr p"
proof -
  have "validated_public_facility_id example_pyenv (PStr ''157806098'') = Inr ''157806098''" by code_simp
  then show ?thesis by (simp add: project_facility_identity_def Let_def)
qed

lemma example_status:
  "fr_normalized (project_field example_pyenv Facility_Status
     (facility_candidates example_pyenv (PStr ''157806098'') example_candidates) everything_available) = PStr ''closed''"
  by code_simp



end
