(* ===== verification/Report_Pages.thy ===== *)
theory Report_Pages imports Report_Text Cloudflare_Access
begin

text \<open>
  The pages of the public site as the report connector reads them (\<open>connectors/ccld/facility_reports.py\<close>): text lines, table cells, report links, addresses and the discovery of report candidates.
\<close>

section \<open>Pages as events\<close>

text \<open>What \<open>html.parser.HTMLParser\<close> calls its handlers with when it is fed a page; tags and attribute names
  come in lower case. The parser itself is a field of the environment, as is the JSON parser.\<close>

datatype html_event =
    Start_Tag string "(string \<times> string option) list"
  | End_Tag string
  | Text_Data string

record report_env = web_env +
  html_events :: "string \<Rightarrow> html_event list"
  schema_check :: "string \<Rightarrow> pyval \<Rightarrow> unit result"
  repository_root :: "string list"

definition data_lines :: "html_event \<Rightarrow> string list" where
  "data_lines e =
     (case e of Text_Data d \<Rightarrow> filter (\<lambda>l. l \<noteq> []) (map clean_text (py_splitlines d)) | _ \<Rightarrow> [])"

definition html_lines :: "('e report_env_scheme) \<Rightarrow> string \<Rightarrow> string list" where
  "html_lines env html = concat (map data_lines (html_events env html))"

text \<open>Cells of tables: the cells so far, the depth of open cells and the parts of the current one.\<close>

record cell_parser =
  parsed_cells :: "string list"
  cell_depth :: nat
  cell_parts :: "string list"

definition cell_event :: "cell_parser \<Rightarrow> html_event \<Rightarrow> cell_parser" where
  "cell_event p e =
     (case e of
        Start_Tag tag _ \<Rightarrow>
          if py_casefold tag \<noteq> ''td'' then p
          else p\<lparr>cell_depth := cell_depth p + 1, cell_parts := (if cell_depth p = 0 then [] else cell_parts p)\<rparr>
      | Text_Data d \<Rightarrow> if cell_depth p > 0 then p\<lparr>cell_parts := cell_parts p @ [d]\<rparr> else p
      | End_Tag tag \<Rightarrow>
          if py_casefold tag \<noteq> ''td'' \<or> cell_depth p = 0 then p
          else if cell_depth p = 1
          then p\<lparr>parsed_cells := parsed_cells p @ [clean_text (py_join '' '' (cell_parts p))], cell_depth := 0,
                 cell_parts := []\<rparr>
          else p\<lparr>cell_depth := cell_depth p - 1\<rparr>)"

definition html_table_cells :: "('e report_env_scheme) \<Rightarrow> string \<Rightarrow> string list" where
  "html_table_cells env html =
     parsed_cells (foldl cell_event \<lparr>parsed_cells = [], cell_depth = 0, cell_parts = []\<rparr> (html_events env html))"

section \<open>Report addresses\<close>

definition REPORTS_BASE_URL :: string where
  "REPORTS_BASE_URL = ''https://www.ccld.dss.ca.gov/transparencyapi/api/FacilityReports''"

definition FACILITY_DETAIL_URL :: string where
  "FACILITY_DETAIL_URL = ''https://www.ccld.dss.ca.gov/carefacilitysearch/FacDetail''"

definition SOURCE_ID :: string where "SOURCE_ID = ''ccld''"

definition LIVE_REQUEST_TIMEOUT_SECONDS :: int where "LIVE_REQUEST_TIMEOUT_SECONDS = 30"

definition report_index_from_url :: "string \<Rightarrow> string \<Rightarrow> nat option result" where
  "report_index_from_url source_url facility_number =
     ebind (urlsplit source_url) (\<lambda>parsed.
     Inr (if url_scheme parsed \<noteq> ''https'' then None
          else if py_casefold (url_netloc parsed) \<noteq> ''www.ccld.dss.ca.gov'' then None
          else if urlparse_path (url_path parsed) \<noteq> ''/transparencyapi/api/FacilityReports'' then None
          else if first_query_value (url_query parsed) ''facNum'' \<noteq> Some facility_number then None
          else case first_query_value (url_query parsed) ''inx'' of
              None \<Rightarrow> None
            | Some i \<Rightarrow> if py_isdigit i then Some (digits_value i) else None))"

definition report_source_url :: "string \<Rightarrow> nat \<Rightarrow> string" where
  "report_source_url facility_number report_index =
     REPORTS_BASE_URL @ ''?'' @ urlencode [(''facNum'', facility_number), (''inx'', show_nat report_index)]"

text \<open>The report index an address names; a value that is not a number raises.\<close>

definition source_url_index :: "string \<Rightarrow> int option result" where
  "source_url_index source_url =
     ebind (urlsplit source_url) (\<lambda>parsed.
     (case first_query_value (url_query parsed) ''inx'' of
        None \<Rightarrow> Inr None
      | Some t \<Rightarrow> (case py_int t of
            None \<Rightarrow> Inl (ValueError ''invalid literal for int() with base 10'')
          | Some i \<Rightarrow> Inr (Some i))))"

section \<open>Sections of the report list\<close>

definition normalized_report_section :: "string option \<Rightarrow> string option" where
  "normalized_report_section v =
     (case v of
        None \<Rightarrow> None
      | Some s \<Rightarrow>
          (let n = strip_chars (\<lambda>c. c = CHR ''_'') (underscored False (py_casefold (py_strip s))) in
           if n \<in> {''all_visit'', ''all_visits''} then Some ''all_visits''
           else if n \<in> {''complaint'', ''complaints''} then Some ''complaints''
           else if n = [] then None else Some n))"

definition report_section_from_heading :: "string \<Rightarrow> string option" where
  "report_section_from_heading v =
     (let n = normalized_report_section (Some v) in
      if n = Some ''all_visits'' \<or> n = Some ''complaints'' then n else None)"

definition report_section_from_report_type :: "string option \<Rightarrow> string option" where
  "report_section_from_report_type v =
     (let n = normalized_report_section v in
      if n \<in> {Some ''complaint'', Some ''complaints''} then Some ''complaints''
      else if n \<in> {Some ''visit'', Some ''visits'', Some ''all_visit'', Some ''all_visits''} then Some ''all_visits''
      else n)"

section \<open>Report links of a facility page\<close>

record report_link =
  link_index :: nat
  link_url :: string
  link_text :: string
  link_section :: "string option"

record link_parser =
  report_links :: "report_link list"
  active_report :: "(nat \<times> string \<times> string option) option"
  active_text :: string
  active_heading :: "string option"
  heading_text :: string
  current_section :: "string option"

definition HEADING_TAGS :: "string list" where
  "HEADING_TAGS = [''h1'', ''h2'', ''h3'', ''h4'', ''h5'', ''h6'']"

text \<open>\<open>dict(attrs).get("href")\<close>: the last attribute of the name counts.\<close>

definition href_of :: "(string \<times> string option) list \<Rightarrow> string option" where
  "href_of attrs = (case map_of (rev attrs) ''href'' of None \<Rightarrow> None | Some v \<Rightarrow> v)"

definition link_start :: "string \<Rightarrow> link_parser \<Rightarrow> string \<Rightarrow> (string \<times> string option) list \<Rightarrow> link_parser result" where
  "link_start number p tag attrs =
     (if py_casefold tag \<in> set HEADING_TAGS
      then Inr (p\<lparr>active_heading := Some (py_casefold tag), heading_text := []\<rparr>)
      else if py_casefold tag \<noteq> ''a'' then Inr p
      else case href_of attrs of
          None \<Rightarrow> Inr p
        | Some href \<Rightarrow>
            ebind (report_index_from_url href number) (\<lambda>index.
            Inr (case index of
                   None \<Rightarrow> p
                 | Some i \<Rightarrow> p\<lparr>active_report := Some (i, report_source_url number i, current_section p),
                     active_text := []\<rparr>)))"

definition link_data :: "link_parser \<Rightarrow> string \<Rightarrow> link_parser" where
  "link_data p d =
     p\<lparr>heading_text := (if active_heading p \<noteq> None then heading_text p @ d else heading_text p),
       active_text := (if active_report p \<noteq> None then active_text p @ d else active_text p)\<rparr>"

definition link_end :: "link_parser \<Rightarrow> string \<Rightarrow> link_parser" where
  "link_end p tag =
     (if Some (py_casefold tag) = active_heading p
      then p\<lparr>current_section := report_section_from_heading (heading_text p), active_heading := None, heading_text := []\<rparr>
      else if py_casefold tag \<noteq> ''a'' then p
      else case active_report p of
          None \<Rightarrow> p
        | Some (i, url, section) \<Rightarrow>
            p\<lparr>report_links := report_links p @
                [\<lparr>link_index = i, link_url = url, link_text = clean_text (active_text p), link_section = section\<rparr>],
              active_report := None, active_text := []\<rparr>)"

definition link_event :: "string \<Rightarrow> link_parser \<Rightarrow> html_event \<Rightarrow> link_parser result" where
  "link_event number p e =
     (case e of
        Start_Tag tag attrs \<Rightarrow> link_start number p tag attrs
      | Text_Data d \<Rightarrow> Inr (link_data p d)
      | End_Tag tag \<Rightarrow> Inr (link_end p tag))"

definition facility_report_links :: "('e report_env_scheme) \<Rightarrow> string \<Rightarrow> string \<Rightarrow> report_link list result" where
  "facility_report_links env html number =
     ebind (foldM_err (link_event number)
         \<lparr>report_links = [], active_report = None, active_text = [], active_heading = None, heading_text = [],
          current_section = None\<rparr> (html_events env html)) (\<lambda>p.
     Inr (report_links p))"

section \<open>Dates\<close>

definition is_value_error :: "py_error \<Rightarrow> bool" where
  "is_value_error e =
     (case e of ValueError _ \<Rightarrow> True | LifecycleError _ \<Rightarrow> True | ConnectorError _ \<Rightarrow> True | AuthConfigError _ \<Rightarrow> True
      | CloudflareAuthError _ _ \<Rightarrow> True | ReferenceError _ \<Rightarrow> True | _ \<Rightarrow> False)"

definition parse_source_date :: "('e web_env_scheme) \<Rightarrow> string option \<Rightarrow> date option result" where
  "parse_source_date env v =
     (case v of
        None \<Rightarrow> Inr None
      | Some s \<Rightarrow>
          if py_strip s = [] then Inr None else ebind (dateutil_parse env (py_strip s)) (\<lambda>d. Inr (Some d)))"

definition date_days_between :: "date option \<Rightarrow> date option \<Rightarrow> int option" where
  "date_days_between start end =
     (case (start, end) of (Some s, Some e) \<Rightarrow> Some (toordinal e - toordinal s) | _ \<Rightarrow> None)"

definition iso_date :: "('e web_env_scheme) \<Rightarrow> string option \<Rightarrow> string option result" where
  "iso_date env v =
     (case parse_source_date env v of
        Inr d \<Rightarrow> Inr (map_option isoformat d)
      | Inl e \<Rightarrow> if is_value_error e \<or> (case e of OverflowError _ \<Rightarrow> True | _ \<Rightarrow> False) then Inr None else Inl e)"

section \<open>Candidates\<close>

record report_candidate =
  cand_source_name :: string
  cand_facility_number :: string
  cand_report_index :: nat
  cand_source_url :: string
  cand_report_date :: "string option"
  cand_discovered_at :: "string option"
  cand_section :: "string option"

definition mk_candidate ::
  "string \<Rightarrow> nat \<Rightarrow> string \<Rightarrow> string option \<Rightarrow> string option \<Rightarrow> string option \<Rightarrow> report_candidate" where
  "mk_candidate number index url report_date discovered_at section =
     \<lparr>cand_source_name = SOURCE_ID, cand_facility_number = number, cand_report_index = index, cand_source_url = url,
      cand_report_date = report_date, cand_discovered_at = discovered_at, cand_section = section\<rparr>"

text \<open>The links of the wanted section, without those whose index or address was seen.\<close>

fun link_candidates ::
  "('e report_env_scheme) \<Rightarrow> string \<Rightarrow> string option \<Rightarrow> string option \<Rightarrow> nat list \<Rightarrow> string list
     \<Rightarrow> report_link list \<Rightarrow> report_candidate list result" where
  "link_candidates env number found_at wanted indexes urls [] = Inr []"
| "link_candidates env number found_at wanted indexes urls (l # ls) =
     (if (wanted \<noteq> None \<and> link_section l \<noteq> wanted) \<or> link_index l \<in> set indexes \<or> link_url l \<in> set urls
      then link_candidates env number found_at wanted indexes urls ls
      else ebind (iso_date env (Some (link_text l))) (\<lambda>report_date.
           ebind (link_candidates env number found_at wanted (link_index l # indexes) (link_url l # urls) ls) (\<lambda>cs.
           Inr (mk_candidate number (link_index l) (link_url l) report_date found_at (link_section l) # cs))))"

definition discover_facility_report_candidates ::
  "('e report_env_scheme) \<Rightarrow> string \<Rightarrow> string \<Rightarrow> string option \<Rightarrow> string option \<Rightarrow> report_candidate list result" where
  "discover_facility_report_candidates env html number discovered_at section =
     ebind (facility_report_links env html number) (\<lambda>links.
     link_candidates env number discovered_at (normalized_report_section section) [] [] links)"

text \<open>A field the code uses as a text or None: the methods of \<open>str\<close> are missing from anything else.\<close>

definition py_type_name :: "pyval \<Rightarrow> string" where
  "py_type_name v =
     (case v of PNone \<Rightarrow> ''NoneType'' | PBool _ \<Rightarrow> ''bool'' | PInt _ \<Rightarrow> ''int'' | PFloat _ \<Rightarrow> ''float'' | PStr _ \<Rightarrow> ''str''
      | PList _ \<Rightarrow> ''list'' | PDict _ \<Rightarrow> ''dict'')"

definition text_attribute :: "pyval \<Rightarrow> string option result" where
  "text_attribute v =
     (case v of PNone \<Rightarrow> Inr None | PStr s \<Rightarrow> Inr (Some s) 
      | _ \<Rightarrow> Inl (AttributeError (repr_str (py_type_name v) @ '' object has no attribute '' @ repr_str ''strip'')))"

fun list_candidates ::
  "('e report_env_scheme) \<Rightarrow> string \<Rightarrow> string option \<Rightarrow> string option \<Rightarrow> nat \<Rightarrow> pyval list \<Rightarrow> report_candidate list result" where
  "list_candidates env number found_at wanted i [] = Inr []"
| "list_candidates env number found_at wanted i (PDict report # rs) =
     (if \<not> py_eq (py_get report ''FACILITYNUMBER'') (PStr number)
      then list_candidates env number found_at wanted (i + 1) rs
      else ebind (text_attribute (py_get report ''REPORTTYPE'')) (\<lambda>report_type.
           (let section = report_section_from_report_type report_type in
            if wanted \<noteq> None \<and> section \<noteq> wanted then list_candidates env number found_at wanted (i + 1) rs
            else ebind (text_attribute (py_get report ''REPORTDATE'')) (\<lambda>date_text.
                 ebind (iso_date env date_text) (\<lambda>report_date.
                 ebind (list_candidates env number found_at wanted (i + 1) rs) (\<lambda>cs.
                 Inr (mk_candidate number i (report_source_url number i) report_date found_at section # cs)))))))"
| "list_candidates env number found_at wanted i (_ # rs) = list_candidates env number found_at wanted (i + 1) rs"

definition candidates_from_report_list_json ::
  "('e report_env_scheme) \<Rightarrow> string \<Rightarrow> string \<Rightarrow> string option \<Rightarrow> string option \<Rightarrow> report_candidate list result" where
  "candidates_from_report_list_json env content number discovered_at section =
     ebind (guard (utf8_valid content) (ValueError ''UnicodeDecodeError'')) (\<lambda>_.
     (case json_loads env content of
        None \<Rightarrow> Inl (ValueError ''JSONDecodeError'')
      | Some PNone \<Rightarrow> Inr []
      | Some (PDict d) \<Rightarrow>
          (case py_get d ''REPORTARRAY'' of
             PNone \<Rightarrow> Inr []
           | PList reports \<Rightarrow>
               list_candidates env number discovered_at (normalized_report_section section) 0 reports
           | v \<Rightarrow> Inl (ValueError (''Discovery response REPORTARRAY has unexpected type: '' @ py_type_name v)))
      | Some v \<Rightarrow> Inl (ValueError (''Discovery response has unexpected structure: ''
          @ ''expected JSON object or null, got '' @ py_type_name v))))"

section \<open>Lemmas\<close>

lemma py_isdigit_digits_value: "digits_value (show_nat n) = n" "py_isdigit (show_nat n)"
  by simp_all

lemma quote_plus_digits [simp]: "list_all is_digit s \<Longrightarrow> quote_plus s = s"
  by (induction s) (simp_all add: quote_plus_def quote_char_def is_unreserved_def)

lemma quote_plus_show_nat [simp]: "quote_plus (show_nat n) = show_nat n"
  by (simp add: show_nat_digits)

lemma report_source_url_text: "report_source_url number i =
    ''https://www.ccld.dss.ca.gov/transparencyapi/api/FacilityReports?facNum='' @ quote_plus number @ ''&inx='' @ show_nat i"
proof -
  have "quote_plus ''facNum'' = ''facNum''" "quote_plus ''inx'' = ''inx''"
    by (simp_all add: quote_plus_def quote_char_def is_unreserved_def is_alpha_def is_upper_def is_lower_def)
  then show ?thesis by (simp add: report_source_url_def REPORTS_BASE_URL_def urlencode_def)
qed

lemma unreserved_no_control: "is_unreserved c \<Longrightarrow> c \<notin> {CHR 0x09, CHR 0x0A, CHR 0x0D}"
  by (auto simp: is_unreserved_def is_alpha_def is_upper_def is_lower_def is_digit_def)

lemma quote_plus_kept: "filter (\<lambda>c. c \<notin> {CHR 0x09, CHR 0x0A, CHR 0x0D}) (quote_plus s) = quote_plus s"
proof (rule filter_True)
  show "\<forall>c \<in> set (quote_plus s). c \<notin> {CHR 0x09, CHR 0x0A, CHR 0x0D}"
    using quote_plus_chars unreserved_no_control by fastforce
qed

lemma show_nat_unreserved: "c \<in> set (show_nat n) \<Longrightarrow> is_digit c"
  using show_nat_digits [of n] by (simp add: list_all_iff)

definition report_query :: "string \<Rightarrow> nat \<Rightarrow> string" where
  "report_query number i = ''facNum='' @ quote_plus number @ ''&inx='' @ show_nat i"

lemma report_query_clean:
  "filter (\<lambda>c. c \<notin> {CHR 0x09, CHR 0x0A, CHR 0x0D}) (report_query number i) = report_query number i"
  "CHR ''#'' \<notin> set (report_query number i)"
proof -
  have digits: "filter (\<lambda>c. c \<notin> {CHR 0x09, CHR 0x0A, CHR 0x0D}) (show_nat i) = show_nat i"
    by (rule filter_True) (auto dest!: show_nat_unreserved simp: is_digit_def)
  from digits quote_plus_kept [of number]
  show "filter (\<lambda>c. c \<notin> {CHR 0x09, CHR 0x0A, CHR 0x0D}) (report_query number i) = report_query number i"
    by (simp add: report_query_def)
  show "CHR ''#'' \<notin> set (report_query number i)"
    by (auto simp: report_query_def is_digit_def dest: show_nat_unreserved)
qed

lemma split_first_none: "d \<notin> set a \<Longrightarrow> split_first d a = (a, [])"
  by (induction a) (auto simp: split_first_def)

lemma urlsplit_report_url: "urlsplit (report_source_url number i) =
    Inr \<lparr>url_scheme = ''https'', url_netloc = ''www.ccld.dss.ca.gov'',
         url_path = ''/transparencyapi/api/FacilityReports'', url_query = report_query number i, url_fragment = []\<rparr>"
proof -
  have url: "report_source_url number i =
      ''https://www.ccld.dss.ca.gov/transparencyapi/api/FacilityReports?'' @ report_query number i"
    by (simp add: report_source_url_text report_query_def)
  have split: "split_first (CHR ''#'') (''/transparencyapi/api/FacilityReports?'' @ report_query number i) =
      (''/transparencyapi/api/FacilityReports?'' @ report_query number i, [])"
    using report_query_clean(2) [of number i] split_first_none by simp
  show ?thesis
    using report_query_clean [of number i] split
    by (simp add: url urlsplit_def split_scheme_def split_first_def is_alpha_def is_lower_def is_upper_def
        is_scheme_char_def py_casefold_def char_lower_def Let_def)
qed

lemma parse_report_query: "parse_qsl (report_query number i) = [(''facNum'', number), (''inx'', show_nat i)]"
proof -
  have "split_on (CHR ''&'') (report_query number i) = [''facNum='' @ quote_plus number, ''inx='' @ show_nat i]"
  proof -
    have digits: "CHR ''&'' \<notin> set (''inx='' @ show_nat i)" by (auto simp: is_digit_def dest: show_nat_unreserved)
    have number: "CHR ''&'' \<notin> set (''facNum='' @ quote_plus number)" by simp
    have "report_query number i = (''facNum='' @ quote_plus number) @ CHR ''&'' # ''inx='' @ show_nat i"
      by (simp add: report_query_def)
    then show ?thesis using split_on_join [OF number, of "''inx='' @ show_nat i"] split_on_none [OF digits] by metis
  qed
  moreover have "split_first (CHR ''='') (''facNum='' @ quote_plus number) = (''facNum'', quote_plus number)"
    "split_first (CHR ''='') (''inx='' @ show_nat i) = (''inx'', show_nat i)"
    using split_first_at [of "CHR ''=''" "''facNum''"] split_first_at [of "CHR ''=''" "''inx''"] by simp_all
  moreover have "unquote_plus ''facNum'' = ''facNum''" "unquote_plus ''inx'' = ''inx''" by simp_all
  ultimately show ?thesis using unquote_quote [of "show_nat i"] by (simp add: parse_qsl_def)
qed

lemma report_query_values:
  "number \<noteq> [] \<Longrightarrow> first_query_value (report_query number i) ''facNum'' = Some number"
  "first_query_value (report_query number i) ''inx'' = Some (show_nat i)"
  by (simp_all add: first_query_value_def parse_report_query)

lemma report_path_plain: "urlparse_path ''/transparencyapi/api/FacilityReports'' = ''/transparencyapi/api/FacilityReports''"
  by (simp add: urlparse_path_def)

lemma report_index_round_trip:
  "number \<noteq> [] \<Longrightarrow> report_index_from_url (report_source_url number i) number = Inr (Some i)"
  by (simp add: report_index_from_url_def urlsplit_report_url report_query_values report_path_plain
      py_casefold_def char_lower_def is_upper_def)

text \<open>Every candidate of a discovery names its facility, and its address is the one of its index; no index
  comes twice.\<close>

definition own_candidate :: "string \<Rightarrow> report_candidate \<Rightarrow> bool" where
  "own_candidate number c \<longleftrightarrow> cand_facility_number c = number \<and> cand_source_name c = SOURCE_ID \<and>
     cand_source_url c = report_source_url number (cand_report_index c)"

lemma own_mk_candidate: "own_candidate number (mk_candidate number i (report_source_url number i) d found_at s)"
  by (simp add: own_candidate_def mk_candidate_def)

definition link_ok :: "string \<Rightarrow> link_parser \<Rightarrow> bool" where
  "link_ok number p \<longleftrightarrow> (\<forall>l \<in> set (report_links p). link_url l = report_source_url number (link_index l)) \<and>
     (\<forall>i url s. active_report p = Some (i, url, s) \<longrightarrow> url = report_source_url number i)"

lemma link_event_ok: "link_ok number p \<Longrightarrow> link_event number p e = Inr p' \<Longrightarrow> link_ok number p'"
  by (cases e) (auto simp: link_event_def link_ok_def link_start_def link_data_def link_end_def ebind_eq_Inr
      split: if_splits option.splits)

lemma facility_report_links_ok:
  assumes "facility_report_links env html number = Inr links"
  shows "\<forall>l \<in> set links. link_url l = report_source_url number (link_index l)"
proof -
  obtain p where p: "foldM_err (link_event number)
         \<lparr>report_links = [], active_report = None, active_text = [], active_heading = None, heading_text = [],
          current_section = None\<rparr> (html_events env html) = Inr p" "links = report_links p"
    using assms by (auto simp: facility_report_links_def ebind_eq_Inr)
  have "link_ok number p" by (rule foldM_err_invariant [OF p(1)]) (auto simp: link_ok_def [of _ "\<lparr>report_links = _, active_report = _, active_text = _, active_heading = _, heading_text = _, current_section = _\<rparr>"] intro: link_event_ok)
  with p(2) show ?thesis by (simp add: link_ok_def)
qed

lemma link_candidates_ok:
  "link_candidates env number found_at wanted indexes urls ls = Inr cs \<Longrightarrow>
     \<forall>l \<in> set ls. link_url l = report_source_url number (link_index l) \<Longrightarrow>
     (\<forall>c \<in> set cs. own_candidate number c \<and> cand_report_index c \<notin> set indexes) \<and> distinct (map cand_report_index cs)"
proof (induction env number found_at wanted indexes urls ls arbitrary: cs rule: link_candidates.induct)
  case (2 env number found_at wanted indexes urls l ls)
  show ?case
  proof (cases "(wanted \<noteq> None \<and> link_section l \<noteq> wanted) \<or> link_index l \<in> set indexes \<or> link_url l \<in> set urls")
    case True
    with 2 show ?thesis by auto
  next
    case False
    with "2.prems"(1) obtain d cs' where cs: "link_candidates env number found_at wanted (link_index l # indexes) (link_url l # urls) ls = Inr cs'"
      "cs = mk_candidate number (link_index l) (link_url l) d found_at (link_section l) # cs'" "iso_date env (Some (link_text l)) = Inr d"
      by (auto simp: ebind_eq_Inr)
    have rest: "\<forall>l \<in> set ls. link_url l = report_source_url number (link_index l)" using "2.prems"(2) by simp
    have url: "link_url l = report_source_url number (link_index l)" using "2.prems"(2) by simp
    note IH = "2.IH"(2) [OF False cs(3) cs(1) rest]
    show ?thesis using IH False by (auto simp: cs(2) url own_mk_candidate) (auto simp: mk_candidate_def)
  qed
qed simp

lemma list_candidates_ok:
  "list_candidates env number found_at wanted i rs = Inr cs \<Longrightarrow>
     (\<forall>c \<in> set cs. own_candidate number c \<and> i \<le> cand_report_index c \<and> cand_report_index c < i + length rs) \<and>
     sorted_wrt (<) (map cand_report_index cs)"
proof (induction env number found_at wanted i rs arbitrary: cs rule: list_candidates.induct)
  case (2 env number found_at wanted i report rs)
  show ?case
  proof (cases "list_candidates env number found_at wanted (i + 1) rs = Inr cs")
    case True
    have "(\<forall>c \<in> set cs. own_candidate number c \<and> i + 1 \<le> cand_report_index c \<and> cand_report_index c < i + 1 + length rs) \<and>
        sorted_wrt (<) (map cand_report_index cs)"
      using 2 True by (auto simp: ebind_eq_Inr Let_def split: if_splits)
    then show ?thesis by auto
  next
    case False
    with "2.prems" obtain d s cs' where cs: "list_candidates env number found_at wanted (i + 1) rs = Inr cs'"
      "cs = mk_candidate number i (report_source_url number i) d found_at s # cs'"
      by (auto simp: ebind_eq_Inr Let_def split: if_splits)
    have "(\<forall>c \<in> set cs'. own_candidate number c \<and> i + 1 \<le> cand_report_index c \<and> cand_report_index c < i + 1 + length rs) \<and>
        sorted_wrt (<) (map cand_report_index cs')"
      using "2.IH" "2.prems" False cs(1) by (auto simp: ebind_eq_Inr Let_def split: if_splits)
    then show ?thesis by (auto simp: cs(2) own_mk_candidate) (auto simp: mk_candidate_def)
  qed
qed (auto simp: less_Suc_eq_le | force)+

lemma sorted_wrt_less_distinct: "sorted_wrt (<) (map f xs) \<Longrightarrow> distinct (map (f :: 'a \<Rightarrow> nat) xs)"
  by (induction xs) auto

lemma discovered_page_ok: "discover_facility_report_candidates env html number found_at section = Inr cs \<Longrightarrow>
    (\<forall>c \<in> set cs. own_candidate number c) \<and> distinct (map cand_report_index cs)"
  using link_candidates_ok [of env number found_at "normalized_report_section section" "[]" "[]" _ cs] facility_report_links_ok
  by (fastforce simp: discover_facility_report_candidates_def ebind_eq_Inr)

lemma discovered_list_ok: "candidates_from_report_list_json env content number found_at section = Inr cs \<Longrightarrow>
    (\<forall>c \<in> set cs. own_candidate number c) \<and> distinct (map cand_report_index cs)"
  using list_candidates_ok [of env number found_at "normalized_report_section section" 0 _ cs]
  by (auto simp: candidates_from_report_list_json_def ebind_eq_Inr sorted_wrt_less_distinct
      split: option.splits pyval.splits)

end
