(* ===== verification/Report_Fields.thy ===== *)
theory Report_Fields imports Report_Pages
begin

text \<open>
  The fields of a report as the connector finds them in its lines and table cells, with the evidence for each.
\<close>

section \<open>Evidence\<close>

datatype field_status = Value_Present | Element_Absent | Element_Blank | Extraction_Failed

record field_evidence =
  ev_status :: field_status
  ev_section :: "string option"
  ev_text :: "string option"
  ev_value :: "string option"
  ev_warning :: "string option"

definition mk_evidence ::
  "field_status \<Rightarrow> string \<Rightarrow> string option \<Rightarrow> string option \<Rightarrow> string option \<Rightarrow> field_evidence" where
  "mk_evidence status section source v warning =
     \<lparr>ev_status = status, ev_section = Some section, ev_text = source, ev_value = v, ev_warning = warning\<rparr>"

definition ELEMENT_NOT_FOUND :: string where
  "ELEMENT_NOT_FOUND = ''Source element was not found in the retained source report.''"

section \<open>Table cells\<close>

fun table_label_evidence :: "string list \<Rightarrow> string \<Rightarrow> string \<Rightarrow> field_evidence" where
  "table_label_evidence [] label section = mk_evidence Element_Absent section None None (Some ELEMENT_NOT_FOUND)"
| "table_label_evidence (cell # cells) label section =
     (if py_casefold (strip_label cell) \<noteq> py_casefold (strip_label label)
      then table_label_evidence cells label section
      else (let v = (case cells of [] \<Rightarrow> [] | v # vs \<Rightarrow> v) in
            if py_strip v = []
            then mk_evidence Element_Blank section (Some cell) None (Some ''Source element is present but blank.'')
            else mk_evidence Value_Present section (Some (py_strip (cell @ '' '' @ v))) (Some v) None))"

definition integer_field_evidence :: "field_evidence \<Rightarrow> field_evidence" where
  "integer_field_evidence e =
     (if ev_status e \<noteq> Value_Present then e
      else case ev_value e of
          None \<Rightarrow> e
        | Some v \<Rightarrow>
            if py_isdigit (py_strip v) then e
            else \<lparr>ev_status = Extraction_Failed, ev_section = ev_section e, ev_text = ev_text e, ev_value = None,
                   ev_warning = Some ''Source element was present but was not a deterministic integer.''\<rparr>)"

definition evidence_int_value :: "field_evidence \<Rightarrow> int option result" where
  "evidence_int_value e =
     (if ev_status e \<noteq> Value_Present then Inr None
      else case ev_value e of
          None \<Rightarrow> Inr None
        | Some v \<Rightarrow> (case py_int v of
              None \<Rightarrow> Inl (ValueError ''invalid literal for int() with base 10'')
            | Some i \<Rightarrow> Inr (Some i)))"

fun regional_office_evidence :: "string list \<Rightarrow> field_evidence" where
  "regional_office_evidence [] = mk_evidence Element_Absent ''report header'' None None (Some ELEMENT_NOT_FOUND)"
| "regional_office_evidence (cell # cells) =
     (case find_phrase ''CCLD Regional Office'' False cell of
        None \<Rightarrow> regional_office_evidence cells
      | Some t \<Rightarrow> mk_evidence Value_Present ''report header'' (Some cell) (Some t) None)"

section \<open>Labels\<close>

fun next_value :: "string list \<Rightarrow> string option" where
  "next_value [] = None"
| "next_value (v # vs) = (if py_endswith v '':'' then next_value vs else Some v)"

definition or_next :: "string \<Rightarrow> string list \<Rightarrow> string option" where
  "or_next v lines = (if v \<noteq> [] then Some v else next_value lines)"

fun value_after_label :: "string list \<Rightarrow> string \<Rightarrow> string option" where
  "value_after_label [] label = None"
| "value_after_label (line # lines) label =
     (if py_casefold line = py_casefold label then next_value lines
      else if py_startswith (py_casefold line) (py_casefold label)
      then or_next (clean_text (drop (length label) line)) lines
      else value_after_label lines label)"

fun value_after_exact_label :: "string list \<Rightarrow> string \<Rightarrow> string option" where
  "value_after_exact_label [] label = None"
| "value_after_exact_label (line # lines) label =
     (if py_casefold line = py_casefold label then next_value lines else value_after_exact_label lines label)"

text \<open>What follows the label, white space and a colon; what follows the label and one of \<open>;\<close> and \<open>-\<close>.\<close>

definition after_spaced_colon :: "string \<Rightarrow> string \<Rightarrow> string option" where
  "after_spaced_colon label line =
     (let rest = drop (length label) line in
      if prefix (py_casefold label) (py_casefold line) \<and> rest \<noteq> [] \<and> is_space (hd rest)
      then after_char (CHR '':'') (py_lstrip rest) else None)"

definition after_punctuation :: "string \<Rightarrow> string \<Rightarrow> string option" where
  "after_punctuation label line =
     (let rest = py_lstrip (drop (length label) line) in
      if prefix (py_casefold label) (py_casefold line) \<and> rest \<noteq> [] \<and> hd rest \<in> {CHR '';'', CHR ''-''}
      then Some (tl rest) else None)"

fun value_after_spaced_colon_label :: "string list \<Rightarrow> string \<Rightarrow> string option" where
  "value_after_spaced_colon_label [] label = None"
| "value_after_spaced_colon_label (line # lines) label =
     (case after_spaced_colon label line of
        None \<Rightarrow> value_after_spaced_colon_label lines label
      | Some v \<Rightarrow> or_next (clean_text v) lines)"

fun value_after_punctuated_label :: "string list \<Rightarrow> string \<Rightarrow> string option" where
  "value_after_punctuated_label [] label = None"
| "value_after_punctuated_label (line # lines) label =
     (case after_punctuation label line of
        None \<Rightarrow> value_after_punctuated_label lines label
      | Some v \<Rightarrow> or_next (clean_text v) lines)"

text \<open>\<open>a or b\<close> on optional texts: an empty text counts as missing.\<close>

definition text_or :: "string option \<Rightarrow> string option \<Rightarrow> string option" where
  "text_or a b = (if a = None \<or> a = Some [] then b else a)"

text \<open>The label is tried with its colon, alone on a line, before a spaced colon and before other punctuation.\<close>

definition labeled_value :: "string list \<Rightarrow> string \<Rightarrow> string option" where
  "labeled_value lines label =
     text_or (text_or (text_or (value_after_label lines (label @ '':'')) (value_after_exact_label lines label))
       (value_after_spaced_colon_label lines label)) (value_after_punctuated_label lines label)"

fun report_type :: "string list \<Rightarrow> string option" where
  "report_type [] = None"
| "report_type (line # lines) =
     (if py_casefold (strip_label line) = ''complaint investigation report''
      then Some ''COMPLAINT INVESTIGATION REPORT'' else report_type lines)"

section \<open>Dates of the report\<close>

definition RECEIVED_PHRASES :: "string list" where
  "RECEIVED_PHRASES =
     [''complaint received in our office on'', ''complaint was received in our office on'',
      ''complaint received in our office'', ''complaint was received in our office'']"

definition after_phrase :: "string \<Rightarrow> string \<Rightarrow> string option" where
  "after_phrase line phrase = map_option (\<lambda>i. drop (i + length phrase) line) (py_find phrase (py_casefold line))"

fun complaint_received_date :: "string list \<Rightarrow> string option" where
  "complaint_received_date [] = None"
| "complaint_received_date (line # lines) =
     (case List.map_filter (after_phrase line) RECEIVED_PHRASES of
        [] \<Rightarrow> complaint_received_date lines
      | rest # _ \<Rightarrow>
          (let inline = strip_label rest in
           case source_date_token inline of
             Some d \<Rightarrow> Some d
           | None \<Rightarrow> or_next inline lines))"

section \<open>Sections of the report\<close>

definition line_after_any :: "string list \<Rightarrow> string list \<Rightarrow> string list option" where
  "line_after_any lines headings =
     (case dropWhile (\<lambda>l. py_casefold l \<notin> set (map py_casefold headings)) lines of
        [] \<Rightarrow> None
      | h # rest \<Rightarrow> Some rest)"

definition FINDINGS_HEADINGS :: "string list" where
  "FINDINGS_HEADINGS =
     [''INVESTIGATION FINDINGS:'', ''INVESTIGATION FINDINGS -'', ''INVESTIGATION FINDINGS'',
      ''INVESTIGATION FINDING:'', ''INVESTIGATION FINDING -'', ''INVESTIGATION FINDING'']"

definition DEFICIENCIES_HEADINGS :: "string list" where
  "DEFICIENCIES_HEADINGS = [''DEFICIENCIES:'', ''DEFICIENCIES'']"

definition ALLEGATION_HEADINGS :: "string list" where
  "ALLEGATION_HEADINGS =
     [''ALLEGATION(S):'', ''ALLEGATION(S) -'', ''ALLEGATION(S)'', ''ALLEGATION (S):'', ''ALLEGATION (S) -'',
      ''ALLEGATION (S)'', ''ALLEGATIONS:'', ''ALLEGATIONS -'', ''ALLEGATIONS'', ''ALLEGATION:'', ''ALLEGATION -'',
      ''ALLEGATION'']"

text \<open>The lines after the heading up to a line with the facility name, which the first line may be.\<close>

definition investigation_findings_lines :: "string list \<Rightarrow> string list option" where
  "investigation_findings_lines lines =
     (case line_after_any lines FINDINGS_HEADINGS of
        None \<Rightarrow> None
      | Some [] \<Rightarrow> Some []
      | Some (l # ls) \<Rightarrow> Some (l # takeWhile (\<lambda>x. py_casefold (strip_label x) \<noteq> ''facility name'') ls))"

definition FINDINGS_BOILERPLATE_MARKERS :: "string list" where
  "FINDINGS_BOILERPLATE_MARKERS =
     [''(continued)'', ''estimated days of completion'', ''supervisors name'', ''licensing evaluator name'',
      ''i acknowledge receipt'', ''this report must be available'', ''lic9099'', ''control number'',
      ''state of california'']"

definition FINDINGS_NON_NARRATIVE_PREFIXES :: "string list" where
  "FINDINGS_NON_NARRATIVE_PREFIXES =
     [''finding'', ''disposition'', ''deficiency'', ''deficiencies'', ''plan of correction'', ''poc'']"

definition without_findings_boilerplate :: "string \<Rightarrow> string" where
  "without_findings_boilerplate line =
     (let cut = foldl (\<lambda>c marker. case py_find marker (py_casefold line) of None \<Rightarrow> c | Some i \<Rightarrow> min c i)
          (length line) FINDINGS_BOILERPLATE_MARKERS
      in py_strip (without_number_groups (py_strip (take cut line))))"

fun narrative_lines :: "string list \<Rightarrow> string list" where
  "narrative_lines [] = []"
| "narrative_lines (line # lines) =
     (let n = py_casefold (strip_label line) in
      if n \<in> {''deficiencies'', ''plan of correction'', ''poc'', ''facility name''} then []
      else if list_ex (py_startswith n) FINDINGS_NON_NARRATIVE_PREFIXES then narrative_lines lines
      else if n \<in> {''substantiated'', ''unsubstantiated'', ''inconclusive'', ''dismissed''} then narrative_lines lines
      else (let t = without_findings_boilerplate line in if t = [] then narrative_lines lines else t # narrative_lines lines))"

definition investigation_findings_narrative_evidence :: "string list \<Rightarrow> field_evidence" where
  "investigation_findings_narrative_evidence lines =
     (case investigation_findings_lines lines of
        None \<Rightarrow> mk_evidence Element_Absent ''investigation findings'' None None
          (Some ''Investigation findings section was not found in the retained source report.'')
      | Some section \<Rightarrow>
          (if narrative_lines section = []
           then mk_evidence Element_Blank ''investigation findings'' (Some ''INVESTIGATION FINDINGS'') None
             (Some ''Investigation findings section was present without narrative text.'')
           else (let t = py_join '' '' (narrative_lines section) in
                 mk_evidence Value_Present ''investigation findings'' (Some t) (Some t) None)))"

definition deficiency_lines :: "string list \<Rightarrow> string list" where
  "deficiency_lines lines =
     filter (\<lambda>l. py_strip l \<noteq> [])
       (takeWhile (\<lambda>l. py_casefold (strip_label l) \<notin> {''facility name'', ''plan of correction'', ''poc''}) lines)"

definition deficiency_texts_evidence :: "string list \<Rightarrow> string list \<times> field_evidence" where
  "deficiency_texts_evidence lines =
     (case line_after_any lines DEFICIENCIES_HEADINGS of
        None \<Rightarrow> ([], mk_evidence Element_Absent ''deficiencies'' None None
          (Some ''Structured deficiencies section was not found in the retained source report.''))
      | Some rest \<Rightarrow>
          (let values = deficiency_lines rest in
           if values = []
           then ([], mk_evidence Element_Blank ''deficiencies'' (Some ''DEFICIENCIES'') None
             (Some ''Structured deficiencies section was present but blank.''))
           else (values, mk_evidence Value_Present ''deficiencies'' (Some ''DEFICIENCIES'')
             (Some (py_join '' | '' values)) None)))"

section \<open>Allegations and finding\<close>

definition allegation_text :: "string \<Rightarrow> string option" where
  "allegation_text line =
     (let a = py_strip (case after_number_prefix line of None \<Rightarrow> line | Some rest \<Rightarrow> rest) in
      if a = [] then None else Some (collapse_spaces a))"

definition is_allegation_continuation :: "string \<Rightarrow> bool" where
  "is_allegation_continuation line \<longleftrightarrow>
     (let s = py_lstrip line in s \<noteq> [] \<and> after_number_prefix s = None \<and> is_lower (hd s))"

definition add_allegation :: "string list \<Rightarrow> string \<Rightarrow> string list" where
  "add_allegation acc line =
     (case allegation_text line of
        None \<Rightarrow> acc
      | Some a \<Rightarrow>
          if is_allegation_continuation line \<and> acc \<noteq> [] then butlast acc @ [last acc @ '' '' @ a] else acc @ [a])"

text \<open>The lines between the first heading of allegations and the first heading of findings; none when the
  findings come first.\<close>

definition line_index_any :: "string list \<Rightarrow> string list \<Rightarrow> nat option" where
  "line_index_any lines headings =
     map_option fst (find (\<lambda>(i, l). py_casefold l \<in> set (map py_casefold headings)) (enumerate 0 lines))"

definition report_allegations :: "string list \<Rightarrow> string list" where
  "report_allegations lines =
     (case (line_index_any lines ALLEGATION_HEADINGS, line_index_any lines FINDINGS_HEADINGS) of
        (Some s, Some e) \<Rightarrow> foldl add_allegation [] (drop (s + 1) (take e lines))
      | _ \<Rightarrow> [])"

definition ALLOWED_FINDINGS :: "string list" where
  "ALLOWED_FINDINGS =
     [''Substantiated'', ''Unsubstantiated'', ''Inconclusive'', ''Dismissed'', ''No deficiency cited'',
      ''Deficiency cited'', ''Unknown'']"

definition normalized_finding :: "string \<Rightarrow> string option" where
  "normalized_finding v = find (\<lambda>f. py_casefold (strip_label v) = py_casefold f) ALLOWED_FINDINGS"

definition opt_finding :: "string option \<Rightarrow> string option" where
  "opt_finding v = (case v of None \<Rightarrow> None | Some t \<Rightarrow> normalized_finding t)"

definition line_finding :: "string \<Rightarrow> string option" where
  "line_finding line =
     (case normalized_finding line of Some f \<Rightarrow> Some f | None \<Rightarrow> opt_finding (inline_labeled_finding line))"

definition report_finding :: "string list \<Rightarrow> string" where
  "report_finding lines =
     (case List.map_filter line_finding lines @
        List.map_filter opt_finding
          [value_after_label lines ''Finding:'', value_after_exact_label lines ''Finding'',
           value_after_spaced_colon_label lines ''Finding''] of
        [] \<Rightarrow> ''Unknown''
      | f # _ \<Rightarrow> f)"

end
