(* ===== verification/Report_Extraction.thy ===== *)
theory Report_Extraction imports Report_Fields
begin

text \<open>
  What the connector extracts from the lines and cells of one report: the first dated investigation activity, the delays, and the dictionary of values with the evidence of each field.
\<close>

section \<open>The first investigation activity\<close>

text \<open>A dated candidate: the date, the priority of its evidence, the source text and the section.\<close>

record activity_candidate =
  act_date :: date
  act_priority :: nat
  act_text :: string
  act_section :: string

definition activity_before :: "activity_candidate \<Rightarrow> activity_candidate \<Rightarrow> bool" where
  "activity_before a b \<longleftrightarrow> act_date a < act_date b \<or> (act_date a = act_date b \<and>
     (act_priority a < act_priority b \<or> (act_priority a = act_priority b \<and> act_text a < act_text b)))"

text \<open>\<open>min\<close> with a key: the first of the least ones.\<close>

fun first_activity :: "activity_candidate \<Rightarrow> activity_candidate list \<Rightarrow> activity_candidate" where
  "first_activity best [] = best"
| "first_activity best (a # as) = first_activity (if activity_before a best then a else best) as"

type_synonym activity_scan = "activity_candidate list \<times> string option"

definition scan_date_token ::
  "('e web_env_scheme) \<Rightarrow> string \<Rightarrow> activity_scan \<Rightarrow> string \<Rightarrow> activity_scan result" where
  "scan_date_token env source s token =
     ebind (iso_date env (Some token)) (\<lambda>normalized.
     (case normalized of
        None \<Rightarrow> Inr (fst s, Some source)
      | Some n \<Rightarrow>
          ebind (parse_source_date env (Some n)) (\<lambda>parsed.
          (case parsed of
             None \<Rightarrow> Inr s
           | Some d \<Rightarrow> Inr (fst s @ [\<lparr>act_date = d, act_priority = 0, act_text = source,
               act_section = ''investigation findings''\<rparr>], snd s)))))"

definition scan_activity_line :: "('e web_env_scheme) \<Rightarrow> activity_scan \<Rightarrow> string \<Rightarrow> activity_scan result" where
  "scan_activity_line env s line =
     (if \<not> has_activity_cue line then Inr s
      else (let source = py_strip (first_sentence False line) in
            foldM_err (scan_date_token env source) s (source_date_tokens source)))"

definition visit_candidates ::
  "('e web_env_scheme) \<Rightarrow> string option \<Rightarrow> string option \<Rightarrow> activity_candidate list result" where
  "visit_candidates env visit_date visit_source =
     (case visit_date of
        None \<Rightarrow> Inr []
      | Some v \<Rightarrow>
          ebind (parse_source_date env (Some v)) (\<lambda>parsed.
          Inr (case parsed of
                 None \<Rightarrow> []
               | Some d \<Rightarrow> [\<lparr>act_date = d, act_priority = 1,
                   act_text = ''VISIT DATE: '' @ (case text_or visit_source visit_date of None \<Rightarrow> [] | Some t \<Rightarrow> t),
                   act_section = ''report header''\<rparr>])))"

definition activity_event :: "activity_candidate \<Rightarrow> pydict" where
  "activity_event a =
     [(''event_date'', PStr (isoformat (act_date a))), (''event_type'', PStr ''investigation_activity''),
      (''event_text'', PStr (act_text a)), (''extracted_from_section'', PStr (act_section a)),
      (''source_text'', PStr (act_text a)), (''source_section'', PStr (act_section a))]"

definition first_investigation_activity ::
  "('e web_env_scheme) \<Rightarrow> string list \<Rightarrow> string option \<Rightarrow> string option \<Rightarrow> (pydict option \<times> field_evidence) result" where
  "first_investigation_activity env lines visit_date visit_source =
     (let section = investigation_findings_lines lines in
      ebind (visit_candidates env visit_date visit_source) (\<lambda>visits.
      ebind (foldM_err (scan_activity_line env) (visits, None) (case section of None \<Rightarrow> [] | Some ls \<Rightarrow> ls)) (\<lambda>(candidates, malformed).
      Inr (case candidates of
             a # as \<Rightarrow>
               (let best = first_activity a as in
                (Some (activity_event best),
                 mk_evidence Value_Present (act_section best) (Some (act_text best)) (Some (isoformat (act_date best))) None))
           | [] \<Rightarrow>
               (None, case malformed of
                  Some t \<Rightarrow> mk_evidence Extraction_Failed ''investigation findings'' (Some t) None
                    (Some (''Investigation activity text contained a date-like value that ''
                      @ ''could not be parsed deterministically.''))
                | None \<Rightarrow> mk_evidence Element_Absent ''investigation findings'' None None
                    (Some (if section \<noteq> None then ''No deterministic dated investigation activity was found.''
                      else ''Investigation findings section and structured visit date were not found.'')))))))"

section \<open>Delays\<close>

definition delay_review_basis :: "int option \<Rightarrow> int option \<Rightarrow> int option \<Rightarrow> int option" where
  "delay_review_basis activity visit report =
     (if activity \<noteq> None then activity else if visit \<noteq> None then visit else report)"

definition review_delay_over :: "int option \<Rightarrow> int \<Rightarrow> bool" where
  "review_delay_over delay threshold = (case delay of None \<Rightarrow> False | Some d \<Rightarrow> d > threshold)"

definition opt_int :: "int option \<Rightarrow> pyval" where
  "opt_int v = (case v of None \<Rightarrow> PNone | Some i \<Rightarrow> PInt i)"

definition pystr_or_none :: "string option \<Rightarrow> pyval" where
  "pystr_or_none v = (case v of None \<Rightarrow> PNone | Some s \<Rightarrow> PStr s)"

definition delay_values :: "date option \<Rightarrow> date option \<Rightarrow> date option \<Rightarrow> date option \<Rightarrow> date option \<Rightarrow> pydict" where
  "delay_values received activity visit report signed =
     (let to_activity = date_days_between received activity;
          to_visit = date_days_between received visit;
          to_report = date_days_between received report;
          basis = delay_review_basis to_activity to_visit to_report
      in [(''days_received_to_first_activity'', opt_int to_activity),
          (''days_received_to_visit'', opt_int to_visit),
          (''days_received_to_report'', opt_int to_report),
          (''days_report_to_signed'', opt_int (date_days_between report signed)),
          (''review_delay_over_30_days'', PBool (review_delay_over basis 30)),
          (''review_delay_over_60_days'', PBool (review_delay_over basis 60)),
          (''review_delay_over_90_days'', PBool (review_delay_over basis 90)),
          (''review_delay_over_120_days'', PBool (review_delay_over basis 120)),
          (''missing_first_activity_date'', PBool (received \<noteq> None \<and> activity = None)),
          (''report_date_used_as_proxy'', PBool (to_activity = None \<and> to_visit = None \<and> to_report \<noteq> None))])"

definition delay_metrics ::
  "('e web_env_scheme) \<Rightarrow> string option \<Rightarrow> string option \<Rightarrow> string option \<Rightarrow> string option \<Rightarrow> string option
     \<Rightarrow> pydict result" where
  "delay_metrics env received activity visit report signed =
     ebind (parse_source_date env received) (\<lambda>received_date.
     ebind (parse_source_date env activity) (\<lambda>activity_date.
     ebind (parse_source_date env visit) (\<lambda>visit_date.
     ebind (parse_source_date env report) (\<lambda>report_date.
     ebind (parse_source_date env signed) (\<lambda>signed_date.
     Inr (delay_values received_date activity_date visit_date report_date signed_date))))))"

section \<open>Extraction\<close>

record source_document =
  doc_url :: string
  doc_path :: "string list"
  doc_sha256 :: string
  doc_retrieved_at :: "string option"
  doc_content_type :: "string option"

text \<open>The extracted dictionary: its values, and the evidence objects it carries under \<open>_field_evidence\<close>
  and \<open>_deficiency_evidence\<close>.\<close>

record extracted_report =
  ex_values :: pydict
  ex_evidence :: "(string \<times> field_evidence) list"
  ex_deficiency :: "field_evidence option"

definition posix_path :: "string list \<Rightarrow> string" where
  "posix_path path = (if path = [] then ''.'' else if path = [[]] then ''/'' else py_join ''/'' path)"

text \<open>The dates and evidence that the rest of the extraction is assembled from.\<close>

record report_facts =
  fact_received :: "string option"
  fact_report :: "string option"
  fact_visit :: "string option"
  fact_signed :: "string option"
  fact_evidence :: "(string \<times> field_evidence) list"
  fact_deficiencies :: "string list"
  fact_deficiency_evidence :: field_evidence
  fact_event :: "pydict option"

definition page_evidence :: "string list \<Rightarrow> string list \<Rightarrow> field_evidence \<Rightarrow> field_evidence \<Rightarrow> (string \<times> field_evidence) list" where
  "page_evidence lines cells deficiency activity =
     [(''facility_address'', table_label_evidence cells ''ADDRESS'' ''facility details''),
      (''facility_capacity'', integer_field_evidence (table_label_evidence cells ''CAPACITY'' ''facility details'')),
      (''facility_city'', table_label_evidence cells ''CITY'' ''facility details''),
      (''facility_type'', table_label_evidence cells ''FACILITY TYPE'' ''facility details''),
      (''facility_contact'', table_label_evidence cells ''TELEPHONE'' ''facility details''),
      (''regional_office'', regional_office_evidence cells),
      (''agency_name'', table_label_evidence cells ''AGENCY'' ''report heading''),
      (''investigation_findings_narrative'', investigation_findings_narrative_evidence lines),
      (''deficiency_text'', deficiency),
      (''first_investigation_activity_date'', activity)]"

definition extract_facts :: "('e web_env_scheme) \<Rightarrow> string list \<Rightarrow> string list \<Rightarrow> report_facts result" where
  "extract_facts env lines cells =
     ebind (iso_date env (complaint_received_date lines)) (\<lambda>received.
     ebind (iso_date env (labeled_value lines ''Report Date'')) (\<lambda>report.
     ebind (iso_date env (labeled_value lines ''VISIT DATE'')) (\<lambda>visit.
     ebind (iso_date env (labeled_value lines ''Date Signed'')) (\<lambda>signed.
     ebind (first_investigation_activity env lines visit (labeled_value lines ''VISIT DATE'')) (\<lambda>(event, activity).
     Inr \<lparr>fact_received = received, fact_report = report, fact_visit = visit, fact_signed = signed,
          fact_evidence = page_evidence lines cells (snd (deficiency_texts_evidence lines)) activity,
          fact_deficiencies = fst (deficiency_texts_evidence lines),
          fact_deficiency_evidence = snd (deficiency_texts_evidence lines), fact_event = event\<rparr>)))))"

definition evidence_value :: "report_facts \<Rightarrow> string \<Rightarrow> string option" where
  "evidence_value facts name = (case map_of (fact_evidence facts) name of None \<Rightarrow> None | Some e \<Rightarrow> ev_value e)"

definition capacity_value :: "report_facts \<Rightarrow> int option result" where
  "capacity_value facts =
     (case map_of (fact_evidence facts) ''facility_capacity'' of None \<Rightarrow> Inr None | Some e \<Rightarrow> evidence_int_value e)"

text \<open>\<open>extract\<close> on the lines and cells of the stored page.\<close>

definition extracted_values ::
  "source_document \<Rightarrow> string list \<Rightarrow> report_facts \<Rightarrow> int option \<Rightarrow> int option \<Rightarrow> pydict \<Rightarrow> pydict" where
  "extracted_values doc lines facts index capacity delays =
     [(''source_url'', PStr (doc_url doc)), (''raw_path'', PStr (posix_path (doc_path doc))),
      (''raw_sha256'', PStr (doc_sha256 doc)), (''retrieved_at'', pystr_or_none (doc_retrieved_at doc)),
      (''content_type'', pystr_or_none (doc_content_type doc)), (''report_index'', opt_int index),
      (''facility_number'', pystr_or_none (labeled_value lines ''FACILITY NUMBER'')),
      (''facility_name'', pystr_or_none (labeled_value lines ''FACILITY NAME'')),
      (''report_type'', pystr_or_none (report_type lines)),
      (''facility_address'', pystr_or_none (evidence_value facts ''facility_address'')),
      (''facility_capacity'', opt_int capacity),
      (''facility_city'', pystr_or_none (evidence_value facts ''facility_city'')),
      (''facility_type'', pystr_or_none (evidence_value facts ''facility_type'')),
      (''facility_contact'', pystr_or_none (evidence_value facts ''facility_contact'')),
      (''regional_office'', pystr_or_none (evidence_value facts ''regional_office'')),
      (''agency_name'', pystr_or_none (evidence_value facts ''agency_name'')),
      (''investigation_findings_narrative'', pystr_or_none (evidence_value facts ''investigation_findings_narrative'')),
      (''deficiency_texts'', PList (map PStr (fact_deficiencies facts))),
      (''report_date'', pystr_or_none (fact_report facts)), (''date_signed'', pystr_or_none (fact_signed facts)),
      (''complaint_received_date'', pystr_or_none (fact_received facts)),
      (''first_investigation_activity_date'', pystr_or_none (evidence_value facts ''first_investigation_activity_date'')),
      (''complaint_control_number'', pystr_or_none (labeled_value lines ''COMPLAINT CONTROL NUMBER'')),
      (''allegations'', PList (map PStr (report_allegations lines))),
      (''finding'', PStr (report_finding lines)), (''visit_date'', pystr_or_none (fact_visit facts)),
      (''events'', PList (case fact_event facts of None \<Rightarrow> [] | Some e \<Rightarrow> [PDict e]))] @ delays"

definition extract_page ::
  "('e web_env_scheme) \<Rightarrow> source_document \<Rightarrow> string list \<Rightarrow> string list \<Rightarrow> extracted_report result" where
  "extract_page env doc lines cells =
     ebind (source_url_index (doc_url doc)) (\<lambda>index.
     ebind (extract_facts env lines cells) (\<lambda>facts.
     ebind (delay_metrics env (fact_received facts) (evidence_value facts ''first_investigation_activity_date'')
       (fact_visit facts) (fact_report facts) (fact_signed facts)) (\<lambda>delays.
     ebind (capacity_value facts) (\<lambda>capacity.
     Inr \<lparr>ex_values = extracted_values doc lines facts index capacity delays, ex_evidence = fact_evidence facts,
          ex_deficiency = Some (fact_deficiency_evidence facts)\<rparr>))))"

end
