(* ===== verification/Report_Normalization.thy ===== *)
theory Report_Normalization imports Report_Extraction
begin

text \<open>
  The normalized record the connector builds from what it extracted, with one audit record for each field, deficiency and event.
\<close>

section \<open>Values of the extracted dictionary\<close>

definition optional_str :: "pydict \<Rightarrow> string \<Rightarrow> string option" where
  "optional_str d name = (case py_get d name of PStr s \<Rightarrow> Some s | _ \<Rightarrow> None)"

definition required_str :: "pydict \<Rightarrow> string \<Rightarrow> string result" where
  "required_str d name =
     (case optional_str d name of
        None \<Rightarrow> Inl (ValueError (''Missing required extracted field: '' @ name))
      | Some s \<Rightarrow> Inr s)"

text \<open>The elements of a list the code iterates over; \<open>[]\<close> when the key is missing.\<close>

definition list_items :: "pydict \<Rightarrow> string \<Rightarrow> pyval list" where
  "list_items d name = (case map_of d name of Some (PList xs) \<Rightarrow> xs | _ \<Rightarrow> [])"

definition dict_of :: "pyval \<Rightarrow> pydict" where
  "dict_of v = (case v of PDict d \<Rightarrow> d | _ \<Rightarrow> [])"

definition rstrip_char :: "char \<Rightarrow> string \<Rightarrow> string" where
  "rstrip_char c s = rev (dropWhile (\<lambda>x. x = c) (rev s))"

definition historical_observation_value :: "string option \<Rightarrow> string option" where
  "historical_observation_value v =
     (case v of
        None \<Rightarrow> None
      | Some s \<Rightarrow>
          if rstrip_char (CHR ''.'') (py_casefold (collapse_spaces s)) \<in> {''n/a'', ''na'', ''not available'', ''unavailable''}
          then None else Some s)"

definition historical_contact_value :: "string option \<Rightarrow> string option" where
  "historical_contact_value v =
     (case historical_observation_value v of
        None \<Rightarrow> None
      | Some s \<Rightarrow> if rstrip_char (CHR ''.'') (py_casefold (collapse_spaces s)) = ''see faqs'' then None else Some s)"

section \<open>Audit records\<close>

definition DETERMINISTIC_METHOD :: string where "DETERMINISTIC_METHOD = ''ccld_facility_report_html_labels''"
definition CONNECTOR_NAME :: string where "CONNECTOR_NAME = ''ccld_facility_reports''"
definition REPORTS_CONNECTOR_VERSION :: string where "REPORTS_CONNECTOR_VERSION = ''0.1.0''"

definition AUDIT_FIELD_NAMES :: "string list" where
  "AUDIT_FIELD_NAMES =
     [''facility_number'', ''facility_name'', ''facility_address'', ''facility_capacity'', ''facility_city'',
      ''facility_contact'', ''facility_type'', ''regional_office'', ''agency_name'',
      ''investigation_findings_narrative'', ''report_type'', ''report_date'', ''date_signed'',
      ''complaint_received_date'', ''first_investigation_activity_date'', ''complaint_control_number'',
      ''allegations'', ''finding'', ''visit_date'', ''days_received_to_first_activity'', ''days_received_to_visit'',
      ''days_received_to_report'', ''days_report_to_signed'', ''review_delay_over_30_days'',
      ''review_delay_over_60_days'', ''review_delay_over_90_days'', ''review_delay_over_120_days'',
      ''missing_first_activity_date'', ''report_date_used_as_proxy'']"

definition audit_value :: "('a pyenv_scheme) \<Rightarrow> pyval \<Rightarrow> pyval" where
  "audit_value env v =
     (case v of PNone \<Rightarrow> PNone
      | PList xs \<Rightarrow> PStr (py_join '' | '' (map (py_str env) xs))
      | _ \<Rightarrow> PStr (py_str env v))"

definition audit_record ::
  "string \<Rightarrow> string \<Rightarrow> string \<Rightarrow> pyval \<Rightarrow> rat \<Rightarrow> pyval \<Rightarrow> pyval \<Rightarrow> pyval \<Rightarrow> pydict" where
  "audit_record audit_id document_id name v confidence source section warning =
     [(''audit_id'', PStr audit_id), (''document_id'', PStr document_id), (''field_name'', PStr name),
      (''extraction_method'', PStr DETERMINISTIC_METHOD), (''extractor_version'', PStr REPORTS_CONNECTOR_VERSION),
      (''extracted_value'', v), (''confidence'', PFloat confidence), (''source_text'', source),
      (''source_section'', section), (''warning'', warning)]"

definition field_audit :: "('a pyenv_scheme) \<Rightarrow> string \<Rightarrow> extracted_report \<Rightarrow> string \<Rightarrow> pydict" where
  "field_audit env document_id ex name =
     (let v = py_get (ex_values ex) name; value_text = audit_value env v;
          audit_id = document_id @ ''-'' @ name in
      case map_of (ex_evidence ex) name of
        Some e \<Rightarrow> audit_record audit_id document_id name value_text (if ev_status e = Value_Present then 1 else 0)
          (pystr_or_none (ev_text e)) (pystr_or_none (ev_section e)) (pystr_or_none (ev_warning e))
      | None \<Rightarrow> audit_record audit_id document_id name value_text (if v \<noteq> PNone then 1 else 0) PNone PNone
          (if v \<noteq> PNone then PNone else PStr ''Field was not found in source report.''))"

definition deficiency_audits :: "string \<Rightarrow> extracted_report \<Rightarrow> pydict list" where
  "deficiency_audits document_id ex =
     map (\<lambda>(i, t). audit_record (document_id @ ''-deficiency_text-'' @ show_nat i) document_id ''deficiency_text'' t 1 t
         (PStr ''deficiencies'') PNone) (enumerate 1 (list_items (ex_values ex) ''deficiency_texts''))
     @ (case ex_deficiency ex of
          None \<Rightarrow> []
        | Some e \<Rightarrow>
            if py_truthy (py_get (ex_values ex) ''deficiency_texts'') then []
            else [audit_record (document_id @ ''-deficiency_text'') document_id ''deficiency_text'' PNone 0
              (pystr_or_none (ev_text e)) (pystr_or_none (ev_section e)) (pystr_or_none (ev_warning e))])"

definition event_audits :: "('a pyenv_scheme) \<Rightarrow> string \<Rightarrow> extracted_report \<Rightarrow> pydict list" where
  "event_audits env document_id ex =
     concat (map (\<lambda>(i, e).
       map (\<lambda>name. audit_record (document_id @ ''-event-'' @ show_nat i @ ''-'' @ name) document_id (''event.'' @ name)
           (audit_value env (py_get (dict_of e) name)) 1 (pystr_or_none (optional_str (dict_of e) ''source_text''))
           (pystr_or_none (optional_str (dict_of e) ''source_section'')) PNone)
         [''event_date'', ''event_type'', ''event_text''])
       (enumerate 1 (list_items (ex_values ex) ''events'')))"

definition audit_records :: "('a pyenv_scheme) \<Rightarrow> string \<Rightarrow> extracted_report \<Rightarrow> pydict list" where
  "audit_records env document_id ex =
     map (field_audit env document_id ex) AUDIT_FIELD_NAMES @ deficiency_audits document_id ex
       @ event_audits env document_id ex"

section \<open>Normalization\<close>

definition document_id_of :: "('a pyenv_scheme) \<Rightarrow> string \<Rightarrow> pydict \<Rightarrow> string" where
  "document_id_of env facility_number d =
     ''ccld-'' @ facility_number @ ''-inx-'' @ py_str env (py_get d ''report_index'')"

definition complaint_id_of :: "string option \<Rightarrow> string \<Rightarrow> string" where
  "complaint_id_of control document_id =
     ''ccld-complaint-'' @ (case text_or control (Some document_id) of None \<Rightarrow> [] | Some s \<Rightarrow> s)"

definition normalized_allegation :: "string \<Rightarrow> string \<Rightarrow> nat \<times> pyval \<Rightarrow> pyval" where
  "normalized_allegation complaint_id finding ia =
     PDict [(''allegation_id'', PStr (complaint_id @ ''-allegation-'' @ show_nat (fst ia))),
       (''complaint_id'', PStr complaint_id), (''allegation_text'', snd ia), (''allegation_category'', PNone),
       (''finding'', PStr finding), (''extraction_confidence'', PFloat 1)]"

definition normalized_event :: "string \<Rightarrow> nat \<times> pyval \<Rightarrow> pyval result" where
  "normalized_event complaint_id ie =
     (let e = dict_of (snd ie) in
      ebind (required_str e ''event_date'') (\<lambda>event_date.
      ebind (required_str e ''event_type'') (\<lambda>event_type.
      Inr (PDict [(''event_id'', PStr (complaint_id @ ''-event-'' @ show_nat (fst ie))),
        (''complaint_id'', PStr complaint_id), (''event_date'', PStr event_date), (''event_type'', PStr event_type),
        (''event_text'', pystr_or_none (optional_str e ''event_text'')),
        (''extracted_from_section'', pystr_or_none (optional_str e ''extracted_from_section'')),
        (''extraction_confidence'', PFloat 1)]))))"

definition copied_str :: "pydict \<Rightarrow> string \<Rightarrow> string \<times> pyval" where
  "copied_str d name = (name, pystr_or_none (optional_str d name))"

definition copied_bool :: "pydict \<Rightarrow> string \<Rightarrow> string \<times> pyval" where
  "copied_bool d name = (name, PBool (py_truthy (py_get d name)))"

definition base_complaint :: "pydict \<Rightarrow> string \<Rightarrow> string \<Rightarrow> string \<Rightarrow> string \<Rightarrow> pydict" where
  "base_complaint d complaint_id facility_id document_id finding =
     [(''complaint_id'', PStr complaint_id), (''facility_id'', PStr facility_id), (''document_id'', PStr document_id)]
     @ map (copied_str d) [''complaint_control_number'', ''complaint_received_date'',
         ''first_investigation_activity_date'', ''visit_date'', ''report_date'', ''date_signed'']
     @ [(''finding'', PStr finding)]
     @ map (\<lambda>name. (name, py_get d name)) [''days_received_to_first_activity'', ''days_received_to_visit'',
         ''days_received_to_report'', ''days_report_to_signed'']
     @ map (copied_bool d) [''review_delay_over_30_days'', ''review_delay_over_60_days'',
         ''review_delay_over_90_days'', ''review_delay_over_120_days'', ''missing_first_activity_date'',
         ''report_date_used_as_proxy'']
     @ [(''extraction_confidence'', PFloat 1)]"

text \<open>The observations that are kept as the report states them; an element the report lacks adds nothing, the
  contact is added even when it is a placeholder.\<close>

definition add_observation :: "(string \<times> field_evidence) list \<Rightarrow> pydict \<Rightarrow> string \<Rightarrow> pydict result" where
  "add_observation evidence complaint name =
     (case map_of evidence name of
        None \<Rightarrow> Inl (KeyError name)
      | Some e \<Rightarrow>
          if ev_status e = Element_Absent then Inr complaint
          else if name = ''facility_contact''
          then Inr (py_set complaint ''complaint_report_contact'' (pystr_or_none (historical_contact_value (ev_value e))))
          else (case historical_observation_value (ev_value e) of
              None \<Rightarrow> Inr complaint
            | Some v \<Rightarrow> Inr (py_set complaint name (PStr v))))"

definition normalized_complaint ::
  "extracted_report \<Rightarrow> string \<Rightarrow> string \<Rightarrow> string \<Rightarrow> string \<Rightarrow> pydict result" where
  "normalized_complaint ex complaint_id facility_id document_id finding =
     ebind (foldM_err (add_observation (ex_evidence ex))
         (base_complaint (ex_values ex) complaint_id facility_id document_id finding)
         [''agency_name'', ''investigation_findings_narrative'', ''facility_contact'']) (\<lambda>complaint.
     Inr (if list_items (ex_values ex) ''deficiency_texts'' \<noteq> []
          then py_set complaint ''deficiency_texts'' (PList (list_items (ex_values ex) ''deficiency_texts''))
          else complaint))"

definition normalized_facility :: "pydict \<Rightarrow> string \<Rightarrow> string \<Rightarrow> string \<Rightarrow> pydict" where
  "normalized_facility d facility_id number name =
     [(''facility_id'', PStr facility_id), (''source_id'', PStr SOURCE_ID), (''external_facility_number'', PStr number),
      (''facility_name'', PStr name), copied_str d ''facility_type'', (''licensee_name'', PNone), (''county'', PNone),
      (''status'', PNone), (''capacity'', py_get d ''facility_capacity''), copied_str d ''regional_office'']"

definition normalized_document ::
  "pydict \<Rightarrow> string \<Rightarrow> string \<Rightarrow> string \<Rightarrow> string \<Rightarrow> string \<Rightarrow> pydict" where
  "normalized_document d document_id facility_id url retrieved_at raw_sha256 =
     [(''document_id'', PStr document_id), (''source_id'', PStr SOURCE_ID), (''facility_id'', PStr facility_id),
      (''source_url'', PStr url), (''retrieved_at'', PStr retrieved_at), (''raw_sha256'', PStr raw_sha256),
      (''connector_name'', PStr CONNECTOR_NAME), (''connector_version'', PStr REPORTS_CONNECTOR_VERSION),
      copied_str d ''raw_path'', (''document_type'', pystr_or_none (optional_str d ''report_type'')),
      (''report_index'', py_get d ''report_index''), (''http_status'', PNone), copied_str d ''content_type'']"

text \<open>The time of retrieval is that of the document, the clock is read when it is missing.\<close>

definition retrieval_time :: "('e web_env_scheme) \<Rightarrow> pydict \<Rightarrow> ('w web_world_scheme, string) io" where
  "retrieval_time env d =
     (case text_or (optional_str d ''retrieved_at'') None of
        Some t \<Rightarrow> io_return t
      | None \<Rightarrow> io_bind (read_clock env) (\<lambda>now. io_return (iso_text now)))"

text \<open>The identifiers, which every part of the record repeats.\<close>

definition finding_of :: "pydict \<Rightarrow> string" where
  "finding_of d = (case text_or (optional_str d ''finding'') None of None \<Rightarrow> ''Unknown'' | Some f \<Rightarrow> f)"

definition facility_id_of :: "string \<Rightarrow> string" where
  "facility_id_of number = ''ccld-facility-'' @ number"

definition report_complaint_id :: "('a pyenv_scheme) \<Rightarrow> string \<Rightarrow> pydict \<Rightarrow> string" where
  "report_complaint_id env number d =
     complaint_id_of (optional_str d ''complaint_control_number'') (document_id_of env number d)"

definition normalized_events :: "('a pyenv_scheme) \<Rightarrow> string \<Rightarrow> pydict \<Rightarrow> pyval list result" where
  "normalized_events env number d =
     mapM_err (normalized_event (report_complaint_id env number d)) (enumerate 1 (list_items d ''events''))"

definition report_complaint :: "('a pyenv_scheme) \<Rightarrow> string \<Rightarrow> extracted_report \<Rightarrow> pydict result" where
  "report_complaint env number ex =
     (let d = ex_values ex in
      normalized_complaint ex (report_complaint_id env number d) (facility_id_of number) (document_id_of env number d)
        (finding_of d))"

definition assembled_report ::
  "('a pyenv_scheme) \<Rightarrow> extracted_report \<Rightarrow> string \<Rightarrow> string \<Rightarrow> pyval list \<Rightarrow> pydict \<Rightarrow> string \<Rightarrow> string \<Rightarrow> string \<Rightarrow> pydict" where
  "assembled_report env ex number name events complaint url retrieved_at raw_sha256 =
     (let d = ex_values ex; document_id = document_id_of env number d; facility_id = facility_id_of number in
      [(''facility'', PDict (normalized_facility d facility_id number name)),
       (''source_document'', PDict (normalized_document d document_id facility_id url retrieved_at raw_sha256)),
       (''complaint'', PDict complaint),
       (''allegations'', PList (map (normalized_allegation (report_complaint_id env number d) (finding_of d))
          (enumerate 1 (list_items d ''allegations'')))),
       (''extraction_audit'', PList (map PDict (audit_records env document_id ex)))]
      @ (if events \<noteq> [] then [(''events'', PList events)] else []))"

definition normalize_report :: "('e web_env_scheme) \<Rightarrow> extracted_report \<Rightarrow> ('w web_world_scheme, pydict) io" where
  "normalize_report env ex =
     (let d = ex_values ex in
      io_bind (io_lift (required_str d ''facility_number'')) (\<lambda>number.
      io_bind (io_lift (required_str d ''facility_name'')) (\<lambda>name.
      io_bind (io_lift (normalized_events env number d)) (\<lambda>events.
      io_bind (io_lift (report_complaint env number ex)) (\<lambda>complaint.
      io_bind (io_lift (required_str d ''source_url'')) (\<lambda>url.
      io_bind (retrieval_time env d) (\<lambda>retrieved_at.
      io_bind (io_lift (required_str d ''raw_sha256'')) (\<lambda>raw_sha256.
      io_return (assembled_report env ex number name events complaint url retrieved_at raw_sha256)))))))))"

end
