(* ===== verification/Report_Connector.thy ===== *)
theory Report_Connector imports Report_Normalization
begin

text \<open>
  The connector of the public CCLD site (\<open>connectors/ccld/facility_reports.py\<close>): discovery, fetching, storing the raw page, extraction, and validation of the normalized record.
\<close>

section \<open>Decoding pages\<close>

text \<open>\<open>decode("utf-8", errors="replace")\<close>: the longest start of a sequence that cannot be completed is replaced
  by U+FFFD. The number of bytes that follow a first byte and the range of the second one:\<close>

definition utf8_follow :: "char \<Rightarrow> (nat \<times> nat \<times> nat) option" where
  "utf8_follow c =
     (let n = ord c in
      if 194 \<le> n \<and> n \<le> 223 then Some (1, 128, 191)
      else if n = 224 then Some (2, 160, 191)
      else if n = 237 then Some (2, 128, 159)
      else if 225 \<le> n \<and> n \<le> 239 then Some (2, 128, 191)
      else if n = 240 then Some (3, 144, 191)
      else if 241 \<le> n \<and> n \<le> 243 then Some (3, 128, 191)
      else if n = 244 then Some (3, 128, 143)
      else None)"

definition REPLACEMENT_CHARACTER :: string where
  "REPLACEMENT_CHARACTER = [CHR 0xEF, CHR 0xBF, CHR 0xBD]"

definition utf8_followers :: "(nat \<times> nat \<times> nat) \<Rightarrow> string \<Rightarrow> nat" where
  "utf8_followers f s =
     (case (f, s) of
        ((n, lo, hi), d # ds) \<Rightarrow> if lo \<le> ord d \<and> ord d \<le> hi then 1 + length (takeWhile is_cont (take (n - 1) ds)) else 0
      | _ \<Rightarrow> 0)"

fun decode_utf8_replace :: "string \<Rightarrow> string" where
  "decode_utf8_replace [] = []"
| "decode_utf8_replace (c # cs) =
     (if ord c < 128 then c # decode_utf8_replace cs
      else case utf8_follow c of
          None \<Rightarrow> REPLACEMENT_CHARACTER @ decode_utf8_replace cs
        | Some f \<Rightarrow>
            (let k = utf8_followers f cs in
             (if k = fst f then c # take k cs else REPLACEMENT_CHARACTER) @ decode_utf8_replace (drop k cs)))"

section \<open>The connector\<close>

record site_connector =
  site_number :: string
  site_default_index :: int
  site_raw_dir :: "string list"

definition fetch_url :: "('e web_env_scheme) \<Rightarrow> string \<Rightarrow> ('w web_world_scheme, string) io" where
  "fetch_url env url = send_request env url LIVE_REQUEST_TIMEOUT_SECONDS"

definition detail_page ::
  "('e web_env_scheme) \<Rightarrow> site_connector \<Rightarrow> string option \<Rightarrow> ('w web_world_scheme, string) io" where
  "detail_page env con html =
     (case html of
        Some h \<Rightarrow> io_return h
      | None \<Rightarrow> io_bind (fetch_url env (FACILITY_DETAIL_URL @ ''/'' @ site_number con)) (\<lambda>content.
          io_return (decode_utf8_replace content)))"

definition discovery_time ::
  "('e web_env_scheme) \<Rightarrow> string option \<Rightarrow> string option \<Rightarrow> ('w web_world_scheme, string option) io" where
  "discovery_time env html discovered_at =
     (if discovered_at = None \<and> html = None
      then io_bind (read_clock env) (\<lambda>now. io_return (Some (iso_text now)))
      else io_return discovered_at)"

definition discover_reports ::
  "('e report_env_scheme) \<Rightarrow> site_connector \<Rightarrow> string option \<Rightarrow> string option \<Rightarrow> string option \<Rightarrow> bool
     \<Rightarrow> ('w web_world_scheme, report_candidate list) io" where
  "discover_reports env con html discovered_at section fallback =
     io_bind (detail_page env con html) (\<lambda>page.
     io_bind (discovery_time env html discovered_at) (\<lambda>found_at.
     io_bind (io_lift (discover_facility_report_candidates env page (site_number con) found_at section)) (\<lambda>candidates.
     if candidates \<noteq> [] \<or> \<not> (html = None \<or> fallback) then io_return candidates
     else io_bind (fetch_url env (REPORTS_BASE_URL @ ''/'' @ site_number con)) (\<lambda>content.
          io_lift (candidates_from_report_list_json env content (site_number con) found_at section)))))"

text \<open>\<open>index or default\<close>: a missing index and the index 0 both give the default.\<close>

definition raw_report_index :: "int option \<Rightarrow> int \<Rightarrow> int" where
  "raw_report_index index default_index =
     (case index of None \<Rightarrow> default_index | Some i \<Rightarrow> if i = 0 then default_index else i)"

definition raw_report_path :: "site_connector \<Rightarrow> int option \<Rightarrow> string list" where
  "raw_report_path con index =
     site_raw_dir con @ [site_number con @ ''_inx'' @ show_int (raw_report_index index (site_default_index con)) @ ''.html'']"

definition make_directory :: "('e web_env_scheme) \<Rightarrow> string list \<Rightarrow> ('w web_world_scheme, unit) io" where
  "make_directory env path = io_lift (guard (writable_path env path) (OSError ''Permission denied''))"

definition store_raw ::
  "('e report_env_scheme) \<Rightarrow> site_connector \<Rightarrow> string \<Rightarrow> string \<Rightarrow> ('w web_world_scheme, source_document) io" where
  "store_raw env con source_url content =
     io_bind (make_directory env (site_raw_dir con)) (\<lambda>_.
     io_bind (io_lift (source_url_index source_url)) (\<lambda>index.
     io_bind (write_file env (raw_report_path con index) content) (\<lambda>_.
     io_bind (read_clock env) (\<lambda>now.
     io_return \<lparr>doc_url = source_url, doc_path = raw_report_path con index, doc_sha256 = sha256_hex env content,
       doc_retrieved_at = Some (iso_text now), doc_content_type = Some ''text/html''\<rparr>))))"

definition file_exists :: "('e web_env_scheme) \<Rightarrow> 'w web_world_scheme \<Rightarrow> string list \<Rightarrow> bool" where
  "file_exists env w path \<longleftrightarrow> map_of (stored_files w) path \<noteq> None \<or> read_bytes env path \<noteq> None"

definition is_absolute_path :: "string list \<Rightarrow> bool" where
  "is_absolute_path path \<longleftrightarrow> path \<noteq> [] \<and> hd path = []"

definition read_raw_text ::
  "('e report_env_scheme) \<Rightarrow> string list \<Rightarrow> ('w web_world_scheme, string) io" where
  "read_raw_text env path w =
     io_bind (read_file_bytes env (if file_exists env w path \<or> is_absolute_path path then path
         else repository_root env @ path)) (\<lambda>content.
     io_bind (io_lift (guard (utf8_valid content) (ValueError ''UnicodeDecodeError''))) (\<lambda>_.
     io_return (universal_newlines content))) w"

definition extract_report ::
  "('e report_env_scheme) \<Rightarrow> source_document \<Rightarrow> ('w web_world_scheme, extracted_report) io" where
  "extract_report env doc =
     io_bind (read_raw_text env (doc_path doc)) (\<lambda>html.
     io_lift (extract_page env doc (html_lines env html) (html_table_cells env html)))"

section \<open>Validation\<close>

definition dict_item :: "pydict \<Rightarrow> string \<Rightarrow> pyval result" where
  "dict_item d k = (case map_of d k of None \<Rightarrow> Inl (KeyError k) | Some v \<Rightarrow> Inr v)"

definition check_each :: "('e report_env_scheme) \<Rightarrow> string \<Rightarrow> pyval \<Rightarrow> unit result" where
  "check_each env schema v =
     (case v of
        PList items \<Rightarrow> foldM_err (\<lambda>_ item. schema_check env schema item) () items
      | _ \<Rightarrow> Inl (TypeError ''object is not iterable''))"

definition validate_report :: "('e report_env_scheme) \<Rightarrow> pydict \<Rightarrow> unit result" where
  "validate_report env rec =
     ebind (dict_item rec ''facility'') (\<lambda>facility.
     ebind (schema_check env ''facility.schema.json'' facility) (\<lambda>_.
     ebind (dict_item rec ''source_document'') (\<lambda>document.
     ebind (schema_check env ''source_document.schema.json'' document) (\<lambda>_.
     ebind (dict_item rec ''complaint'') (\<lambda>complaint.
     ebind (schema_check env ''complaint.schema.json'' complaint) (\<lambda>_.
     ebind (dict_item rec ''allegations'') (\<lambda>allegations.
     ebind (check_each env ''allegation.schema.json'' allegations) (\<lambda>_.
     ebind (check_each env ''event.schema.json'' (case map_of rec ''events'' of None \<Rightarrow> PList [] | Some v \<Rightarrow> v)) (\<lambda>_.
     ebind (dict_item rec ''extraction_audit'') (\<lambda>audits.
     check_each env ''extraction_audit.schema.json'' audits))))))))))"

text \<open>\<open>emit\<close> of a connector without a local database validates again.\<close>

definition emit_report :: "('e report_env_scheme) \<Rightarrow> pydict \<Rightarrow> unit result" where
  "emit_report env rec = validate_report env rec"

end
