(* ===== verification/Report_Ingestion.thy ===== *)
theory Report_Ingestion imports Report_Connector
begin

text \<open>
  The ingestion workflow (\<open>connectors/ccld/facility_reports.py\<close>): the candidates of one or several facilities are discovered, limited, fetched or loaded, and processed; a failure of one candidate is recorded and does not stop the others.
\<close>

section \<open>Candidates, failures and results\<close>

record ingestion_failure =
  fail_candidate :: report_candidate
  fail_stage :: string
  fail_type :: string
  fail_message :: string

record ingestion_result =
  ing_facility_number :: string
  ing_discovered_count :: nat
  ing_candidates :: "report_candidate list"
  ing_records :: "pydict list"
  ing_failures :: "ingestion_failure list"

record workflow_failure =
  wf_facility_number :: string
  wf_stage :: string
  wf_type :: string
  wf_message :: string

record multi_ingestion_result =
  multi_results :: "ingestion_result list"
  multi_failures :: "workflow_failure list"

definition multi_candidates :: "multi_ingestion_result \<Rightarrow> report_candidate list" where
  "multi_candidates r = concat (map ing_candidates (multi_results r))"

definition multi_records :: "multi_ingestion_result \<Rightarrow> pydict list" where
  "multi_records r = concat (map ing_records (multi_results r))"

definition multi_ingestion_failures :: "multi_ingestion_result \<Rightarrow> ingestion_failure list" where
  "multi_ingestion_failures r = concat (map ing_failures (multi_results r))"

text \<open>\<open>type(exc).__name__\<close> and \<open>str(exc)\<close>.\<close>

fun error_type :: "py_error \<Rightarrow> string" where
  "error_type (ValueError _) = ''ValueError''"
| "error_type (LifecycleError _) = ''OfflineSnapshotLifecycleError''"
| "error_type (ConnectorError _) = ''TransparencyApiConnectorError''"
| "error_type (OSError _) = ''OSError''"
| "error_type (IntegrityError _) = ''IntegrityError''"
| "error_type (KeyError _) = ''KeyError''"
| "error_type (TypeError _) = ''TypeError''"
| "error_type (AuthConfigError _) = ''HostedAuthConfigError''"
| "error_type (CloudflareAuthError _ _) = ''CloudflareAccessAuthError''"
| "error_type (AuthenticationRequired _) = ''HostedAuthenticationRequiredError''"
| "error_type (AccountDisabled _) = ''HostedAccountDisabledError''"
| "error_type (RoleDenied _) = ''HostedRoleDeniedError''"
| "error_type (ScopeDenied _) = ''HostedScopeDeniedError''"
| "error_type (ReferenceError _) = ''FacilityReferenceConfigurationError''"
| "error_type (IndexError _) = ''IndexError''"
| "error_type (OverflowError _) = ''OverflowError''"
| "error_type (RuntimeError _) = ''RuntimeError''"
| "error_type (AttributeError _) = ''AttributeError''"

fun error_text :: "py_error \<Rightarrow> string" where
  "error_text (ValueError s) = s"
| "error_text (LifecycleError s) = s"
| "error_text (ConnectorError s) = s"
| "error_text (OSError s) = s"
| "error_text (IntegrityError s) = s"
| "error_text (KeyError s) = repr_str s"
| "error_text (TypeError s) = s"
| "error_text (AuthConfigError s) = s"
| "error_text (CloudflareAuthError s _) = s"
| "error_text (AuthenticationRequired s) = s"
| "error_text (AccountDisabled s) = s"
| "error_text (RoleDenied s) = s"
| "error_text (ScopeDenied s) = s"
| "error_text (ReferenceError s) = s"
| "error_text (IndexError s) = s"
| "error_text (OverflowError s) = s"
| "error_text (RuntimeError s) = s"
| "error_text (AttributeError s) = s"

definition mk_ingestion_failure :: "report_candidate \<Rightarrow> string \<Rightarrow> py_error \<Rightarrow> ingestion_failure" where
  "mk_ingestion_failure c stage e =
     \<lparr>fail_candidate = c, fail_stage = stage, fail_type = error_type e, fail_message = error_text e\<rparr>"

definition mk_workflow_failure :: "string \<Rightarrow> string \<Rightarrow> py_error \<Rightarrow> workflow_failure" where
  "mk_workflow_failure number stage e =
     \<lparr>wf_facility_number = number, wf_stage = stage, wf_type = error_type e, wf_message = error_text e\<rparr>"

section \<open>The connector\<close>

text \<open>The connector object the workflow is given, as steps over a world \<open>'w\<close>: \<open>'d\<close> is a stored document,
  \<open>'x\<close> what extraction returns. Discovery gets the page of the facility, the time of the discovery, the report
  section and whether the report list may be asked instead.\<close>

record ('w, 'd, 'x) report_connector =
  con_facility_number :: string
  con_discover :: "string option \<Rightarrow> string option \<Rightarrow> string option \<Rightarrow> bool \<Rightarrow> ('w, report_candidate list) io"
  con_fetch :: "string \<Rightarrow> ('w, string) io"
  con_store_raw :: "string \<Rightarrow> string \<Rightarrow> ('w, 'd) io"
  con_extract :: "'d \<Rightarrow> ('w, 'x) io"
  con_normalize :: "'x \<Rightarrow> ('w, pydict) io"
  con_validate :: "pydict \<Rightarrow> ('w, unit) io"
  con_emit :: "pydict \<Rightarrow> ('w, unit) io"

type_synonym ('w, 'd) document_loader = "report_candidate \<Rightarrow> ('w, 'd option) io"

type_synonym 'w report_fetcher = "string \<Rightarrow> ('w, string) io"

section \<open>One candidate\<close>

text \<open>A stage of the work on a candidate: an exception ends it with a failure that names the stage.\<close>

definition at_stage ::
  "report_candidate \<Rightarrow> string \<Rightarrow> ('w, 'a) io \<Rightarrow> ('a \<Rightarrow> 'w \<Rightarrow> 'w \<times> (ingestion_failure + 'b)) \<Rightarrow> 'w \<Rightarrow> 'w \<times> (ingestion_failure + 'b)" where
  "at_stage c stage m f w =
     (case m w of (w', Inl e) \<Rightarrow> (w', Inl (mk_ingestion_failure c stage e)) | (w', Inr x) \<Rightarrow> f x w')"

definition content_not_found :: "report_candidate \<Rightarrow> ingestion_failure" where
  "content_not_found c = \<lparr>fail_candidate = c, fail_stage = ''load'', fail_type = ''ReportContentNotFound'',
     fail_message = ''No report content was available for the discovered candidate.''\<rparr>"

definition load_or_fetch_document ::
  "('w, 'd, 'x) report_connector \<Rightarrow> ('w, 'd) document_loader option \<Rightarrow> 'w report_fetcher option \<Rightarrow> report_candidate
     \<Rightarrow> 'w \<Rightarrow> 'w \<times> (ingestion_failure + 'd)" where
  "load_or_fetch_document con loader fetch c =
     (case loader of
        Some load \<Rightarrow>
          at_stage c ''load'' (load c) (\<lambda>found w. (w, case found of None \<Rightarrow> Inl (content_not_found c) | Some d \<Rightarrow> Inr d))
      | None \<Rightarrow>
          at_stage c ''fetch'' ((case fetch of Some f \<Rightarrow> f | None \<Rightarrow> con_fetch con) (cand_source_url c)) (\<lambda>content.
          at_stage c ''store_raw'' (con_store_raw con (cand_source_url c) content) (\<lambda>d w. (w, Inr d))))"

definition process_document ::
  "('w, 'd, 'x) report_connector \<Rightarrow> report_candidate \<Rightarrow> 'd \<Rightarrow> 'w \<Rightarrow> 'w \<times> (ingestion_failure + pydict)" where
  "process_document con c d =
     at_stage c ''extract'' (con_extract con d) (\<lambda>extracted.
     at_stage c ''normalize'' (con_normalize con extracted) (\<lambda>normalized.
     at_stage c ''validate'' (con_validate con normalized) (\<lambda>_.
     at_stage c ''emit'' (con_emit con normalized) (\<lambda>_ w. (w, Inr normalized)))))"

definition ingest_candidate ::
  "('w, 'd, 'x) report_connector \<Rightarrow> ('w, 'd) document_loader option \<Rightarrow> 'w report_fetcher option \<Rightarrow> report_candidate
     \<Rightarrow> 'w \<Rightarrow> 'w \<times> (ingestion_failure + pydict)" where
  "ingest_candidate con loader fetch c w =
     (case load_or_fetch_document con loader fetch c w of
        (w', Inl f) \<Rightarrow> (w', Inl f)
      | (w', Inr d) \<Rightarrow> process_document con c d w')"

fun ingest_candidates ::
  "('w, 'd, 'x) report_connector \<Rightarrow> ('w, 'd) document_loader option \<Rightarrow> 'w report_fetcher option
     \<Rightarrow> pydict list \<Rightarrow> ingestion_failure list \<Rightarrow> report_candidate list \<Rightarrow> 'w \<Rightarrow> 'w \<times> pydict list \<times> ingestion_failure list" where
  "ingest_candidates con loader fetch records failures [] w = (w, records, failures)"
| "ingest_candidates con loader fetch records failures (c # cs) w =
     (case ingest_candidate con loader fetch c w of
        (w', Inl f) \<Rightarrow> ingest_candidates con loader fetch records (failures @ [f]) cs w'
      | (w', Inr normalized) \<Rightarrow> ingest_candidates con loader fetch (records @ [normalized]) failures cs w')"

definition ingest_selected_candidates ::
  "('w, 'd, 'x) report_connector \<Rightarrow> ('w, 'd) document_loader option \<Rightarrow> 'w report_fetcher option \<Rightarrow> report_candidate list
     \<Rightarrow> nat \<Rightarrow> 'w \<Rightarrow> 'w \<times> ingestion_result" where
  "ingest_selected_candidates con loader fetch candidates discovered w =
     (let (w', records, failures) = ingest_candidates con loader fetch [] [] candidates w in
      (w', \<lparr>ing_facility_number = con_facility_number con, ing_discovered_count = discovered,
            ing_candidates = candidates, ing_records = records, ing_failures = failures\<rparr>))"

section \<open>One facility\<close>

definition check_limit :: "string \<Rightarrow> int option \<Rightarrow> unit result" where
  "check_limit name limit =
     guard (case limit of None \<Rightarrow> True | Some n \<Rightarrow> n \<ge> 0) (ValueError (name @ '' must be greater than or equal to 0.''))"

definition take_limit :: "int option \<Rightarrow> 'a list \<Rightarrow> 'a list" where
  "take_limit limit xs = (case limit of None \<Rightarrow> xs | Some n \<Rightarrow> take (nat n) xs)"

definition check_selected :: "nat \<Rightarrow> int option \<Rightarrow> unit result" where
  "check_selected selected max_requests =
     (case max_requests of
        None \<Rightarrow> Inr ()
      | Some m \<Rightarrow> guard (int selected \<le> m)
          (ValueError (''Selected report candidates exceed max_requests. Selected '' @ show_nat selected
             @ '' report(s), max_requests is '' @ show_int m @ ''.'')))"

text \<open>\<open>[x for x in xs if p(x)]\<close> with a predicate that may raise.\<close>

fun filter_err :: "('a \<Rightarrow> bool result) \<Rightarrow> 'a list \<Rightarrow> 'a list result" where
  "filter_err p [] = Inr []"
| "filter_err p (x # xs) = ebind (p x) (\<lambda>b. ebind (filter_err p xs) (\<lambda>ys. Inr (if b then x # ys else ys)))"

record ingestion_options =
  opt_detail_html :: "string option"
  opt_discovered_at :: "string option"
  opt_limit :: "int option"
  opt_max_requests :: "int option"
  opt_section :: "string option"
  opt_filter :: "(report_candidate \<Rightarrow> bool result) option"
  opt_fallback :: bool

definition select_candidates ::
  "('w, 'd, 'x) report_connector \<Rightarrow> ingestion_options \<Rightarrow> ('w, nat \<times> report_candidate list) io" where
  "select_candidates con opts =
     io_bind (io_lift (check_limit ''limit'' (opt_limit opts))) (\<lambda>_.
     io_bind (io_lift (check_limit ''max_requests'' (opt_max_requests opts))) (\<lambda>_.
     io_bind (con_discover con (opt_detail_html opts) (opt_discovered_at opts) (opt_section opts) (opt_fallback opts)) (\<lambda>discovered.
     io_bind (io_lift (case opt_filter opts of None \<Rightarrow> Inr discovered | Some p \<Rightarrow> filter_err p discovered)) (\<lambda>filtered.
     (let candidates = take_limit (opt_limit opts) filtered in
      io_bind (io_lift (check_selected (length candidates) (opt_max_requests opts))) (\<lambda>_.
      io_return (length discovered, candidates)))))))"

definition ingest_facility_reports_for_facility ::
  "('w, 'd, 'x) report_connector \<Rightarrow> ingestion_options \<Rightarrow> ('w, 'd) document_loader option \<Rightarrow> 'w report_fetcher option
     \<Rightarrow> ('w, ingestion_result) io" where
  "ingest_facility_reports_for_facility con opts loader fetch =
     io_bind (select_candidates con opts) (\<lambda>(discovered, candidates) w.
     (let (w', r) = ingest_selected_candidates con loader fetch candidates discovered w in (w', Inr r)))"

section \<open>Facility numbers\<close>

record number_intake =
  in_numbers :: "string list"
  in_duplicates :: "string list"
  in_ignored :: nat
  in_invalid :: "string list"

definition is_ignored_facility_number_value :: "string \<Rightarrow> bool" where
  "is_ignored_facility_number_value v \<longleftrightarrow> v = [] \<or> py_startswith v ''#'' \<or>
     py_casefold v \<in> {''facility_number'', ''facilitynumber'', ''facnum''}"

definition take_number :: "number_intake \<Rightarrow> string \<Rightarrow> number_intake" where
  "take_number i number =
     (let cleaned = py_strip number in
      if is_ignored_facility_number_value cleaned then i\<lparr>in_ignored := in_ignored i + 1\<rparr>
      else if \<not> py_isdigit cleaned then i\<lparr>in_invalid := in_invalid i @ [cleaned]\<rparr>
      else if cleaned \<in> set (in_numbers i) then i\<lparr>in_duplicates := in_duplicates i @ [cleaned]\<rparr>
      else i\<lparr>in_numbers := in_numbers i @ [cleaned]\<rparr>)"

definition inspect_facility_numbers :: "string list \<Rightarrow> number_intake" where
  "inspect_facility_numbers numbers =
     foldl take_number \<lparr>in_numbers = [], in_duplicates = [], in_ignored = 0, in_invalid = []\<rparr> numbers"

definition normalize_facility_numbers :: "string list \<Rightarrow> string list result" where
  "normalize_facility_numbers numbers =
     (let intake = inspect_facility_numbers numbers in
      ebind (guard (in_invalid intake = [])
        (ValueError (''Facility number must contain digits only: '' @ py_join '', '' (map repr_str (in_invalid intake))))) (\<lambda>_.
      ebind (guard (in_numbers intake \<noteq> []) (ValueError ''At least one facility number is required.'')) (\<lambda>_.
      Inr (in_numbers intake))))"

text \<open>The values of a file of facility numbers and how many were ignored; the rows come from \<open>csv.reader\<close>.\<close>

definition facility_number_values :: "string list list \<Rightarrow> string list \<times> nat" where
  "facility_number_values rows =
     (let cleaned = map py_strip (concat rows) in
      (filter (\<lambda>v. \<not> is_ignored_facility_number_value v) cleaned,
       length (filter (\<lambda>row. row = []) rows) + length (filter is_ignored_facility_number_value cleaned)))"

definition read_facility_number_input_file :: "('a pyenv_scheme) \<Rightarrow> string list \<Rightarrow> (string list \<times> nat) result" where
  "read_facility_number_input_file env path =
     (case read_bytes env path of
        None \<Rightarrow> Inl (OSError ''No such file or directory'')
      | Some content \<Rightarrow>
          ebind (guard (utf8_valid content) (ValueError ''UnicodeDecodeError'')) (\<lambda>_.
          Inr (facility_number_values (csv_reader content))))"

definition read_facility_numbers_file :: "('a pyenv_scheme) \<Rightarrow> string list \<Rightarrow> string list result" where
  "read_facility_numbers_file env path =
     ebind (read_facility_number_input_file env path) (\<lambda>(values, _). normalize_facility_numbers values)"

section \<open>Several facilities\<close>

type_synonym ('w, 'd, 'x) selection = "(('w, 'd, 'x) report_connector \<times> report_candidate list \<times> nat) list"

fun discover_all ::
  "(string \<Rightarrow> ('w, 'd, 'x) report_connector) \<Rightarrow> (string \<Rightarrow> string option) \<Rightarrow> string option \<Rightarrow> int option
     \<Rightarrow> ('w, 'd, 'x) selection \<Rightarrow> workflow_failure list \<Rightarrow> string list \<Rightarrow> 'w
     \<Rightarrow> 'w \<times> ('w, 'd, 'x) selection \<times> workflow_failure list" where
  "discover_all factory pages discovered_at limit selected failures [] w = (w, selected, failures)"
| "discover_all factory pages discovered_at limit selected failures (number # numbers) w =
     (case con_discover (factory number) (pages number) discovered_at None False w of
        (w', Inl e) \<Rightarrow> discover_all factory pages discovered_at limit selected
                  (failures @ [mk_workflow_failure number ''discover'' e]) numbers w'
      | (w', Inr candidates) \<Rightarrow> discover_all factory pages discovered_at limit
                  (selected @ [(factory number, take_limit limit candidates, length candidates)]) failures numbers w')"

fun ingest_all ::
  "('w, 'd) document_loader option \<Rightarrow> 'w report_fetcher option \<Rightarrow> ('w, 'd, 'x) selection \<Rightarrow> 'w
     \<Rightarrow> 'w \<times> ingestion_result list" where
  "ingest_all loader fetch [] w = (w, [])"
| "ingest_all loader fetch ((con, candidates, discovered) # rest) w =
     (let (w1, r) = ingest_selected_candidates con loader fetch candidates discovered w;
          (w2, rs) = ingest_all loader fetch rest w1
      in (w2, r # rs))"

definition select_for_facilities ::
  "string list \<Rightarrow> (string \<Rightarrow> ('w, 'd, 'x) report_connector) \<Rightarrow> (string \<Rightarrow> string option) \<Rightarrow> string option \<Rightarrow> int option
     \<Rightarrow> int option \<Rightarrow> ('w, ('w, 'd, 'x) selection \<times> workflow_failure list) io" where
  "select_for_facilities numbers factory pages discovered_at limit max_requests =
     io_bind (io_lift (check_limit ''per_facility_limit'' limit)) (\<lambda>_.
     io_bind (io_lift (check_limit ''max_requests'' max_requests)) (\<lambda>_.
     io_bind (io_lift (normalize_facility_numbers numbers)) (\<lambda>normalized.
     io_bind (\<lambda>w. let (w', r) = discover_all factory pages discovered_at limit [] [] normalized w in (w', Inr r)) (\<lambda>(selected, failures).
     io_bind (io_lift (check_selected (sum_list (map (\<lambda>(_, cs, _). length cs) selected)) max_requests)) (\<lambda>_.
     io_return (selected, failures))))))"

definition ingest_facility_reports_for_facilities ::
  "string list \<Rightarrow> (string \<Rightarrow> ('w, 'd, 'x) report_connector) \<Rightarrow> (string \<Rightarrow> string option) \<Rightarrow> string option \<Rightarrow> int option
     \<Rightarrow> int option \<Rightarrow> ('w, 'd) document_loader option \<Rightarrow> 'w report_fetcher option \<Rightarrow> ('w, multi_ingestion_result) io" where
  "ingest_facility_reports_for_facilities numbers factory pages discovered_at limit max_requests loader fetch =
     io_bind (select_for_facilities numbers factory pages discovered_at limit max_requests) (\<lambda>(selected, failures) w.
     (let (w', results) = ingest_all loader fetch selected w
      in (w', Inr \<lparr>multi_results = results, multi_failures = failures\<rparr>)))"

section \<open>The workflow on the public site\<close>

definition site_report_connector ::
  "('e report_env_scheme) \<Rightarrow> site_connector \<Rightarrow> ('w web_world_scheme, source_document, extracted_report) report_connector" where
  "site_report_connector env con =
     \<lparr>con_facility_number = site_number con, con_discover = discover_reports env con, con_fetch = fetch_url env,
      con_store_raw = store_raw env con, con_extract = extract_report env, con_normalize = normalize_report env,
      con_validate = (\<lambda>rec. io_lift (validate_report env rec)), con_emit = (\<lambda>rec. io_lift (emit_report env rec))\<rparr>"

section \<open>The contract of a connector\<close>

text \<open>What the workflow relies on: \<open>log\<close> shows the addresses a world has asked for. Fetching asks for the one
  address it is given, discovery for at most two addresses of its own, every other operation for none; what is
  discovered belongs to the facility and no index comes twice.\<close>

definition discovery_budget :: "string option \<Rightarrow> bool \<Rightarrow> nat" where
  "discovery_budget html fallback = (if html = None then 2 else if fallback then 1 else 0)"

locale report_source =
  fixes log :: "'w \<Rightarrow> string list" and con :: "('w, 'd, 'x) report_connector"
  assumes fetch_logs: "con_fetch con url w = (w', r) \<Longrightarrow> log w' = log w @ [url]"
    and store_silent: "con_store_raw con url content w = (w', d) \<Longrightarrow> log w' = log w"
    and extract_silent: "con_extract con doc w = (w', x) \<Longrightarrow> log w' = log w"
    and normalize_silent: "con_normalize con ex w = (w', n) \<Longrightarrow> log w' = log w"
    and validate_silent: "con_validate con rec w = (w', u) \<Longrightarrow> log w' = log w"
    and emit_silent: "con_emit con rec w = (w', u) \<Longrightarrow> log w' = log w"
    and discover_logs: "con_discover con html discovered_at section fallback w = (w', q) \<Longrightarrow>
      \<exists>us. log w' = log w @ us \<and> length us \<le> discovery_budget html fallback"
    and discover_own: "con_discover con html discovered_at section fallback w = (w', Inr cs) \<Longrightarrow>
      (\<forall>c \<in> set cs. own_candidate (con_facility_number con) c) \<and> distinct (map cand_report_index cs)"
begin

lemma load_or_fetch_logs: "load_or_fetch_document con None None c w = (w', r) \<Longrightarrow>
    log w' = log w @ [cand_source_url c]"
  by (auto simp: load_or_fetch_document_def at_stage_def dest!: fetch_logs store_silent split: prod.splits sum.splits)

lemma process_silent: "process_document con c d w = (w', r) \<Longrightarrow> log w' = log w"
  by (auto simp: process_document_def at_stage_def dest!: extract_silent normalize_silent validate_silent emit_silent
      split: prod.splits sum.splits)

lemma candidate_logs: "ingest_candidate con None None c w = (w', r) \<Longrightarrow> log w' = log w @ [cand_source_url c]"
  by (auto simp: ingest_candidate_def dest!: load_or_fetch_logs process_silent split: prod.splits sum.splits)

lemma candidates_log: "ingest_candidates con None None records failures cs w = (w', rs, fs) \<Longrightarrow>
    log w' = log w @ map cand_source_url cs"
proof (induction cs arbitrary: records failures w)
  case (Cons c cs)
  obtain w1 r where c: "ingest_candidate con None None c w = (w1, r)" by fastforce
  note logs = candidate_logs [OF c]
  from Cons c logs show ?case by (cases r) auto
qed simp

lemma selected_logs: "ingest_selected_candidates con None None cs n w = (w', r) \<Longrightarrow>
    log w' = log w @ map cand_source_url cs"
  by (auto simp: ingest_selected_candidates_def dest: candidates_log split: prod.splits)

end

section \<open>Lemmas\<close>

lemma ingest_candidates_accounts:
  "ingest_candidates con loader fetch records failures cs w = (w', rs, fs) \<Longrightarrow>
     length rs + length fs = length records + length failures + length cs"
proof (induction cs arbitrary: records failures w)
  case (Cons c cs)
  obtain w1 r where c: "ingest_candidate con loader fetch c w = (w1, r)" by fastforce
  from Cons c show ?case by (cases r) fastforce+
qed simp

lemma at_stage_stage: "at_stage c stage m f w = (w', Inl fl) \<Longrightarrow>
    (fail_candidate fl = c \<and> fail_stage fl = stage) \<or> (\<exists>x w1. m w = (w1, Inr x) \<and> f x w1 = (w', Inl fl))"
  by (auto simp: at_stage_def mk_ingestion_failure_def split: prod.splits sum.splits)

lemma ingest_candidate_failure: "ingest_candidate con loader fetch c w = (w', Inl fl) \<Longrightarrow> fail_candidate fl = c"
  by (auto simp: ingest_candidate_def load_or_fetch_document_def process_document_def content_not_found_def
      split: prod.splits sum.splits option.splits dest!: at_stage_stage)

lemma ingest_candidates_failures:
  "ingest_candidates con loader fetch records failures cs w = (w', rs, fs) \<Longrightarrow>
     subseq (map fail_candidate fs) (map fail_candidate failures @ cs)"
proof (induction cs arbitrary: records failures w)
  case (Cons c cs)
  obtain w1 r where c: "ingest_candidate con loader fetch c w = (w1, r)" by fastforce
  show ?case
  proof (cases r)
    case (Inl fl)
    with Cons.IH [of records "failures @ [fl]" w1] Cons.prems c ingest_candidate_failure [OF c [unfolded Inl]]
    show ?thesis by simp
  next
    case (Inr d)
    with Cons.IH [of "records @ [d]" failures w1] Cons.prems c
    have "subseq (map fail_candidate fs) (map fail_candidate failures @ cs)" by simp
    moreover have "subseq (map fail_candidate failures @ cs) (map fail_candidate failures @ c # cs)"
      by (rule list_emb_append_mono) auto
    ultimately show ?thesis by (rule subseq_order.trans)
  qed
qed simp

lemma ingest_selected_ok:
  assumes "ingest_selected_candidates con loader fetch cs n w = (w', r)"
  shows "ing_candidates r = cs" "ing_discovered_count r = n"
    "length (ing_records r) + length (ing_failures r) = length cs"
    "ing_facility_number r = con_facility_number con"
    "subseq (map fail_candidate (ing_failures r)) cs"
  using assms ingest_candidates_accounts [of con loader fetch "[]" "[]" cs]
    ingest_candidates_failures [of con loader fetch "[]" "[]" cs]
  by (auto simp: ingest_selected_candidates_def split: prod.splits)

lemma ingest_all_ok:
  "ingest_all loader fetch sel w = (w', rs) \<Longrightarrow>
     map ing_candidates rs = map (\<lambda>(_, cs, _). cs) sel \<and>
     (\<forall>r \<in> set rs. length (ing_records r) + length (ing_failures r) = length (ing_candidates r))"
proof (induction loader fetch sel w arbitrary: w' rs rule: ingest_all.induct)
  case (2 loader fetch con cs n rest w)
  obtain w1 r where a: "ingest_selected_candidates con loader fetch cs n w = (w1, r)" by fastforce
  obtain w2 rest' where b: "ingest_all loader fetch rest w1 = (w2, rest')" by fastforce
  from "2.prems" a b have "rs = r # rest'" by simp
  with "2.IH" [OF a [symmetric] refl b] ingest_selected_ok [OF a] show ?case by simp
qed simp

lemma filter_err_subseq: "filter_err p xs = Inr ys \<Longrightarrow> subseq ys xs"
  by (induction xs arbitrary: ys) (auto simp: ebind_eq_Inr split: if_splits)

lemma take_limit_subseq: "subseq (take_limit limit xs) xs"
  by (simp add: take_limit_def prefix_imp_subseq take_is_prefix split: option.split)

definition within_limit :: "int option \<Rightarrow> nat \<Rightarrow> bool" where
  "within_limit limit n \<longleftrightarrow> (case limit of None \<Rightarrow> True | Some m \<Rightarrow> int n \<le> m)"

lemma check_selected_Inr: "check_selected n limit = Inr u \<longleftrightarrow> within_limit limit n"
  by (simp add: check_selected_def within_limit_def split: option.split)

lemma take_limit_within: "check_limit name limit = Inr u \<Longrightarrow> within_limit limit (length (take_limit limit xs))"
  by (auto simp: check_limit_def within_limit_def take_limit_def split: option.splits)

lemma select_candidates_Inr:
  assumes "select_candidates con opts w = (w', Inr (n, cs))"
  obtains discovered where "con_discover con (opt_detail_html opts) (opt_discovered_at opts) (opt_section opts)
        (opt_fallback opts) w = (w', Inr discovered)" "n = length discovered" "subseq cs discovered"
    "within_limit (opt_limit opts) (length cs)" "within_limit (opt_max_requests opts) (length cs)"
proof -
  from assms obtain discovered filtered u where d: "check_limit ''limit'' (opt_limit opts) = Inr u"
    "con_discover con (opt_detail_html opts) (opt_discovered_at opts) (opt_section opts)
        (opt_fallback opts) w = (w', Inr discovered)"
    "(case opt_filter opts of None \<Rightarrow> Inr discovered | Some p \<Rightarrow> filter_err p discovered) = Inr filtered"
    "n = length discovered" "cs = take_limit (opt_limit opts) filtered"
    "check_selected (length cs) (opt_max_requests opts) = Inr ()"
    by (auto simp: select_candidates_def io_bind_eq_Inr Let_def)
  have "subseq filtered discovered" using d(3) by (auto split: option.splits intro: filter_err_subseq)
  then have "subseq cs discovered" using d(5) take_limit_subseq subseq_order.trans by blast
  with that [OF d(2,4)] d(5,6) take_limit_within [OF d(1), of filtered] show thesis by (simp add: check_selected_Inr)
qed

lemma select_candidates_discovers:
  assumes "select_candidates con opts w = (w', r)"
  shows "w' = w \<or> (\<exists>d. con_discover con (opt_detail_html opts) (opt_discovered_at opts) (opt_section opts)
    (opt_fallback opts) w = (w', d))"
  using assms by (auto simp: select_candidates_def io_bind_def Let_def split: prod.splits sum.splits)

end
