(* ===== verification/Report_Properties.thy ===== *)
theory Report_Properties imports Report_Ingestion
begin

text \<open>
  The properties of the report connector and its workflow: the contract of a connector holds for the public site, the budget of requests, stored pages, and the grounds of extracted values.
\<close>

section \<open>The public site fulfils the contract\<close>

definition requested_urls :: "'w web_world_scheme \<Rightarrow> string list" where
  "requested_urls w = map fst (sent_requests w)"

lemma io_steps_log [simp]:
  "read_clock env w = (w', t) \<Longrightarrow> requested_urls w' = requested_urls w"
  "write_file env path content w = (w', u) \<Longrightarrow> requested_urls w' = requested_urls w"
  "read_file_bytes env path w = (w', b) \<Longrightarrow> requested_urls w' = requested_urls w"
  "send_request env url timeout w = (w', b) \<Longrightarrow> requested_urls w' = requested_urls w @ [url]"
  "fetch_url env url w = (w', b) \<Longrightarrow> requested_urls w' = requested_urls w @ [url]"
  by (auto simp: requested_urls_def read_clock_def write_file_def read_file_bytes_def send_request_def fetch_url_def
      split: if_splits)

text \<open>A step that sends nothing and leaves what extends the world alone.\<close>

definition quiet_state :: "'w web_world_scheme \<Rightarrow> (string \<times> int) list \<times> 'w" where
  "quiet_state w = (sent_requests w, web_world.more w)"

definition silent :: "('w web_world_scheme, 'a) io \<Rightarrow> bool" where
  "silent m \<longleftrightarrow> (\<forall>x. io_keeps (\<lambda>w. quiet_state w = x) m)"

lemma silent_quiet: assumes "silent m" and "m w = (w', r)" shows "quiet_state w' = quiet_state w"
proof -
  have "io_keeps (\<lambda>v. quiet_state v = quiet_state w) m" using assms(1) unfolding silent_def by (rule spec)
  from io_tripleD [OF this refl assms(2)] show ?thesis .
qed

lemma silentD: "silent m \<Longrightarrow> m w = (w', r) \<Longrightarrow> requested_urls w' = requested_urls w"
  by (drule (1) silent_quiet) (simp add: quiet_state_def requested_urls_def)

lemma silentI: "(\<And>w w' r. m w = (w', r) \<Longrightarrow> quiet_state w' = quiet_state w) \<Longrightarrow> silent m"
  unfolding silent_def by (intro allI io_tripleI) simp

lemma io_steps_quiet [simp]:
  "read_clock env w = (w', t) \<Longrightarrow> quiet_state w' = quiet_state w"
  "write_file env path content w = (w', u) \<Longrightarrow> quiet_state w' = quiet_state w"
  "read_file_bytes env path w = (w', b) \<Longrightarrow> quiet_state w' = quiet_state w"
  by (auto simp: quiet_state_def read_clock_def write_file_def read_file_bytes_def split: if_splits)

lemma silent_bind [intro]: "silent m \<Longrightarrow> (\<And>x. silent (f x)) \<Longrightarrow> silent (io_bind m f)"
  by (simp add: silent_def io_keeps_bind)

lemma silent_steps [intro, simp]:
  "silent (io_return x)" "silent (io_raise e)" "silent (io_lift r)" "silent (read_clock env)"
  "silent (write_file env path content)" "silent (read_file_bytes env path)" "silent (make_directory env path)"
  by (rule silentI; simp add: make_directory_def)+

lemma silent_if [intro]: "silent a \<Longrightarrow> silent b \<Longrightarrow> silent (if c then a else b)"
  by simp

lemma silent_store_raw: "silent (store_raw env con url content)"
  unfolding store_raw_def by (intro silent_bind silent_steps)

lemma silent_read_raw_text: "silent (read_raw_text env path :: ('w web_world_scheme, string) io)"
proof (rule silentI)
  fix w w' :: "'w web_world_scheme" and r assume "read_raw_text env path w = (w', r)"
  moreover have "silent (io_bind (read_file_bytes env p) (\<lambda>content.
     io_bind (io_lift (guard (utf8_valid content) (ValueError ''UnicodeDecodeError''))) (\<lambda>_.
     io_return (universal_newlines content))))" for p
    by (intro silent_bind silent_steps)
  ultimately show "quiet_state w' = quiet_state w" unfolding read_raw_text_def by (rule silent_quiet [rotated])
qed

lemma silent_extract_report: "silent (extract_report env doc)"
  unfolding extract_report_def by (intro silent_bind silent_steps silent_read_raw_text)

lemma silent_retrieval_time: "silent (retrieval_time env d)"
  unfolding retrieval_time_def by (auto split: option.split)

lemma silent_normalize_report: "silent (normalize_report env ex)"
  unfolding normalize_report_def Let_def by (intro silent_bind silent_steps silent_retrieval_time)

lemma detail_page_logs: "detail_page env con html w = (w', r) \<Longrightarrow>
    requested_urls w' = requested_urls w @ (if html = None then [FACILITY_DETAIL_URL @ ''/'' @ site_number con] else [])"
  by (auto simp: detail_page_def io_bind_def split: option.splits prod.splits sum.splits)

lemma silent_discovery_time: "silent (discovery_time env html discovered_at)"
  unfolding discovery_time_def by (intro silent_if silent_bind silent_steps)

lemma discover_reports_logs:
  assumes "discover_reports env con html discovered_at section fallback w = (w', r)"
  shows "\<exists>us. requested_urls w' = requested_urls w @ us \<and> length us \<le> discovery_budget html fallback"
proof -
  obtain w1 p where page: "detail_page env con html w = (w1, p)" by fastforce
  note l1 = detail_page_logs [OF page]
  show ?thesis
  proof (cases p)
    case (Inl e)
    with assms page l1 show ?thesis by (auto simp: discover_reports_def io_bind_def discovery_budget_def)
  next
    case (Inr h)
    obtain w2 t where time: "discovery_time env html discovered_at w1 = (w2, t)" by fastforce
    note l2 = silentD [OF silent_discovery_time time]
    from assms page Inr time have "requested_urls w' = requested_urls w2 \<or>
        ((html = None \<or> fallback) \<and> requested_urls w' = requested_urls w2 @ [REPORTS_BASE_URL @ ''/'' @ site_number con])"
      by (cases t) (auto simp: discover_reports_def io_bind_def split: prod.splits sum.splits if_splits)
    with l1 l2 show ?thesis by (auto simp: discovery_budget_def)
  qed
qed

lemma discover_reports_own: "discover_reports env con html discovered_at section fallback w = (w', Inr cs) \<Longrightarrow>
    (\<forall>c \<in> set cs. own_candidate (site_number con) c) \<and> distinct (map cand_report_index cs)"
  by (auto simp: discover_reports_def io_bind_eq_Inr dest: discovered_page_ok discovered_list_ok split: if_splits)

interpretation site: report_source requested_urls "site_report_connector env con" for env con
  by unfold_locales
    (auto simp: site_report_connector_def discover_reports_own dest: silentD [OF silent_store_raw]
       silentD [OF silent_extract_report] silentD [OF silent_normalize_report] discover_reports_logs discover_reports_own)

section \<open>Budgets\<close>

lemma own_urls: "\<forall>c \<in> set cs. own_candidate number c \<Longrightarrow>
    map cand_source_url cs = map (\<lambda>c. report_source_url number (cand_report_index c)) cs"
  by (simp add: own_candidate_def)

lemma subseq_elems: "subseq xs ys \<Longrightarrow> set xs \<subseteq> set ys"
  by (auto dest: list_emb_set)

lemma subseq_distinctD: "subseq xs ys \<Longrightarrow> distinct ys \<Longrightarrow> distinct xs"
  by (induction rule: list_emb.induct) (auto dest: subseq_elems)


section \<open>Stored pages\<close>

lemma strip_underscores_digits: "list_all is_digit s \<Longrightarrow> s \<noteq> [] \<Longrightarrow> strip_underscores s = Some s"
  by (induction s rule: strip_underscores.induct) (auto simp: is_digit_def)

lemma digits_no_space: "list_all is_digit s \<Longrightarrow> list_all (\<lambda>c. \<not> is_space c) s"
  by (auto simp: list_all_iff is_digit_def is_space_def Let_def)

lemma py_strip_no_space: "list_all (\<lambda>c. \<not> is_space c) s \<Longrightarrow> py_strip s = s"
proof -
  have id: "dropWhile is_space t = t" if "list_all (\<lambda>c. \<not> is_space c) t" for t
    using that by (cases t) auto
  show "list_all (\<lambda>c. \<not> is_space c) s \<Longrightarrow> ?thesis" using id [of s] id [of "rev s"] by (simp add: py_strip_def)
qed

lemma py_int_show_nat [simp]: "py_int (show_nat n) = Some (int n)"
proof -
  have digits: "list_all is_digit (show_nat n)" by (rule show_nat_digits)
  then have strip: "py_strip (show_nat n) = show_nat n" by (intro py_strip_no_space digits_no_space)
  obtain c cs where c: "show_nat n = c # cs" using show_nat_nonempty by (cases "show_nat n") auto
  with digits have "c \<noteq> CHR ''-''" "c \<noteq> CHR ''+''" by (auto simp: is_digit_def)
  with strip c strip_underscores_digits [OF digits] show ?thesis
    using digits_value_show_nat [of n] by (simp add: py_int_def)
qed

lemma source_url_index_report [simp]: "source_url_index (report_source_url number i) = Inr (Some (int i))"
  by (simp add: source_url_index_def urlsplit_report_url report_query_values)

lemma store_raw_Inr: "store_raw env con (report_source_url number i) content w = (w', Inr doc) \<longleftrightarrow>
    (let path = raw_report_path con (Some (int i)) in
     writable_path env (site_raw_dir con) \<and> writable_path env path \<and>
     w' = w\<lparr>stored_files := (path, content) # filter (\<lambda>f. fst f \<noteq> path) (stored_files w), clock_ticks := clock_ticks w + 1\<rparr> \<and>
     doc = \<lparr>doc_url = report_source_url number i, doc_path = path, doc_sha256 = sha256_hex env content,
       doc_retrieved_at = Some (iso_text (now_at env (clock_ticks w))), doc_content_type = Some ''text/html''\<rparr>)"
  by (auto simp: store_raw_def make_directory_def io_bind_def guard_def write_file_def read_clock_def Let_def)

text \<open>Two indices share a file when they are equal, or when one is the connector's default and the other 0.\<close>

definition shares_raw_file :: "site_connector \<Rightarrow> nat \<Rightarrow> nat \<Rightarrow> bool" where
  "shares_raw_file con i j \<longleftrightarrow> i = j \<or> ((i = 0 \<or> j = 0) \<and> site_default_index con = int (i + j))"

lemma show_int_inject: "show_int a = show_int b \<Longrightarrow> a \<ge> 0 \<Longrightarrow> b \<ge> 0 \<Longrightarrow> a = b"
  by (simp add: show_int_def)

lemma show_int_neg: "a < 0 \<Longrightarrow> show_int a \<noteq> show_int (int n)"
proof
  assume a: "a < 0" "show_int a = show_int (int n)"
  then have "hd (show_nat n) = CHR ''-''" by (simp add: show_int_def) (metis list.sel(1))
  moreover have "is_digit (hd (show_nat n))"
    using show_nat_digits [of n] by (cases "show_nat n") auto
  ultimately show False by (simp add: is_digit_def)
qed

lemma show_int_eq_iff: "show_int a = show_int b \<longleftrightarrow> a = b" if "b \<ge> 0"
  using that show_int_inject [of a b] show_int_neg [of a "nat b"] by (cases "a \<ge> 0") auto

lemma show_int_eq_iff': "show_int b = show_int a \<longleftrightarrow> b = a" if "b \<ge> 0"
  using show_int_eq_iff [OF that] by metis

lemma raw_report_path_eq:
  "raw_report_path con (Some (int i)) = raw_report_path con (Some (int j)) \<longleftrightarrow> shares_raw_file con i j"
proof -
  let ?r = "\<lambda>i. raw_report_index (Some (int i)) (site_default_index con)"
  have "raw_report_path con (Some (int i)) = raw_report_path con (Some (int j)) \<longleftrightarrow> show_int (?r i) = show_int (?r j)"
    by (simp add: raw_report_path_def)
  also have "\<dots> \<longleftrightarrow> shares_raw_file con i j"
    using show_int_eq_iff [of "int j"] show_int_eq_iff' [of "int i"]
    by (cases "i = 0"; cases "j = 0") (auto simp: raw_report_index_def shares_raw_file_def)
  finally show ?thesis .
qed


definition quiet_world :: web_world where
  "quiet_world = \<lparr>sent_requests = [], clock_ticks = 0, stored_files = []\<rparr>"

definition example_web_env :: report_env where
  "example_web_env = \<lparr>json_loads = (\<lambda>_. None), sha256_hex = (\<lambda>s. replicate 64 (CHR ''a'')), float_repr = (\<lambda>_. ''1.0''),
     read_bytes = (\<lambda>_. None), resolve_path = (\<lambda>p. p), iso_datetime_year = (\<lambda>_. None),
     respond = (\<lambda>_ _. Inl (OSError ''offline'')), now_at = (\<lambda>n. \<lparr>iso_text = ''now'', iso_seconds = ''now'', stamp_digits = show_nat n\<rparr>),
     writable_path = (\<lambda>_. True), dateutil_parse = (\<lambda>_. Inl (ValueError ''unknown'')), html_events = (\<lambda>s. [Text_Data s]),
     schema_check = (\<lambda>_ _. Inr ()), repository_root = []\<rparr>"

definition example_connector :: site_connector where
  "example_connector = \<lparr>site_number = ''157806098'', site_default_index = 3, site_raw_dir = [''raw'']\<rparr>"


section \<open>Where extracted values come from\<close>

text \<open>A value is a line of the report, or the cleaned rest of one.\<close>

definition piece_of :: "string list \<Rightarrow> string \<Rightarrow> bool" where
  "piece_of lines v \<longleftrightarrow> (\<exists>l \<in> set lines. v = l \<or> (\<exists>n. v = clean_text (drop n l)))"

lemma piece_of_Cons: "piece_of lines v \<Longrightarrow> piece_of (l # lines) v"
  by (auto simp: piece_of_def)

lemma next_value_in: "next_value lines = Some v \<Longrightarrow> v \<in> set lines"
  by (induction lines) (auto split: if_splits)

lemma or_next_piece: "or_next (clean_text (drop n l)) lines = Some v \<Longrightarrow> piece_of (l # lines) v"
  by (auto simp: or_next_def piece_of_def dest!: next_value_in split: if_splits)

lemma next_piece: "next_value lines = Some v \<Longrightarrow> piece_of (l # lines) v"
  by (auto simp: piece_of_def dest: next_value_in)

lemma lstrip_drop: "\<exists>n. py_lstrip s = drop n s"
  by (metis dropWhile_eq_drop py_lstrip_def)

lemma after_spaced_colon_drop: "after_spaced_colon label line = Some v \<Longrightarrow> \<exists>n. v = drop n line"
  using lstrip_drop [of "drop (length label) line"]
  by (auto simp: after_spaced_colon_def after_char_def Let_def tl_drop drop_Suc [symmetric] split: if_splits)

lemma after_punctuation_drop: "after_punctuation label line = Some v \<Longrightarrow> \<exists>n. v = drop n line"
  using lstrip_drop [of "drop (length label) line"]
  by (auto simp: after_punctuation_def Let_def tl_drop drop_Suc [symmetric] split: if_splits)

lemma value_after_label_piece: "value_after_label lines label = Some v \<Longrightarrow> piece_of lines v"
  by (induction lines label rule: value_after_label.induct) (auto dest: or_next_piece next_piece piece_of_Cons split: if_splits)

lemma value_after_exact_label_piece: "value_after_exact_label lines label = Some v \<Longrightarrow> piece_of lines v"
  by (induction lines label rule: value_after_exact_label.induct) (auto dest: next_piece piece_of_Cons split: if_splits)

lemma value_after_spaced_colon_label_piece: "value_after_spaced_colon_label lines label = Some v \<Longrightarrow> piece_of lines v"
  by (induction lines label rule: value_after_spaced_colon_label.induct)
    (auto dest: or_next_piece piece_of_Cons dest!: after_spaced_colon_drop split: option.splits)

lemma value_after_punctuated_label_piece: "value_after_punctuated_label lines label = Some v \<Longrightarrow> piece_of lines v"
  by (induction lines label rule: value_after_punctuated_label.induct)
    (auto dest: or_next_piece piece_of_Cons dest!: after_punctuation_drop split: option.splits)

lemmas label_pieces = value_after_label_piece value_after_exact_label_piece value_after_spaced_colon_label_piece
  value_after_punctuated_label_piece

lemma labeled_value_piece: "labeled_value lines label = Some v \<Longrightarrow> piece_of lines v"
  by (auto simp: labeled_value_def text_or_def dest: label_pieces split: if_splits)

lemma table_label_evidence_ok:
  "ev_status (table_label_evidence cells label sec) = Value_Present \<longleftrightarrow> ev_value (table_label_evidence cells label sec) \<noteq> None"
  "ev_value (table_label_evidence cells label sec) = Some v \<Longrightarrow> v \<in> set cells"
  by (induction cells label sec rule: table_label_evidence.induct)
    (auto simp: mk_evidence_def Let_def py_strip_def split: list.splits if_splits)

lemma regional_office_evidence_ok:
  "ev_status (regional_office_evidence cells) = Value_Present \<longleftrightarrow> ev_value (regional_office_evidence cells) \<noteq> None"
  by (induction cells) (auto simp: mk_evidence_def split: option.splits)

definition consistent_evidence :: "field_evidence \<Rightarrow> bool" where
  "consistent_evidence e \<longleftrightarrow> (ev_status e = Value_Present \<longleftrightarrow> ev_value e \<noteq> None) \<and>
     (ev_value e = None \<longleftrightarrow> ev_warning e \<noteq> None) \<and> ev_section e \<noteq> None"

lemma consistent_mk: "consistent_evidence (mk_evidence s section t v w) \<longleftrightarrow>
    (s = Value_Present \<longleftrightarrow> v \<noteq> None) \<and> (v = None \<longleftrightarrow> w \<noteq> None)"
  by (simp add: consistent_evidence_def mk_evidence_def)

lemma consistent_table: "consistent_evidence (table_label_evidence cells label sec)"
  by (induction cells label sec rule: table_label_evidence.induct) (auto simp: consistent_mk Let_def)

lemma consistent_integer: "consistent_evidence e \<Longrightarrow> consistent_evidence (integer_field_evidence e)"
  by (auto simp: consistent_evidence_def integer_field_evidence_def split: option.splits)

lemma consistent_office: "consistent_evidence (regional_office_evidence cells)"
  by (induction cells) (auto simp: consistent_mk split: option.splits)

lemma consistent_narrative: "consistent_evidence (investigation_findings_narrative_evidence lines)"
  by (auto simp: investigation_findings_narrative_evidence_def consistent_mk Let_def split: option.splits)

lemma consistent_deficiency: "consistent_evidence (snd (deficiency_texts_evidence lines))"
  by (auto simp: deficiency_texts_evidence_def consistent_mk Let_def split: option.splits)

lemma deficiency_texts_subseq: "subseq (fst (deficiency_texts_evidence lines)) lines"
proof -
  have "subseq rest lines" if "line_after_any lines headings = Some rest" for rest headings
  proof -
    from that obtain h where "dropWhile (\<lambda>l. py_casefold l \<notin> set (map py_casefold headings)) lines = h # rest"
      by (auto simp: line_after_any_def split: list.splits)
    then have "suffix rest lines" by (metis suffix_ConsD suffix_dropWhile)
    then show ?thesis by (auto simp: suffix_def)
  qed
  moreover have "subseq (deficiency_lines rest) rest" for rest
  proof -
    have "subseq (filter p xs) xs" for p and xs :: "string list" by (rule subseq_filter_left)
    moreover have "subseq (takeWhile q rest) rest" for q by (rule prefix_imp_subseq) (rule takeWhile_is_prefix)
    ultimately show ?thesis unfolding deficiency_lines_def using subseq_order.trans by blast
  qed
  ultimately have "subseq (deficiency_lines rest) lines"
    if "line_after_any lines DEFICIENCIES_HEADINGS = Some rest" for rest
    using that subseq_order.trans by blast
  then show ?thesis by (simp add: deficiency_texts_evidence_def Let_def split: option.split)
qed

section \<open>The first activity\<close>

lemma first_activity_ok:
  "first_activity best as \<in> insert best (set as)"
  "c \<in> insert best (set as) \<Longrightarrow> \<not> activity_before c (first_activity best as)"
proof (induction as arbitrary: best c)
  case Nil
  { case 2 then show ?case by (simp add: activity_before_def) }
next
  case (Cons a as)
  { case 1 show ?case using Cons(1) [of best] Cons(1) [of a] by auto }
  { case 2
    have trans: "activity_before x z" if "activity_before x y" "activity_before y z" for x y z
      using that by (fastforce simp: activity_before_def)
    have neg: "\<not> activity_before x z" if "\<not> activity_before x y" "\<not> activity_before y z" for x y z
      using that by (fastforce simp: activity_before_def not_less_iff_gr_or_eq)
    show ?case
    proof (cases "activity_before a best")
      case True
      from Cons(2) [of a a] have a: "\<not> activity_before a (first_activity a as)" by simp
      from 2 consider "c = best" | "c \<in> insert a (set as)" by auto
      then show ?thesis
      proof cases
        case 1
        with True a trans [of a best "first_activity a as"] show ?thesis using \<open>activity_before a best\<close> by auto
      qed (use True Cons(2) [of c a] in simp)
    next
      case False
      from Cons(2) [of best best] have b: "\<not> activity_before best (first_activity best as)" by simp
      from 2 consider "c = a" | "c \<in> insert best (set as)" by auto
      then show ?thesis
        using False neg [of a best "first_activity best as"] b Cons(2) [of c best] by cases auto
    qed }
qed simp_all

lemma scan_token_keeps: "scan_date_token env source s t = Inr s' \<Longrightarrow> set (fst s) \<subseteq> set (fst s')"
  by (auto simp: scan_date_token_def ebind_eq_Inr split: option.splits)

lemma scan_line_keeps:
  assumes "scan_activity_line env s line = Inr s'"
  shows "set (fst s) \<subseteq> set (fst s')"
proof (cases "has_activity_cue line")
  case True
  with assms have run: "foldM_err (scan_date_token env (py_strip (first_sentence False line))) s
      (source_date_tokens (py_strip (first_sentence False line))) = Inr s'"
    by (simp add: scan_activity_line_def Let_def)
  show ?thesis
    by (rule foldM_err_invariant [OF run, where I = "\<lambda>t. set (fst s) \<subseteq> set (fst t)"]) (auto dest: scan_token_keeps)
qed (use assms in \<open>simp add: scan_activity_line_def\<close>)

lemma first_investigation_activity_ok:
  assumes "first_investigation_activity env lines visit visit_source = Inr (event, e)"
  shows "consistent_evidence e" "event = None \<longleftrightarrow> ev_value e = None"
    "event = Some d \<Longrightarrow> \<exists>a. d = activity_event a \<and> ev_value e = Some (isoformat (act_date a)) \<and>
       (\<forall>v. parse_source_date env visit = Inr (Some v) \<longrightarrow> act_date a \<le> v)"
proof -
  let ?lines = "case investigation_findings_lines lines of None \<Rightarrow> [] | Some ls \<Rightarrow> ls"
  obtain visits cs malformed where v: "visit_candidates env visit visit_source = Inr visits"
    "foldM_err (scan_activity_line env) (visits, None) ?lines = Inr (cs, malformed)"
    using assms by (auto simp: first_investigation_activity_def Let_def ebind_eq_Inr)
  have kept: "set visits \<subseteq> set (fst (cs, malformed))"
    by (rule foldM_err_invariant [OF v(2), where I = "\<lambda>s. set visits \<subseteq> set (fst s)"]) (auto dest: scan_line_keeps)
  have visited: "\<exists>c \<in> set cs. act_date c = u" if "parse_source_date env visit = Inr (Some u)" for u
  proof (cases visit)
    case None
    with that show ?thesis by (simp add: parse_source_date_def)
  next
    case (Some s)
    with that v(1) have "\<exists>c \<in> set visits. act_date c = u" by (auto simp: visit_candidates_def)
    with kept show ?thesis by auto
  qed
  show "consistent_evidence e" "event = None \<longleftrightarrow> ev_value e = None"
    using assms v by (auto simp: first_investigation_activity_def Let_def consistent_mk mk_evidence_def
        consistent_evidence_def split: list.splits option.splits)
  assume d: "event = Some d"
  show "\<exists>a. d = activity_event a \<and> ev_value e = Some (isoformat (act_date a)) \<and>
       (\<forall>v. parse_source_date env visit = Inr (Some v) \<longrightarrow> act_date a \<le> v)"
  proof (cases cs)
    case Nil
    with assms v d show ?thesis by (auto simp: first_investigation_activity_def Let_def split: option.splits)
  next
    case (Cons a as)
    let ?best = "first_activity a as"
    from Cons assms v d have "d = activity_event ?best" "ev_value e = Some (isoformat (act_date ?best))"
      by (auto simp: first_investigation_activity_def Let_def mk_evidence_def)
    moreover have "act_date ?best \<le> u" if u: "parse_source_date env visit = Inr (Some u)" for u
    proof -
      from visited [OF u] Cons obtain c where c: "c \<in> insert a (set as)" "act_date c = u" by auto
      from first_activity_ok(2) [OF c(1)] c(2) show ?thesis by (auto simp: activity_before_def)
    qed
    ultimately show ?thesis by blast
  qed
qed

lemma evidence_int_total: "\<exists>i. evidence_int_value (integer_field_evidence e) = Inr i"
proof -
  have "\<exists>i. py_int v = Some i" if d: "py_isdigit (py_strip v)" for v
  proof -
    obtain c cs where c: "py_strip v = c # cs" "is_digit c" "list_all is_digit cs"
      using d by (cases "py_strip v") (auto simp: py_isdigit_def)
    then have "strip_underscores (c # cs) = Some (c # cs)" by (intro strip_underscores_digits) auto
    moreover have "c \<noteq> CHR ''-''" "c \<noteq> CHR ''+''" using c(2) by (auto simp: is_digit_def)
    ultimately show ?thesis using c(1) by (simp add: py_int_def)
  qed
  note int = this
  show ?thesis by (auto simp: integer_field_evidence_def evidence_int_value_def dest: int split: option.splits)
qed

lemma head_case: "set fs \<subseteq> A \<Longrightarrow> u \<in> A \<Longrightarrow> (case fs of [] \<Rightarrow> u | f # _ \<Rightarrow> f) \<in> A"
  by (cases fs) auto

lemma report_finding_allowed: "report_finding lines \<in> set ALLOWED_FINDINGS"
proof -
  have n: "normalized_finding v = Some f \<Longrightarrow> f \<in> set ALLOWED_FINDINGS" for v f
    unfolding normalized_finding_def find_Some_iff by auto
  then have o: "opt_finding v = Some f \<Longrightarrow> f \<in> set ALLOWED_FINDINGS" for v f
    by (auto simp: opt_finding_def split: option.splits)
  have l: "line_finding v = Some f \<Longrightarrow> f \<in> set ALLOWED_FINDINGS" for v f
    using n o by (auto simp: line_finding_def split: option.splits)
  have m: "set (List.map_filter g xs) \<subseteq> A" if "\<And>v f. g v = Some f \<Longrightarrow> f \<in> A"
    for g :: "'z \<Rightarrow> string option" and xs A
    using that by (induction xs) (auto simp: List.map_filter_simps split: option.splits)
  let ?fs = "List.map_filter line_finding lines @ List.map_filter opt_finding
          [value_after_label lines ''Finding:'', value_after_exact_label lines ''Finding'',
           value_after_spaced_colon_label lines ''Finding'']"
  have "set (List.map_filter line_finding lines) \<subseteq> set ALLOWED_FINDINGS" by (rule m) (rule l)
  moreover have "set (List.map_filter opt_finding xs) \<subseteq> set ALLOWED_FINDINGS" for xs by (rule m) (rule o)
  ultimately have "set ?fs \<subseteq> set ALLOWED_FINDINGS" by (simp only: set_append Un_least)
  then show ?thesis unfolding report_finding_def by (rule head_case) (simp add: ALLOWED_FINDINGS_def)
qed

definition COPIED_EVIDENCE :: "string list" where
  "COPIED_EVIDENCE = [''facility_address'', ''facility_city'', ''facility_type'', ''facility_contact'', ''regional_office'',
     ''agency_name'', ''investigation_findings_narrative'', ''first_investigation_activity_date'']"

definition CELL_FIELDS :: "string list" where
  "CELL_FIELDS = [''facility_address'', ''facility_city'', ''facility_type'', ''facility_contact'', ''agency_name'']"

lemma extract_facts_ok:
  assumes "extract_facts env lines cells = Inr facts"
  shows "\<forall>ne \<in> set (fact_evidence facts). consistent_evidence (snd ne)"
    "map fst (fact_evidence facts) = map fst (page_evidence lines cells e e)"
    "fact_deficiencies facts = fst (deficiency_texts_evidence lines)"
    "name \<in> set CELL_FIELDS \<Longrightarrow> evidence_value facts name = Some v \<Longrightarrow> v \<in> set cells"
proof -
  obtain received report visit signed event act where f: "first_investigation_activity env lines visit (labeled_value lines ''VISIT DATE'') = Inr (event, act)"
    "facts = \<lparr>fact_received = received, fact_report = report, fact_visit = visit, fact_signed = signed,
          fact_evidence = page_evidence lines cells (snd (deficiency_texts_evidence lines)) act,
          fact_deficiencies = fst (deficiency_texts_evidence lines),
          fact_deficiency_evidence = snd (deficiency_texts_evidence lines), fact_event = event\<rparr>"
    using assms by (auto simp: extract_facts_def ebind_eq_Inr)
  show "\<forall>ne \<in> set (fact_evidence facts). consistent_evidence (snd ne)"
    by (simp add: f(2) page_evidence_def consistent_table consistent_integer consistent_office consistent_narrative
        consistent_deficiency first_investigation_activity_ok(1) [OF f(1)])
  show "map fst (fact_evidence facts) = map fst (page_evidence lines cells e e)"
    "fact_deficiencies facts = fst (deficiency_texts_evidence lines)"
    by (simp_all add: f(2) page_evidence_def)
  show "name \<in> set CELL_FIELDS \<Longrightarrow> evidence_value facts name = Some v \<Longrightarrow> v \<in> set cells"
    by (auto simp: CELL_FIELDS_def f(2) evidence_value_def page_evidence_def dest: table_label_evidence_ok(2))
qed

lemma extracted_parts:
  assumes "extract_page env doc lines cells = Inr ex"
  obtains facts visit event act where
    "extract_facts env lines cells = Inr facts" "ex_evidence ex = fact_evidence facts"
    "first_investigation_activity env lines visit (labeled_value lines ''VISIT DATE'') = Inr (event, act)"
    "\<And>name. name \<in> set COPIED_EVIDENCE \<Longrightarrow> py_get (ex_values ex) name = pystr_or_none (evidence_value facts name)"
    "\<And>name. name \<in> set COPIED_EVIDENCE \<Longrightarrow>
      \<exists>ev. map_of (ex_evidence ex) name = Some ev \<and> evidence_value facts name = ev_value ev"
    "evidence_value facts ''first_investigation_activity_date'' = ev_value act"
    "py_get (ex_values ex) ''deficiency_texts'' = PList (map PStr (fact_deficiencies facts))"
    "py_get (ex_values ex) ''finding'' = PStr (report_finding lines)"
    "py_get (ex_values ex) ''visit_date'' = pystr_or_none visit"
    "list_items (ex_values ex) ''events'' = (case event of None \<Rightarrow> [] | Some e \<Rightarrow> [PDict e])"
proof -
  obtain index facts delays capacity where x: "extract_facts env lines cells = Inr facts"
    "ex = \<lparr>ex_values = extracted_values doc lines facts index capacity delays, ex_evidence = fact_evidence facts,
          ex_deficiency = Some (fact_deficiency_evidence facts)\<rparr>"
    using assms by (auto simp: extract_page_def ebind_eq_Inr)
  obtain received report visit signed event act where f: "first_investigation_activity env lines visit (labeled_value lines ''VISIT DATE'') = Inr (event, act)"
    "facts = \<lparr>fact_received = received, fact_report = report, fact_visit = visit, fact_signed = signed,
          fact_evidence = page_evidence lines cells (snd (deficiency_texts_evidence lines)) act,
          fact_deficiencies = fst (deficiency_texts_evidence lines),
          fact_deficiency_evidence = snd (deficiency_texts_evidence lines), fact_event = event\<rparr>"
    using x(1) by (auto simp: extract_facts_def ebind_eq_Inr)
  have d: "ex_values ex = extracted_values doc lines facts index capacity delays" and e: "ex_evidence ex = fact_evidence facts"
    by (simp_all add: x(2))
  have "\<forall>name \<in> set COPIED_EVIDENCE. py_get (ex_values ex) name = pystr_or_none (evidence_value facts name)"
    by (simp add: COPIED_EVIDENCE_def d extracted_values_def)
  moreover have "\<forall>name \<in> set COPIED_EVIDENCE. \<exists>ev. map_of (ex_evidence ex) name = Some ev \<and> evidence_value facts name = ev_value ev"
    by (simp add: COPIED_EVIDENCE_def e f(2) page_evidence_def evidence_value_def)
  ultimately show thesis
    by (intro that [OF x(1) e f(1)])
      (erule (1) bspec | simp add: d extracted_values_def f(2) list_items_def evidence_value_def page_evidence_def)+
qed

lemma extracted_texts:
  assumes "extract_page env doc lines cells = Inr ex"
  shows "name \<in> {''facility_number'', ''facility_name'', ''complaint_control_number''} \<Longrightarrow>
      optional_str (ex_values ex) name = Some v \<Longrightarrow> piece_of lines v"
    "optional_str (ex_values ex) ''source_url'' = Some (doc_url doc)"
    "optional_str (ex_values ex) ''raw_path'' = Some (posix_path (doc_path doc))"
    "optional_str (ex_values ex) ''raw_sha256'' = Some (doc_sha256 doc)"
proof -
  obtain index facts delays capacity where d: "ex_values ex = extracted_values doc lines facts index capacity delays"
    using assms by (auto simp: extract_page_def ebind_eq_Inr)
  have str: "optional_str (ex_values ex) name = v" if "py_get (ex_values ex) name = pystr_or_none v" for name v
    using that by (simp add: optional_str_def pystr_or_none_def split: option.split)
  have get: "py_get (ex_values ex) ''facility_number'' = pystr_or_none (labeled_value lines ''FACILITY NUMBER'')"
    "py_get (ex_values ex) ''facility_name'' = pystr_or_none (labeled_value lines ''FACILITY NAME'')"
    "py_get (ex_values ex) ''complaint_control_number'' = pystr_or_none (labeled_value lines ''COMPLAINT CONTROL NUMBER'')"
    "py_get (ex_values ex) ''source_url'' = pystr_or_none (Some (doc_url doc))"
    "py_get (ex_values ex) ''raw_path'' = pystr_or_none (Some (posix_path (doc_path doc)))"
    "py_get (ex_values ex) ''raw_sha256'' = pystr_or_none (Some (doc_sha256 doc))"
    by (simp_all add: d extracted_values_def pystr_or_none_def)
  show "piece_of lines v" if "name \<in> {''facility_number'', ''facility_name'', ''complaint_control_number''}"
      "optional_str (ex_values ex) name = Some v"
    using that str [OF get(1)] str [OF get(2)] str [OF get(3)]
    by (elim insertE emptyE) (simp_all add: labeled_value_piece)
  show "optional_str (ex_values ex) ''source_url'' = Some (doc_url doc)"
    "optional_str (ex_values ex) ''raw_path'' = Some (posix_path (doc_path doc))"
    "optional_str (ex_values ex) ''raw_sha256'' = Some (doc_sha256 doc)"
    using get(4-6) [THEN str] by simp_all
qed


definition example_document :: source_document where
  "example_document = \<lparr>doc_url = report_source_url ''157806098'' 3, doc_path = [''raw'', ''157806098_inx3.html''],
     doc_sha256 = replicate 64 (CHR ''a''), doc_retrieved_at = Some ''2026-01-02T00:00:00+00:00'',
     doc_content_type = Some ''text/html''\<rparr>"

definition example_lines :: "string list" where
  "example_lines = [''FACILITY NUMBER: 157806098'', ''FACILITY NAME :'', ''Sunrise Home'', ''Unsubstantiated'']"

lemma iso_date_unparsed: "(\<And>s. dateutil_parse env s = Inl (ValueError m)) \<Longrightarrow> iso_date env v = Inr None"
  by (cases v) (simp_all add: iso_date_def parse_source_date_def is_value_error_def)

lemma extract_page_total:
  assumes "\<And>s. dateutil_parse env s = Inl (ValueError m)" and "source_url_index (doc_url doc) = Inr index"
  shows "\<exists>ex. extract_page env doc lines cells = Inr ex"
proof -
  note iso = iso_date_unparsed [OF assms(1)]
  have token: "scan_date_token env source s t = Inr (fst s, Some source)" for source s t
    by (simp add: scan_date_token_def iso)
  have tokens: "\<exists>r. foldM_err (scan_date_token env source) s ts = Inr (fst s, r)" for source s ts
    by (induction ts arbitrary: s) (auto simp: token split: prod.split)
  have line: "\<exists>r. scan_activity_line env s l = Inr (fst s, r)" for s l
    using tokens by (cases s) (auto simp: scan_activity_line_def Let_def)
  have scan: "\<exists>r. foldM_err (scan_activity_line env) s ls = Inr (fst s, r)" for s ls
  proof (induction ls arbitrary: s)
    case (Cons l ls)
    from line [of s l] obtain r where "scan_activity_line env s l = Inr (fst s, r)" by blast
    with Cons.IH [of "(fst s, r)"] show ?case by simp
  next
    case Nil
    show ?case by (cases s) simp
  qed
  obtain r where r: "foldM_err (scan_activity_line env) ([], None)
      (case investigation_findings_lines lines of None \<Rightarrow> [] | Some ls \<Rightarrow> ls) = Inr ([], r)"
    using scan [of "([], None)"] by auto
  obtain act where act: "first_investigation_activity env lines None src = Inr (None, act)" for src
  proof -
    have "\<exists>act. first_investigation_activity env lines None src = Inr (None, act)" for src
      by (simp add: first_investigation_activity_def visit_candidates_def Let_def r)
    moreover have "first_investigation_activity env lines None src = first_investigation_activity env lines None src'" for src src'
      by (simp add: first_investigation_activity_def visit_candidates_def Let_def r)
    ultimately show thesis using that by metis
  qed
  have facts: "extract_facts env lines cells = Inr \<lparr>fact_received = None, fact_report = None, fact_visit = None,
      fact_signed = None, fact_evidence = page_evidence lines cells (snd (deficiency_texts_evidence lines)) act,
      fact_deficiencies = fst (deficiency_texts_evidence lines),
      fact_deficiency_evidence = snd (deficiency_texts_evidence lines), fact_event = None\<rparr>"
    by (simp add: extract_facts_def iso act)
  have none: "ev_value act = None"
    using first_investigation_activity_ok(2) [OF act] by simp
  have capacity: "\<exists>c. capacity_value \<lparr>fact_received = None, fact_report = None, fact_visit = None,
      fact_signed = None, fact_evidence = page_evidence lines cells (snd (deficiency_texts_evidence lines)) act,
      fact_deficiencies = fst (deficiency_texts_evidence lines),
      fact_deficiency_evidence = snd (deficiency_texts_evidence lines), fact_event = None\<rparr> = Inr c"
    using evidence_int_total by (simp add: capacity_value_def page_evidence_def)
  show ?thesis using capacity
    by (auto simp: extract_page_def assms(2) facts delay_metrics_def evidence_value_def page_evidence_def none
        parse_source_date_def)
qed

lemma example_page: "\<exists>ex. extract_page example_web_env example_document example_lines [] = Inr ex"
  by (rule extract_page_total [where m = "''unknown''"]) (simp_all add: example_web_env_def example_document_def)


end
