(* ===== verification/Report_Imports.thy ===== *)
theory Report_Imports imports Report_Properties Seeded_Writes
begin

text \<open>
  The connector and the importer together: what the connector normalizes flattens into source-derived records.
\<close>

section \<open>Normalized records and the importer\<close>

lemma mapM_err_total:
  "(\<And>x. x \<in> set xs \<Longrightarrow> \<exists>y. f x = Inr y \<and> P x y) \<Longrightarrow> \<exists>ys. mapM_err f xs = Inr ys \<and> list_all2 P xs ys"
proof (induction xs)
  case (Cons x xs)
  from Cons.prems [of x] obtain y where "f x = Inr y" "P x y" by auto
  moreover obtain ys where "mapM_err f xs = Inr ys" "list_all2 P xs ys" using Cons by (metis list.set_intros(2))
  ultimately show ?case by auto
qed simp

lemma strip_nonblank: "c \<in> set s \<Longrightarrow> \<not> is_space c \<Longrightarrow> py_strip s \<noteq> []"
proof
  assume c: "c \<in> set s" "\<not> is_space c" "py_strip s = []"
  then have "\<forall>x \<in> set (dropWhile is_space s). is_space x" by (simp add: py_strip_def)
  moreover have "c \<in> set (dropWhile is_space s)"
    using c(1,2) by (metis set_takeWhileD takeWhile_dropWhile_id in_set_conv_decomp Un_iff set_append)
  ultimately show False using c(2) by blast
qed

lemma nonblank_Cons [simp]: "\<not> is_space c \<Longrightarrow> py_strip (c # s) \<noteq> []"
  by (rule strip_nonblank [of c]) simp_all

text \<open>The fields of a traceability dictionary that every record of one document repeats.\<close>

definition traces :: "pydict \<Rightarrow> source_document \<Rightarrow> bool" where
  "traces trace doc \<longleftrightarrow> py_get trace ''source_url'' = PStr (doc_url doc) \<and> py_get trace ''raw_sha256'' = PStr (doc_sha256 doc) \<and>
     (\<exists>p. py_get trace ''raw_path'' = opt_pstr p) \<and> py_get trace ''connector_name'' = PStr CONNECTOR_NAME \<and>
     py_get trace ''connector_version'' = PStr REPORTS_CONNECTOR_VERSION \<and>
     (\<exists>t. py_get trace ''retrieved_at'' = PStr t \<and> py_strip t \<noteq> [])"

definition importable_document :: "source_document \<Rightarrow> bool" where
  "importable_document doc \<longleftrightarrow> py_strip (doc_url doc) \<noteq> [] \<and> is_raw_sha256 (doc_sha256 doc) \<and>
     (\<exists>t. doc_retrieved_at doc = Some t \<and> py_strip t \<noteq> [])"

lemma sha256_nonblank: "is_raw_sha256 s \<Longrightarrow> py_strip s \<noteq> []"
proof -
  assume s: "is_raw_sha256 s"
  then obtain c t where "s = c # t" "is_lower_hex c" by (cases s) (auto simp: is_raw_sha256_def)
  moreover have "\<not> is_space c" using calculation(2) by (auto simp: is_lower_hex_def is_digit_def is_space_def Let_def)
  ultimately show ?thesis by simp
qed

lemma connector_names: "py_strip CONNECTOR_NAME \<noteq> []" "py_strip REPORTS_CONNECTOR_VERSION \<noteq> []"
  by (simp_all add: CONNECTOR_NAME_def REPORTS_CONNECTOR_VERSION_def is_space_def)

lemma required_field_str: "py_get d name = PStr s \<Longrightarrow> py_strip s \<noteq> [] \<Longrightarrow> required_field e d name = Inr s"
  by (simp add: required_field_def)

lemma optional_field_opt: "py_get d name = opt_pstr v \<Longrightarrow> optional_field e d name = Inr v"
  by (cases v) (simp_all add: optional_field_def opt_pstr_def)

definition record_of :: "source_document \<Rightarrow> entity_type \<Rightarrow> string \<Rightarrow> string \<Rightarrow> seeded_record \<Rightarrow> bool" where
  "record_of doc t stable_id document_id r \<longleftrightarrow> sr_entity r = t \<and> sr_stable_id r = stable_id \<and>
     sr_document_id r = document_id \<and> sr_source_url r = doc_url doc \<and> sr_raw_sha256 r = doc_sha256 doc"

lemma mk_seeded_record_total:
  assumes "traces trace doc" and "importable_document doc" and "py_get original (ENTITY_ID_FIELDS t) = PStr i" and "py_strip i \<noteq> []"
  shows "\<exists>r. mk_seeded_record art t original trace document_id facility = Inr r \<and> record_of doc t i document_id r"
proof -
  obtain p u where "py_get trace ''raw_path'' = opt_pstr p" "py_get trace ''retrieved_at'' = PStr u" "py_strip u \<noteq> []"
    using assms(1) by (auto simp: traces_def)
  with assms connector_names sha256_nonblank show ?thesis
    by (simp add: mk_seeded_record_def required_str_from_mapping_def optional_str_from_mapping_def validated_raw_sha256_def
        required_field_str optional_field_opt traces_def importable_document_def record_of_def)
qed

lemma opt_str_pstr: "pystr_or_none v = opt_pstr v"
  by (simp add: pystr_or_none_def opt_pstr_def)


lemma required_str_Inr: "required_str d name = Inr s \<longleftrightarrow> optional_str d name = Some s"
  by (simp add: required_str_def split: option.split)

lemma normalize_report_Inr: "normalize_report env ex w = (w', Inr rec) \<longleftrightarrow>
    (\<exists>number name events complaint url retrieved h.
       optional_str (ex_values ex) ''facility_number'' = Some number \<and>
       optional_str (ex_values ex) ''facility_name'' = Some name \<and>
       normalized_events env number (ex_values ex) = Inr events \<and> report_complaint env number ex = Inr complaint \<and>
       optional_str (ex_values ex) ''source_url'' = Some url \<and>
       retrieval_time env (ex_values ex) w = (w', Inr retrieved) \<and>
       optional_str (ex_values ex) ''raw_sha256'' = Some h \<and>
       rec = assembled_report env ex number name events complaint url retrieved h)"
  by (auto simp: normalize_report_def Let_def io_bind_eq_Inr required_str_Inr)

lemma complaint_keys:
  assumes "normalized_complaint ex complaint_id facility_id document_id finding = Inr complaint"
  shows "py_get complaint ''complaint_id'' = PStr complaint_id" "py_get complaint ''facility_id'' = PStr facility_id"
    "py_get complaint ''document_id'' = PStr document_id"
proof -
  let ?I = "\<lambda>c. py_get c ''complaint_id'' = PStr complaint_id \<and> py_get c ''facility_id'' = PStr facility_id \<and>
    py_get c ''document_id'' = PStr document_id"
  obtain c0 where c0: "foldM_err (add_observation (ex_evidence ex))
         (base_complaint (ex_values ex) complaint_id facility_id document_id finding)
         [''agency_name'', ''investigation_findings_narrative'', ''facility_contact''] = Inr c0"
    "complaint = (if list_items (ex_values ex) ''deficiency_texts'' \<noteq> []
          then py_set c0 ''deficiency_texts'' (PList (list_items (ex_values ex) ''deficiency_texts'')) else c0)"
    using assms by (auto simp: normalized_complaint_def ebind_eq_Inr)
  have "?I c0"
  proof (rule foldM_err_invariant [OF c0(1)])
    show "?I (base_complaint (ex_values ex) complaint_id facility_id document_id finding)"
      by (simp add: base_complaint_def)
  next
    fix c name c' assume n: "name \<in> set [''agency_name'', ''investigation_findings_narrative'', ''facility_contact'']"
      and c: "?I c" "add_observation (ex_evidence ex) c name = Inr c'"
    from n have "name \<noteq> ''complaint_id'' \<and> name \<noteq> ''facility_id'' \<and> name \<noteq> ''document_id''" by auto
    with c show "?I c'" by (auto simp: add_observation_def split: option.splits if_splits)
  qed
  then show "py_get complaint ''complaint_id'' = PStr complaint_id" "py_get complaint ''facility_id'' = PStr facility_id"
    "py_get complaint ''document_id'' = PStr document_id"
    using c0(2) by (auto split: if_splits)
qed

lemma map_of_py_get: "py_get d k \<noteq> PNone \<Longrightarrow> map_of d k = Some (py_get d k)"
  by (auto simp: py_get_def split: option.splits)

lemma list_all2_entities: "list_all2 (\<lambda>x r. record_of doc t (i x) document_id r) xs rs \<Longrightarrow>
    map sr_entity rs = replicate (length xs) t \<and>
    (\<forall>r \<in> set rs. sr_source_url r = doc_url doc \<and> sr_raw_sha256 r = doc_sha256 doc \<and> sr_document_id r = document_id)"
  by (induction rule: list_all2_induct) (auto simp: record_of_def)

lemma audit_record_keys [simp]:
  "py_get (audit_record audit_id document_id name v c source part warning) ''document_id'' = PStr document_id"
  "py_get (audit_record audit_id document_id name v c source part warning) ''audit_id'' = PStr audit_id"
  by (simp_all add: audit_record_def)

lemma audit_records_keys:
  assumes "a \<in> set (audit_records env document_id ex)"
  shows "py_get a ''document_id'' = PStr document_id \<and> (\<exists>i. py_get a ''audit_id'' = PStr (document_id @ ''-'' @ i))"
proof -
  from assms consider name where "a = field_audit env document_id ex name" | "a \<in> set (deficiency_audits document_id ex)"
    | "a \<in> set (event_audits env document_id ex)"
    by (auto simp: audit_records_def)
  then show ?thesis
  proof cases
    case 1
    then show ?thesis by (simp add: field_audit_def Let_def split: option.split)
  next
    case 2
    then show ?thesis by (auto simp: deficiency_audits_def split: option.splits if_splits)
  next
    case 3
    then show ?thesis by (auto simp: event_audits_def)
  qed
qed

lemma normalized_event_keys: "normalized_event complaint_id ie = Inr e \<Longrightarrow>
    \<exists>d i. e = PDict d \<and> py_get d ''event_id'' = PStr (complaint_id @ ''-event-'' @ i)"
  by (fastforce simp: normalized_event_def Let_def ebind_eq_Inr)


section \<open>A normalized report is importable\<close>

lemma list_all2_eq_map: "list_all2 (\<lambda>v d. v = f d) vs ds \<Longrightarrow> vs = map f ds"
  by (induction rule: list_all2_induct) simp_all

lemma children_total:
  assumes "traces trace doc" and "importable_document doc" and "optional_str_from_mapping complaint ''facility_id'' = Inr f"
    and "py_get rec name = PList vs" and "\<And>v. v \<in> set vs \<Longrightarrow> \<exists>d. v = PDict d \<and> py_get d (ENTITY_ID_FIELDS t) = PStr (i v) \<and> py_strip (i v) \<noteq> []"
  shows "\<exists>rs. flatten_children art rec complaint document_id trace t name = Inr rs \<and>
    list_all2 (\<lambda>v r. record_of doc t (i v) document_id r) vs rs"
proof -
  let ?e = "field_message ''Seeded corpus record field '' name '' must contain objects.''"
  have "\<exists>ds. mapM_err (mapping_item ?e) vs = Inr ds \<and> list_all2 (\<lambda>v d. v = PDict d) vs ds"
    by (rule mapM_err_total) (use assms(5) in \<open>fastforce simp: mapping_item_def\<close>)
  then obtain ds where ds: "mapM_err (mapping_item ?e) vs = Inr ds" "vs = map PDict ds"
    by (metis list_all2_eq_map)
  let ?f = "\<lambda>child. ebind (optional_str_from_mapping complaint ''facility_id'') (\<lambda>facility_id.
       mk_seeded_record art t child trace document_id facility_id)"
  have "\<exists>rs. mapM_err ?f ds = Inr rs \<and> list_all2 (\<lambda>d r. record_of doc t (i (PDict d)) document_id r) ds rs"
  proof (rule mapM_err_total)
    fix d assume "d \<in> set ds"
    with assms(5) [of "PDict d"] ds(2) have "py_get d (ENTITY_ID_FIELDS t) = PStr (i (PDict d))" "py_strip (i (PDict d)) \<noteq> []" by auto
    from mk_seeded_record_total [OF assms(1,2) this] assms(3)
    show "\<exists>r. ?f d = Inr r \<and> record_of doc t (i (PDict d)) document_id r" by simp
  qed
  then show ?thesis using ds assms(4)
    by (auto simp: flatten_children_def mapping_sequence_def list_all2_map1)
qed

definition id_text :: "string \<Rightarrow> pyval \<Rightarrow> string" where
  "id_text field v = (case py_get (dict_of v) field of PStr s \<Rightarrow> s | _ \<Rightarrow> [])"

text \<open>The entity types of the records one report flattens into, in order.\<close>

definition report_entities :: "nat \<Rightarrow> nat \<Rightarrow> nat \<Rightarrow> entity_type list" where
  "report_entities allegations events audits =
     [Facility_Entity, Document_Entity, Complaint_Entity] @ replicate allegations Allegation_Entity
       @ replicate events Event_Entity @ replicate audits Audit_Entity"

lemma nonblank_prefix: "c \<in> set a \<Longrightarrow> \<not> is_space c \<Longrightarrow> py_strip (a @ b) \<noteq> []"
  by (rule strip_nonblank [of c]) simp_all

lemma nonblank_ids:
  "py_strip (facility_id_of number) \<noteq> []" "py_strip (document_id_of env number d) \<noteq> []"
  "py_strip (complaint_id_of control document_id) \<noteq> []" "py_strip (document_id_of env number d @ s) \<noteq> []"
  "py_strip (complaint_id_of control document_id @ s) \<noteq> []"
  by (simp_all add: facility_id_of_def document_id_of_def complaint_id_of_def is_space_def)


lemma event_ids: "normalized_events env number d = Inr events \<Longrightarrow> v \<in> set events \<Longrightarrow>
    \<exists>e. v = PDict e \<and> py_get e ''event_id'' = PStr (id_text ''event_id'' v) \<and> py_strip (id_text ''event_id'' v) \<noteq> []"
  by (auto simp: normalized_events_def report_complaint_id_def id_text_def dict_of_def nonblank_ids
      dest!: mapM_err_set normalized_event_keys)

lemma allegation_ids: "v \<in> set (map (normalized_allegation (report_complaint_id env number d) finding) as) \<Longrightarrow>
    \<exists>e. v = PDict e \<and> py_get e ''allegation_id'' = PStr (id_text ''allegation_id'' v) \<and> py_strip (id_text ''allegation_id'' v) \<noteq> []"
  by (auto simp: normalized_allegation_def report_complaint_id_def id_text_def dict_of_def nonblank_ids)

lemma audits_total:
  assumes "traces trace doc" and "importable_document doc" and "py_get sdoc ''facility_id'' = PStr f"
    and "py_get rec ''extraction_audit'' = PList (map PDict as)"
    and "\<And>a. a \<in> set as \<Longrightarrow> py_get a ''document_id'' = PStr document_id \<and> (\<exists>i. py_get a ''audit_id'' = PStr (document_id @ ''-'' @ i))"
    and "\<And>s. py_strip (document_id @ s) \<noteq> []"
  shows "\<exists>rs. flatten_audits art rec sdoc trace = Inr rs \<and>
    list_all2 (\<lambda>a r. record_of doc Audit_Entity (id_text ''audit_id'' (PDict a)) document_id r) as rs"
proof -
  let ?e = "field_message ''Seeded corpus record field '' ''extraction_audit'' '' must contain objects.''"
  have items: "mapM_err (mapping_item ?e) (map PDict as) = Inr as" for as
    by (induction as) (simp_all add: mapping_item_def)
  let ?f = "\<lambda>audit. ebind (required_str_from_mapping audit ''document_id'') (\<lambda>document_id.
       ebind (optional_str_from_mapping sdoc ''facility_id'') (\<lambda>facility_id.
       mk_seeded_record art Audit_Entity audit trace document_id facility_id))"
  have "\<exists>rs. mapM_err ?f as = Inr rs \<and> list_all2 (\<lambda>a r. record_of doc Audit_Entity (id_text ''audit_id'' (PDict a)) document_id r) as rs"
  proof (rule mapM_err_total)
    fix a assume "a \<in> set as"
    from assms(5) [OF this] obtain i where a: "py_get a ''document_id'' = PStr document_id"
      "py_get a (ENTITY_ID_FIELDS Audit_Entity) = PStr (document_id @ ''-'' @ i)" by auto
    have "optional_str_from_mapping sdoc ''facility_id'' = Inr (Some f)"
      by (simp add: optional_str_from_mapping_def optional_field_def assms(3))
    moreover have "required_str_from_mapping a ''document_id'' = Inr document_id"
      using a(1) assms(6) [of "[]"] by (simp add: required_str_from_mapping_def required_field_str)
    ultimately show "\<exists>r. ?f a = Inr r \<and> record_of doc Audit_Entity (id_text ''audit_id'' (PDict a)) document_id r"
      using mk_seeded_record_total [OF assms(1,2) a(2) assms(6)] a(2) by (simp add: id_text_def dict_of_def)
  qed
  then show ?thesis by (simp add: flatten_audits_def mapping_sequence_def assms(4) items)
qed

lemma normalized_traceability:
  assumes "optional_str d ''source_url'' = Some (doc_url doc)" and "optional_str d ''raw_sha256'' = Some (doc_sha256 doc)"
    and "importable_document doc" and "py_strip retrieved \<noteq> []" and "py_strip document_id \<noteq> []"
  shows "\<exists>trace. seeded_source_traceability (normalized_document d document_id facility_id (doc_url doc) retrieved (doc_sha256 doc)) = Inr trace \<and>
    traces trace doc"
proof -
  have path: "optional_str_from_mapping (normalized_document d document_id facility_id (doc_url doc) retrieved (doc_sha256 doc)) ''raw_path'' =
      Inr (optional_str d ''raw_path'')"
    unfolding optional_str_from_mapping_def
    by (rule optional_field_opt) (simp add: normalized_document_def copied_str_def opt_str_pstr)
  have "py_strip (doc_url doc) \<noteq> []" "py_strip (doc_sha256 doc) \<noteq> []" "is_raw_sha256 (doc_sha256 doc)"
    using assms(3) sha256_nonblank by (auto simp: importable_document_def)
  then show ?thesis using connector_names assms(4,5) path
    by (auto simp: seeded_source_traceability_def required_str_from_mapping_def required_field_def validated_raw_sha256_def
        normalized_document_def copied_str_def traces_def)
qed


lemma retrieval_time_known: "optional_str d ''retrieved_at'' = Some t \<Longrightarrow> t \<noteq> [] \<Longrightarrow> retrieval_time env d w = (w, Inr t)"
  by (simp add: retrieval_time_def text_or_def)

lemma extracted_document:
  assumes "extract_page env doc lines cells = Inr ex"
  shows "optional_str (ex_values ex) ''source_url'' = Some (doc_url doc)"
    "optional_str (ex_values ex) ''raw_sha256'' = Some (doc_sha256 doc)"
    "optional_str (ex_values ex) ''retrieved_at'' = doc_retrieved_at doc"
proof -
  obtain facts index capacity delays where x: "ex_values ex = extracted_values doc lines facts index capacity delays"
    using assms by (auto simp: extract_page_def ebind_eq_Inr)
  show "optional_str (ex_values ex) ''source_url'' = Some (doc_url doc)"
    "optional_str (ex_values ex) ''raw_sha256'' = Some (doc_sha256 doc)"
    "optional_str (ex_values ex) ''retrieved_at'' = doc_retrieved_at doc"
    by (simp_all add: x extracted_values_def optional_str_def pystr_or_none_def split: option.split)
qed

lemma assembled_parts:
  fixes env :: "'e pyenv_scheme"
  assumes "rec = assembled_report env ex number name events complaint url retrieved h"
  shows "py_get rec ''facility'' = PDict (normalized_facility (ex_values ex) (facility_id_of number) number name)"
    "py_get rec ''source_document'' = PDict (normalized_document (ex_values ex) (document_id_of env number (ex_values ex))
       (facility_id_of number) url retrieved h)"
    "py_get rec ''complaint'' = PDict complaint" "py_get rec ''hosted_refresh'' = PNone"
    "py_get rec ''allegations'' = PList (map (normalized_allegation (report_complaint_id env number (ex_values ex))
       (finding_of (ex_values ex))) (enumerate 1 (list_items (ex_values ex) ''allegations'')))"
    "py_get rec ''extraction_audit'' = PList (map PDict (audit_records env (document_id_of env number (ex_values ex)) ex))"
    "py_get rec ''events'' = (if events \<noteq> [] then PList events else PNone)"
  by (simp_all add: assms assembled_report_def Let_def)

lemma observation_total: "map_of evidence name \<noteq> None \<Longrightarrow> \<exists>c'. add_observation evidence c name = Inr c'"
  by (auto simp: add_observation_def split: option.splits)

lemma complaint_total:
  assumes "\<forall>name \<in> set [''agency_name'', ''investigation_findings_narrative'', ''facility_contact'']. map_of (ex_evidence ex) name \<noteq> None"
  shows "\<exists>c. normalized_complaint ex complaint_id facility_id document_id finding = Inr c"
proof -
  have "\<exists>c'. foldM_err (add_observation (ex_evidence ex)) c names = Inr c'"
    if "\<forall>name \<in> set names. map_of (ex_evidence ex) name \<noteq> None" for c names
    using that
  proof (induction names arbitrary: c)
    case (Cons name names)
    from observation_total [of "ex_evidence ex" name c] Cons.prems obtain c1 where
      "add_observation (ex_evidence ex) c name = Inr c1" by auto
    with Cons show ?case by simp
  qed simp
  from this [OF assms, of "base_complaint (ex_values ex) complaint_id facility_id document_id finding"]
  show ?thesis unfolding normalized_complaint_def by (elim exE) simp
qed

lemma extracted_events:
  assumes "extract_page env doc lines cells = Inr ex"
  shows "list_items (ex_values ex) ''events'' = [] \<or> (\<exists>a. list_items (ex_values ex) ''events'' = [PDict (activity_event a)])"
    "map fst (ex_evidence ex) = map fst (page_evidence lines cells e e)"
proof -
  obtain index facts delays capacity where x: "extract_facts env lines cells = Inr facts"
    "ex = \<lparr>ex_values = extracted_values doc lines facts index capacity delays, ex_evidence = fact_evidence facts,
          ex_deficiency = Some (fact_deficiency_evidence facts)\<rparr>"
    using assms by (auto simp: extract_page_def ebind_eq_Inr)
  obtain visit act event where f: "first_investigation_activity env lines visit (labeled_value lines ''VISIT DATE'') = Inr (event, act)"
    "fact_event facts = event"
    using x(1) by (auto simp: extract_facts_def ebind_eq_Inr)
  have items: "list_items (ex_values ex) ''events'' = (case event of None \<Rightarrow> [] | Some e \<Rightarrow> [PDict e])"
    by (simp add: x(2) extracted_values_def f(2) list_items_def)
  show "list_items (ex_values ex) ''events'' = [] \<or> (\<exists>a. list_items (ex_values ex) ''events'' = [PDict (activity_event a)])"
    using items first_investigation_activity_ok(3) [OF f(1)] by (cases event) auto
  show "map fst (ex_evidence ex) = map fst (page_evidence lines cells e e)"
    using extract_facts_ok(2) [OF x(1)] by (simp add: x(2))
qed

lemma normalized_activity: "\<exists>e. normalized_event complaint_id (i, PDict (activity_event a)) = Inr e"
  by (simp add: normalized_event_def dict_of_def activity_event_def required_str_def optional_str_def)

lemma normalize_total:
  assumes "extract_page env doc lines cells = Inr ex" and "optional_str (ex_values ex) ''facility_number'' = Some number"
    and "optional_str (ex_values ex) ''facility_name'' = Some name" and "doc_retrieved_at doc = Some t" and "t \<noteq> []"
  shows "\<exists>events complaint. normalized_events env number (ex_values ex) = Inr events \<and>
    report_complaint env number ex = Inr complaint \<and>
    normalize_report env ex w = (w, Inr (assembled_report env ex number name events complaint (doc_url doc) t (doc_sha256 doc)))"
proof -
  note known = extracted_document [OF assms(1)]
  obtain events where events: "normalized_events env number (ex_values ex) = Inr events"
  proof -
    from extracted_events(1) [OF assms(1)] consider "list_items (ex_values ex) ''events'' = []"
      | a where "list_items (ex_values ex) ''events'' = [PDict (activity_event a)]" by blast
    then show thesis
    proof cases
      case 1
      with that show ?thesis by (simp add: normalized_events_def)
    next
      case (2 a)
      obtain e where "normalized_event (report_complaint_id env number (ex_values ex)) (1, PDict (activity_event a)) = Inr e"
        using normalized_activity by blast
      with 2 that show ?thesis by (simp add: normalized_events_def)
    qed
  qed
  have "fst ` set (ex_evidence ex) = set (map fst (page_evidence lines cells undefined undefined))"
    using extracted_events(2) [OF assms(1), of undefined] by (metis list.set_map)
  then have keys: "\<forall>k \<in> set [''agency_name'', ''investigation_findings_narrative'', ''facility_contact'']. map_of (ex_evidence ex) k \<noteq> None"
    by (simp add: map_of_eq_None_iff page_evidence_def)
  obtain complaint where complaint: "report_complaint env number ex = Inr complaint"
    unfolding report_complaint_def Let_def using complaint_total [OF keys] by blast
  show ?thesis
    using events complaint assms(2,3) known assms(4) retrieval_time_known [of "ex_values ex" t env w] assms(5)
    by (auto simp: normalize_report_Inr)
qed

text \<open>C36: The records of the connector are what the importer accepts. When a stored page was extracted and the
  page names the facility's number and name, normalization succeeds without reading the clock, and the normalized
  record flattens without an error into the source-derived records of the facility, the document, the complaint,
  every allegation, every event and every audit record, in that order; each of them carries the document id, the
  address and the digest of the page it was extracted from.\<close>

theorem normalized_reports_are_importable:
  assumes "extract_page env doc lines cells = Inr ex" and "importable_document doc"
    and "optional_str (ex_values ex) ''facility_number'' = Some number"
    and "optional_str (ex_values ex) ''facility_name'' = Some name"
  shows "\<exists>rec rs. normalize_report env ex w = (w, Inr rec) \<and> flatten_normalized_record art rec = Inr rs \<and>
    map sr_entity rs = report_entities (length (list_items (ex_values ex) ''allegations''))
      (length (list_items (ex_values ex) ''events''))
      (length (audit_records env (document_id_of env number (ex_values ex)) ex)) \<and>
    (\<forall>r \<in> set rs. sr_document_id r = document_id_of env number (ex_values ex) \<and> sr_source_url r = doc_url doc \<and>
       sr_raw_sha256 r = doc_sha256 doc)"
proof -
  let ?d = "ex_values ex"
  note known = extracted_document [OF assms(1)]
  from assms(2) obtain t where t: "doc_retrieved_at doc = Some t" "py_strip t \<noteq> []" by (auto simp: importable_document_def)
  from t(2) have "t \<noteq> []" by (auto simp: py_strip_def)
  from normalize_total [OF assms(1,3,4) t(1) this] obtain events complaint where n:
    "normalized_events env number ?d = Inr events" "report_complaint env number ex = Inr complaint"
    "normalize_report env ex w = (w, Inr (assembled_report env ex number name events complaint (doc_url doc) t (doc_sha256 doc)))"
    by blast
  let ?rec = "assembled_report env ex number name events complaint (doc_url doc) t (doc_sha256 doc)"
  let ?id = "document_id_of env number ?d"
  let ?sdoc = "normalized_document ?d ?id (facility_id_of number) (doc_url doc) t (doc_sha256 doc)"
  note parts = assembled_parts [OF refl [of ?rec]]
  from normalized_traceability [OF known(1,2) assms(2) t(2) nonblank_ids(2)] obtain trace where
    trace: "seeded_source_traceability ?sdoc = Inr trace" "traces trace doc" by blast
  have sdoc: "py_get ?sdoc ''document_id'' = PStr ?id" "py_get ?sdoc ''facility_id'' = PStr (facility_id_of number)"
    by (simp_all add: normalized_document_def)
  have doc_id: "required_str_from_mapping ?sdoc ''document_id'' = Inr ?id"
    "optional_str_from_mapping ?sdoc ''facility_id'' = Inr (Some (facility_id_of number))"
    by (simp_all add: required_str_from_mapping_def required_field_str sdoc nonblank_ids optional_str_from_mapping_def optional_field_def)
  have fac: "py_get (normalized_facility ?d (facility_id_of number) number name) ''facility_id'' = PStr (facility_id_of number)"
    by (simp add: normalized_facility_def)
  have fac_id: "required_str_from_mapping (normalized_facility ?d (facility_id_of number) number name) ''facility_id'' = Inr (facility_id_of number)"
    by (simp add: required_str_from_mapping_def required_field_str fac nonblank_ids)
  obtain r1 where r1: "mk_seeded_record art Facility_Entity (normalized_facility ?d (facility_id_of number) number name) trace ?id
      (Some (facility_id_of number)) = Inr r1" "record_of doc Facility_Entity (facility_id_of number) ?id r1"
    using mk_seeded_record_total [OF trace(2) assms(2), of "normalized_facility ?d (facility_id_of number) number name"
        Facility_Entity "facility_id_of number" art ?id "Some (facility_id_of number)"] fac nonblank_ids(1) by auto
  have facility: "flatten_facility art ?rec ?sdoc trace = Inr [r1]"
    by (simp add: flatten_facility_def optional_mapping_def parts(1,4) doc_id fac_id r1(1))
  obtain r2 where r2: "mk_seeded_record art Document_Entity ?sdoc trace ?id (Some (facility_id_of number)) = Inr r2"
    "record_of doc Document_Entity ?id ?id r2"
    using mk_seeded_record_total [OF trace(2) assms(2), of ?sdoc Document_Entity ?id art ?id "Some (facility_id_of number)"]
      sdoc nonblank_ids(2) by auto
  have document: "flatten_document art ?sdoc trace = Inr [r2]" by (simp add: flatten_document_def doc_id r2(1))
  note ck = complaint_keys [OF n(2) [unfolded report_complaint_def Let_def]]
  have c_ids: "required_str_from_mapping complaint ''document_id'' = Inr ?id"
    "optional_str_from_mapping complaint ''facility_id'' = Inr (Some (facility_id_of number))"
    by (simp_all add: required_str_from_mapping_def required_field_str ck nonblank_ids optional_str_from_mapping_def optional_field_def)
  obtain r3 where r3: "mk_seeded_record art Complaint_Entity complaint trace ?id (Some (facility_id_of number)) = Inr r3"
    "record_of doc Complaint_Entity (report_complaint_id env number ?d) ?id r3"
    using mk_seeded_record_total [OF trace(2) assms(2), of complaint Complaint_Entity "report_complaint_id env number ?d" art ?id
        "Some (facility_id_of number)"] ck nonblank_ids(3) by (auto simp: report_complaint_id_def)
  let ?as = "map (normalized_allegation (report_complaint_id env number ?d) (finding_of ?d)) (enumerate 1 (list_items ?d ''allegations''))"
  obtain as where as: "flatten_children art ?rec complaint ?id trace Allegation_Entity ''allegations'' = Inr as"
    "list_all2 (\<lambda>v r. record_of doc Allegation_Entity (id_text ''allegation_id'' v) ?id r) ?as as"
    using children_total [OF trace(2) assms(2) c_ids(2) parts(5), of Allegation_Entity "id_text ''allegation_id''"] allegation_ids by fastforce
  obtain es where es: "flatten_children art ?rec complaint ?id trace Event_Entity ''events'' = Inr es"
    "list_all2 (\<lambda>v r. record_of doc Event_Entity (id_text ''event_id'' v) ?id r) events es"
  proof (cases "events = []")
    case True
    with that parts(7) show thesis by (simp add: flatten_children_def mapping_sequence_def)
  next
    case False
    with parts(7) have "py_get ?rec ''events'' = PList events" by simp
    from children_total [OF trace(2) assms(2) c_ids(2) this, of Event_Entity "id_text ''event_id''"] event_ids [OF n(1)] that
    show thesis by fastforce
  qed
  let ?aud = "audit_records env ?id ex"
  obtain us where us: "flatten_audits art ?rec ?sdoc trace = Inr us"
    "list_all2 (\<lambda>a r. record_of doc Audit_Entity (id_text ''audit_id'' (PDict a)) ?id r) ?aud us"
    using audits_total [OF trace(2) assms(2) sdoc(2) parts(6), of ?id art] audit_records_keys nonblank_ids(4) by blast
  have "flatten_normalized_record art ?rec = Inr ([r1] @ [r2] @ (r3 # as @ es) @ us)"
    by (simp add: flatten_normalized_record_def required_mapping_def mapping_item_def optional_mapping_def parts(2,3)
        trace(1) facility document us(1) flatten_complaint_def c_ids r3(1) as(1) es(1))
  moreover have "length events = length (list_items ?d ''events'')"
    using n(1) mapM_err_length by (fastforce simp: normalized_events_def)
  ultimately show ?thesis
    using n(3) r1(2) r2(2) r3(2) list_all2_entities [OF as(2)] list_all2_entities [OF es(2)]
      list_all2_entities [OF us(2)] by (auto simp: report_entities_def record_of_def)
qed



lemma example_facility_lines:
  "labeled_value example_lines ''FACILITY NUMBER'' = Some ''157806098''"
  "labeled_value example_lines ''FACILITY NAME'' = Some ''Sunrise Home''"
  by (simp_all add: labeled_value_def text_or_def example_lines_def py_casefold_def char_lower_def is_upper_def
      py_startswith_def or_next_def clean_text_def py_strip_def is_space_def py_endswith_def after_spaced_colon_def
      after_char_def py_lstrip_def suffix_to_prefix after_punctuation_def)

lemma extracted_names:
  assumes "extract_page env doc lines cells = Inr ex"
  shows "optional_str (ex_values ex) ''facility_number'' = labeled_value lines ''FACILITY NUMBER''"
    "optional_str (ex_values ex) ''facility_name'' = labeled_value lines ''FACILITY NAME''"
proof -
  obtain facts index capacity delays where x: "ex_values ex = extracted_values doc lines facts index capacity delays"
    using assms by (auto simp: extract_page_def ebind_eq_Inr)
  show "optional_str (ex_values ex) ''facility_number'' = labeled_value lines ''FACILITY NUMBER''"
    "optional_str (ex_values ex) ''facility_name'' = labeled_value lines ''FACILITY NAME''"
    by (simp_all add: x extracted_values_def optional_str_def pystr_or_none_def split: option.split)
qed

definition empty_artifact :: corpus_artifact where
  "empty_artifact = \<lparr>art_batch_id = ''batch'', art_imported_at = ''now'', art_identity = ''artifact'', art_pipeline_version = None,
     art_validation_status = ''validated'', art_raw_hash_status = ''validated'', art_record_counts = [], art_warnings = [],
     art_errors = [], art_records = []\<rparr>"

lemma example_importable: "importable_document example_document"
  by (simp add: importable_document_def example_document_def report_source_url_text is_raw_sha256_def is_lower_hex_def
      is_space_def list_all_iff)

theorem normalized_reports_are_importable_witness:
  "\<exists>ex rec rs. extract_page example_web_env example_document example_lines [] = Inr ex \<and>
     normalize_report example_web_env ex quiet_world = (quiet_world, Inr rec) \<and>
     flatten_normalized_record empty_artifact rec = Inr rs \<and>
     (\<forall>r \<in> set rs. sr_source_url r = report_source_url ''157806098'' 3)"
proof -
  from example_page obtain ex where ex: "extract_page example_web_env example_document example_lines [] = Inr ex" by blast
  note names = extracted_names [OF ex, unfolded example_facility_lines]
  have url: "doc_url example_document = report_source_url ''157806098'' 3" by (simp add: example_document_def)
  from normalized_reports_are_importable [OF ex example_importable names, of quiet_world empty_artifact] ex
  show ?thesis unfolding url by blast
qed

end
