(* ===== verification/Source_Refresh.thy ===== *)
theory Source_Refresh imports Facility_Properties Report_Imports
begin

text \<open>
  The refresh of retrieved records before their import (\<open>hosted_app/ccld_source_refresh.py\<close>): the approved facility-reference rows are merged by the shared projection, and each record's facility gets their type, county and status, with provenance, conflicts and audit records.
\<close>

section \<open>Constants\<close>

definition FACILITY_REFERENCE_TABLE_NAME :: string where
  "FACILITY_REFERENCE_TABLE_NAME = ''hosted_facility_reference_records''"

definition FACILITY_REFERENCE_DATASET_SLUG :: string where
  "FACILITY_REFERENCE_DATASET_SLUG = ''ccl-facilities''"

definition FACILITY_REFERENCE_EXTRACTION_METHOD :: string where
  "FACILITY_REFERENCE_EXTRACTION_METHOD = ''approved_ccld_facility_reference''"

definition FACILITY_REFERENCE_FIELD_NAMES :: "string list" where
  "FACILITY_REFERENCE_FIELD_NAMES = [''facility_type'', ''county'', ''status'']"

definition UNSAFE_REFERENCE_MARKERS :: "string list" where
  "UNSAFE_REFERENCE_MARKERS = [''fixture'', ''mock'', ''synthetic'', ''sample'', ''tiny'', ''test-only'', ''test_only'']"

definition APPROVED_RESOURCE_IDS :: "string list" where
  "APPROVED_RESOURCE_IDS =
     [''7aed8063-cea7-4367-8651-c81643164ae0'', ''4b5cc48d-03b1-4f42-a7d1-b9816903eb2b'',
      ''b4d78b7f-12df-4b0c-a81a-ff40b949bc75'', ''5f5f7124-1a38-4b61-93b9-4e4be3b3b07d'',
      ''c9df723a-437f-4dcd-be37-ec73ae518bb9'']"

section \<open>Values\<close>

text \<open>\<open>str(v or "")\<close>.\<close>

definition falsy_text :: "('a pyenv_scheme) \<Rightarrow> pyval \<Rightarrow> string" where
  "falsy_text env v = (if py_truthy v then py_str env v else [])"

definition refresh_text :: "('a pyenv_scheme) \<Rightarrow> pydict \<Rightarrow> string \<Rightarrow> string option" where
  "refresh_text env d name =
     (case py_get d name of PNone \<Rightarrow> None
      | v \<Rightarrow> (let s = py_strip (py_str env v) in if s = [] then None else Some s))"

definition required_refresh_text :: "('a pyenv_scheme) \<Rightarrow> pydict \<Rightarrow> string \<Rightarrow> string result" where
  "required_refresh_text env d name =
     (case refresh_text env d name of
        None \<Rightarrow> Inl (ValueError (''Missing required hosted refresh value: '' @ name))
      | Some s \<Rightarrow> Inr s)"

definition nonblank_value :: "pyval \<Rightarrow> bool" where
  "nonblank_value v = (case v of PNone \<Rightarrow> False | PStr s \<Rightarrow> py_strip s \<noteq> [] | _ \<Rightarrow> True)"

definition required_facility_number :: "('a pyenv_scheme) \<Rightarrow> pydict \<Rightarrow> string result" where
  "required_facility_number env rec =
     (case py_get rec ''facility'' of
        PDict f \<Rightarrow>
          ebind (required_refresh_text env f ''external_facility_number'') (\<lambda>n.
          ebind (guard (py_isdigit n) (ValueError ''CCLD hosted refresh facility number must contain digits only.'')) (\<lambda>_.
          Inr n))
      | _ \<Rightarrow> Inl (ValueError ''CCLD hosted refresh record requires facility context.''))"

section \<open>Approved reference rows\<close>

definition unsafe_reference_row :: "('a pyenv_scheme) \<Rightarrow> pydict \<Rightarrow> bool" where
  "unsafe_reference_row env row =
     (let inspected = py_join '' '' (map (\<lambda>k. py_casefold (falsy_text env (py_get row k)))
            [''source_resource_id'', ''source_resource_name'', ''source_file_name'', ''source_dataset_slug''])
      in list_ex (\<lambda>marker. py_in marker inspected) UNSAFE_REFERENCE_MARKERS)"

definition approved_reference_identity :: "('a pyenv_scheme) \<Rightarrow> pydict \<Rightarrow> bool" where
  "approved_reference_identity env row \<longleftrightarrow>
     falsy_text env (py_get row ''source_resource_id'') \<in> set APPROVED_RESOURCE_IDS \<and>
     falsy_text env (py_get row ''source_dataset_slug'') = FACILITY_REFERENCE_DATASET_SLUG"

definition reference_sort_key :: "('a pyenv_scheme) \<Rightarrow> pydict \<Rightarrow> string list" where
  "reference_sort_key env row =
     map (\<lambda>k. falsy_text env (py_get row k)) [''snapshot_date'', ''source_accessed_at'', ''source_resource_id'']"

text \<open>\<open>sorted(key=..., reverse=True)\<close> keeps the order of equal keys.\<close>

definition sort_key_reverse :: "('a \<Rightarrow> 'k::linorder) \<Rightarrow> 'a list \<Rightarrow> 'a list" where
  "sort_key_reverse f xs = rev (sort_key f (rev xs))"

text \<open>\<open>tuple(dict.fromkeys(values))\<close>: the first of equal values stays.\<close>

definition unique_first :: "'a list \<Rightarrow> 'a list" where
  "unique_first xs = rev (remdups (rev xs))"

text \<open>The candidates of the shared projection, one per row, with the identity of the row.\<close>

definition reference_snapshot_text :: "('a pyenv_scheme) \<Rightarrow> pydict \<Rightarrow> string" where
  "reference_snapshot_text env row =
     (if py_truthy (py_get row ''snapshot_date'') then py_str env (py_get row ''snapshot_date'')
      else falsy_text env (py_get row ''source_accessed_at''))"

definition reference_candidate ::
  "('a pyenv_scheme) \<Rightarrow> string \<Rightarrow> pydict \<Rightarrow> (string \<times> projection_candidate) result" where
  "reference_candidate env number row =
     ebind (required_refresh_text env row ''source_resource_id'') (\<lambda>resource.
     (let identity = resource @ '':'' @ number in
      Inr (identity, facility_projection_candidate_from_values row Program_Reference identity
             (resource @ '':'' @ reference_snapshot_text env row)
             (refresh_text env row ''source_accessed_at'') None)))"

definition REFERENCE_PROJECTION_FIELDS :: "(string \<times> projection_field) list" where
  "REFERENCE_PROJECTION_FIELDS =
     [(''facility_type'', Facility_Type), (''county'', County_Field), (''status'', Facility_Status)]"

definition reference_availability :: source_availability where
  "reference_availability = \<lparr>av_transparency = True, av_arcgis = True, av_reference = True, av_complaints = False\<rparr>"

text \<open>The raw values of a conflicting field, and the texts it is reported with.\<close>

definition conflict_texts :: "('a pyenv_scheme) \<Rightarrow> field_result \<Rightarrow> pyval" where
  "conflict_texts env r =
     PList (map PStr (unique_first (map (py_str env) (filter (\<lambda>v. v \<noteq> PNone) (map alt_raw (fr_alternatives r))))))"

record reference_merge =
  merged_row :: pydict
  merged_provenance :: pydict
  merged_conflicts :: pydict

definition merge_reference_field ::
  "('a pyenv_scheme) \<Rightarrow> (string \<times> pydict) list \<Rightarrow> identity_projection \<Rightarrow> reference_merge \<Rightarrow> string \<times> projection_field
     \<Rightarrow> reference_merge result" where
  "merge_reference_field env rows projection m nf =
     ebind (projection_field_of projection (snd nf)) (\<lambda>r.
     ebind (case fr_identity r of
              None \<Rightarrow> Inr (merged_provenance m)
            | Some i \<Rightarrow>
                (case map_of rows (id_row i) of
                   None \<Rightarrow> Inl (KeyError (id_row i))
                 | Some row \<Rightarrow> Inr (py_set (merged_provenance m) (fst nf) (PDict row)))) (\<lambda>provenance.
     Inr \<lparr>merged_row = py_set (merged_row m) (fst nf)
            (if fr_display r = PNone then PNone else PStr (py_str env (fr_display r))),
          merged_provenance = provenance,
          merged_conflicts = (if fr_conflict r then py_set (merged_conflicts m) (fst nf) (conflict_texts env r)
            else merged_conflicts m)\<rparr>))"

definition merge_reference_candidates :: "('a pyenv_scheme) \<Rightarrow> pydict list \<Rightarrow> pydict result" where
  "merge_reference_candidates env candidates =
     (case sort_key_reverse (reference_sort_key env) candidates of
        [] \<Rightarrow> Inl (IndexError ''list index out of range'')
      | newest # older \<Rightarrow>
          ebind (required_refresh_text env newest ''facility_number'') (\<lambda>number.
          ebind (mapM_err (reference_candidate env number) (newest # older)) (\<lambda>observed.
          ebind (project_facility_identity env (PStr number) (map snd observed) reference_availability False) (\<lambda>projection.
          ebind (foldM_err (merge_reference_field env (rev (zip (map fst observed) (newest # older))) projection)
              \<lparr>merged_row = newest, merged_provenance = [], merged_conflicts = []\<rparr> REFERENCE_PROJECTION_FIELDS) (\<lambda>m.
          Inr (py_set (py_set (merged_row m) ''_projection_field_provenance'' (PDict (merged_provenance m)))
                 ''_projection_reference_conflicts'' (PDict (merged_conflicts m))))))))"

definition NO_REFERENCE_WARNING :: string where
  "NO_REFERENCE_WARNING = ''No approved facility-reference row was available for one selected facility; ''
     @ ''existing facility master values remain unchanged.''"

definition select_references ::
  "('a pyenv_scheme) \<Rightarrow> pydict list \<Rightarrow> string list \<Rightarrow> ((string \<times> pydict) list \<times> string list) result" where
  "select_references env approved numbers =
     foldM_err (\<lambda>(selected, warnings) number.
       (let candidates = filter (\<lambda>row. py_get row ''facility_number'' = PStr number) approved in
        if candidates = [] then Inr (selected, warnings @ [NO_REFERENCE_WARNING])
        else ebind (merge_reference_candidates env candidates) (\<lambda>merged.
             Inr (selected @ [(number, merged)], warnings)))) ([], []) numbers"

definition approved_reference_rows ::
  "('a pyenv_scheme) \<Rightarrow> pydict list option \<Rightarrow> string list \<Rightarrow> bool \<Rightarrow> ((string \<times> pydict) list \<times> string list) result" where
  "approved_reference_rows env stored numbers allow_test =
     (case stored of
        None \<Rightarrow> Inr ([], [])
      | Some table \<Rightarrow>
          (let rows = filter (\<lambda>row. list_ex (\<lambda>n. py_get row ''facility_number'' = PStr n) numbers) table in
           ebind (guard (allow_test \<or> \<not> list_ex (unsafe_reference_row env) rows)
             (ReferenceError (''Facility-reference configuration contains fixture, mock, tiny, synthetic, ''
                @ ''sample, or test-only provenance for a selected hosted facility.''))) (\<lambda>_.
           (let approved = filter (\<lambda>row. (allow_test \<or> \<not> unsafe_reference_row env row) \<and> approved_reference_identity env row) rows
            in ebind (select_references env approved (sorted_set numbers)) (\<lambda>(selected, warnings).
               Inr (selected, unique_first warnings))))))"

definition validate_approved_facility_reference_configuration ::
  "('a pyenv_scheme) \<Rightarrow> pydict list option \<Rightarrow> string list \<Rightarrow> string list result" where
  "validate_approved_facility_reference_configuration env stored numbers =
     (if stored = None
      then Inl (ReferenceError ''Facility-reference configuration is not initialized for hosted backfill.'')
      else ebind (approved_reference_rows env stored numbers False) (\<lambda>(rows, warnings). Inr warnings))"

section \<open>Enriching one record\<close>

record enrichment =
  enr_facility :: pydict
  enr_provenance :: pydict
  enr_conflicts :: "pyval list"
  enr_audits :: "pyval list"
  enr_warnings :: "string list"

definition PROJECTION_CONFLICT_WARNING :: string where
  "PROJECTION_CONFLICT_WARNING = ''Eligible approved facility-reference rows disagree; the shared ''
     @ ''projection left one canonical allocation field unchanged.''"

definition note_projection_conflict :: "('a pyenv_scheme) \<Rightarrow> pydict \<Rightarrow> enrichment \<Rightarrow> string \<Rightarrow> enrichment" where
  "note_projection_conflict env projection_conflicts e name =
     (case py_get projection_conflicts name of
        PList alternatives \<Rightarrow>
          e\<lparr>enr_conflicts := enr_conflicts e @ [PDict
               [(''field_name'', PStr name),
                (''report_or_existing_value'', pystr_or_none (refresh_text env (enr_facility e) name)),
                (''facility_reference_values'', PList alternatives),
                (''resolution'', PStr ''unresolved_same_precedence_reference_conflict'')]],
            enr_warnings := enr_warnings e @ [PROJECTION_CONFLICT_WARNING]\<rparr>
      | _ \<Rightarrow> e)"

definition projection_conflicts_noted :: "('a pyenv_scheme) \<Rightarrow> pydict \<Rightarrow> enrichment \<Rightarrow> enrichment" where
  "projection_conflicts_noted env reference e =
     (case py_get reference ''_projection_reference_conflicts'' of
        PDict cs \<Rightarrow> foldl (note_projection_conflict env cs) e FACILITY_REFERENCE_FIELD_NAMES
      | _ \<Rightarrow> e)"

text \<open>The row a field comes from: that of the projection when it names one, the reference otherwise.\<close>

definition field_source :: "pydict \<Rightarrow> string \<Rightarrow> pydict" where
  "field_source reference name =
     (case py_get reference ''_projection_field_provenance'' of
        PDict provenance \<Rightarrow> (case py_get provenance name of PDict row \<Rightarrow> row | _ \<Rightarrow> reference)
      | _ \<Rightarrow> reference)"

definition source_fields :: "('a pyenv_scheme) \<Rightarrow> pydict \<Rightarrow> string \<Rightarrow> pydict result" where
  "source_fields env source name =
     ebind (required_refresh_text env source ''source_resource_id'') (\<lambda>resource.
     ebind (required_refresh_text env source ''source_dataset_slug'') (\<lambda>slug.
     ebind (required_refresh_text env source ''source_accessed_at'') (\<lambda>accessed.
     Inr [(''source_resource_id'', PStr resource), (''source_dataset_slug'', PStr slug),
          (''source_field'', PStr (FACILITY_REFERENCE_TABLE_NAME @ ''.'' @ name)),
          (''snapshot_date'', pystr_or_none (refresh_text env source ''snapshot_date'')),
          (''source_accessed_at'', PStr accessed)])))"

definition reference_audit :: "string \<Rightarrow> string \<Rightarrow> string \<Rightarrow> bool \<Rightarrow> pydict" where
  "reference_audit document_id name incoming conflict =
     [(''audit_id'', PStr (document_id @ ''-facility-reference-'' @ name)), (''document_id'', PStr document_id),
      (''field_name'', PStr (''facility.'' @ name)), (''extraction_method'', PStr FACILITY_REFERENCE_EXTRACTION_METHOD),
      (''extractor_version'', PStr ''1.0.0''), (''extracted_value'', PStr incoming), (''confidence'', PFloat 1),
      (''source_text'', PNone), (''source_section'', PStr ''approved facility reference''),
      (''warning'', if conflict
         then PStr (''Approved facility-reference value took precedence over a conflicting ''
                @ ''nonblank report or existing value.'')
         else PNone)]"

definition enrich_field ::
  "('a pyenv_scheme) \<Rightarrow> pydict \<Rightarrow> string \<Rightarrow> enrichment \<Rightarrow> string \<Rightarrow> enrichment result" where
  "enrich_field env reference document_id e name =
     (case refresh_text env reference name of
        None \<Rightarrow> Inr e
      | Some incoming \<Rightarrow>
          (let previous = py_get (enr_facility e) name;
               conflict = (nonblank_value previous \<and> py_strip (py_str env previous) \<noteq> incoming)
           in ebind (source_fields env (field_source reference name) name) (\<lambda>source.
              Inr \<lparr>enr_facility = py_set (enr_facility e) name (PStr incoming),
                   enr_provenance = py_set (enr_provenance e) name
                     (PDict ((''source_kind'', PStr ''approved_facility_reference'') # source)),
                   enr_conflicts = enr_conflicts e @
                     (if conflict then [PDict ([(''field_name'', PStr name),
                         (''report_or_existing_value'', PStr (py_strip (py_str env previous))),
                         (''facility_reference_value'', PStr incoming),
                         (''resolution'', PStr ''approved_facility_reference_precedence'')] @ source)] else []),
                   enr_audits = enr_audits e @ [PDict (reference_audit document_id name incoming conflict)],
                   enr_warnings = enr_warnings e\<rparr>)))"

definition existing_audits :: "pydict \<Rightarrow> pyval list result" where
  "existing_audits rec =
     (case map_of rec ''extraction_audit'' of
        None \<Rightarrow> Inr []
      | Some (PList audits) \<Rightarrow> Inr audits
      | Some _ \<Rightarrow> Inl (ValueError ''CCLD hosted refresh extraction_audit must be a list.''))"

definition enriched_record :: "pydict \<Rightarrow> enrichment \<Rightarrow> pydict" where
  "enriched_record rec e =
     (let updated = py_set (py_set rec ''facility'' (PDict (enr_facility e))) ''extraction_audit'' (PList (enr_audits e))
      in if enr_provenance e \<noteq> [] \<or> enr_conflicts e \<noteq> []
         then py_set updated ''hosted_refresh'' (PDict
           [(''facility_field_provenance'', PDict (enr_provenance e)),
            (''facility_reference_conflicts'', PList (enr_conflicts e))])
         else updated)"

text \<open>A record with its warnings and the number of conflicts found in it.\<close>

definition enrich_record ::
  "('a pyenv_scheme) \<Rightarrow> (string \<times> pydict) list \<Rightarrow> pydict \<Rightarrow> (pydict \<times> string list \<times> nat) result" where
  "enrich_record env references rec =
     (case py_get rec ''facility'' of
        PDict facility \<Rightarrow>
          ebind (required_facility_number env rec) (\<lambda>number.
          (case map_of references number of
             None \<Rightarrow> Inr (rec, [], 0)
           | Some reference \<Rightarrow>
               (case py_get rec ''source_document'' of
                  PDict document \<Rightarrow>
                    ebind (required_refresh_text env document ''document_id'') (\<lambda>document_id.
                    ebind (existing_audits rec) (\<lambda>audits.
                    ebind (foldM_err (enrich_field env reference document_id)
                        (projection_conflicts_noted env reference
                           \<lparr>enr_facility = facility, enr_provenance = [], enr_conflicts = [], enr_audits = audits,
                            enr_warnings = []\<rparr>)
                        FACILITY_REFERENCE_FIELD_NAMES) (\<lambda>e.
                    Inr (enriched_record rec e, enr_warnings e, length (enr_conflicts e)))))
                | _ \<Rightarrow> Inl (ValueError ''CCLD hosted refresh record requires source_document context.''))))
      | _ \<Rightarrow> Inr (rec, [], 0))"

record refresh_preparation =
  prep_records :: "pydict list"
  prep_reference_found :: bool
  prep_warnings :: "string list"
  prep_conflicted :: nat

definition prepare_ccld_hosted_source_records ::
  "('a pyenv_scheme) \<Rightarrow> pydict list option \<Rightarrow> pydict list \<Rightarrow> bool \<Rightarrow> bool \<Rightarrow> refresh_preparation result" where
  "prepare_ccld_hosted_source_records env stored records allow_test include_reference =
     ebind (mapM_err (required_facility_number env) (filter (\<lambda>rec. is_mapping (py_get rec ''facility'')) records)) (\<lambda>numbers.
     ebind (if numbers \<noteq> [] \<and> include_reference then approved_reference_rows env stored (sorted_set numbers) allow_test
            else Inr ([], [])) (\<lambda>(references, warnings).
     ebind (mapM_err (enrich_record env references) records) (\<lambda>enriched.
     Inr \<lparr>prep_records = map fst enriched, prep_reference_found = (references \<noteq> []),
          prep_warnings = unique_first (warnings @ concat (map (fst \<circ> snd) enriched)),
          prep_conflicted = sum_list (map (snd \<circ> snd) enriched)\<rparr>)))"

end
