(* ===== verification/Refresh_Properties.thy ===== *)
theory Refresh_Properties imports Source_Refresh
begin

text \<open>
  What a refresh changes: only documented values of three fields. The example is a facility whose approved rows disagree.
\<close>

section \<open>What an enrichment changes\<close>

definition refresh_conflicts :: "pydict \<Rightarrow> pyval list" where
  "refresh_conflicts rec = list_items (dict_of (py_get rec ''hosted_refresh'')) ''facility_reference_conflicts''"

text \<open>The records that document the replacement of a field: an audit record and a provenance entry of the new
  value and, when another value is replaced, a conflict that keeps it.\<close>

definition audited_value :: "pyval list \<Rightarrow> string \<Rightarrow> string \<Rightarrow> bool" where
  "audited_value audits name s \<longleftrightarrow> (\<exists>a. PDict a \<in> set audits \<and> py_get a ''field_name'' = PStr (''facility.'' @ name) \<and>
     py_get a ''extracted_value'' = PStr s \<and> py_get a ''extraction_method'' = PStr FACILITY_REFERENCE_EXTRACTION_METHOD)"

definition kept_value :: "('a pyenv_scheme) \<Rightarrow> pyval list \<Rightarrow> string \<Rightarrow> pyval \<Rightarrow> string \<Rightarrow> bool" where
  "kept_value env conflicts name old s \<longleftrightarrow> (nonblank_value old \<and> py_strip (py_str env old) \<noteq> s \<longrightarrow>
     (\<exists>c. PDict c \<in> set conflicts \<and> py_get c ''field_name'' = PStr name \<and>
        py_get c ''report_or_existing_value'' = PStr (py_strip (py_str env old)) \<and>
        py_get c ''facility_reference_value'' = PStr s))"

definition documented ::
  "('a pyenv_scheme) \<Rightarrow> pydict \<Rightarrow> pyval list \<Rightarrow> pyval list \<Rightarrow> string \<Rightarrow> pyval \<Rightarrow> pyval \<Rightarrow> bool" where
  "documented env provenance conflicts audits name old new \<longleftrightarrow>
     (\<exists>s. new = PStr s \<and> py_get provenance name \<noteq> PNone \<and> audited_value audits name s \<and> kept_value env conflicts name old s)"

lemma documented_mono:
  assumes "documented env p cs as name old new" "set cs \<subseteq> set cs'" "set as \<subseteq> set as'" "py_get p' name = py_get p name"
  shows "documented env p' cs' as' name old new"
proof -
  from assms(1) obtain s where s: "new = PStr s" "py_get p name \<noteq> PNone" "audited_value as name s" "kept_value env cs name old s"
    by (auto simp: documented_def)
  from s(3) assms(3) have "audited_value as' name s" unfolding audited_value_def by blast
  moreover from s(4) assms(2) have "kept_value env cs' name old s" unfolding kept_value_def by blast
  ultimately show ?thesis using s(1,2) assms(4) by (simp add: documented_def)
qed

definition enriched_from :: "('a pyenv_scheme) \<Rightarrow> enrichment \<Rightarrow> enrichment \<Rightarrow> bool" where
  "enriched_from env e e' \<longleftrightarrow>
     set (enr_conflicts e) \<subseteq> set (enr_conflicts e') \<and> prefix (enr_audits e) (enr_audits e') \<and>
     enr_warnings e' = enr_warnings e \<and>
     (\<forall>k. (py_get (enr_facility e') k = py_get (enr_facility e) k \<and> py_get (enr_provenance e') k = py_get (enr_provenance e) k) \<or>
        k \<in> set FACILITY_REFERENCE_FIELD_NAMES \<and>
        documented env (enr_provenance e') (enr_conflicts e') (enr_audits e') k (py_get (enr_facility e) k) (py_get (enr_facility e') k))"

lemma enrich_field_step:
  assumes "enrich_field env reference document_id e name = Inr e'" "name \<in> set FACILITY_REFERENCE_FIELD_NAMES"
  shows "enriched_from env e e'"
proof (cases "refresh_text env reference name")
  case None
  with assms(1) show ?thesis by (simp add: enrich_field_def enriched_from_def)
next
  case (Some s)
  from assms(1) Some obtain src where e': "e' = \<lparr>enr_facility = py_set (enr_facility e) name (PStr s),
       enr_provenance = py_set (enr_provenance e) name (PDict ((''source_kind'', PStr ''approved_facility_reference'') # src)),
       enr_conflicts = enr_conflicts e @
         (if nonblank_value (py_get (enr_facility e) name) \<and> py_strip (py_str env (py_get (enr_facility e) name)) \<noteq> s
          then [PDict ([(''field_name'', PStr name),
             (''report_or_existing_value'', PStr (py_strip (py_str env (py_get (enr_facility e) name)))),
             (''facility_reference_value'', PStr s),
             (''resolution'', PStr ''approved_facility_reference_precedence'')] @ src)] else []),
       enr_audits = enr_audits e @ [PDict (reference_audit document_id name s
         (nonblank_value (py_get (enr_facility e) name) \<and> py_strip (py_str env (py_get (enr_facility e) name)) \<noteq> s))],
       enr_warnings = enr_warnings e\<rparr>"
    by (auto simp: enrich_field_def Let_def ebind_eq_Inr)
  have "audited_value (enr_audits e') name s" unfolding audited_value_def e'
    by (intro exI [of _ "reference_audit document_id name s (nonblank_value (py_get (enr_facility e) name) \<and>
      py_strip (py_str env (py_get (enr_facility e) name)) \<noteq> s)"]) (simp add: reference_audit_def)
  moreover have "kept_value env (enr_conflicts e') name (py_get (enr_facility e) name) s" unfolding kept_value_def
  proof (intro impI)
    assume c: "nonblank_value (py_get (enr_facility e) name) \<and> py_strip (py_str env (py_get (enr_facility e) name)) \<noteq> s"
    let ?c = "[(''field_name'', PStr name),
             (''report_or_existing_value'', PStr (py_strip (py_str env (py_get (enr_facility e) name)))),
             (''facility_reference_value'', PStr s),
             (''resolution'', PStr ''approved_facility_reference_precedence'')] @ src"
    show "\<exists>c. PDict c \<in> set (enr_conflicts e') \<and> py_get c ''field_name'' = PStr name \<and>
        py_get c ''report_or_existing_value'' = PStr (py_strip (py_str env (py_get (enr_facility e) name))) \<and>
        py_get c ''facility_reference_value'' = PStr s"
      by (intro exI [of _ ?c] conjI) (simp add: e' c, simp_all)
  qed
  ultimately have "documented env (enr_provenance e') (enr_conflicts e') (enr_audits e') name (py_get (enr_facility e) name) (PStr s)"
    by (simp add: documented_def e')
  then show ?thesis using assms(2) unfolding enriched_from_def e' enrichment.select_convs
    by (intro conjI allI) (simp_all add: subset_iff)
qed

lemma enrich_fold:
  assumes "foldM_err (enrich_field env reference document_id) e names = Inr e'" "set names \<subseteq> set FACILITY_REFERENCE_FIELD_NAMES"
    "distinct names"
  shows "enriched_from env e e' \<and>
    (\<forall>k. k \<notin> set names \<longrightarrow> py_get (enr_facility e') k = py_get (enr_facility e) k \<and> py_get (enr_provenance e') k = py_get (enr_provenance e) k)"
  using assms
proof (induction names arbitrary: e)
  case Nil
  then show ?case by (simp add: enriched_from_def)
next
  case (Cons name names)
  from Cons.prems(1) obtain e1 where e1: "enrich_field env reference document_id e name = Inr e1"
    "foldM_err (enrich_field env reference document_id) e1 names = Inr e'" by (auto simp: ebind_eq_Inr)
  note s = enrich_field_step [OF e1(1)]
  have n: "name \<in> set FACILITY_REFERENCE_FIELD_NAMES" "set names \<subseteq> set FACILITY_REFERENCE_FIELD_NAMES" "name \<notin> set names" "distinct names"
    using Cons.prems(2,3) by auto
  have only: "py_get (enr_facility e1) k = py_get (enr_facility e) k \<and> py_get (enr_provenance e1) k = py_get (enr_provenance e) k"
    if "k \<noteq> name" for k
    using e1(1) that by (auto simp: enrich_field_def Let_def ebind_eq_Inr split: option.splits)
  note IH = Cons.IH [OF e1(2) n(2,4)]
  from IH have t: "enriched_from env e1 e'"
    and rest: "\<And>k. k \<notin> set names \<Longrightarrow> py_get (enr_facility e') k = py_get (enr_facility e1) k \<and> py_get (enr_provenance e') k = py_get (enr_provenance e1) k"
    by blast+
  from s [OF n(1)] t have sets: "set (enr_conflicts e1) \<subseteq> set (enr_conflicts e')" "set (enr_audits e1) \<subseteq> set (enr_audits e')"
    by (auto simp: enriched_from_def dest: set_mono_prefix)
  have "enriched_from env e e'" unfolding enriched_from_def
  proof (intro conjI allI)
    show "set (enr_conflicts e) \<subseteq> set (enr_conflicts e')" "prefix (enr_audits e) (enr_audits e')" "enr_warnings e' = enr_warnings e"
      using s [OF n(1)] t unfolding enriched_from_def by (auto intro: prefix_order.trans)
    fix k
    show "(py_get (enr_facility e') k = py_get (enr_facility e) k \<and> py_get (enr_provenance e') k = py_get (enr_provenance e) k) \<or>
        k \<in> set FACILITY_REFERENCE_FIELD_NAMES \<and>
        documented env (enr_provenance e') (enr_conflicts e') (enr_audits e') k (py_get (enr_facility e) k) (py_get (enr_facility e') k)"
    proof (cases "k = name")
      case True
      with rest n(3) have r: "py_get (enr_facility e') k = py_get (enr_facility e1) k" "py_get (enr_provenance e') k = py_get (enr_provenance e1) k"
        by simp_all
      from s [OF n(1), unfolded enriched_from_def] show ?thesis unfolding r
        using documented_mono [OF _ sets r(2)] by blast
    next
      case False
      note o = only [OF False]
      from t have "(py_get (enr_facility e') k = py_get (enr_facility e1) k \<and> py_get (enr_provenance e') k = py_get (enr_provenance e1) k) \<or>
        k \<in> set FACILITY_REFERENCE_FIELD_NAMES \<and>
        documented env (enr_provenance e') (enr_conflicts e') (enr_audits e') k (py_get (enr_facility e1) k) (py_get (enr_facility e') k)"
        unfolding enriched_from_def by blast
      then show ?thesis unfolding conjunct1 [OF o] conjunct2 [OF o] .
    qed
  qed
  moreover have "py_get (enr_facility e') k = py_get (enr_facility e) k \<and> py_get (enr_provenance e') k = py_get (enr_provenance e) k"
    if "k \<notin> set (name # names)" for k
    using that rest [of k] only [of k] by simp
  ultimately show ?case by blast
qed

definition refreshed :: "('a pyenv_scheme) \<Rightarrow> pydict \<Rightarrow> pydict \<Rightarrow> bool" where
  "refreshed env rec rec' \<longleftrightarrow>
     (\<forall>k. k \<notin> {''facility'', ''extraction_audit'', ''hosted_refresh''} \<longrightarrow> py_get rec' k = py_get rec k) \<and>
     prefix (list_items rec ''extraction_audit'') (list_items rec' ''extraction_audit'') \<and>
     (\<forall>k. (let old = py_get (dict_of (py_get rec ''facility'')) k; new = py_get (dict_of (py_get rec' ''facility'')) k
           in new = old \<or> k \<in> set FACILITY_REFERENCE_FIELD_NAMES \<and>
             documented env (dict_of (py_get (dict_of (py_get rec' ''hosted_refresh'')) ''facility_field_provenance''))
               (refresh_conflicts rec') (list_items rec' ''extraction_audit'') k old new))"

lemma refreshed_refl: "refreshed env rec rec"
  by (simp add: refreshed_def)

lemma note_conflicts_frame:
  "enr_facility (foldl (note_projection_conflict env cs) e names) = enr_facility e \<and>
   enr_provenance (foldl (note_projection_conflict env cs) e names) = enr_provenance e \<and>
   enr_audits (foldl (note_projection_conflict env cs) e names) = enr_audits e"
  by (induction names arbitrary: e) (simp_all add: note_projection_conflict_def split: pyval.split)

lemma projection_conflicts_noted_frame:
  "enr_facility (projection_conflicts_noted env reference e) = enr_facility e"
  "enr_provenance (projection_conflicts_noted env reference e) = enr_provenance e"
  "enr_audits (projection_conflicts_noted env reference e) = enr_audits e"
  using note_conflicts_frame [of env] by (simp_all add: projection_conflicts_noted_def split: pyval.split)

lemma existing_audits_Inr: "existing_audits rec = Inr audits \<Longrightarrow> list_items rec ''extraction_audit'' = audits"
  by (auto simp: existing_audits_def list_items_def py_get_def split: option.splits pyval.splits)

lemma field_names_distinct: "distinct FACILITY_REFERENCE_FIELD_NAMES"
  by (simp add: FACILITY_REFERENCE_FIELD_NAMES_def)

lemma enriched_record_parts:
  "k \<notin> {''facility'', ''extraction_audit'', ''hosted_refresh''} \<Longrightarrow> py_get (enriched_record rec e) k = py_get rec k"
  "py_get (enriched_record rec e) ''facility'' = PDict (enr_facility e)"
  "list_items (enriched_record rec e) ''extraction_audit'' = enr_audits e"
  "enr_provenance e \<noteq> [] \<Longrightarrow> refresh_conflicts (enriched_record rec e) = enr_conflicts e \<and>
    dict_of (py_get (dict_of (py_get (enriched_record rec e) ''hosted_refresh'')) ''facility_field_provenance'') = enr_provenance e"
  by (simp_all add: enriched_record_def Let_def list_items_def refresh_conflicts_def dict_of_def map_of_py_set)

lemma enrich_record_ok:
  assumes "enrich_record env references rec = Inr (rec', ws, n)"
  shows "refreshed env rec rec'"
proof (cases "rec' = rec")
  case True
  then show ?thesis by (simp add: refreshed_refl)
next
  case False
  then obtain facility number reference document_id audits e where
    f: "py_get rec ''facility'' = PDict facility" and a: "existing_audits rec = Inr audits"
    and e: "foldM_err (enrich_field env reference document_id) (projection_conflicts_noted env reference
        \<lparr>enr_facility = facility, enr_provenance = [], enr_conflicts = [], enr_audits = audits, enr_warnings = []\<rparr>)
        FACILITY_REFERENCE_FIELD_NAMES = Inr e"
    and r: "rec' = enriched_record rec e"
    using assms False unfolding enrich_record_def
    by (cases "py_get rec ''facility''"; cases "py_get rec ''source_document''") (auto simp: ebind_eq_Inr split: option.splits)
  from enrich_fold [OF e order_refl field_names_distinct] have
    p: "prefix audits (enr_audits e)" and
    c: "\<And>k. (py_get (enr_facility e) k = py_get facility k \<and> py_get (enr_provenance e) k = PNone) \<or>
        k \<in> set FACILITY_REFERENCE_FIELD_NAMES \<and>
        documented env (enr_provenance e) (enr_conflicts e) (enr_audits e) k (py_get facility k) (py_get (enr_facility e) k)"
    unfolding enriched_from_def projection_conflicts_noted_frame enrichment.select_convs py_get_Nil by blast+
  have some: "enr_provenance e \<noteq> []"
    if "documented env (enr_provenance e) cs as k old new" for cs as k old new
    using that by (auto simp: documented_def)
  show ?thesis unfolding refreshed_def Let_def r enriched_record_parts(2,3) f existing_audits_Inr [OF a]
  proof (intro conjI allI impI)
    show "prefix audits (enr_audits e)" by (rule p)
    show "py_get (enriched_record rec e) k = py_get rec k" if "k \<notin> {''facility'', ''extraction_audit'', ''hosted_refresh''}" for k
      using that by (rule enriched_record_parts(1))
    fix k
    show "py_get (dict_of (PDict (enr_facility e))) k = py_get (dict_of (PDict facility)) k \<or>
      k \<in> set FACILITY_REFERENCE_FIELD_NAMES \<and> documented env
        (dict_of (py_get (dict_of (py_get (enriched_record rec e) ''hosted_refresh'')) ''facility_field_provenance''))
        (refresh_conflicts (enriched_record rec e)) (enr_audits e) k (py_get (dict_of (PDict facility)) k)
        (py_get (dict_of (PDict (enr_facility e))) k)"
    proof (cases "py_get (enr_facility e) k = py_get facility k")
      case False
      with c [of k] have k: "k \<in> set FACILITY_REFERENCE_FIELD_NAMES"
        "documented env (enr_provenance e) (enr_conflicts e) (enr_audits e) k (py_get facility k) (py_get (enr_facility e) k)" by blast+
      note h = enriched_record_parts(4) [OF some [OF k(2)], of rec]
      show ?thesis unfolding conjunct1 [OF h] conjunct2 [OF h] using k by (simp add: dict_of_def)
    qed (simp add: dict_of_def)
  qed
qed

text \<open>C40: A hosted refresh documents every change it makes. Each prepared record keeps all it had but the
  facility's type, county and status, the audit list, which only grows, and the refresh notes. A changed field
  holds an approved reference value with a provenance entry and an audit record, and if another value was
  replaced, a conflict entry keeps it.\<close>

theorem refresh_documents_every_change:
  assumes "prepare_ccld_hosted_source_records env stored records allow_test include_reference = Inr p"
  shows "list_all2 (refreshed env) records (prep_records p)"
proof -
  from assms obtain references enriched where e: "mapM_err (enrich_record env references) records = Inr enriched"
    "prep_records p = map fst enriched"
    by (auto simp: prepare_ccld_hosted_source_records_def ebind_eq_Inr split: prod.splits)
  from e(1) have "list_all2 (\<lambda>rec r. refreshed env rec (fst r)) records enriched"
  proof (induction records arbitrary: enriched)
    case (Cons rec records)
    then show ?case by (auto simp: ebind_eq_Inr enrich_record_ok)
  qed simp
  with e(2) show ?thesis by (simp add: list_all2_map2)
qed

section \<open>An example\<close>

text \<open>Two approved rows of one facility disagree on its status; the newer one decides.\<close>

definition example_reference :: "string \<Rightarrow> string \<Rightarrow> string \<Rightarrow> pydict" where
  "example_reference resource accessed status =
     [(''source_resource_id'', PStr resource), (''facility_number'', PStr ''157806098''), (''status'', PStr status),
      (''source_dataset_slug'', PStr FACILITY_REFERENCE_DATASET_SLUG), (''source_accessed_at'', PStr accessed)]"

definition older_reference :: pydict where
  "older_reference = example_reference (APPROVED_RESOURCE_IDS ! 0) ''2026-01-01'' ''Licensed''"

definition newer_reference :: pydict where
  "newer_reference = example_reference (APPROVED_RESOURCE_IDS ! 1) ''2026-02-01'' ''Closed''"

definition example_refresh_record :: pydict where
  "example_refresh_record =
     [(''facility'', PDict [(''external_facility_number'', PStr ''157806098''), (''status'', PStr ''Licensed'')]),
      (''source_document'', PDict [(''document_id'', PStr ''document'')])]"

lemma example_rows_approved:
  "unsafe_reference_row example_pyenv older_reference = False" "unsafe_reference_row example_pyenv newer_reference = False"
  "approved_reference_identity example_pyenv older_reference" "approved_reference_identity example_pyenv newer_reference"
  by code_simp+

lemma example_rows_sorted:
  "sort_key_reverse (reference_sort_key example_pyenv) [older_reference, newer_reference] = [newer_reference, older_reference]"
  by code_simp

definition newer_candidate :: projection_candidate where
  "newer_candidate = facility_projection_candidate_from_values newer_reference Program_Reference
     (APPROVED_RESOURCE_IDS ! 1 @ '':157806098'') (APPROVED_RESOURCE_IDS ! 1 @ '':2026-02-01'') (Some ''2026-02-01'') None"

definition older_candidate :: projection_candidate where
  "older_candidate = facility_projection_candidate_from_values older_reference Program_Reference
     (APPROVED_RESOURCE_IDS ! 0 @ '':157806098'') (APPROVED_RESOURCE_IDS ! 0 @ '':2026-01-01'') (Some ''2026-01-01'') None"

lemma example_row_texts:
  "required_refresh_text example_pyenv newer_reference ''source_resource_id'' = Inr (APPROVED_RESOURCE_IDS ! 1)"
  "required_refresh_text example_pyenv older_reference ''source_resource_id'' = Inr (APPROVED_RESOURCE_IDS ! 0)"
  "reference_snapshot_text example_pyenv newer_reference = ''2026-02-01''"
  "reference_snapshot_text example_pyenv older_reference = ''2026-01-01''"
  "refresh_text example_pyenv newer_reference ''source_accessed_at'' = Some ''2026-02-01''"
  "refresh_text example_pyenv older_reference ''source_accessed_at'' = Some ''2026-01-01''"
  "required_refresh_text example_pyenv newer_reference ''facility_number'' = Inr ''157806098''"
  by code_simp+

lemma example_row_candidates:
  "mapM_err (reference_candidate example_pyenv ''157806098'') [newer_reference, older_reference] =
     Inr [(APPROVED_RESOURCE_IDS ! 1 @ '':157806098'', newer_candidate), (APPROVED_RESOURCE_IDS ! 0 @ '':157806098'', older_candidate)]"
  by (simp add: reference_candidate_def Let_def example_row_texts newer_candidate_def older_candidate_def)

lemma example_status_field:
  "let r = project_field example_pyenv Facility_Status [newer_candidate, older_candidate] reference_availability
   in fr_conflict r \<and> fr_display r = PStr ''Closed'' \<and>
      map_option id_row (fr_identity r) = Some (APPROVED_RESOURCE_IDS ! 1 @ '':157806098'')"
  by code_simp

lemma example_other_fields:
  "let r = project_field example_pyenv Facility_Type [newer_candidate, older_candidate] reference_availability
   in \<not> fr_conflict r \<and> fr_display r = PNone \<and> fr_identity r = None"
  "let r = project_field example_pyenv County_Field [newer_candidate, older_candidate] reference_availability
   in \<not> fr_conflict r \<and> fr_display r = PNone \<and> fr_identity r = None"
  by code_simp+

lemma example_facility_candidates:
  "facility_candidates example_pyenv (PStr ''157806098'') [newer_candidate, older_candidate] = [newer_candidate, older_candidate]"
proof -
  have "matches_public_facility_id example_pyenv (projection_text example_pyenv (PStr ''157806098'')) newer_candidate"
    "matches_public_facility_id example_pyenv (projection_text example_pyenv (PStr ''157806098'')) older_candidate"
    by code_simp+
  then show ?thesis by (simp add: facility_candidates_def)
qed

text \<open>The merged row shows the newer status and reports it as an unresolved conflict.\<close>

lemma example_merge:
  "\<exists>m. merge_reference_candidates example_pyenv [older_reference, newer_reference] = Inr m \<and>
     py_get m ''status'' = PStr ''Closed'' \<and> py_get m ''facility_type'' = PNone \<and> py_get m ''county'' = PNone \<and>
     (\<exists>vs. py_get m ''_projection_reference_conflicts'' = PDict [(''status'', PList vs)]) \<and>
     py_get m ''_projection_field_provenance'' = PDict [(''status'', PDict newer_reference)]"
proof -
  have "validated_public_facility_id example_pyenv (PStr ''157806098'') = Inr ''157806098''" by code_simp
  then obtain p where p: "project_facility_identity example_pyenv (PStr ''157806098'') [newer_candidate, older_candidate]
      reference_availability False = Inr p" by (simp add: project_facility_identity_def Let_def)
  have "f \<in> set PUBLIC_FACILITY_FIELDS \<Longrightarrow> projection_field_of p f =
      Inr (project_field example_pyenv f [newer_candidate, older_candidate] reference_availability)" for f
    using project_facility_identity_Inr [OF p] by (simp add: example_facility_candidates)
  then have fields: "projection_field_of p Facility_Type = Inr (project_field example_pyenv Facility_Type [newer_candidate, older_candidate] reference_availability)"
    "projection_field_of p County_Field = Inr (project_field example_pyenv County_Field [newer_candidate, older_candidate] reference_availability)"
    "projection_field_of p Facility_Status = Inr (project_field example_pyenv Facility_Status [newer_candidate, older_candidate] reference_availability)"
    by (simp_all add: PUBLIC_FACILITY_FIELDS_def)
  obtain i where i: "fr_identity (project_field example_pyenv Facility_Status [newer_candidate, older_candidate] reference_availability) = Some i"
    "id_row i = APPROVED_RESOURCE_IDS ! 1 @ '':157806098''"
    using example_status_field by (auto simp: Let_def)
  have ids: "APPROVED_RESOURCE_IDS ! 0 \<noteq> APPROVED_RESOURCE_IDS ! 1" by code_simp
  have row: "map_of (rev (zip (map fst [(APPROVED_RESOURCE_IDS ! 1 @ '':157806098'', newer_candidate),
      (APPROVED_RESOURCE_IDS ! 0 @ '':157806098'', older_candidate)]) [newer_reference, older_reference])) (id_row i) = Some newer_reference"
    using ids by (simp add: i(2))
  have shown: "py_str example_pyenv (PStr ''Closed'') = ''Closed''" by (simp add: py_str_def)
  show ?thesis
    unfolding merge_reference_candidates_def example_rows_sorted list.case example_row_texts ebind_simps example_row_candidates
      list.map snd_conv p REFERENCE_PROJECTION_FIELDS_def foldM_err.simps merge_reference_field_def fields
    using example_status_field example_other_fields row i
    by (simp add: Let_def shown conflict_texts_def)
qed

lemma example_selected:
  "\<exists>m vs. approved_reference_rows example_pyenv (Some [older_reference, newer_reference]) [''157806098''] False = Inr ([(''157806098'', m)], []) \<and>
     py_get m ''status'' = PStr ''Closed'' \<and> py_get m ''facility_type'' = PNone \<and> py_get m ''county'' = PNone \<and>
     py_get m ''_projection_reference_conflicts'' = PDict [(''status'', PList vs)] \<and>
     py_get m ''_projection_field_provenance'' = PDict [(''status'', PDict newer_reference)]"
proof -
  from example_merge obtain m vs where m: "merge_reference_candidates example_pyenv [older_reference, newer_reference] = Inr m"
     "py_get m ''status'' = PStr ''Closed''" "py_get m ''facility_type'' = PNone" "py_get m ''county'' = PNone"
     "py_get m ''_projection_reference_conflicts'' = PDict [(''status'', PList vs)]"
     "py_get m ''_projection_field_provenance'' = PDict [(''status'', PDict newer_reference)]" by blast
  have number: "py_get older_reference ''facility_number'' = PStr ''157806098''" "py_get newer_reference ''facility_number'' = PStr ''157806098''"
    by (simp_all add: older_reference_def newer_reference_def example_reference_def)
  have "approved_reference_rows example_pyenv (Some [older_reference, newer_reference]) [''157806098''] False = Inr ([(''157806098'', m)], [])"
    by (simp add: approved_reference_rows_def number example_rows_approved select_references_def sorted_set_def m(1) unique_first_def)
  with m(2-) show ?thesis by blast
qed

lemma example_refresh:
  "\<exists>p r. prepare_ccld_hosted_source_records example_pyenv (Some [older_reference, newer_reference]) [example_refresh_record] False True = Inr p \<and>
     prep_warnings p = [PROJECTION_CONFLICT_WARNING] \<and> prep_records p = [r] \<and>
     py_get (dict_of (py_get r ''facility'')) ''status'' = PStr ''Closed''"
proof -
  from example_selected obtain m vs where m:
    "approved_reference_rows example_pyenv (Some [older_reference, newer_reference]) [''157806098''] False = Inr ([(''157806098'', m)], [])"
     "py_get m ''status'' = PStr ''Closed''" "py_get m ''facility_type'' = PNone" "py_get m ''county'' = PNone"
     "py_get m ''_projection_reference_conflicts'' = PDict [(''status'', PList vs)]"
     "py_get m ''_projection_field_provenance'' = PDict [(''status'', PDict newer_reference)]" by blast
  have known: "required_facility_number example_pyenv example_refresh_record = Inr ''157806098''"
    "py_get example_refresh_record ''facility'' = PDict [(''external_facility_number'', PStr ''157806098''), (''status'', PStr ''Licensed'')]"
    "py_get example_refresh_record ''source_document'' = PDict [(''document_id'', PStr ''document'')]"
    "required_refresh_text example_pyenv [(''document_id'', PStr ''document'')] ''document_id'' = Inr ''document''"
    "existing_audits example_refresh_record = Inr []"
    by code_simp+
  have row: "required_refresh_text example_pyenv newer_reference ''source_dataset_slug'' = Inr FACILITY_REFERENCE_DATASET_SLUG"
    "required_refresh_text example_pyenv newer_reference ''source_accessed_at'' = Inr ''2026-02-01''"
    by code_simp+
  have blank: "refresh_text example_pyenv m ''facility_type'' = None" "refresh_text example_pyenv m ''county'' = None"
    "refresh_text example_pyenv m ''status'' = Some ''Closed''"
    by (simp_all add: refresh_text_def m(2-4) py_str_def py_strip_def is_space_def)
  have sources: "source_fields example_pyenv (field_source m ''status'') ''status'' = Inr
      [(''source_resource_id'', PStr (APPROVED_RESOURCE_IDS ! 1)), (''source_dataset_slug'', PStr FACILITY_REFERENCE_DATASET_SLUG),
       (''source_field'', PStr (FACILITY_REFERENCE_TABLE_NAME @ ''.'' @ ''status'')),
       (''snapshot_date'', pystr_or_none (refresh_text example_pyenv newer_reference ''snapshot_date'')),
       (''source_accessed_at'', PStr ''2026-02-01'')]"
    by (simp add: source_fields_def field_source_def m(6) example_row_texts row)
  obtain e where e: "foldM_err (enrich_field example_pyenv m ''document'') (projection_conflicts_noted example_pyenv m
      \<lparr>enr_facility = [(''external_facility_number'', PStr ''157806098''), (''status'', PStr ''Licensed'')], enr_provenance = [],
        enr_conflicts = [], enr_audits = [], enr_warnings = []\<rparr>) FACILITY_REFERENCE_FIELD_NAMES = Inr e"
    "enr_facility e = [(''external_facility_number'', PStr ''157806098''), (''status'', PStr ''Closed'')]"
    "enr_warnings e = [PROJECTION_CONFLICT_WARNING]"
    by (simp add: FACILITY_REFERENCE_FIELD_NAMES_def enrich_field_def blank sources projection_conflicts_noted_def m(5)
        note_projection_conflict_def Let_def)
  have "enrich_record example_pyenv [(''157806098'', m)] example_refresh_record =
      Inr (enriched_record example_refresh_record e, [PROJECTION_CONFLICT_WARNING], length (enr_conflicts e))"
    by (simp add: enrich_record_def known e)
  then show ?thesis
    by (simp add: prepare_ccld_hosted_source_records_def known m(1) sorted_set_def unique_first_def enriched_record_parts
        dict_of_def e(2))
qed

theorem refresh_documents_every_change_witness:
  "\<exists>p r. prepare_ccld_hosted_source_records example_pyenv (Some [older_reference, newer_reference]) [example_refresh_record] False True = Inr p \<and>
     prep_records p = [r] \<and> refreshed example_pyenv example_refresh_record r \<and>
     prep_warnings p = [PROJECTION_CONFLICT_WARNING] \<and> py_get (dict_of (py_get r ''facility'')) ''status'' = PStr ''Closed''"
proof -
  from example_refresh obtain p r where p: "prepare_ccld_hosted_source_records example_pyenv (Some [older_reference, newer_reference]) [example_refresh_record] False True = Inr p"
     "prep_warnings p = [PROJECTION_CONFLICT_WARNING]" "prep_records p = [r]"
     "py_get (dict_of (py_get r ''facility'')) ''status'' = PStr ''Closed''" by blast
  from refresh_documents_every_change [OF p(1)] have "refreshed example_pyenv example_refresh_record r" by (simp add: p(3))
  with p show ?thesis by blast
qed

end
