(* ===== verification/Retrieval_Jobs.thy ===== *)
theory Retrieval_Jobs imports Refresh_Properties
begin

text \<open>
  The retrieval jobs (\<open>hosted_app/ccld_retrieval_jobs.py\<close>): configuration, validated requests, the job table, the clients that fetch, and one run of a job from the permission check to its final row.
\<close>

section \<open>Configuration\<close>

definition CCLD_RETRIEVAL_RAW_DIR_ENV :: string where "CCLD_RETRIEVAL_RAW_DIR_ENV = ''CCLD_RETRIEVAL_RAW_DIR''"
definition CCLD_RETRIEVAL_ENABLED_ENV :: string where "CCLD_RETRIEVAL_ENABLED_ENV = ''CCLD_RETRIEVAL_ENABLED''"
definition CCLD_RETRIEVAL_MAX_DATE_RANGE_DAYS_ENV :: string where
  "CCLD_RETRIEVAL_MAX_DATE_RANGE_DAYS_ENV = ''CCLD_RETRIEVAL_MAX_DATE_RANGE_DAYS''"
definition CCLD_RETRIEVAL_PER_JOB_LIMIT_ENV :: string where
  "CCLD_RETRIEVAL_PER_JOB_LIMIT_ENV = ''CCLD_RETRIEVAL_PER_JOB_LIMIT''"
definition CCLD_RETRIEVAL_RATE_LIMIT_PER_ACTOR_ENV :: string where
  "CCLD_RETRIEVAL_RATE_LIMIT_PER_ACTOR_ENV = ''CCLD_RETRIEVAL_RATE_LIMIT_PER_ACTOR''"
definition CCLD_RETRIEVAL_TIMEOUT_SECONDS_ENV :: string where
  "CCLD_RETRIEVAL_TIMEOUT_SECONDS_ENV = ''CCLD_RETRIEVAL_TIMEOUT_SECONDS''"
definition CCLD_RETRIEVAL_RETRY_LIMIT_ENV :: string where
  "CCLD_RETRIEVAL_RETRY_LIMIT_ENV = ''CCLD_RETRIEVAL_RETRY_LIMIT''"
definition CCLD_RETRIEVAL_DEMO_MODE_ENV :: string where
  "CCLD_RETRIEVAL_DEMO_MODE_ENV = ''CCLD_RETRIEVAL_DEMO_MODE''"
definition CCLD_RETRIEVAL_DEMO_MODE_MOCK_SUCCESS :: string where
  "CCLD_RETRIEVAL_DEMO_MODE_MOCK_SUCCESS = ''mock-success''"

definition DEFAULT_MAX_DATE_RANGE_DAYS :: int where "DEFAULT_MAX_DATE_RANGE_DAYS = 90"
definition DEFAULT_PER_JOB_REQUEST_LIMIT :: int where "DEFAULT_PER_JOB_REQUEST_LIMIT = 5"
definition DEFAULT_RATE_LIMIT_PER_ACTOR :: int where "DEFAULT_RATE_LIMIT_PER_ACTOR = 3"
definition DEFAULT_RETRY_LIMIT :: int where "DEFAULT_RETRY_LIMIT = 1"

definition SUPPORTED_RECORD_TYPES :: "string list" where
  "SUPPORTED_RECORD_TYPES = [''complaints'', ''all_supported'']"

record retrieval_config =
  retrieval_enabled :: bool
  raw_dir :: "string list option"
  demo_mode :: "string option"
  max_date_range_days :: int
  per_job_request_limit :: int
  rate_limit_per_actor :: int
  timeout_seconds :: int
  retry_limit :: int

definition retrieval_configured :: "retrieval_config \<Rightarrow> bool" where
  "retrieval_configured c \<longleftrightarrow> retrieval_enabled c \<and> raw_dir c \<noteq> None"

definition mock_success_demo_enabled :: "retrieval_config \<Rightarrow> bool" where
  "mock_success_demo_enabled c \<longleftrightarrow> demo_mode c = Some CCLD_RETRIEVAL_DEMO_MODE_MOCK_SUCCESS"

text \<open>\<open>Path(text)\<close>: empty and \<open>.\<close> segments disappear, an absolute path starts with an empty segment.\<close>

definition path_of :: "string \<Rightarrow> string list" where
  "path_of s = (if prefix ''/'' s then [''''] else []) @ filter (\<lambda>seg. seg \<notin> {'''', ''.''}) (split_on (CHR ''/'') s)"

definition path_name :: "string list \<Rightarrow> string" where
  "path_name p = (if p = [] then [] else last p)"

definition demo_mode_of :: "string \<Rightarrow> string option" where
  "demo_mode_of raw =
     (let normalized = py_casefold (py_strip raw) in
      if normalized = CCLD_RETRIEVAL_DEMO_MODE_MOCK_SUCCESS then Some normalized else None)"

definition int_env :: "environ \<Rightarrow> string \<Rightarrow> int \<Rightarrow> int \<Rightarrow> string \<Rightarrow> int result" where
  "int_env environ name given least complaint =
     (let v = py_strip (env_get environ name) in
      if v = [] then Inr given
      else case py_int v of
          None \<Rightarrow> Inl (ValueError ''invalid literal for int() with base 10'')
        | Some n \<Rightarrow> ebind (guard (n \<ge> least) (ValueError (name @ complaint))) (\<lambda>_. Inr n))"

definition positive_int_env :: "environ \<Rightarrow> string \<Rightarrow> int \<Rightarrow> int result" where
  "positive_int_env environ name given = int_env environ name given 1 '' must be at least 1.''"

definition nonnegative_int_env :: "environ \<Rightarrow> string \<Rightarrow> int \<Rightarrow> int result" where
  "nonnegative_int_env environ name given =
     int_env environ name given 0 '' must be greater than or equal to 0.''"

definition load_ccld_retrieval_config :: "environ \<Rightarrow> retrieval_config result" where
  "load_ccld_retrieval_config environ =
     (let dir = py_strip (env_get environ CCLD_RETRIEVAL_RAW_DIR_ENV);
          enabled = (py_casefold (py_strip (env_get environ CCLD_RETRIEVAL_ENABLED_ENV)) = ''enabled'') in
      ebind (positive_int_env environ CCLD_RETRIEVAL_MAX_DATE_RANGE_DAYS_ENV DEFAULT_MAX_DATE_RANGE_DAYS) (\<lambda>days.
      ebind (positive_int_env environ CCLD_RETRIEVAL_PER_JOB_LIMIT_ENV DEFAULT_PER_JOB_REQUEST_LIMIT) (\<lambda>per_job.
      ebind (positive_int_env environ CCLD_RETRIEVAL_RATE_LIMIT_PER_ACTOR_ENV DEFAULT_RATE_LIMIT_PER_ACTOR) (\<lambda>rate.
      ebind (positive_int_env environ CCLD_RETRIEVAL_TIMEOUT_SECONDS_ENV LIVE_REQUEST_TIMEOUT_SECONDS) (\<lambda>timeout.
      ebind (nonnegative_int_env environ CCLD_RETRIEVAL_RETRY_LIMIT_ENV DEFAULT_RETRY_LIMIT) (\<lambda>retries.
      Inr \<lparr>retrieval_enabled = enabled, raw_dir = (if dir = [] then None else Some (path_of dir)),
           demo_mode = demo_mode_of (env_get environ CCLD_RETRIEVAL_DEMO_MODE_ENV), max_date_range_days = days,
           per_job_request_limit = per_job, rate_limit_per_actor = rate, timeout_seconds = timeout,
           retry_limit = retries\<rparr>))))))"

section \<open>Requests\<close>

record retrieval_request =
  rq_number :: string
  rq_type :: string
  rq_start :: string
  rq_end :: string

text \<open>The values of a form, every name with its list of values.\<close>

type_synonym form_values = "(string \<times> string list) list"

definition first_form_value :: "form_values \<Rightarrow> string \<Rightarrow> string" where
  "first_form_value form key =
     (case map_of form key of Some (v # vs) \<Rightarrow> py_strip v | _ \<Rightarrow> [])"

definition parse_iso_date :: "string option \<Rightarrow> date option" where
  "parse_iso_date v =
     (case v of None \<Rightarrow> None | Some s \<Rightarrow> if py_strip s = [] then None else date_fromisoformat s)"

definition number_errors :: "string \<Rightarrow> string list" where
  "number_errors number =
     (if number = [] then [''Facility/license number is required.'']
      else if \<not> py_isdigit number then [''Facility/license number must contain digits only for CCLD retrieval.'']
      else [])"

definition date_errors :: "string \<Rightarrow> string \<Rightarrow> string list" where
  "date_errors raw_start raw_end =
     (if raw_start \<noteq> [] \<and> parse_iso_date (Some raw_start) = None then [''Start date must use YYYY-MM-DD format.''] else []) @
     (if raw_end \<noteq> [] \<and> parse_iso_date (Some raw_end) = None then [''End date must use YYYY-MM-DD format.''] else []) @
     (if raw_start = [] then [''Start date is required for controlled CCLD retrieval.''] else []) @
     (if raw_end = [] then [''End date is required for controlled CCLD retrieval.''] else [])"

definition range_errors :: "int \<Rightarrow> date option \<Rightarrow> date option \<Rightarrow> string list" where
  "range_errors max_days start_date end_date =
     (case (start_date, end_date) of
        (Some s, Some e) \<Rightarrow>
          (if e < s then [''End date must not be before start date.'']
           else if toordinal e - toordinal s > max_days
             then [''Date range must be '' @ show_int max_days @ '' days or fewer for CCLD retrieval.'']
           else [])
      | _ \<Rightarrow> [])"

text \<open>The accepted request, or the complaints about the form.\<close>

definition validate_ccld_retrieval_request :: "form_values \<Rightarrow> int \<Rightarrow> string list + retrieval_request" where
  "validate_ccld_retrieval_request form max_days =
     (let number = first_form_value form ''facility_number'';
          given_type = first_form_value form ''record_type'';
          record_type = (if given_type = [] then ''complaints'' else given_type);
          raw_start = first_form_value form ''start_date'';
          raw_end = first_form_value form ''end_date'';
          start_date = parse_iso_date (Some raw_start);
          end_date = parse_iso_date (Some raw_end);
          errors = number_errors number
            @ (if record_type \<notin> set SUPPORTED_RECORD_TYPES then [''Choose a supported CCLD record type.''] else [])
            @ date_errors raw_start raw_end @ range_errors max_days start_date end_date
      in case (errors, start_date, end_date) of
           ([], Some s, Some e) \<Rightarrow>
             Inr \<lparr>rq_number = number, rq_type = record_type, rq_start = isoformat s, rq_end = isoformat e\<rparr>
         | _ \<Rightarrow> Inl errors)"

section \<open>Approved addresses\<close>

definition CCLD_SOURCE_HOST :: string where "CCLD_SOURCE_HOST = ''www.ccld.dss.ca.gov''"

definition validate_ccld_source_url :: "string \<Rightarrow> string \<Rightarrow> bool \<Rightarrow> unit result" where
  "validate_ccld_source_url source_url number allow_detail =
     ebind (urlsplit source_url) (\<lambda>parsed.
     ebind (guard (url_scheme parsed = ''https'' \<and> py_casefold (url_netloc parsed) = CCLD_SOURCE_HOST)
       (ValueError ''CCLD retrieval source URL is outside the approved source allowlist.'')) (\<lambda>_.
     if allow_detail \<and> urlparse_path (url_path parsed) = ''/carefacilitysearch/FacDetail/'' @ number then Inr ()
     else
       ebind (guard (urlparse_path (url_path parsed) = ''/transparencyapi/api/FacilityReports'')
         (ValueError ''CCLD retrieval source URL path is not approved.'')) (\<lambda>_.
       ebind (guard (first_query_value (url_query parsed) ''facNum'' = Some number)
         (ValueError ''CCLD retrieval source URL facility does not match the job request.'')) (\<lambda>_.
       guard (case first_query_value (url_query parsed) ''inx'' of None \<Rightarrow> False | Some i \<Rightarrow> py_isdigit i)
         (ValueError ''CCLD retrieval source URL is missing a supported report index.'')))))"

section \<open>Messages\<close>

definition mode_status_message :: "retrieval_config \<Rightarrow> string \<Rightarrow> string" where
  "mode_status_message c message =
     (if mock_success_demo_enabled c then ''Controlled CCLD retrieval (fixture/mock mode): '' @ message
      else ''Controlled CCLD retrieval (live public CCLD mode): '' @ message)"

definition FORBIDDEN_MESSAGE_MARKERS :: "string list" where
  "FORBIDDEN_MESSAGE_MARKERS =
     [''authorization'', ''client_secret'', ''connection string'', ''connection_string'', ''cookie'', ''password'',
      ''private_header'', ''provider_issuer'', ''provider_subject'', ''secret'', ''token'', ''traceback'']"

definition BLOCKED_SAFELY :: string where
  "BLOCKED_SAFELY = ''Controlled CCLD retrieval was blocked safely.''"

definition safe_error_message_text :: "string \<Rightarrow> string" where
  "safe_error_message_text message =
     (if list_ex (\<lambda>marker. py_in marker (py_casefold message)) FORBIDDEN_MESSAGE_MARKERS then BLOCKED_SAFELY
      else if message = [] then BLOCKED_SAFELY else message)"

definition safe_error_message :: "py_error \<Rightarrow> string" where
  "safe_error_message e = safe_error_message_text (error_text e)"

definition safe_raw_storage_label :: "string list option \<Rightarrow> string" where
  "safe_raw_storage_label dir =
     (case dir of
        None \<Rightarrow> ''<unconfigured>''
      | Some p \<Rightarrow> if path_name p = [] then ''configured-raw-storage'' else path_name p)"

section \<open>The job table\<close>

datatype job_state =
  Queued | Running | Completed | Completed_With_Warnings | Job_Failed | Blocked_By_Validation | Rate_Limited

definition TERMINAL_JOB_STATES :: "job_state set" where
  "TERMINAL_JOB_STATES = {Completed, Completed_With_Warnings, Job_Failed, Blocked_By_Validation, Rate_Limited}"

text \<open>A row of \<open>hosted_ccld_retrieval_jobs\<close>. The permission column has one value only, and the JSON columns hold
  JSON values.\<close>

record job_row =
  job_id :: string
  job_created_at :: string
  job_updated_at :: string
  job_state_of :: job_state
  job_number :: string
  job_record_type :: string
  job_start :: string
  job_end :: string
  job_scope :: access_scope
  job_subject :: string
  job_issuer :: string
  job_display_name :: "string option"
  job_category :: actor_category
  job_permission :: permission
  job_request_limit :: string
  job_retry_limit :: string
  job_timeout :: string
  job_raw_label :: string
  job_artifact :: "string option"
  job_counts :: pyval
  job_warnings :: pyval
  job_errors :: pyval
  job_message :: string
  job_mutated :: bool

text \<open>The world of a job: the tables of the database beside the requests, the clock and the files.\<close>

record job_world = web_world +
  jobs_table :: "job_row list"
  job_imports :: import_db
  reference_table :: "pydict list option"

record job_result =
  jres_id :: string
  jres_state :: job_state
  jres_number :: string
  jres_record_type :: string
  jres_start :: string
  jres_end :: string
  jres_artifact :: "string option"
  jres_counts :: pydict
  jres_warnings :: "string list"
  jres_errors :: "string list"
  jres_message :: string

record history_entry = job_result +
  hist_created_at :: string
  hist_updated_at :: string

definition int_mapping :: "pyval \<Rightarrow> pydict" where
  "int_mapping v = (case v of PDict d \<Rightarrow> filter (\<lambda>kv. is_int (snd kv)) d | _ \<Rightarrow> [])"

definition string_items :: "pyval \<Rightarrow> string list" where
  "string_items v =
     (case v of PList vs \<Rightarrow> concat (map (\<lambda>x. case x of PStr s \<Rightarrow> [s] | _ \<Rightarrow> []) vs) | _ \<Rightarrow> [])"

definition result_of_row :: "job_row \<Rightarrow> job_result" where
  "result_of_row r =
     \<lparr>jres_id = job_id r, jres_state = job_state_of r, jres_number = job_number r, jres_record_type = job_record_type r,
      jres_start = job_start r, jres_end = job_end r, jres_artifact = job_artifact r,
      jres_counts = int_mapping (job_counts r), jres_warnings = string_items (job_warnings r),
      jres_errors = string_items (job_errors r), jres_message = job_message r\<rparr>"

definition history_entry_from_row :: "job_row \<Rightarrow> history_entry" where
  "history_entry_from_row r =
     \<lparr>jres_id = job_id r, jres_state = job_state_of r, jres_number = job_number r, jres_record_type = job_record_type r,
      jres_start = job_start r, jres_end = job_end r, jres_artifact = job_artifact r,
      jres_counts = int_mapping (job_counts r),
      jres_warnings = map safe_error_message_text (string_items (job_warnings r)),
      jres_errors = map safe_error_message_text (string_items (job_errors r)),
      jres_message = safe_error_message_text (job_message r),
      hist_created_at = job_created_at r, hist_updated_at = job_updated_at r\<rparr>"

section \<open>Clients and the context of a job\<close>

text \<open>\<open>CcldRetrievalClient\<close>: the page of a facility and the bytes of a report, with a time-out.\<close>

record 'w retrieval_client =
  client_detail :: "string \<Rightarrow> int \<Rightarrow> ('w, string) io"
  client_report :: "string \<Rightarrow> int \<Rightarrow> ('w, string) io"

definition http_client :: "('e web_env_scheme) \<Rightarrow> 'w web_world_scheme retrieval_client" where
  "http_client env =
     \<lparr>client_detail = (\<lambda>number timeout.
        (let url = FACILITY_DETAIL_URL @ ''/'' @ number in
         io_bind (io_lift (validate_ccld_source_url url number True)) (\<lambda>_.
         io_bind (send_request env url timeout) (\<lambda>content. io_return (decode_utf8_replace content))))),
      client_report = send_request env\<rparr>"

text \<open>The client of the demonstration reads two files of the repository.\<close>

definition fixture_client :: "('e web_env_scheme) \<Rightarrow> string list \<Rightarrow> string list \<Rightarrow> 'w web_world_scheme retrieval_client" where
  "fixture_client env detail_fixture report_fixture =
     \<lparr>client_detail = (\<lambda>number timeout.
        io_bind (read_file_bytes env detail_fixture) (\<lambda>content.
        io_bind (io_lift (guard (utf8_valid content) (ValueError ''UnicodeDecodeError''))) (\<lambda>_.
        io_return (universal_newlines content)))),
      client_report = (\<lambda>url timeout. read_file_bytes env report_fixture)\<rparr>"

record 'w job_context =
  ctx_actor :: "authenticated_actor option"
  ctx_scope :: access_scope
  ctx_config :: retrieval_config
  ctx_client :: "'w retrieval_client"

section \<open>Writing the job\<close>

definition new_job_id :: "('e web_env_scheme) \<Rightarrow> retrieval_request \<Rightarrow> ('w web_world_scheme, string) io" where
  "new_job_id env rq =
     io_bind (read_clock env) (\<lambda>now.
     io_return (''ccld-retrieval-'' @ rq_number rq @ ''-'' @ stamp_digits now))"

definition in_memory_blocked_result ::
  "('e web_env_scheme) \<Rightarrow> retrieval_request \<Rightarrow> job_state \<Rightarrow> string \<Rightarrow> ('w web_world_scheme, job_result) io" where
  "in_memory_blocked_result env rq state message =
     io_bind (new_job_id env rq) (\<lambda>i.
     io_return \<lparr>jres_id = i, jres_state = state, jres_number = rq_number rq, jres_record_type = rq_type rq,
       jres_start = rq_start rq, jres_end = rq_end rq, jres_artifact = None, jres_counts = [], jres_warnings = [],
       jres_errors = [safe_error_message_text message], jres_message = safe_error_message_text message\<rparr>)"

definition is_active_row :: "job_row \<Rightarrow> bool" where
  "is_active_row r \<longleftrightarrow> job_state_of r \<in> {Queued, Running}"

definition active_actor_job_count :: "job_row list \<Rightarrow> string \<Rightarrow> nat" where
  "active_actor_job_count rows subject = length (filter (\<lambda>r. job_subject r = subject \<and> is_active_row r) rows)"

definition initial_row ::
  "'w job_context \<Rightarrow> retrieval_request \<Rightarrow> actor_audit_context \<Rightarrow> job_state \<Rightarrow> string \<Rightarrow> bool \<Rightarrow> string \<Rightarrow> string \<Rightarrow> job_row" where
  "initial_row ctx rq actor state message mutated i now =
     \<lparr>job_id = i, job_created_at = now, job_updated_at = now, job_state_of = state, job_number = rq_number rq,
      job_record_type = rq_type rq, job_start = rq_start rq, job_end = rq_end rq, job_scope = ctx_scope ctx,
      job_subject = provider_subject actor, job_issuer = provider_issuer actor, job_display_name = display_name actor,
      job_category = actor_category actor, job_permission = Retrieval_Job_Trigger,
      job_request_limit = show_int (per_job_request_limit (ctx_config ctx)),
      job_retry_limit = show_int (retry_limit (ctx_config ctx)),
      job_timeout = show_int (timeout_seconds (ctx_config ctx)),
      job_raw_label = safe_raw_storage_label (raw_dir (ctx_config ctx)), job_artifact = None, job_counts = PDict [],
      job_warnings = PList [], job_errors = PList [], job_message = mode_status_message (ctx_config ctx) message,
      job_mutated = mutated\<rparr>"

text \<open>The insert fails on a key that is taken and on a record type the table does not allow.\<close>

definition insert_job :: "job_row \<Rightarrow> ('w job_world_scheme, unit) io" where
  "insert_job row w =
     (if job_id row \<in> job_id ` set (jobs_table w) \<or> job_record_type row \<notin> set SUPPORTED_RECORD_TYPES
      then (w, Inl (IntegrityError ''hosted_ccld_retrieval_jobs''))
      else (w\<lparr>jobs_table := jobs_table w @ [row]\<rparr>, Inr ()))"

definition persist_initial_job ::
  "('e web_env_scheme) \<Rightarrow> 'w job_world_scheme job_context \<Rightarrow> retrieval_request \<Rightarrow> actor_audit_context \<Rightarrow> job_state
     \<Rightarrow> string \<Rightarrow> bool \<Rightarrow> ('w job_world_scheme, job_result) io" where
  "persist_initial_job env ctx rq actor state message mutated =
     io_bind (new_job_id env rq) (\<lambda>i.
     io_bind (read_clock env) (\<lambda>now.
     (let row = initial_row ctx rq actor state message mutated i (iso_seconds now) in
      io_bind (insert_job row) (\<lambda>_. io_return (result_of_row row)))))"

definition job_result_from_row :: "string \<Rightarrow> ('w job_world_scheme, job_result) io" where
  "job_result_from_row i w =
     (w, case filter (\<lambda>r. job_id r = i) (jobs_table w) of
           [r] \<Rightarrow> Inr (result_of_row r)
         | _ \<Rightarrow> Inl (RuntimeError ''NoResultFound''))"

record job_update =
  upd_state :: job_state
  upd_message :: string
  upd_counts :: pydict
  upd_warnings :: "string list"
  upd_errors :: "string list"
  upd_mutated :: bool
  upd_artifact :: "string option"

definition updated_row :: "job_update \<Rightarrow> string \<Rightarrow> job_row \<Rightarrow> job_row" where
  "updated_row u now r =
     r\<lparr>job_updated_at := now, job_state_of := upd_state u, job_artifact := upd_artifact u,
       job_counts := PDict (upd_counts u), job_warnings := PList (map PStr (upd_warnings u)),
       job_errors := PList (map PStr (upd_errors u)), job_message := upd_message u, job_mutated := upd_mutated u\<rparr>"

definition update_job_state ::
  "('e web_env_scheme) \<Rightarrow> string \<Rightarrow> job_update \<Rightarrow> ('w job_world_scheme, job_result) io" where
  "update_job_state env i u =
     io_bind (read_clock env) (\<lambda>now.
     io_bind (\<lambda>w. (w\<lparr>jobs_table := tbl_update job_id i (updated_row u (iso_seconds now)) (jobs_table w)\<rparr>, Inr ())) (\<lambda>_.
     job_result_from_row i))"

section \<open>Fetching a report\<close>

fun fetch_attempts :: "nat \<Rightarrow> ('w, 'a) io \<Rightarrow> ('w, 'a) io" where
  "fetch_attempts 0 fetch = io_raise (RuntimeError ''Controlled CCLD report fetch failed after retries.'')"
| "fetch_attempts (Suc n) fetch =
     io_try fetch (\<lambda>r. case r of Inr content \<Rightarrow> io_return content | Inl e \<Rightarrow> fetch_attempts n fetch)"

definition fetch_report_with_controls :: "'w job_context \<Rightarrow> string \<Rightarrow> string \<Rightarrow> ('w, string) io" where
  "fetch_report_with_controls ctx number url =
     io_bind (io_lift (validate_ccld_source_url url number False)) (\<lambda>_.
     fetch_attempts (nat (retry_limit (ctx_config ctx) + 1))
       (client_report (ctx_client ctx) url (timeout_seconds (ctx_config ctx))))"

section \<open>The dates of a request\<close>

text \<open>Comparing a date with a missing one raises.\<close>

definition MISSING_DATE :: py_error where
  "MISSING_DATE = TypeError ''unsupported operand type(s) for NoneType and datetime.date''"

definition date_within :: "date option \<Rightarrow> date option \<Rightarrow> date \<Rightarrow> bool result" where
  "date_within start_date end_date d =
     (case start_date of
        None \<Rightarrow> Inl MISSING_DATE
      | Some s \<Rightarrow> if \<not> s \<le> d then Inr False
          else (case end_date of None \<Rightarrow> Inl MISSING_DATE | Some e \<Rightarrow> Inr (d \<le> e)))"

fun any_err :: "('a \<Rightarrow> bool result) \<Rightarrow> 'a list \<Rightarrow> bool result" where
  "any_err p [] = Inr False"
| "any_err p (x # xs) = ebind (p x) (\<lambda>b. if b then Inr True else any_err p xs)"

text \<open>A candidate without a known date stays; otherwise its date lies in the range extended by 365 days.\<close>

definition candidate_matches_request_date :: "retrieval_request \<Rightarrow> report_candidate \<Rightarrow> bool result" where
  "candidate_matches_request_date rq c =
     (case parse_iso_date (cand_report_date c) of
        None \<Rightarrow> Inr True
      | Some d \<Rightarrow>
          (case parse_iso_date (Some (rq_end rq)) of
             None \<Rightarrow> Inl MISSING_DATE
           | Some e \<Rightarrow> ebind (plus_days e 365) (\<lambda>expanded_end.
               date_within (parse_iso_date (Some (rq_start rq))) (Some expanded_end) d)))"

definition mapping_field :: "pydict \<Rightarrow> string \<Rightarrow> pydict" where
  "mapping_field rec name = (case py_get rec name of PDict d \<Rightarrow> d | _ \<Rightarrow> [])"

definition RECORD_DATE_FIELDS :: "string list" where
  "RECORD_DATE_FIELDS = [''complaint_received_date'', ''visit_date'', ''report_date'', ''date_signed'']"

definition record_dates :: "pydict \<Rightarrow> date list" where
  "record_dates complaint =
     concat (map (\<lambda>name. case py_get complaint name of
         PStr s \<Rightarrow> (case parse_iso_date (Some (take 10 s)) of Some d \<Rightarrow> [d] | None \<Rightarrow> [])
       | _ \<Rightarrow> []) RECORD_DATE_FIELDS)"

definition normalized_record_matches_request :: "retrieval_request \<Rightarrow> pydict \<Rightarrow> bool result" where
  "normalized_record_matches_request rq rec =
     (if rq_type rq \<notin> set SUPPORTED_RECORD_TYPES then Inr False
      else if py_get (mapping_field rec ''facility'') ''external_facility_number'' \<noteq> PStr (rq_number rq) then Inr False
      else any_err (date_within (parse_iso_date (Some (rq_start rq))) (parse_iso_date (Some (rq_end rq))))
             (record_dates (mapping_field rec ''complaint'')))"

section \<open>Warnings\<close>

definition failure_warning :: "ingestion_failure \<Rightarrow> string" where
  "failure_warning f =
     (let report = ''Report '' @ show_nat (cand_report_index (fail_candidate f)) in
      if fail_stage f = ''fetch'' then report @ '' failed during fetch; the public ''
        @ ''source may be unavailable or returned an unsupported response.''
      else if fail_stage f = ''validate'' then report @ '' was fetched and extracted but ''
        @ ''could not be validated against the expected complaint record format. ''
        @ ''If this persists, report an issue for operator support.''
      else if fail_stage f \<in> {''extract'', ''normalize'', ''emit''} then report @ '' failed during '' @ fail_stage f @ ''; ''
        @ ''the source layout or imported record shape may be unsupported.''
      else report @ '' failed during '' @ fail_stage f @ ''.'')"

definition no_records_warning :: "ingestion_failure list \<Rightarrow> string" where
  "no_records_warning failures =
     (let fetches = list_ex (\<lambda>f. fail_stage f = ''fetch'') failures;
          validations = list_ex (\<lambda>f. fail_stage f = ''validate'') failures in
      if fetches \<and> \<not> validations then
        ''Selected CCLD complaint report links were found but could not be fetched; ''
        @ ''the public source may be temporarily unavailable.''
      else if validations then
        ''Selected CCLD complaint report links were fetched but no records imported; ''
        @ ''validation failed for at least one report. ''
        @ ''If this persists, report an issue for operator support.''
      else ''Selected CCLD complaint report links were found, but no report bundles were ''
        @ ''retrieved or imported; the report format may not be supported yet.'')"

definition outcome_warnings :: "ingestion_result \<Rightarrow> nat \<Rightarrow> string list" where
  "outcome_warnings r matching =
     (if ing_discovered_count r = 0
      then [''No CCLD complaint report links were discovered for the requested facility.'']
      else if ing_candidates r = [] then
        [''CCLD complaint report links were found for this facility, but none had a ''
         @ ''discovered report date within the requested range or its extended window. ''
         @ ''Complaint investigation visits typically occur weeks to months after complaint ''
         @ ''receipt; if records are expected, try a wider date range or report an issue.'']
      else if ing_records r = [] \<and> ing_failures r \<noteq> [] then [no_records_warning (ing_failures r)]
      else if ing_records r = [] then
        [''Selected CCLD complaint report links produced no extracted complaint record bundles.'']
      else if matching = 0 then
        [''CCLD complaint reports were fetched and extracted, but no normalized complaint ''
         @ ''records matched the requested facility/date range after validation.'']
      else [])"

definition job_run_warnings :: "ingestion_result \<Rightarrow> nat \<Rightarrow> string list" where
  "job_run_warnings r matching =
     (if ing_records r \<noteq> [] \<and> matching \<noteq> 0 \<and> length (ing_records r) \<noteq> matching
      then [show_nat (length (ing_records r) - matching) @ '' retrieved record bundle(s) were outside the requested date range.'']
      else []) @ outcome_warnings r matching @ map failure_warning (ing_failures r)"

section \<open>The artifact of a job\<close>

text \<open>The items of a list field; iterating a string or a mapping yields strings only.\<close>

definition list_field_items :: "pydict \<Rightarrow> string \<Rightarrow> pyval list result" where
  "list_field_items rec name =
     (case map_of rec name of
        None \<Rightarrow> Inr []
      | Some (PList vs) \<Rightarrow> Inr vs
      | Some (PStr _) \<Rightarrow> Inr []
      | Some (PDict _) \<Rightarrow> Inr []
      | Some _ \<Rightarrow> Inl (TypeError ''object is not iterable''))"

definition entity_ids :: "string \<Rightarrow> string \<Rightarrow> pydict \<Rightarrow> string list" where
  "entity_ids entity id_name rec =
     (case py_get (mapping_field rec entity) id_name of PStr s \<Rightarrow> [s] | _ \<Rightarrow> [])"

definition item_ids :: "string \<Rightarrow> string \<Rightarrow> pydict \<Rightarrow> string list result" where
  "item_ids list_name id_name rec =
     ebind (list_field_items rec list_name) (\<lambda>items.
     Inr (concat (map (\<lambda>v. case v of PDict d \<Rightarrow> (case py_get d id_name of PStr s \<Rightarrow> [s] | _ \<Rightarrow> []) | _ \<Rightarrow> []) items)))"

definition count_ids :: "string \<Rightarrow> string list list \<Rightarrow> string \<times> pyval" where
  "count_ids name ids = (name, PInt (int (length (remdups (concat ids)))))"

definition record_counts :: "pydict list \<Rightarrow> pydict result" where
  "record_counts records =
     ebind (mapM_err (\<lambda>rec.
       ebind (item_ids ''allegations'' ''allegation_id'' rec) (\<lambda>a.
       ebind (item_ids ''events'' ''event_id'' rec) (\<lambda>e.
       ebind (item_ids ''extraction_audit'' ''audit_id'' rec) (\<lambda>u. Inr (a, e, u))))) records) (\<lambda>items.
     Inr [count_ids ''facility'' (map (entity_ids ''facility'' ''facility_id'') records),
          count_ids ''source_document'' (map (entity_ids ''source_document'' ''document_id'') records),
          count_ids ''complaint'' (map (entity_ids ''complaint'' ''complaint_id'') records),
          count_ids ''allegation'' (map fst items),
          count_ids ''event'' (map (fst \<circ> snd) items),
          count_ids ''extraction_audit'' (map (snd \<circ> snd) items)])"

definition retrieval_import_batch_id :: "string \<Rightarrow> string" where
  "retrieval_import_batch_id i = ''ccld-retrieval-batch:'' @ i"

definition artifact_identity_of_job :: "string \<Rightarrow> string" where
  "artifact_identity_of_job i = ''ccld-retrieval-job:'' @ i"

definition retrieval_artifact ::
  "('e web_env_scheme) \<Rightarrow> string \<Rightarrow> pydict list \<Rightarrow> string list \<Rightarrow> ('w web_world_scheme, corpus_artifact) io" where
  "retrieval_artifact env i records warnings =
     io_bind (read_clock env) (\<lambda>now.
     io_bind (io_lift (record_counts records)) (\<lambda>counts.
     io_lift (
       ebind (parse_seeded_corpus_artifact
         [(''import_batch_id'', PStr (retrieval_import_batch_id i)),
          (''imported_at'', PStr (iso_seconds now)),
          (''source_artifact_identity'', PStr (artifact_identity_of_job i)),
          (''source_pipeline_version'', PStr ''ccld-controlled-retrieval-job-0.1.0''),
          (''validation_status'', PStr ''validated''),
          (''raw_hash_validation_status'', PStr ''validated''),
          (''record_counts'', PDict counts),
          (''warnings'', PList (map PStr warnings)),
          (''errors'', PList []),
          (''records'', PList (map PDict records))]) (\<lambda>art.
       ebind (flatten_seeded_corpus_records art) (\<lambda>_. Inr art)))))"

section \<open>Running a job\<close>

definition import_artifact :: "('e pyenv_scheme) \<Rightarrow> corpus_artifact \<Rightarrow> ('w job_world_scheme, import_result) io" where
  "import_artifact env art w =
     (case import_seeded_corpus_artifact env (job_imports w) art False of
        Inl e \<Rightarrow> (w, Inl e)
      | Inr (db, res) \<Rightarrow> (w\<lparr>job_imports := db\<rparr>, Inr res))"

definition job_connector :: "retrieval_request \<Rightarrow> string list \<Rightarrow> site_connector" where
  "job_connector rq dir = \<lparr>site_number = rq_number rq, site_default_index = 3, site_raw_dir = dir\<rparr>"

definition job_options :: "retrieval_config \<Rightarrow> retrieval_request \<Rightarrow> string \<Rightarrow> string \<Rightarrow> ingestion_options" where
  "job_options c rq html found_at =
     \<lparr>opt_detail_html = Some html, opt_discovered_at = Some found_at, opt_limit = Some (per_job_request_limit c),
      opt_max_requests = Some (per_job_request_limit c), opt_section = Some ''complaints'',
      opt_filter = Some (candidate_matches_request_date rq), opt_fallback = \<not> mock_success_demo_enabled c\<rparr>"

definition done_state :: "string list \<Rightarrow> job_state" where
  "done_state warnings = (if warnings \<noteq> [] then Completed_With_Warnings else Completed)"

definition ingestion_counts :: "ingestion_result \<Rightarrow> pydict" where
  "ingestion_counts r =
     [(''discovered_report_candidates'', PInt (int (ing_discovered_count r))),
      (''selected_report_candidates'', PInt (int (length (ing_candidates r)))),
      (''retrieved_record_bundles'', PInt (int (length (ing_records r))))]"

definition finish_empty ::
  "('e web_env_scheme) \<Rightarrow> retrieval_config \<Rightarrow> string \<Rightarrow> ingestion_result \<Rightarrow> string list \<Rightarrow> ('w job_world_scheme, job_result) io" where
  "finish_empty env c i r warnings =
     update_job_state env i
       \<lparr>upd_state = done_state warnings,
        upd_message = mode_status_message c ''Controlled CCLD retrieval completed with no matching imported records.'',
        upd_counts = ingestion_counts r @ [(''imported_source_derived_records'', PInt 0),
           (''report_failures'', PInt (int (length (ing_failures r))))],
        upd_warnings = warnings, upd_errors = [], upd_mutated = False, upd_artifact = None\<rparr>"

definition finish_import ::
  "('e web_env_scheme) \<Rightarrow> retrieval_config \<Rightarrow> string \<Rightarrow> ingestion_result \<Rightarrow> pydict list \<Rightarrow> string list
     \<Rightarrow> ('w job_world_scheme, job_result) io" where
  "finish_import env c i r matching warnings0 =
     io_bind (\<lambda>w. (w, prepare_ccld_hosted_source_records env (reference_table w) matching (mock_success_demo_enabled c) True)) (\<lambda>prepared.
     (let warnings = warnings0 @ prep_warnings prepared in
      io_bind (retrieval_artifact env i (prep_records prepared) warnings) (\<lambda>art.
      io_bind (import_artifact env art) (\<lambda>imported.
      update_job_state env i
        \<lparr>upd_state = done_state warnings,
         upd_message = mode_status_message c ''Controlled CCLD retrieval imported source-derived records.'',
         upd_counts = ingestion_counts r @
           [(''matched_record_bundles'', PInt (int (length matching))),
            (''imported_source_derived_records'', PInt (int (res_imported_count imported))),
            (''report_failures'', PInt (int (length (ing_failures r)))),
            (''facility_reference_conflicts'', PInt (int (prep_conflicted prepared)))],
         upd_warnings = warnings, upd_errors = [], upd_mutated = True, upd_artifact = Some (art_identity art)\<rparr>))))"

text \<open>The work on the site: the page of the facility, its reports, and the ingestion of those that can match.\<close>

definition gather_reports ::
  "('e report_env_scheme) \<Rightarrow> 'w web_world_scheme job_context \<Rightarrow> retrieval_request \<Rightarrow> string list
     \<Rightarrow> ('w web_world_scheme, ingestion_result) io" where
  "gather_reports env ctx rq dir =
     io_bind (make_directory env dir) (\<lambda>_.
     io_bind (client_detail (ctx_client ctx) (rq_number rq) (timeout_seconds (ctx_config ctx))) (\<lambda>html.
     io_bind (read_clock env) (\<lambda>now.
     ingest_facility_reports_for_facility (site_report_connector env (job_connector rq dir))
        (job_options (ctx_config ctx) rq html (iso_text now)) None
        (Some (fetch_report_with_controls ctx (rq_number rq))))))"

definition execute_job ::
  "('e report_env_scheme) \<Rightarrow> 'w job_world_scheme job_context \<Rightarrow> retrieval_request \<Rightarrow> string list \<Rightarrow> string
     \<Rightarrow> ('w job_world_scheme, job_result) io" where
  "execute_job env ctx rq dir i =
     io_bind (gather_reports env ctx rq dir) (\<lambda>r.
     io_bind (io_lift (filter_err (normalized_record_matches_request rq) (ing_records r))) (\<lambda>matching.
     (let warnings = job_run_warnings r (length matching) in
      if matching = [] then finish_empty env (ctx_config ctx) i r warnings
      else finish_import env (ctx_config ctx) i r matching warnings)))"

text \<open>An exception of the work becomes the final state of the job: a \<open>ValueError\<close> blocks it, every other one
  fails it.\<close>

definition closed_by_error :: "py_error \<Rightarrow> job_update" where
  "closed_by_error e =
     (if is_value_error e
      then \<lparr>upd_state = Blocked_By_Validation, upd_message = safe_error_message e, upd_counts = [], upd_warnings = [],
            upd_errors = [safe_error_message e], upd_mutated = False, upd_artifact = None\<rparr>
      else \<lparr>upd_state = Job_Failed,
            upd_message = ''Controlled CCLD retrieval failed. Check operator logs for details.'', upd_counts = [],
            upd_warnings = [], upd_errors = [''Controlled retrieval failed safely.''], upd_mutated = False,
            upd_artifact = None\<rparr>)"

definition run_admitted_job ::
  "('e report_env_scheme) \<Rightarrow> 'w job_world_scheme job_context \<Rightarrow> retrieval_request \<Rightarrow> string list \<Rightarrow> actor_audit_context
     \<Rightarrow> ('w job_world_scheme, job_result) io" where
  "run_admitted_job env ctx rq dir actor =
     io_bind (persist_initial_job env ctx rq actor Queued ''Controlled CCLD retrieval job queued.'' False) (\<lambda>job.
     io_bind (update_job_state env (jres_id job)
       \<lparr>upd_state = Running,
        upd_message = mode_status_message (ctx_config ctx) ''Controlled CCLD retrieval job is running on the server.'',
        upd_counts = [], upd_warnings = [], upd_errors = [], upd_mutated = False, upd_artifact = None\<rparr>) (\<lambda>_.
     io_try (execute_job env ctx rq dir (jres_id job)) (\<lambda>r. case r of
        Inr final \<Rightarrow> io_return final
      | Inl e \<Rightarrow> update_job_state env (jres_id job) (closed_by_error e))))"

definition job_authorization ::
  "('e web_env_scheme) \<Rightarrow> 'w job_context \<Rightarrow> 'v web_world_scheme \<Rightarrow> authorization_decision result" where
  "job_authorization env ctx w =
     require_permission (ctx_actor ctx) Retrieval_Job_Trigger (ctx_scope ctx)
       \<lparr>target_kind = Import_Batch_Target, target_id = ''ccld-retrieval-job''\<rparr> (iso_text (now_at env (clock_ticks w)))"

definition run_ccld_retrieval_job ::
  "('e report_env_scheme) \<Rightarrow> 'w job_world_scheme job_context \<Rightarrow> retrieval_request \<Rightarrow> ('w job_world_scheme, job_result) io" where
  "run_ccld_retrieval_job env ctx rq w =
     (case raw_dir (ctx_config ctx) of
        None \<Rightarrow> in_memory_blocked_result env rq Blocked_By_Validation
                 ''Controlled CCLD retrieval is not configured on this server.'' w
      | Some dir \<Rightarrow>
          if \<not> retrieval_configured (ctx_config ctx)
          then in_memory_blocked_result env rq Blocked_By_Validation
                 ''Controlled CCLD retrieval is not configured on this server.'' w
          else case job_authorization env ctx w of
              Inl e \<Rightarrow> in_memory_blocked_result env rq Job_Failed (error_text e) w
            | Inr decision \<Rightarrow>
                (let actor = decided_actor decision in
                 if int (active_actor_job_count (jobs_table w) (provider_subject actor)) \<ge> rate_limit_per_actor (ctx_config ctx)
                 then persist_initial_job env ctx rq actor Rate_Limited
                        ''Controlled CCLD retrieval is rate-limited for this tester.'' False w
                 else run_admitted_job env ctx rq dir actor w))"

section \<open>Reading the history\<close>

definition job_read_permission ::
  "authenticated_actor option \<Rightarrow> access_scope \<Rightarrow> string \<Rightarrow> authorization_decision result" where
  "job_read_permission actor s now =
     ebind (mk_target Record_List_Target (scope_id s)) (\<lambda>target.
     require_permission actor Source_Derived_Read s target now)"

definition list_recent_ccld_retrieval_jobs ::
  "job_row list \<Rightarrow> authenticated_actor option \<Rightarrow> access_scope \<Rightarrow> int \<Rightarrow> string \<Rightarrow> history_entry list result" where
  "list_recent_ccld_retrieval_jobs rows actor s limit now =
     ebind (job_read_permission actor s now) (\<lambda>_.
     Inr (map history_entry_from_row (take (nat (max 1 (min limit 100)))
       (sort_key_reverse job_created_at (filter (\<lambda>r. job_scope r = s) rows)))))"

definition get_ccld_retrieval_job ::
  "job_row list \<Rightarrow> authenticated_actor option \<Rightarrow> access_scope \<Rightarrow> string \<Rightarrow> string \<Rightarrow> history_entry option result" where
  "get_ccld_retrieval_job rows actor s i now =
     ebind (job_read_permission actor s now) (\<lambda>_.
     (case filter (\<lambda>r. job_scope r = s \<and> job_id r = i) rows of
        [] \<Rightarrow> Inr None
      | [r] \<Rightarrow> Inr (Some (history_entry_from_row r))
      | _ \<Rightarrow> Inl (RuntimeError ''MultipleResultsFound'')))"

end
