(* ===== verification/Retrieval_Runs.thy ===== *)
theory Retrieval_Runs imports Retrieval_Jobs
begin

text \<open>
  Runs of retrieval jobs: the cost of the work on the site, the contract of a client and its two implementations, and the way from the queued row to the closed one.
\<close>

section \<open>Bounded work\<close>

text \<open>A connector and a fetcher whose steps have a cost: \<open>grows n w w'\<close> says that the way from one world to the
  other costs at most \<open>n\<close>. Fetching a report costs at most \<open>k\<close>, discovery its budget, everything else nothing.\<close>

locale bounded_source =
  fixes grows :: "nat \<Rightarrow> 'w \<Rightarrow> 'w \<Rightarrow> bool" and con :: "('w, 'd, 'x) report_connector" and fetch :: "'w report_fetcher"
    and k :: nat
  assumes grows_refl: "grows 0 w w"
    and grows_trans: "grows a w1 w2 \<Longrightarrow> grows b w2 w3 \<Longrightarrow> grows (a + b) w1 w3"
    and fetch_grows: "fetch url w = (w', r) \<Longrightarrow> grows k w w'"
    and store_grows: "con_store_raw con url content w = (w', d) \<Longrightarrow> grows 0 w w'"
    and extract_grows: "con_extract con doc w = (w', x) \<Longrightarrow> grows 0 w w'"
    and normalize_grows: "con_normalize con ex w = (w', n) \<Longrightarrow> grows 0 w w'"
    and validate_grows: "con_validate con rec w = (w', u) \<Longrightarrow> grows 0 w w'"
    and emit_grows: "con_emit con rec w = (w', u) \<Longrightarrow> grows 0 w w'"
    and discover_grows: "con_discover con html found_at wanted fallback w = (w', q) \<Longrightarrow>
      grows (discovery_budget html fallback) w w'"
begin

lemma then_nothing: "grows a w1 w2 \<Longrightarrow> grows 0 w2 w3 \<Longrightarrow> grows a w1 w3"
  using grows_trans [of a w1 w2 0 w3] by simp

lemma at_stage_grows:
  assumes "at_stage c stage m f w = (w', r)" and "\<And>w' r. m w = (w', r) \<Longrightarrow> grows a w w'"
    and "\<And>x w1 w' r. f x w1 = (w', r) \<Longrightarrow> grows 0 w1 w'"
  shows "grows a w w'"
  using assms by (auto simp: at_stage_def split: prod.splits sum.splits intro: then_nothing)

lemma process_grows: "process_document con c d w = (w', r) \<Longrightarrow> grows 0 w w'"
  unfolding process_document_def
  by (erule at_stage_grows; (erule extract_grows normalize_grows validate_grows emit_grows at_stage_grows |
      simp add: grows_refl)+)

lemma load_grows: "load_or_fetch_document con None (Some fetch) c w = (w', r) \<Longrightarrow> grows k w w'"
  unfolding load_or_fetch_document_def
  by simp (erule at_stage_grows; (erule fetch_grows store_grows at_stage_grows | simp add: grows_refl)+)

lemma candidate_grows:
  assumes "ingest_candidate con None (Some fetch) c w = (w', r)"
  shows "grows k w w'"
proof -
  obtain w1 q where l: "load_or_fetch_document con None (Some fetch) c w = (w1, q)" by fastforce
  with assms process_grows have "grows 0 w1 w'"
    by (auto simp: ingest_candidate_def grows_refl split: sum.splits)
  with load_grows [OF l] show ?thesis by (rule then_nothing)
qed

lemma candidates_grow:
  "ingest_candidates con None (Some fetch) records failures cs w = (w', rs, fs) \<Longrightarrow> grows (k * length cs) w w'"
proof (induction cs arbitrary: records failures w)
  case (Cons c cs)
  obtain w1 r where c: "ingest_candidate con None (Some fetch) c w = (w1, r)" by fastforce
  with Cons have "grows (k * length cs) w1 w'" by (cases r) auto
  from grows_trans [OF candidate_grows [OF c] this] show ?case by simp
qed (simp add: grows_refl)

lemma selection_grows:
  assumes "select_candidates con opts w = (w', r)"
  shows "\<exists>a \<le> discovery_budget (opt_detail_html opts) (opt_fallback opts). grows a w w'"
  using select_candidates_discovers [OF assms] grows_refl discover_grows by fastforce

lemma workflow_grows:
  assumes "ingest_facility_reports_for_facility con opts None (Some fetch) w = (w', r)" and "opt_limit opts = Some m"
  shows "\<exists>a \<le> discovery_budget (opt_detail_html opts) (opt_fallback opts) + k * nat m. grows a w w'"
proof -
  obtain w1 s where s: "select_candidates con opts w = (w1, s)" by fastforce
  from selection_grows [OF s] obtain a where a:
    "a \<le> discovery_budget (opt_detail_html opts) (opt_fallback opts)" "grows a w w1" by blast
  show ?thesis
  proof (cases s)
    case (Inl e)
    with assms(1) s have "w' = w1" by (simp add: ingest_facility_reports_for_facility_def io_bind_def)
    with a trans_le_add1 show ?thesis by blast
  next
    case (Inr nc)
    obtain n cs where nc: "nc = (n, cs)" by fastforce
    obtain w2 rs fs where c: "ingest_candidates con None (Some fetch) [] [] cs w1 = (w2, rs, fs)" by (metis prod_cases3)
    with assms(1) s Inr nc have "w2 = w'"
      by (simp add: ingest_facility_reports_for_facility_def io_bind_def ingest_selected_candidates_def)
    with grows_trans [OF a(2) candidates_grow [OF c]] have "grows (a + k * length cs) w w'" by simp
    moreover from select_candidates_Inr [OF s [unfolded Inr nc]] assms(2) have "length cs \<le> nat m"
      by (metis nat_int nat_mono option.simps(5) within_limit_def)
    ultimately show ?thesis using a(1) by (meson add_mono mult_le_mono2)
  qed
qed

end

section \<open>The frame of a job\<close>

definition approved_address :: "string \<Rightarrow> string \<Rightarrow> bool" where
  "approved_address number url \<longleftrightarrow> url = FACILITY_DETAIL_URL @ ''/'' @ number \<or> url = REPORTS_BASE_URL @ ''/'' @ number \<or>
     validate_ccld_source_url url number False = Inr ()"

text \<open>At most \<open>n\<close> requests, all of approved addresses, and the tables stay.\<close>

definition job_grows :: "string \<Rightarrow> nat \<Rightarrow> 'w web_world_scheme \<Rightarrow> 'w web_world_scheme \<Rightarrow> bool" where
  "job_grows number n w w' \<longleftrightarrow> web_world.more w' = web_world.more w \<and>
     (\<exists>us. requested_urls w' = requested_urls w @ us \<and> length us \<le> n \<and> (\<forall>u \<in> set us. approved_address number u))"

lemma job_grows_refl: "job_grows number 0 w w"
  by (simp add: job_grows_def)

lemma job_grows_trans: "job_grows number a w1 w2 \<Longrightarrow> job_grows number b w2 w3 \<Longrightarrow> job_grows number (a + b) w1 w3"
  by (fastforce simp: job_grows_def)

lemma job_grows_mono: "job_grows number a w w' \<Longrightarrow> a \<le> b \<Longrightarrow> job_grows number b w w'"
  by (fastforce simp: job_grows_def)

lemma quiet_grows: "quiet_state w' = quiet_state w \<Longrightarrow> job_grows number n w w'"
  by (simp add: job_grows_def quiet_state_def requested_urls_def)

lemma request_grows: "approved_address number url \<Longrightarrow> send_request env url timeout w = (w', r) \<Longrightarrow> job_grows number 1 w w'"
  by (auto simp: job_grows_def send_request_def requested_urls_def)

lemma discover_reports_grows:
  assumes "discover_reports env con html found_at wanted fallback w = (w', q)"
  shows "job_grows (site_number con) (discovery_budget html fallback) w w'"
proof -
  obtain w1 p where page: "detail_page env con html w = (w1, p)" by fastforce
  have g1: "job_grows (site_number con) (if html = None then 1 else 0) w w1"
    using page request_grows [of "site_number con" "FACILITY_DETAIL_URL @ ''/'' @ site_number con" env LIVE_REQUEST_TIMEOUT_SECONDS w]
    by (auto simp: detail_page_def io_bind_def fetch_url_def approved_address_def job_grows_refl split: option.splits prod.splits sum.splits)
  show ?thesis
  proof (cases p)
    case (Inl e)
    with assms page g1 job_grows_mono [OF g1] show ?thesis by (auto simp: discover_reports_def io_bind_def discovery_budget_def)
  next
    case (Inr h)
    obtain w2 t where time: "discovery_time env html found_at w1 = (w2, t)" by fastforce
    note g2 = job_grows_trans [OF g1 quiet_grows [OF silent_quiet [OF silent_discovery_time time], where n = 0]]
    from assms page Inr time consider "w' = w2"
      | r where "html = None \<or> fallback" "fetch_url env (REPORTS_BASE_URL @ ''/'' @ site_number con) w2 = (w', r)"
      by (cases t) (auto simp: discover_reports_def io_bind_def split: prod.splits sum.splits if_splits)
    then show ?thesis
    proof cases
      case 1
      with job_grows_mono [OF g2] show ?thesis by (simp add: discovery_budget_def)
    next
      case (2 r)
      then have "job_grows (site_number con) 1 w2 w'"
        using request_grows [of "site_number con" "REPORTS_BASE_URL @ ''/'' @ site_number con" env LIVE_REQUEST_TIMEOUT_SECONDS w2]
        by (simp add: fetch_url_def approved_address_def)
      from job_grows_mono [OF job_grows_trans [OF g2 this]] 2(1) show ?thesis by (auto simp: discovery_budget_def)
    qed
  qed
qed

section \<open>The contract of a client\<close>

text \<open>What a job relies on: a client asks for approved addresses only, the page of the facility costs at most
  \<open>d\<close> requests and an attempt at a report \<open>c\<close>, and the tables stay.\<close>

locale job_client =
  fixes client :: "'w web_world_scheme retrieval_client" and d c :: nat
  assumes detail_grows: "client_detail client number timeout w = (w', r) \<Longrightarrow> job_grows number d w w'"
    and report_grows: "validate_ccld_source_url url number False = Inr () \<Longrightarrow> client_report client url timeout w = (w', q) \<Longrightarrow>
      job_grows number c w w'"
begin

lemma attempts_grow: "validate_ccld_source_url url number False = Inr () \<Longrightarrow>
    fetch_attempts n (client_report client url timeout) w = (w', r) \<Longrightarrow> job_grows number (n * c) w w'"
proof (induction n arbitrary: w)
  case (Suc n)
  obtain w1 q where a: "client_report client url timeout w = (w1, q)" by fastforce
  note g = report_grows [OF Suc.prems(1) a]
  show ?case
  proof (cases q)
    case (Inl e)
    with Suc a have "job_grows number (n * c) w1 w'" by (simp add: io_try_def)
    from job_grows_trans [OF g this] show ?thesis by simp
  next
    case (Inr x)
    with Suc.prems(2) a have "w' = w1" by (simp add: io_try_def)
    with job_grows_mono [OF g] show ?thesis by simp
  qed
qed (simp add: job_grows_refl)

lemma controls_grow:
  assumes "fetch_report_with_controls ctx number url w = (w', r)" and "ctx_client ctx = client"
  shows "job_grows number (nat (retry_limit (ctx_config ctx) + 1) * c) w w'"
proof (cases "validate_ccld_source_url url number False")
  case (Inl e)
  with assms have "w' = w" by (simp add: fetch_report_with_controls_def io_bind_def)
  with job_grows_mono [OF job_grows_refl] show ?thesis by blast
next
  case (Inr u)
  with assms attempts_grow show ?thesis by (simp add: fetch_report_with_controls_def io_bind_def)
qed

lemma job_source:
  assumes "ctx_client ctx = client"
  shows "bounded_source (job_grows (rq_number rq)) (site_report_connector env (job_connector rq dir))
     (fetch_report_with_controls ctx (rq_number rq)) (nat (retry_limit (ctx_config ctx) + 1) * c)"
proof
  show "fetch_report_with_controls ctx (rq_number rq) url w = (w', r) \<Longrightarrow>
      job_grows (rq_number rq) (nat (retry_limit (ctx_config ctx) + 1) * c) w w'" for url w w' r
    using controls_grow assms by blast
  show "con_discover (site_report_connector env (job_connector rq dir)) html found_at wanted fallback w = (w', q) \<Longrightarrow>
      job_grows (rq_number rq) (discovery_budget html fallback) w w'" for html found_at wanted fallback w w' q
    using discover_reports_grows [of env "job_connector rq dir"] by (simp add: site_report_connector_def job_connector_def)
qed (auto simp: site_report_connector_def job_grows_refl intro: job_grows_trans
    quiet_grows [OF silent_quiet [OF silent_store_raw]] quiet_grows [OF silent_quiet [OF silent_extract_report]]
    quiet_grows [OF silent_quiet [OF silent_normalize_report]])

end

interpretation http: job_client "http_client env" 1 1 for env
proof
  show "client_detail (http_client env) number timeout w = (w', r) \<Longrightarrow> job_grows number 1 w w'" for number timeout w w' r
    using request_grows [of number "FACILITY_DETAIL_URL @ ''/'' @ number" env timeout w] job_grows_mono [OF job_grows_refl, of 1]
    by (auto simp: http_client_def Let_def io_bind_def approved_address_def split: prod.splits sum.splits)
  show "validate_ccld_source_url url number False = Inr () \<Longrightarrow> client_report (http_client env) url timeout w = (w', q) \<Longrightarrow>
      job_grows number 1 w w'" for url number timeout w w' q
    by (rule request_grows [of number url env timeout w w' q]) (auto simp: approved_address_def http_client_def)
qed

lemma silent_guarded_read: "silent (io_bind (read_file_bytes env path) (\<lambda>content.
    io_bind (io_lift (guard (utf8_valid content) e)) (\<lambda>_. io_return (universal_newlines content))))"
  by (intro silent_bind silent_steps)

interpretation fixture: job_client "fixture_client env detail_fixture report_fixture" 0 0 for env detail_fixture report_fixture
  by unfold_locales
    (auto simp: fixture_client_def intro: quiet_grows [OF silent_quiet [OF silent_guarded_read]] quiet_grows)

interpretation http_work: bounded_source "job_grows (rq_number rq)" "site_report_connector env (job_connector rq dir)"
    "fetch_report_with_controls \<lparr>ctx_actor = a, ctx_scope = s, ctx_config = cfg, ctx_client = http_client env\<rparr> (rq_number rq)"
    "nat (retry_limit cfg + 1)" for rq env dir a s cfg
  using http.job_source [of "\<lparr>ctx_actor = a, ctx_scope = s, ctx_config = cfg, ctx_client = http_client env\<rparr>" env rq env dir] by simp

section \<open>Requests of a job\<close>

definition asks :: "string \<Rightarrow> nat \<Rightarrow> 'w web_world_scheme \<Rightarrow> 'w web_world_scheme \<Rightarrow> bool" where
  "asks number n w w' \<longleftrightarrow>
     (\<exists>us. requested_urls w' = requested_urls w @ us \<and> length us \<le> n \<and> (\<forall>u \<in> set us. approved_address number u))"

lemma grows_asks: "job_grows number n w w' \<Longrightarrow> asks number n w w'"
  by (simp add: job_grows_def asks_def)

lemma asks_nothing: "sent_requests w' = sent_requests w \<Longrightarrow> asks number n w w'"
  by (simp add: asks_def requested_urls_def)

lemma asks_same: "asks number n w w1 \<Longrightarrow> sent_requests w' = sent_requests w1 \<Longrightarrow> asks number n w w'"
  by (simp add: asks_def requested_urls_def)

lemma asks_from: "sent_requests w1 = sent_requests w \<Longrightarrow> asks number n w1 w' \<Longrightarrow> asks number n w w'"
  by (simp add: asks_def requested_urls_def)

lemma asks_mono: "asks number a w w' \<Longrightarrow> a \<le> b \<Longrightarrow> asks number b w w'"
  by (fastforce simp: asks_def)

text \<open>The budget of a job: the page of the facility, the report list, and every attempt at a report.\<close>

definition job_budget :: "retrieval_config \<Rightarrow> nat \<Rightarrow> nat \<Rightarrow> nat" where
  "job_budget cfg d c = d + (if mock_success_demo_enabled cfg then 0 else 1)
     + nat (retry_limit cfg + 1) * c * nat (per_job_request_limit cfg)"

context job_client
begin

lemma gather_grows:
  assumes "gather_reports env ctx rq dir w = (w', r)" and "ctx_client ctx = client"
  shows "job_grows (rq_number rq) (job_budget (ctx_config ctx) d c) w w'"
proof -
  let ?n = "rq_number rq"
  obtain w1 u where m: "make_directory env dir w = (w1, u)" by fastforce
  then have w1: "w1 = w" by (simp add: make_directory_def)
  show ?thesis
  proof (cases u)
    case (Inl e)
    with assms(1) m w1 have "w' = w" by (simp add: gather_reports_def io_bind_def)
    with job_grows_mono [OF job_grows_refl] show ?thesis by blast
  next
    case (Inr x)
    obtain w2 p where page: "client_detail client ?n (timeout_seconds (ctx_config ctx)) w = (w2, p)" by fastforce
    note g2 = detail_grows [OF page]
    show ?thesis
    proof (cases p)
      case (Inl e)
      with assms m w1 Inr page have "w' = w2" by (simp add: gather_reports_def io_bind_def)
      with job_grows_mono [OF g2] show ?thesis by (simp add: job_budget_def)
    next
      case html: (Inr html)
      obtain w3 now where clock: "read_clock env w2 = (w3, Inr now)" by (simp add: read_clock_def)
      have g3: "job_grows ?n 0 w2 w3" using clock by (intro quiet_grows) simp
      let ?opts = "job_options (ctx_config ctx) rq html (iso_text now)"
      from assms m w1 Inr page html clock have run:
        "ingest_facility_reports_for_facility (site_report_connector env (job_connector rq dir)) ?opts None
           (Some (fetch_report_with_controls ctx ?n)) w3 = (w', r)"
        by (simp add: gather_reports_def io_bind_def)
      have limit: "opt_limit ?opts = Some (per_job_request_limit (ctx_config ctx))" by (simp add: job_options_def)
      from bounded_source.workflow_grows [OF job_source [OF assms(2)] run limit] obtain a where
        a: "a \<le> discovery_budget (opt_detail_html ?opts) (opt_fallback ?opts) +
            nat (retry_limit (ctx_config ctx) + 1) * c * nat (per_job_request_limit (ctx_config ctx))"
          "job_grows ?n a w3 w'" by blast
      have "job_grows ?n (d + 0 + a) w w'" by (rule job_grows_trans [OF job_grows_trans [OF g2 g3] a(2)])
      with a(1) show ?thesis
        by (auto simp: job_budget_def discovery_budget_def job_options_def intro: job_grows_mono split: if_splits)
    qed
  qed
qed

end

section \<open>The table\<close>

lemma job_table_quiet:
  assumes "web_world.more w' = web_world.more w"
  shows "jobs_table w' = jobs_table w" "job_imports w' = job_imports w" "reference_table w' = reference_table w"
  using assms by (cases w; cases w'; simp)+

lemma updated_twice [simp]: "updated_row u t (updated_row v s r) = updated_row u t r"
  by (simp add: updated_row_def)

lemma updated_id [simp]: "job_id (updated_row u t r) = job_id r"
  by (simp add: updated_row_def)

text \<open>The job is the last row of the table, in some state.\<close>

definition open_job :: "job_row list \<Rightarrow> job_row \<Rightarrow> 'w job_world_scheme \<Rightarrow> bool" where
  "open_job old row w \<longleftrightarrow> (\<forall>r \<in> set old. job_id r \<noteq> job_id row) \<and> (\<exists>u t. jobs_table w = old @ [updated_row u t row])"

lemma update_table: "\<forall>r \<in> set old. job_id r \<noteq> job_id row \<Longrightarrow>
    tbl_update job_id (job_id row) (updated_row v now) (old @ [updated_row u t row]) = old @ [updated_row v now row]"
  by (auto simp: tbl_update_def intro: map_idI)

lemma find_job: "\<forall>r \<in> set old. job_id r \<noteq> job_id row \<Longrightarrow>
    filter (\<lambda>r. job_id r = job_id row) (old @ [updated_row v now row]) = [updated_row v now row]"
  by (auto simp: filter_empty_conv)

lemma update_open_job:
  assumes "open_job old row w"
  shows "\<exists>t w'. update_job_state env (job_id row) v w = (w', Inr (result_of_row (updated_row v t row))) \<and>
    jobs_table w' = old @ [updated_row v t row] \<and> job_imports w' = job_imports w \<and>
    reference_table w' = reference_table w \<and> sent_requests w' = sent_requests w"
proof -
  from assms obtain u s where row: "\<forall>r \<in> set old. job_id r \<noteq> job_id row" "jobs_table w = old @ [updated_row u s row]"
    by (auto simp: open_job_def)
  let ?t = "iso_seconds (now_at env (clock_ticks w))"
  let ?w = "w\<lparr>clock_ticks := clock_ticks w + 1, jobs_table := old @ [updated_row v ?t row]\<rparr>"
  have "update_job_state env (job_id row) v w = (?w, Inr (result_of_row (updated_row v ?t row)))"
    using row find_job [OF row(1), of v ?t]
    by (simp add: update_job_state_def io_bind_def read_clock_def job_result_from_row_def update_table)
  then show ?thesis by (intro exI [of _ ?t] exI [of _ ?w]) simp
qed

section \<open>Finishing a job\<close>

definition untouched :: "'w job_world_scheme \<Rightarrow> 'w job_world_scheme \<Rightarrow> bool" where
  "untouched w w' \<longleftrightarrow> jobs_table w' = jobs_table w \<and> job_imports w' = job_imports w \<and>
     reference_table w' = reference_table w \<and> sent_requests w' = sent_requests w"

lemma untouched_refl [simp]: "untouched w w"
  by (simp add: untouched_def)

lemma retrieval_artifact_untouched: "retrieval_artifact env i records warnings w = (w', r) \<Longrightarrow> untouched w w'"
  by (auto simp: retrieval_artifact_def io_bind_def read_clock_def untouched_def split: prod.splits sum.splits)

lemma parsed_batch: "parse_seeded_corpus_artifact data = Inr art \<Longrightarrow>
    py_get data ''import_batch_id'' = PStr (art_batch_id art) \<and>
    py_get data ''source_artifact_identity'' = PStr (art_identity art) \<and>
    art_records art \<noteq> [] \<and> list_all (\<lambda>kv. is_int (snd kv)) (art_record_counts art)"
  by (auto simp: parse_seeded_corpus_artifact_def ebind_eq_Inr artifact_required_str_def required_field_def
      artifact_record_counts_def record_tuple_def split: pyval.splits if_splits)

lemma retrieval_artifact_ok:
  assumes "retrieval_artifact env i records warnings w = (w', Inr art)"
  shows "art_batch_id art = retrieval_import_batch_id i" "art_identity art = artifact_identity_of_job i"
    "\<exists>rs. flatten_seeded_corpus_records art = Inr rs"
    "art_records art \<noteq> []" "list_all (\<lambda>kv. is_int (snd kv)) (art_record_counts art)"
  using assms by (auto simp: retrieval_artifact_def io_bind_eq_Inr ebind_eq_Inr py_get_def dest!: parsed_batch)

lemma artifact_import_total: "flatten_seeded_corpus_records art = Inr rs \<Longrightarrow>
    \<exists>db' res. import_seeded_corpus_artifact env db art preserve = Inr (db', res)"
  by (simp add: import_seeded_corpus_artifact_def Let_def split: prod.split)

text \<open>How a job ends: its row is closed, and the imported tables change only by the import of its artifact.\<close>

definition job_imported :: "('e pyenv_scheme) \<Rightarrow> string \<Rightarrow> import_db \<Rightarrow> import_db \<Rightarrow> bool" where
  "job_imported env i db db' \<longleftrightarrow>
     (\<exists>art res. art_batch_id art = retrieval_import_batch_id i \<and> art_identity art = artifact_identity_of_job i \<and>
        art_records art \<noteq> [] \<and> list_all (\<lambda>kv. is_int (snd kv)) (art_record_counts art) \<and>
        import_seeded_corpus_artifact env db art False = Inr (db', res))"

definition closes ::
  "('e pyenv_scheme) \<Rightarrow> job_row list \<Rightarrow> job_row \<Rightarrow> 'w job_world_scheme \<Rightarrow> job_result \<Rightarrow> 'w job_world_scheme \<Rightarrow> bool" where
  "closes env old row w r w' \<longleftrightarrow>
     (\<exists>v t. r = result_of_row (updated_row v t row) \<and> jobs_table w' = old @ [updated_row v t row] \<and>
        upd_state v \<in> TERMINAL_JOB_STATES - {Rate_Limited} \<and> reference_table w' = reference_table w \<and>
        sent_requests w' = sent_requests w \<and>
        (if upd_mutated v then upd_state v \<in> {Completed, Completed_With_Warnings} \<and>
             upd_artifact v = Some (artifact_identity_of_job (job_id row)) \<and>
             job_imported env (job_id row) (job_imports w) (job_imports w')
         else upd_artifact v = None \<and> job_imports w' = job_imports w))"

lemma update_closes:
  assumes "open_job old row w" and "upd_state v \<in> TERMINAL_JOB_STATES - {Rate_Limited}" and "\<not> upd_mutated v" and "upd_artifact v = None"
  shows "\<exists>w' r. update_job_state env (job_id row) v w = (w', Inr r) \<and> closes env' old row w r w'"
proof -
  from update_open_job [OF assms(1)] obtain t w' where "update_job_state env (job_id row) v w =
      (w', Inr (result_of_row (updated_row v t row)))" "jobs_table w' = old @ [updated_row v t row]"
    "job_imports w' = job_imports w" "reference_table w' = reference_table w" "sent_requests w' = sent_requests w" by blast
  with assms show ?thesis by (auto simp: closes_def)
qed

lemma finish_empty_closes: "open_job old row w \<Longrightarrow>
    \<exists>w' r. finish_empty env c (job_id row) ing warnings w = (w', Inr r) \<and> closes env' old row w r w'"
  unfolding finish_empty_def by (rule update_closes) (auto simp: done_state_def TERMINAL_JOB_STATES_def)

lemma open_job_untouched: "open_job old row w \<Longrightarrow> untouched w w' \<Longrightarrow> open_job old row w'"
  by (simp add: open_job_def untouched_def)

lemma finish_import_closes:
  assumes "open_job old row w" and "finish_import env c (job_id row) ing matching warnings w = (w', r)"
  shows "(\<exists>e. r = Inl e \<and> untouched w w') \<or> (\<exists>q. r = Inr q \<and> closes env old row w q w')"
proof (cases "prepare_ccld_hosted_source_records env (reference_table w) matching (mock_success_demo_enabled c) True")
  case (Inl e)
  with assms(2) show ?thesis by (auto simp: finish_import_def io_bind_def)
next
  case (Inr prepared)
  obtain w1 a where art: "retrieval_artifact env (job_id row) (prep_records prepared) (warnings @ prep_warnings prepared) w = (w1, a)"
    by fastforce
  note same = retrieval_artifact_untouched [OF art]
  show ?thesis
  proof (cases a)
    case (Inl e)
    with assms(2) Inr art same show ?thesis by (auto simp: finish_import_def io_bind_def Let_def)
  next
    case a: (Inr art')
    note ok = retrieval_artifact_ok [OF art [unfolded a]]
    from ok(3) artifact_import_total obtain db res where db: "import_seeded_corpus_artifact env (job_imports w1) art' False = Inr (db, res)" by metis
    let ?w2 = "w1\<lparr>job_imports := db\<rparr>"
    have "open_job old row ?w2" using open_job_untouched [OF assms(1) same] by (simp add: open_job_def)
    note upd = update_open_job [OF this]
    from assms(2) Inr art a db obtain v where v: "update_job_state env (job_id row) v ?w2 = (w', r)" "upd_mutated v"
      "upd_state v \<in> {Completed, Completed_With_Warnings}" "upd_artifact v = Some (art_identity art')"
      by (auto simp: finish_import_def io_bind_def Let_def import_artifact_def done_state_def)
    from upd [of env v] v(1) same obtain t where t: "r = Inr (result_of_row (updated_row v t row))"
      "jobs_table w' = old @ [updated_row v t row]" "job_imports w' = db" "reference_table w' = reference_table w"
      "sent_requests w' = sent_requests w" by (auto simp: untouched_def)
    have "job_imported env (job_id row) (job_imports w) (job_imports w')"
      using ok db t(3) same by (auto simp: job_imported_def untouched_def)
    with t v ok(2) have "closes env old row w (result_of_row (updated_row v t row)) w'"
      unfolding closes_def by (intro exI [of _ v] exI [of _ t]) (auto simp: TERMINAL_JOB_STATES_def)
    with t(1) show ?thesis by blast
  qed
qed

section \<open>Running a job\<close>

lemma grows_untouched_tables:
  fixes w w' :: "'w job_world_scheme"
  assumes "job_grows number n w w'"
  shows "jobs_table w' = jobs_table w \<and> job_imports w' = job_imports w \<and> reference_table w' = reference_table w"
  using job_table_quiet [of w' w] assms by (simp add: job_grows_def)

lemma open_job_tables: "open_job old row w \<Longrightarrow> jobs_table w' = jobs_table w \<Longrightarrow> open_job old row w'"
  by (simp add: open_job_def)

text \<open>The same without the requests.\<close>

definition job_closed ::
  "('e pyenv_scheme) \<Rightarrow> job_row list \<Rightarrow> job_row \<Rightarrow> 'w job_world_scheme \<Rightarrow> job_result \<Rightarrow> 'w job_world_scheme \<Rightarrow> bool" where
  "job_closed env old row w r w' \<longleftrightarrow>
     (\<exists>v t. r = result_of_row (updated_row v t row) \<and> jobs_table w' = old @ [updated_row v t row] \<and>
        upd_state v \<in> TERMINAL_JOB_STATES - {Rate_Limited} \<and> reference_table w' = reference_table w \<and>
        (if upd_mutated v then upd_state v \<in> {Completed, Completed_With_Warnings} \<and>
             upd_artifact v = Some (artifact_identity_of_job (job_id row)) \<and>
             job_imported env (job_id row) (job_imports w) (job_imports w')
         else upd_artifact v = None \<and> job_imports w' = job_imports w))"

lemma closes_closed: "closes env old row w1 r w' \<Longrightarrow> job_imports w1 = job_imports w \<Longrightarrow>
    reference_table w1 = reference_table w \<Longrightarrow> job_closed env old row w r w'"
  unfolding closes_def job_closed_def by (elim exE) (rule exI, rule exI, auto)

lemma closes_requests: "closes env old row w r w' \<Longrightarrow> sent_requests w' = sent_requests w"
  by (auto simp: closes_def)

lemma execute_closes:
  assumes "job_client (ctx_client ctx) d c" and "open_job old row w"
    and "execute_job env ctx rq dir (job_id row) w = (w', r)"
  shows "((\<exists>e. r = Inl e \<and> jobs_table w' = jobs_table w \<and> job_imports w' = job_imports w \<and> reference_table w' = reference_table w) \<or>
      (\<exists>q. r = Inr q \<and> job_closed env old row w q w')) \<and>
    asks (rq_number rq) (job_budget (ctx_config ctx) d c) w w'"
proof -
  obtain w1 g where gather: "gather_reports env ctx rq dir w = (w1, g)" by fastforce
  note grows = job_client.gather_grows [OF assms(1) gather refl]
  note tables = grows_untouched_tables [OF grows]
  note asked = grows_asks [OF grows]
  show ?thesis
  proof (cases g)
    case (Inl e)
    with assms(3) gather have "w' = w1" "r = Inl e" by (simp_all add: execute_job_def io_bind_def)
    with tables asked show ?thesis by blast
  next
    case (Inr ing)
    show ?thesis
    proof (cases "filter_err (normalized_record_matches_request rq) (ing_records ing)")
      case (Inl e)
      with assms(3) gather Inr have "w' = w1" "r = Inl e" by (simp_all add: execute_job_def io_bind_def)
      with tables asked show ?thesis by blast
    next
      case m: (Inr matching)
      have "open_job old row w1" using open_job_tables [OF assms(2)] tables by blast
      note finish = finish_empty_closes [OF this] finish_import_closes [OF this]
      show ?thesis
      proof (cases "matching = []")
        case True
        with assms(3) gather Inr m have "finish_empty env (ctx_config ctx) (job_id row) ing (job_run_warnings ing 0) w1 = (w', r)"
          by (simp add: execute_job_def io_bind_def Let_def)
        with finish(1) [of env "ctx_config ctx" ing "job_run_warnings ing 0" env] obtain q where
          q: "r = Inr q" "closes env old row w1 q w'" by auto
        with closes_closed [OF q(2)] tables asks_same [OF asked closes_requests [OF q(2)]] show ?thesis by blast
      next
        case False
        with assms(3) gather Inr m have run: "finish_import env (ctx_config ctx) (job_id row) ing matching
            (job_run_warnings ing (length matching)) w1 = (w', r)"
          by (simp add: execute_job_def io_bind_def Let_def)
        from finish(2) [OF run] show ?thesis
        proof (elim disjE exE conjE)
          fix e assume "r = Inl e" "untouched w1 w'"
          with tables asks_same [OF asked] show ?thesis by (simp add: untouched_def)
        next
          fix q assume q: "r = Inr q" "closes env old row w1 q w'"
          with closes_closed [OF q(2)] tables asks_same [OF asked closes_requests [OF q(2)]] show ?thesis by blast
        qed
      qed
    qed
  qed
qed

lemma persist_opens:
  assumes "rq_type rq \<in> set SUPPORTED_RECORD_TYPES"
    and "''ccld-retrieval-'' @ rq_number rq @ ''-'' @ stamp_digits (now_at env (clock_ticks w)) \<notin> job_id ` set (jobs_table w)"
  shows "\<exists>i now w'. persist_initial_job env ctx rq actor state message mutated w =
      (w', Inr (result_of_row (initial_row ctx rq actor state message mutated i now))) \<and>
    jobs_table w' = jobs_table w @ [initial_row ctx rq actor state message mutated i now] \<and>
    i = ''ccld-retrieval-'' @ rq_number rq @ ''-'' @ stamp_digits (now_at env (clock_ticks w)) \<and>
    job_imports w' = job_imports w \<and> reference_table w' = reference_table w \<and> sent_requests w' = sent_requests w"
proof -
  let ?i = "''ccld-retrieval-'' @ rq_number rq @ ''-'' @ stamp_digits (now_at env (clock_ticks w))"
  let ?now = "iso_seconds (now_at env (clock_ticks w + 1))"
  let ?row = "initial_row ctx rq actor state message mutated ?i ?now"
  let ?w = "w\<lparr>clock_ticks := clock_ticks w + 2, jobs_table := jobs_table w @ [?row]\<rparr>"
  have "persist_initial_job env ctx rq actor state message mutated w = (?w, Inr (result_of_row ?row))"
    using assms by (simp add: persist_initial_job_def new_job_id_def io_bind_def read_clock_def insert_job_def Let_def
        initial_row_def)
  then show ?thesis by (intro exI [of _ ?i] exI [of _ ?now] exI [of _ ?w]) simp
qed

lemma error_closes: "open_job old row w \<Longrightarrow>
    \<exists>w' r. update_job_state env (job_id row) (closed_by_error e) w = (w', Inr r) \<and> closes env' old row w r w'"
  by (rule update_closes) (auto simp: closed_by_error_def TERMINAL_JOB_STATES_def)

definition job_key :: "('e web_env_scheme) \<Rightarrow> retrieval_request \<Rightarrow> 'w web_world_scheme \<Rightarrow> string" where
  "job_key env rq w = ''ccld-retrieval-'' @ rq_number rq @ ''-'' @ stamp_digits (now_at env (clock_ticks w))"

lemma updated_initial: "\<exists>u t. initial_row ctx rq actor state message mutated i now =
    updated_row u t (initial_row ctx rq actor state message mutated i now)"
  by (rule exI [of _ "\<lparr>upd_state = state, upd_message = mode_status_message (ctx_config ctx) message, upd_counts = [],
      upd_warnings = [], upd_errors = [], upd_mutated = mutated, upd_artifact = None\<rparr>"], rule exI [of _ now])
    (simp add: updated_row_def initial_row_def)

lemma job_closed_from: "job_closed env old row w1 r w' \<Longrightarrow> job_imports w1 = job_imports w \<Longrightarrow>
    reference_table w1 = reference_table w \<Longrightarrow> job_closed env old row w r w'"
  by (simp only: job_closed_def)

lemma admitted_job_ends:
  assumes "job_client (ctx_client ctx) d c" and "rq_type rq \<in> set SUPPORTED_RECORD_TYPES"
    and "job_key env rq w \<notin> job_id ` set (jobs_table w)"
  shows "\<exists>w' r now. run_admitted_job env ctx rq dir actor w = (w', Inr r) \<and>
    job_closed env (jobs_table w) (initial_row ctx rq actor Queued ''Controlled CCLD retrieval job queued.'' False (job_key env rq w) now) w r w' \<and>
    asks (rq_number rq) (job_budget (ctx_config ctx) d c) w w'"
proof -
  let ?old = "jobs_table w"
  from persist_opens [OF assms(2) assms(3) [unfolded job_key_def], of ctx actor Queued "''Controlled CCLD retrieval job queued.''" False, folded job_key_def]
  obtain now w1 where p: "persist_initial_job env ctx rq actor Queued ''Controlled CCLD retrieval job queued.'' False w =
      (w1, Inr (result_of_row (initial_row ctx rq actor Queued ''Controlled CCLD retrieval job queued.'' False (job_key env rq w) now)))"
    "jobs_table w1 = ?old @ [initial_row ctx rq actor Queued ''Controlled CCLD retrieval job queued.'' False (job_key env rq w) now]"
    "job_imports w1 = job_imports w" "reference_table w1 = reference_table w" "sent_requests w1 = sent_requests w"
    by (elim exE conjE) blast
  define row where "row = initial_row ctx rq actor Queued ''Controlled CCLD retrieval job queued.'' False (job_key env rq w) now"
  have id: "job_id row = job_key env rq w" by (simp add: row_def initial_row_def)
  obtain u t where upd: "row = updated_row u t row" unfolding row_def using updated_initial by blast
  have fresh: "\<forall>r \<in> set ?old. job_id r \<noteq> job_id row" using assms(3) id by (auto simp: image_iff)
  have "jobs_table w1 = ?old @ [updated_row u t row]" using p(2) upd by (simp add: row_def)
  with fresh have open1: "open_job ?old row w1" by (auto simp: open_job_def)
  let ?v = "\<lparr>upd_state = Running,
        upd_message = mode_status_message (ctx_config ctx) ''Controlled CCLD retrieval job is running on the server.'',
        upd_counts = [], upd_warnings = [], upd_errors = [], upd_mutated = False, upd_artifact = None\<rparr>"
  from update_open_job [OF open1, of env ?v] obtain s w2 where q:
    "update_job_state env (job_id row) ?v w1 = (w2, Inr (result_of_row (updated_row ?v s row)))"
    "jobs_table w2 = ?old @ [updated_row ?v s row]" "job_imports w2 = job_imports w1"
    "reference_table w2 = reference_table w1" "sent_requests w2 = sent_requests w1" by blast
  have open2: "open_job ?old row w2" using fresh q(2) by (auto simp: open_job_def)
  obtain w3 x where run: "execute_job env ctx rq dir (job_id row) w2 = (w3, x)" by fastforce
  note ended = execute_closes [OF assms(1) open2 run]
  have asked: "asks (rq_number rq) (job_budget (ctx_config ctx) d c) w w3"
    using ended p(5) q(5) by (auto intro: asks_from)
  have start: "run_admitted_job env ctx rq dir actor w = (case x of Inr final \<Rightarrow> (w3, Inr final)
      | Inl e \<Rightarrow> update_job_state env (job_id row) (closed_by_error e) w3)"
    using p(1) q(1) run by (simp add: run_admitted_job_def io_bind_def io_try_def id result_of_row_def row_def initial_row_def
        split: sum.split)
  show ?thesis
  proof (cases x)
    case (Inr final)
    with ended have "job_closed env ?old row w2 final w3" by auto
    from job_closed_from [OF this] p(3,4) q(3,4) have "job_closed env ?old row w final w3" by simp
    with start Inr asked show ?thesis unfolding row_def by (auto simp del: split_paired_Ex)
  next
    case (Inl e)
    with ended q(2) open2 have same: "open_job ?old row w3" "job_imports w3 = job_imports w" "reference_table w3 = reference_table w"
      using p(3,4) q(3,4) by (auto simp: open_job_def)
    from error_closes [OF same(1), of env e env] obtain w4 r where c:
      "update_job_state env (job_id row) (closed_by_error e) w3 = (w4, Inr r)" "closes env ?old row w3 r w4" by blast
    with start Inl have "run_admitted_job env ctx rq dir actor w = (w4, Inr r)" by simp
    with closes_closed [OF c(2) same(2,3)] asks_same [OF asked closes_requests [OF c(2)]] show ?thesis
      unfolding row_def by blast
  qed
qed

end
