(* ===== verification/Retrieval_Properties.thy ===== *)
theory Retrieval_Properties imports Retrieval_Runs
begin

text \<open>
  The properties of retrieval jobs: what an accepted request selects, that every admitted job ends, the bound on requests, and the histories of the job table.
\<close>

section \<open>Dates of a request\<close>

lemma iterate_days_keeps: "(\<And>d e. P d \<Longrightarrow> f d = Some e \<Longrightarrow> P e) \<Longrightarrow> P d \<Longrightarrow> iterate_days n f d = Some e \<Longrightarrow> P e"
  by (induction n arbitrary: d) (auto simp: bind_eq_Some_conv)

lemma shift_days_valid:
  assumes "valid_date d" and "shift_days d n = Some e"
  shows "valid_date e"
proof (cases "0 \<le> n")
  case True
  with assms iterate_days_keeps [of valid_date next_day, OF next_day_valid] show ?thesis by (simp add: shift_days_def)
next
  case False
  with assms iterate_days_keeps [of valid_date prev_day, OF prev_day_valid] show ?thesis by (simp add: shift_days_def)
qed

lemma next_day_later: "next_day d = Some e \<Longrightarrow> d \<le> e"
  by (cases d) (auto simp: less_eq_date_def split: if_splits)

lemma plus_days_later:
  assumes "0 \<le> n" and "plus_days d n = Inr e"
  shows "d \<le> e"
proof -
  have step: "d \<le> y" if "d \<le> x" "next_day x = Some y" for x y using that next_day_later order_trans by blast
  from assms have "iterate_days (nat n) next_day d = Some e"
    by (auto simp: plus_days_def shift_days_def split: option.splits)
  from iterate_days_keeps [of "\<lambda>x. d \<le> x" next_day, OF step order_refl this] show ?thesis .
qed

lemma iso_week_date_valid:
  assumes "iso_week_date y w k = Some e" and "y \<le> 9999"
  shows "valid_date e"
proof -
  from assms obtain n where "shift_days (Date (int y) 1 1) n = Some e" "1 \<le> y"
    unfolding iso_week_date_def Let_def by (metis not_less option.simps(3))
  moreover with assms(2) have "valid_date (Date (int y) 1 1)" by (simp add: days_in_month_def)
  ultimately show ?thesis using shift_days_valid by blast
qed

lemma digits_value_bound: "list_all is_digit s \<Longrightarrow> digits_value s < 10 ^ length s"
proof (induction s rule: rev_induct)
  case (snoc c s)
  then have "char_digit c \<le> 9" by (auto simp: is_digit_def char_digit_def Let_def)
  with snoc show ?case by (simp add: digits_value_snoc)
qed (simp add: digits_value_def)

lemma parse_year: "parse_digits 4 s = Some (y, r) \<Longrightarrow> y \<le> 9999"
  using digits_value_bound [of "take 4 s"] by (auto simp: parse_digits_def split: if_splits)

lemma date_fromisoformat_valid:
  assumes "date_fromisoformat s = Some d"
  shows "valid_date d"
proof -
  from assms obtain y r where year: "parse_digits 4 s = Some (y, r)"
    by (auto simp: date_fromisoformat_def bind_eq_Some_conv split: if_splits)
  with assms have "(\<exists>m k. mk_date_option y m k = Some d) \<or> (\<exists>w k. iso_week_date y w k = Some d)"
    by (simp add: date_fromisoformat_def Let_def bind_eq_Some_conv split: if_splits option.splits) blast+
  with iso_week_date_valid parse_year [OF year] show ?thesis by (auto simp: mk_date_option_def split: if_splits)
qed

lemma isoformat_visible: "py_strip (isoformat d) \<noteq> []"
  by (rule strip_nonblank [of "CHR ''-''"]) (simp_all add: isoformat_def is_space_def)

lemma parse_iso_date_valid: "parse_iso_date v = Some d \<Longrightarrow> valid_date d"
  by (auto simp: parse_iso_date_def date_fromisoformat_valid split: option.splits if_splits)

lemma parse_isoformat: "valid_date d \<Longrightarrow> parse_iso_date (Some (isoformat d)) = Some d"
  by (simp add: parse_iso_date_def isoformat_visible fromisoformat_isoformat)

lemma date_within_known: "date_within (Some s) (Some e) d = Inr (s \<le> d \<and> d \<le> e)"
  by (simp add: date_within_def)

lemma any_date_within: "any_err (date_within (Some s) (Some e)) ds = Inr (\<exists>d \<in> set ds. s \<le> d \<and> d \<le> e)"
  by (induction ds) (auto simp: date_within_known)

lemma validated_request:
  assumes "validate_ccld_retrieval_request form max_days = Inr rq"
  obtains s e where "parse_iso_date (Some (first_form_value form ''start_date'')) = Some s"
    "parse_iso_date (Some (first_form_value form ''end_date'')) = Some e" "rq_start rq = isoformat s" "rq_end rq = isoformat e"
    "rq_number rq = first_form_value form ''facility_number''" "rq_number rq \<noteq> []" "py_isdigit (rq_number rq)"
    "rq_type rq \<in> set SUPPORTED_RECORD_TYPES" "s \<le> e" "toordinal e - toordinal s \<le> max_days"
proof -
  note form = assms [unfolded validate_ccld_retrieval_request_def Let_def]
  from form obtain s e where d: "parse_iso_date (Some (first_form_value form ''start_date'')) = Some s"
    "parse_iso_date (Some (first_form_value form ''end_date'')) = Some e" by (auto split: list.splits option.splits)
  with form have errors: "number_errors (first_form_value form ''facility_number'') = []"
    "(if first_form_value form ''record_type'' = [] then ''complaints'' else first_form_value form ''record_type'')
       \<in> set SUPPORTED_RECORD_TYPES" "range_errors max_days (Some s) (Some e) = []"
    and rq: "rq = \<lparr>rq_number = first_form_value form ''facility_number'',
      rq_type = (if first_form_value form ''record_type'' = [] then ''complaints'' else first_form_value form ''record_type''),
      rq_start = isoformat s, rq_end = isoformat e\<rparr>"
    by (auto split: list.splits if_splits)
  show thesis
    using that [OF d] errors rq by (auto simp: number_errors_def range_errors_def split: if_splits)
qed



definition example_form :: form_values where
  "example_form = [(''facility_number'', ['' 157806098 '']), (''start_date'', [''2026-01-05'']), (''end_date'', [''20260301''])]"


section \<open>Every job ends\<close>

lemma terminal_inactive: "job_state_of r \<in> TERMINAL_JOB_STATES \<longleftrightarrow> \<not> is_active_row r"
  by (cases "job_state_of r") (auto simp: TERMINAL_JOB_STATES_def is_active_row_def)

text \<open>The clients of the program: the public site, or the two files of the demonstration.\<close>

definition program_client :: "('e web_env_scheme) \<Rightarrow> 'w web_world_scheme retrieval_client \<Rightarrow> bool" where
  "program_client env client \<longleftrightarrow> client = http_client env \<or> (\<exists>detail report. client = fixture_client env detail report)"

lemma program_job_client: "program_client env client \<Longrightarrow> job_client client 1 1"
proof -
  have "job_client (fixture_client env detail report) 1 1" for detail report
    using fixture.detail_grows [of env detail report] fixture.report_grows [of _ _ env detail report]
    by unfold_locales (blast intro: job_grows_mono)+
  then show "program_client env client \<Longrightarrow> job_client client 1 1"
    using http.job_client_axioms by (auto simp: program_client_def)
qed

text \<open>A job is admitted: the retrieval is configured, its actor may trigger it, and has fewer active jobs than the
  limit.\<close>

definition job_admitted ::
  "('e web_env_scheme) \<Rightarrow> 'w job_world_scheme job_context \<Rightarrow> 'w job_world_scheme \<Rightarrow> string list \<Rightarrow> actor_audit_context \<Rightarrow> bool" where
  "job_admitted env ctx w dir actor \<longleftrightarrow> raw_dir (ctx_config ctx) = Some dir \<and> retrieval_enabled (ctx_config ctx) \<and>
     (\<exists>decision. job_authorization env ctx w = Inr decision \<and> decided_actor decision = actor) \<and>
     int (active_actor_job_count (jobs_table w) (provider_subject actor)) < rate_limit_per_actor (ctx_config ctx)"

lemma run_admitted: "job_admitted env ctx w dir actor \<Longrightarrow>
    run_ccld_retrieval_job env ctx rq w = run_admitted_job env ctx rq dir actor w"
  by (auto simp: job_admitted_def run_ccld_retrieval_job_def retrieval_configured_def)

lemma initial_id: "job_id (initial_row ctx rq actor state message mutated i now) = i"
  by (simp add: initial_row_def)

text \<open>C25: Every admitted job ends. Whatever the site, the clock and the files do, a run of an admitted request with a
  supported record type and a new job id returns a result, and leaves the job table with one more row, the closed
  row of this job that the result reports: completed, with or without warnings, failed, or blocked, never queued,
  running or rate-limited. When the row says that data was changed, the job completed and the imported tables are
  those after the import of its own batch; otherwise they are as before. The reference table never changes.\<close>

theorem every_admitted_job_ends:
  assumes "program_client env (ctx_client ctx)" and "job_admitted env ctx w dir actor"
    and "rq_type rq \<in> set SUPPORTED_RECORD_TYPES" and "job_key env rq w \<notin> job_id ` set (jobs_table w)"
  shows "\<exists>w' r row. run_ccld_retrieval_job env ctx rq w = (w', Inr r) \<and> r = result_of_row row \<and>
    jobs_table w' = jobs_table w @ [row] \<and> job_id row = job_key env rq w \<and> job_number row = rq_number rq \<and>
    job_subject row = provider_subject actor \<and> job_scope row = ctx_scope ctx \<and>
    job_state_of row \<in> {Completed, Completed_With_Warnings, Job_Failed, Blocked_By_Validation} \<and>
    (if job_mutated row
     then job_state_of row \<in> {Completed, Completed_With_Warnings} \<and>
       job_artifact row = Some (artifact_identity_of_job (job_id row)) \<and>
       job_imported env (job_id row) (job_imports w) (job_imports w')
     else job_artifact row = None \<and> job_imports w' = job_imports w) \<and>
    reference_table w' = reference_table w"
proof -
  from admitted_job_ends [OF program_job_client [OF assms(1)] assms(3,4), of dir actor] run_admitted [OF assms(2), of rq]
  obtain w' r now where run: "run_ccld_retrieval_job env ctx rq w = (w', Inr r)"
    "job_closed env (jobs_table w) (initial_row ctx rq actor Queued ''Controlled CCLD retrieval job queued.'' False (job_key env rq w) now) w r w'"
    by auto
  from run(2) obtain v t where v: "r = result_of_row (updated_row v t (initial_row ctx rq actor Queued
      ''Controlled CCLD retrieval job queued.'' False (job_key env rq w) now))"
    "jobs_table w' = jobs_table w @ [updated_row v t (initial_row ctx rq actor Queued
      ''Controlled CCLD retrieval job queued.'' False (job_key env rq w) now)]"
    "upd_state v \<in> TERMINAL_JOB_STATES - {Rate_Limited}" "reference_table w' = reference_table w"
    "if upd_mutated v then upd_state v \<in> {Completed, Completed_With_Warnings} \<and>
             upd_artifact v = Some (artifact_identity_of_job (job_key env rq w)) \<and>
             job_imported env (job_key env rq w) (job_imports w) (job_imports w')
         else upd_artifact v = None \<and> job_imports w' = job_imports w"
    unfolding job_closed_def initial_id by blast
  define row where "row = updated_row v t (initial_row ctx rq actor Queued ''Controlled CCLD retrieval job queued.'' False (job_key env rq w) now)"
  have columns: "job_id row = job_key env rq w" "job_number row = rq_number rq" "job_subject row = provider_subject actor"
    "job_scope row = ctx_scope ctx" "job_state_of row = upd_state v" "job_mutated row = upd_mutated v"
    "job_artifact row = upd_artifact v" by (simp_all add: row_def updated_row_def initial_row_def)
  have "upd_state v \<in> {Completed, Completed_With_Warnings, Job_Failed, Blocked_By_Validation}"
    using v(3) by (auto simp: TERMINAL_JOB_STATES_def)
  with run(1) v(4,5) v(1,2) [folded row_def] columns show ?thesis
    by (intro exI [of _ w'] exI [of _ r] exI [of _ row]) (simp split: if_splits)
qed

definition example_job_world :: job_world where
  "example_job_world = \<lparr>sent_requests = [], clock_ticks = 0, stored_files = [], jobs_table = [],
     job_imports = \<lparr>import_batches = [], source_rows = []\<rparr>, reference_table = None\<rparr>"

definition example_job_config :: retrieval_config where
  "example_job_config = \<lparr>retrieval_enabled = True, raw_dir = Some [''raw''], demo_mode = None, max_date_range_days = 90,
     per_job_request_limit = 5, rate_limit_per_actor = 3, timeout_seconds = 30, retry_limit = 1\<rparr>"

definition example_job_actor :: authenticated_actor where
  "example_job_actor = \<lparr>provider_subject = ''subject'', provider_issuer = ''issuer'', display_name = None, email = None,
     actor_category = Tester_Actor, account_status = Active, actor_roles = [Tester_Reviewer],
     actor_scopes = [CCLD_RETRIEVAL_CORPUS_SCOPE]\<rparr>"

definition example_job_context :: "job_world job_context" where
  "example_job_context = \<lparr>ctx_actor = Some example_job_actor, ctx_scope = CCLD_RETRIEVAL_CORPUS_SCOPE,
     ctx_config = example_job_config, ctx_client = http_client example_web_env\<rparr>"

definition example_request :: retrieval_request where
  "example_request = \<lparr>rq_number = ''157806098'', rq_type = ''complaints'', rq_start = ''2026-01-05'', rq_end = ''2026-03-01''\<rparr>"

lemma example_admitted: "job_admitted example_web_env example_job_context example_job_world [''raw''] example_job_actor"
  by (simp add: job_admitted_def example_job_context_def example_job_config_def job_authorization_def require_permission_Inr
      example_job_actor_def has_permission_iff example_job_world_def active_actor_job_count_def)

lemma example_program_client: "program_client example_web_env (ctx_client example_job_context)"
  by (simp add: program_client_def example_job_context_def)

theorem every_admitted_job_ends_witness:
  "\<exists>w' r row. run_ccld_retrieval_job example_web_env example_job_context example_request example_job_world = (w', Inr r) \<and>
     jobs_table w' = [row] \<and> jres_state r = job_state_of row \<and> \<not> is_active_row row"
proof -
  have "rq_type example_request \<in> set SUPPORTED_RECORD_TYPES" "jobs_table example_job_world = []"
    by (simp_all add: example_request_def SUPPORTED_RECORD_TYPES_def example_job_world_def)
  with every_admitted_job_ends [OF example_program_client example_admitted, of example_request]
  obtain w' r row where j: "run_ccld_retrieval_job example_web_env example_job_context example_request example_job_world = (w', Inr r)"
    "r = result_of_row row" "jobs_table w' = [row]"
    "job_state_of row \<in> {Completed, Completed_With_Warnings, Job_Failed, Blocked_By_Validation}" by auto
  then show ?thesis by (auto simp: result_of_row_def is_active_row_def)
qed

section \<open>Requests\<close>

lemma persist_asks_nothing: "persist_initial_job env ctx rq actor state message mutated w = (w', r) \<Longrightarrow>
    sent_requests w' = sent_requests w"
  by (auto simp: persist_initial_job_def new_job_id_def read_clock_def io_bind_def insert_job_def Let_def
      split: prod.splits sum.splits if_splits)

lemma persist_refused:
  assumes "rq_type rq \<notin> set SUPPORTED_RECORD_TYPES \<or> job_key env rq w \<in> job_id ` set (jobs_table w)"
  shows "\<exists>w' e. persist_initial_job env ctx rq actor state message mutated w = (w', Inl e) \<and> jobs_table w' = jobs_table w"
  using assms by (auto simp: persist_initial_job_def new_job_id_def read_clock_def io_bind_def insert_job_def Let_def
      initial_row_def job_key_def)

lemma refused_job:
  assumes "rq_type rq \<notin> set SUPPORTED_RECORD_TYPES \<or> job_key env rq w \<in> job_id ` set (jobs_table w)"
    and "run_admitted_job env ctx rq dir actor w = (w', r)"
  shows "sent_requests w' = sent_requests w \<and> jobs_table w' = jobs_table w \<and> (\<exists>e. r = Inl e)"
proof -
  from persist_refused [OF assms(1)] obtain w1 e where
    p: "persist_initial_job env ctx rq actor Queued ''Controlled CCLD retrieval job queued.'' False w = (w1, Inl e)"
      "jobs_table w1 = jobs_table w" by metis
  with assms(2) have "w' = w1" "r = Inl e" by (simp_all add: run_admitted_job_def io_bind_def)
  with p(2) persist_asks_nothing [OF p(1)] show ?thesis by blast
qed

lemma blocked_result_quiet: "in_memory_blocked_result env rq state message w = (w', r) \<Longrightarrow>
    sent_requests w' = sent_requests w \<and> web_world.more w' = web_world.more w \<and> (\<exists>i. r = Inr i \<and> jres_state i = state)"
  by (auto simp: in_memory_blocked_result_def new_job_id_def io_bind_def read_clock_def)

lemma run_cases:
  assumes "run_ccld_retrieval_job env ctx rq w = (w', r)"
  obtains (blocked) state message where "in_memory_blocked_result env rq state message w = (w', r)"
      "state \<in> {Blocked_By_Validation, Job_Failed}"
  | (limited) actor where "persist_initial_job env ctx rq actor Rate_Limited
        ''Controlled CCLD retrieval is rate-limited for this tester.'' False w = (w', r)"
      "rate_limit_per_actor (ctx_config ctx) \<le> int (active_actor_job_count (jobs_table w) (provider_subject actor))"
  | (admitted) dir actor where "job_admitted env ctx w dir actor" "run_admitted_job env ctx rq dir actor w = (w', r)"
  using assms unfolding run_ccld_retrieval_job_def job_admitted_def retrieval_configured_def Let_def
  by (auto simp: not_le split: option.splits sum.splits if_splits)

text \<open>C26: What a job asks of the site is bounded before it starts. A run on the public site sends at most one
  request for the page of the facility, one for the report list, and for each report up to the limit one more than
  the retries; a run of the demonstration on its two files sends none. Every address is the page of the facility,
  its report list, or a report address that passes the check of the job, on the approved host. This holds for every
  run, whether it is denied, fails, raises or completes.\<close>

theorem job_requests_are_bounded:
  "(case run_ccld_retrieval_job env (ctx\<lparr>ctx_client := http_client env\<rparr>) rq w of (w', r) \<Rightarrow>
      \<exists>us. requested_urls w' = requested_urls w @ us \<and>
        length us \<le> 2 + nat (retry_limit (ctx_config ctx) + 1) * nat (per_job_request_limit (ctx_config ctx)) \<and>
        set us \<subseteq> Collect (approved_address (rq_number rq))) \<and>
   (case run_ccld_retrieval_job env (ctx\<lparr>ctx_client := fixture_client env detail report,
        ctx_config := (ctx_config ctx)\<lparr>demo_mode := Some CCLD_RETRIEVAL_DEMO_MODE_MOCK_SUCCESS\<rparr>\<rparr>) rq w of (w', r) \<Rightarrow>
      requested_urls w' = requested_urls w)"
proof -
  have general: "asks (rq_number rq) (job_budget (ctx_config c) d k) w w'"
    if client: "job_client (ctx_client c) d k" and run: "run_ccld_retrieval_job env c rq w = (w', r)"
    for c d k and w' r
    using run
  proof (cases rule: run_cases)
    case (blocked state message)
    then show ?thesis using blocked_result_quiet asks_nothing by blast
  next
    case (limited actor)
    then show ?thesis using persist_asks_nothing asks_nothing by blast
  next
    case (admitted dir actor)
    show ?thesis
    proof (cases "rq_type rq \<in> set SUPPORTED_RECORD_TYPES \<and> job_key env rq w \<notin> job_id ` set (jobs_table w)")
      case True
      with admitted_job_ends [OF client, of rq env w dir actor] admitted(2) show ?thesis by auto
    next
      case False
      with refused_job [OF _ admitted(2)] asks_nothing show ?thesis by blast
    qed
  qed
  let ?http = "ctx\<lparr>ctx_client := http_client env\<rparr>"
  let ?mock = "ctx\<lparr>ctx_client := fixture_client env detail report,
        ctx_config := (ctx_config ctx)\<lparr>demo_mode := Some CCLD_RETRIEVAL_DEMO_MODE_MOCK_SUCCESS\<rparr>\<rparr>"
  obtain w1 r1 where r1: "run_ccld_retrieval_job env ?http rq w = (w1, r1)" by fastforce
  obtain w2 r2 where r2: "run_ccld_retrieval_job env ?mock rq w = (w2, r2)" by fastforce
  have "ctx_client ?http = http_client env" "ctx_client ?mock = fixture_client env detail report" by simp_all
  then have client: "job_client (ctx_client ?http) 1 1" "job_client (ctx_client ?mock) 0 0"
    using http.job_client_axioms fixture.job_client_axioms by (simp_all only:)
  have "asks (rq_number rq) (2 + nat (retry_limit (ctx_config ctx) + 1) * nat (per_job_request_limit (ctx_config ctx))) w w1"
    using asks_mono [OF general [OF client(1) r1]] by (simp add: job_budget_def)
  moreover have "asks (rq_number rq) (job_budget (ctx_config ?mock) 0 0) w w2"
    by (rule general [OF client(2) r2])
  ultimately show ?thesis
    by (auto simp: r1 r2 asks_def job_budget_def mock_success_demo_enabled_def)
qed

section \<open>Histories of the job table\<close>

text \<open>The worlds a server goes through: from an empty job table, runs of jobs by any actor, with any configuration,
  whether they return or raise, and any other change that leaves the job table alone.\<close>

inductive job_history :: "('e report_env_scheme) \<Rightarrow> 'w job_world_scheme \<Rightarrow> bool" for env where
  empty_table: "jobs_table w = [] \<Longrightarrow> job_history env w"
| job_run: "job_history env w \<Longrightarrow> program_client env (ctx_client ctx) \<Longrightarrow>
    run_ccld_retrieval_job env ctx rq w = (w', r) \<Longrightarrow> job_history env w'"
| other_work: "job_history env w \<Longrightarrow> jobs_table w' = jobs_table w \<Longrightarrow> job_history env w'"

definition quiet_table :: "job_row list \<Rightarrow> bool" where
  "quiet_table rows \<longleftrightarrow> (\<forall>r \<in> set rows. \<not> is_active_row r) \<and> distinct (map job_id rows)"

lemma more_jobs: "web_world.more w' = web_world.more w \<Longrightarrow> jobs_table w' = jobs_table w"
  by (cases w; cases w') simp

lemma persist_appends:
  assumes "persist_initial_job env ctx rq actor state message mutated w = (w', r)"
  shows "jobs_table w' = jobs_table w \<or> (\<exists>i now. i \<notin> job_id ` set (jobs_table w) \<and>
    jobs_table w' = jobs_table w @ [initial_row ctx rq actor state message mutated i now])"
  using assms by (auto simp: persist_initial_job_def new_job_id_def read_clock_def io_bind_def insert_job_def Let_def
      initial_row_def split: if_splits)

lemma job_run_keeps_quiet:
  assumes "quiet_table (jobs_table w)" and "program_client env (ctx_client ctx)"
    and "run_ccld_retrieval_job env ctx rq w = (w', r)"
  shows "quiet_table (jobs_table w')"
  using assms(3)
proof (cases rule: run_cases)
  case (blocked state message)
  with blocked_result_quiet more_jobs assms(1) show ?thesis by metis
next
  case (limited actor)
  from persist_appends [OF limited(1)] assms(1) show ?thesis
    by (auto simp: quiet_table_def is_active_row_def initial_row_def)
next
  case (admitted dir actor)
  show ?thesis
  proof (cases "rq_type rq \<in> set SUPPORTED_RECORD_TYPES \<and> job_key env rq w \<notin> job_id ` set (jobs_table w)")
    case True
    then obtain now where closed: "\<exists>q. job_closed env (jobs_table w) (initial_row ctx rq actor Queued
        ''Controlled CCLD retrieval job queued.'' False (job_key env rq w) now) w q w'"
      using admitted_job_ends [OF program_job_client [OF assms(2)], of rq env w dir actor] admitted(2) by auto
    let ?row = "initial_row ctx rq actor Queued ''Controlled CCLD retrieval job queued.'' False (job_key env rq w) now"
    from closed obtain v t where "jobs_table w' = jobs_table w @ [updated_row v t ?row]"
      "upd_state v \<in> TERMINAL_JOB_STATES" unfolding job_closed_def by blast
    moreover have "job_id (updated_row v t ?row) = job_key env rq w" by (simp add: initial_row_def)
    moreover have "job_state_of (updated_row v t ?row) = upd_state v" by (simp add: updated_row_def)
    ultimately show ?thesis using True assms(1) by (auto simp: quiet_table_def simp flip: terminal_inactive)
  next
    case False
    with refused_job [OF _ admitted(2)] assms(1) show ?thesis by metis
  qed
qed

lemma job_history_quiet: "job_history env w \<Longrightarrow> quiet_table (jobs_table w)"
  by (induction rule: job_history.induct) (auto simp: quiet_table_def [of "[]"] intro: job_run_keeps_quiet)

lemma quiet_count: "quiet_table rows \<Longrightarrow> active_actor_job_count rows subject = 0"
  by (auto simp: quiet_table_def active_actor_job_count_def filter_empty_conv)

lemma loaded_rate: "load_ccld_retrieval_config environ = Inr c \<Longrightarrow> 1 \<le> rate_limit_per_actor c"
  by (auto simp: load_ccld_retrieval_config_def Let_def ebind_eq_Inr positive_int_env_def int_env_def
      DEFAULT_RATE_LIMIT_PER_ACTOR_def split: if_splits option.splits)

text \<open>C28: Jobs that run one after another never meet the rate limit. In every history of the job table no row is
  queued or running and no two rows share an id, so with a configuration the environment can give, the next run is
  never rate-limited: each run leaves its row closed before it returns, and commits the queued row only together
  with the closed one.\<close>

theorem jobs_are_never_rate_limited:
  assumes "job_history env w" and "load_ccld_retrieval_config environ = Inr (ctx_config ctx)"
    and "run_ccld_retrieval_job env ctx rq w = (w', Inr r)" and "program_client env (ctx_client ctx)"
  shows "(\<forall>row \<in> set (jobs_table w). job_state_of row \<in> TERMINAL_JOB_STATES) \<and> distinct (map job_id (jobs_table w)) \<and>
    jres_state r \<noteq> Rate_Limited \<and> jres_state r \<in> TERMINAL_JOB_STATES"
proof -
  note quiet = job_history_quiet [OF assms(1)]
  from assms(3) have "jres_state r \<noteq> Rate_Limited \<and> jres_state r \<in> TERMINAL_JOB_STATES"
  proof (cases rule: run_cases)
    case (blocked state message)
    with blocked_result_quiet [OF blocked(1)] show ?thesis by (auto simp: TERMINAL_JOB_STATES_def)
  next
    case (limited actor)
    with quiet_count [OF quiet] loaded_rate [OF assms(2)] show ?thesis by simp
  next
    case (admitted dir actor)
    show ?thesis
    proof (cases "rq_type rq \<in> set SUPPORTED_RECORD_TYPES \<and> job_key env rq w \<notin> job_id ` set (jobs_table w)")
      case True
      then obtain row where "job_closed env (jobs_table w) row w r w'"
        using admitted_job_ends [OF program_job_client [OF assms(4)], of rq env w dir actor] admitted(2) by auto
      then obtain v t where "r = result_of_row (updated_row v t row)" "upd_state v \<in> TERMINAL_JOB_STATES - {Rate_Limited}"
        unfolding job_closed_def by blast
      then show ?thesis by (simp add: result_of_row_def updated_row_def)
    next
      case False
      with refused_job [OF _ admitted(2)] show ?thesis by blast
    qed
  qed
  with quiet show ?thesis by (auto simp: quiet_table_def terminal_inactive)
qed

theorem jobs_are_never_rate_limited_witness:
  "\<exists>w1 r1 w2 r2. run_ccld_retrieval_job example_web_env example_job_context example_request example_job_world = (w1, Inr r1) \<and>
     run_ccld_retrieval_job example_web_env example_job_context example_request w1 = (w2, r2) \<and>
     (\<forall>r. r2 = Inr r \<longrightarrow> jres_state r \<noteq> Rate_Limited)"
proof -
  let ?run = "run_ccld_retrieval_job example_web_env example_job_context example_request"
  let ?environ = "(\<lambda>_. None)(CCLD_RETRIEVAL_RAW_DIR_ENV \<mapsto> ''raw'', CCLD_RETRIEVAL_ENABLED_ENV \<mapsto> ''enabled'')"
  have loaded: "load_ccld_retrieval_config ?environ = Inr (ctx_config example_job_context)" by code_simp
  have start: "job_history example_web_env example_job_world" by (rule empty_table) (simp add: example_job_world_def)
  have "rq_type example_request \<in> set SUPPORTED_RECORD_TYPES" "jobs_table example_job_world = []"
    by (simp_all add: example_request_def SUPPORTED_RECORD_TYPES_def example_job_world_def)
  then obtain w1 r1 where one: "?run example_job_world = (w1, Inr r1)"
    using admitted_job_ends [OF program_job_client [OF example_program_client], of example_request example_web_env example_job_world]
      run_admitted [OF example_admitted, of example_request] by fastforce
  obtain w2 r2 where two: "?run w1 = (w2, r2)" by fastforce
  have "job_history example_web_env w1" by (rule job_run [OF start example_program_client one])
  from jobs_are_never_rate_limited [OF this loaded _ example_program_client] two one show ?thesis by blast
qed

end
