(* ===== verification/Spec2Isabelle.thy ===== *)
theory Spec2Isabelle imports Snapshot_Properties Platform_Properties Trend_Properties Access_Properties Seeded_Properties Retrieval_Properties
begin

text \<open>
  A verification development of RecordsTracker.
\<close>

end
